(* ===== verification/PyText.thy ===== *)
theory PyText
  imports Prelude "HOL-Library.Char_ord" "HOL-Library.List_Lexorder"
begin

text \<open>
  The operations of Python's \<open>str\<close> that the sources use, on \<open>string\<close> (a list of \<open>char\<close>). A
  \<open>char\<close> stands for one code point; the model holds the code points 0 to 255.
  Methods are named after Python's: \<open>strip\<close>, \<open>lower\<close>, \<open>partition\<close>, \<open>rpartition\<close>, \<open>split\<close>,
  \<open>find\<close>, \<open>rfind\<close>, \<open>count\<close>, \<open>replace\<close>, \<open>splitlines\<close>, \<open>isdigit\<close>, and \<open>int(s)\<close>, \<open>str(n)\<close>.
\<close>

section \<open>Characters\<close>

abbreviation code :: "char \<Rightarrow> nat" where
  "code c \<equiv> of_char c"

definition is_space :: "char \<Rightarrow> bool" where
  "is_space c \<longleftrightarrow> (9 \<le> code c \<and> code c \<le> 13) \<or> (28 \<le> code c \<and> code c \<le> 32)
     \<or> code c = 133 \<or> code c = 160"

definition is_ascii :: "char \<Rightarrow> bool" where
  "is_ascii c \<longleftrightarrow> code c < 128"

definition is_digit :: "char \<Rightarrow> bool" where
  "is_digit c \<longleftrightarrow> 48 \<le> code c \<and> code c \<le> 57"

text \<open>\<open>str.isdigit\<close> also accepts the superscripts two, three and one.\<close>

definition is_pydigit :: "char \<Rightarrow> bool" where
  "is_pydigit c \<longleftrightarrow> is_digit c \<or> code c \<in> {178, 179, 185}"

definition is_asciialpha :: "char \<Rightarrow> bool" where
  "is_asciialpha c \<longleftrightarrow> (65 \<le> code c \<and> code c \<le> 90) \<or> (97 \<le> code c \<and> code c \<le> 122)"

text \<open>\<open>str.isalnum\<close> accepts the accented letters and the Latin-1 numerals too.\<close>

definition is_alnum :: "char \<Rightarrow> bool" where
  "is_alnum c \<longleftrightarrow> is_asciialpha c \<or> is_pydigit c \<or> code c \<in> {170, 181, 186, 188, 189, 190}
     \<or> (192 \<le> code c \<and> code c \<noteq> 215 \<and> code c \<noteq> 247)"

definition lower_char :: "char \<Rightarrow> char" where
  "lower_char c =
     (if (65 \<le> code c \<and> code c \<le> 90) \<or> (192 \<le> code c \<and> code c \<le> 222 \<and> code c \<noteq> 215)
      then char_of (code c + 32) else c)"

definition upper_ascii_char :: "char \<Rightarrow> char" where
  "upper_ascii_char c = (if 97 \<le> code c \<and> code c \<le> 122 then char_of (code c - 32) else c)"

definition lower :: "string \<Rightarrow> string" where
  "lower s = map lower_char s"

section \<open>Stripping\<close>

definition rdrop_while :: "('a \<Rightarrow> bool) \<Rightarrow> 'a list \<Rightarrow> 'a list" where
  "rdrop_while p s = rev (dropWhile p (rev s))"

definition strip :: "string \<Rightarrow> string" where
  "strip s = rdrop_while is_space (dropWhile is_space s)"

definition lstrip :: "string \<Rightarrow> string" where
  "lstrip s = dropWhile is_space s"

definition lstrip_of :: "char \<Rightarrow> string \<Rightarrow> string" where
  "lstrip_of c s = dropWhile (\<lambda>x. x = c) s"

definition rstrip_of :: "char \<Rightarrow> string \<Rightarrow> string" where
  "rstrip_of c s = rdrop_while (\<lambda>x. x = c) s"

definition strip_of :: "char \<Rightarrow> string \<Rightarrow> string" where
  "strip_of c s = rstrip_of c (lstrip_of c s)"

section \<open>Searching and splitting\<close>

fun find_sub :: "string \<Rightarrow> string \<Rightarrow> nat option" where
  "find_sub sub [] = (if sub = [] then Some 0 else None)"
| "find_sub sub (c # cs) =
     (if prefix sub (c # cs) then Some 0 else map_option Suc (find_sub sub cs))"

definition contains :: "string \<Rightarrow> string \<Rightarrow> bool" where
  "contains s sub \<longleftrightarrow> find_sub sub s \<noteq> None"

text \<open>\<open>s.partition(sep)\<close> and \<open>s.rpartition(sep)\<close> for a one-character separator.\<close>

fun partition_at :: "char \<Rightarrow> string \<Rightarrow> string \<times> bool \<times> string" where
  "partition_at c [] = ([], False, [])"
| "partition_at c (x # xs) =
     (if x = c then ([], True, xs)
      else let (h, f, t) = partition_at c xs in (x # h, f, t))"

definition rpartition_at :: "char \<Rightarrow> string \<Rightarrow> string \<times> bool \<times> string" where
  "rpartition_at c s =
     (case partition_at c (rev s) of (h, f, t) \<Rightarrow> if f then (rev t, True, rev h) else ([], False, s))"

fun split_on :: "char \<Rightarrow> string \<Rightarrow> string list" where
  "split_on c [] = [[]]"
| "split_on c (x # xs) =
     (if x = c then [] # split_on c xs
      else case split_on c xs of [] \<Rightarrow> [[x]] | w # ws \<Rightarrow> (x # w) # ws)"

text \<open>\<open>s.split()\<close>: the maximal runs of non-space characters.\<close>

fun split_ws_acc :: "string \<Rightarrow> string \<Rightarrow> string list" where
  "split_ws_acc w [] = (if w = [] then [] else [rev w])"
| "split_ws_acc w (x # xs) =
     (if is_space x then (if w = [] then split_ws_acc [] xs else rev w # split_ws_acc [] xs)
      else split_ws_acc (x # w) xs)"

definition split_ws :: "string \<Rightarrow> string list" where
  "split_ws s = split_ws_acc [] s"

text \<open>Split at the first occurrence of a substring.\<close>

definition split_first :: "string \<Rightarrow> string \<Rightarrow> (string \<times> string) option" where
  "split_first sub s = map_option (\<lambda>i. (take i s, drop (i + length sub) s)) (find_sub sub s)"

text \<open>\<open>s.replace(old, new)\<close> for a non-empty \<open>old\<close>: the counter skips the matched characters.\<close>

fun replace_acc :: "string \<Rightarrow> string \<Rightarrow> nat \<Rightarrow> string \<Rightarrow> string" where
  "replace_acc old new k [] = []"
| "replace_acc old new (Suc k) (c # cs) = replace_acc old new k cs"
| "replace_acc old new 0 (c # cs) =
     (if prefix old (c # cs) then new @ replace_acc old new (length old - 1) cs
      else c # replace_acc old new 0 cs)"

definition replace_sub :: "string \<Rightarrow> string \<Rightarrow> string \<Rightarrow> string" where
  "replace_sub old new s = (if old = [] then s else replace_acc old new 0 s)"

text \<open>\<open>s.count(sub)\<close>: non-overlapping occurrences.\<close>

fun count_acc :: "string \<Rightarrow> nat \<Rightarrow> string \<Rightarrow> nat" where
  "count_acc sub k [] = 0"
| "count_acc sub (Suc k) (c # cs) = count_acc sub k cs"
| "count_acc sub 0 (c # cs) =
     (if prefix sub (c # cs) then Suc (count_acc sub (length sub - 1) cs) else count_acc sub 0 cs)"

definition count_sub :: "string \<Rightarrow> string \<Rightarrow> nat" where
  "count_sub sub s = (if sub = [] then length s + 1 else count_acc sub 0 s)"

text \<open>\<open>s.splitlines()\<close>: the line boundaries Python knows below 256.\<close>

definition is_linebreak :: "char \<Rightarrow> bool" where
  "is_linebreak c \<longleftrightarrow> (10 \<le> code c \<and> code c \<le> 13) \<or> (28 \<le> code c \<and> code c \<le> 30) \<or> code c = 133"

text \<open>The flag says that the previous character was a carriage return, so that \<open>\r\n\<close> ends one line.\<close>

fun splitlines_acc :: "bool \<Rightarrow> string \<Rightarrow> string \<Rightarrow> string list" where
  "splitlines_acc cr w [] = (if w = [] then [] else [rev w])"
| "splitlines_acc cr w (c # cs) =
     (if cr \<and> code c = 10 then splitlines_acc False [] cs
      else if is_linebreak c then rev w # splitlines_acc (code c = 13) [] cs
      else splitlines_acc False (c # w) cs)"

definition splitlines :: "string \<Rightarrow> string list" where
  "splitlines s = splitlines_acc False [] s"

fun join :: "string \<Rightarrow> string list \<Rightarrow> string" where
  "join sep [] = []"
| "join sep [w] = w"
| "join sep (w # ws) = w @ sep @ join sep ws"

abbreviation nl :: string where
  "nl \<equiv> [CHR 0x0A]"

section \<open>Decimal integers\<close>

definition digit_char :: "nat \<Rightarrow> char" where
  "digit_char d = char_of (48 + d)"

definition digit_val :: "char \<Rightarrow> nat" where
  "digit_val c = code c - 48"

fun show_nat :: "nat \<Rightarrow> string" where
  "show_nat n = (if n < 10 then [digit_char n] else show_nat (n div 10) @ [digit_char (n mod 10)])"

declare show_nat.simps [simp del]

definition show_int :: "int \<Rightarrow> string" where
  "show_int k = (if k < 0 then CHR ''-'' # show_nat (nat (- k)) else show_nat (nat k))"

definition nat_of_digits :: "string \<Rightarrow> nat" where
  "nat_of_digits ds = foldl (\<lambda>n c. 10 * n + digit_val c) 0 ds"

text \<open>The digits of \<open>int(s)\<close>: a non-empty run with single underscores between digits.\<close>

fun digits_us :: "bool \<Rightarrow> string \<Rightarrow> string option" where
  "digits_us prev [] = (if prev then Some [] else None)"
| "digits_us prev (c # cs) =
     (if is_digit c then map_option ((#) c) (digits_us True cs)
      else if c = CHR ''_'' \<and> prev then digits_us False cs
      else None)"

text \<open>\<open>int(s)\<close> for a string; \<open>None\<close> is the ValueError.\<close>

definition int_of_str :: "string \<Rightarrow> int option" where
  "int_of_str s =
     (case strip s of
        [] \<Rightarrow> None
      | c # cs \<Rightarrow>
          if c = CHR ''-'' then map_option (\<lambda>ds. - int (nat_of_digits ds)) (digits_us False cs)
          else if c = CHR ''+'' then map_option (\<lambda>ds. int (nat_of_digits ds)) (digits_us False cs)
          else map_option (\<lambda>ds. int (nat_of_digits ds)) (digits_us False (c # cs)))"

section \<open>Lemmas\<close>

lemma code_digit_char [simp]: "d < 10 \<Longrightarrow> code (digit_char d) = 48 + d"
  by (simp add: digit_char_def)

lemma is_digit_digit_char [simp]: "d < 10 \<Longrightarrow> is_digit (digit_char d)"
  by (simp add: is_digit_def)

lemma digit_val_digit_char [simp]: "d < 10 \<Longrightarrow> digit_val (digit_char d) = d"
  by (simp add: digit_val_def)

lemma show_nat_digits: "\<forall>c \<in> set (show_nat n). is_digit c"
proof (induction n rule: show_nat.induct)
  case (1 n)
  then show ?case by (subst show_nat.simps) auto
qed

lemma show_nat_nonempty [simp]: "show_nat n \<noteq> []"
  by (subst show_nat.simps) simp

lemma nat_of_digits_snoc: "nat_of_digits (ds @ [c]) = 10 * nat_of_digits ds + digit_val c"
  by (simp add: nat_of_digits_def)

lemma nat_of_digits_show_nat [simp]: "nat_of_digits (show_nat n) = n"
proof (induction n rule: show_nat.induct)
  case (1 n)
  show ?case
  proof (cases "n < 10")
    case True
    then show ?thesis by (subst show_nat.simps) (simp add: nat_of_digits_def)
  next
    case False
    then show ?thesis using 1 by (subst show_nat.simps) (simp add: nat_of_digits_snoc)
  qed
qed

lemma digits_us_digits: "\<forall>c \<in> set ds. is_digit c \<Longrightarrow> ds \<noteq> [] \<or> b \<Longrightarrow> digits_us b ds = Some ds"
  by (induction ds arbitrary: b) auto

lemma not_space_digit: "is_digit c \<Longrightarrow> \<not> is_space c"
  by (auto simp: is_digit_def is_space_def)

lemma dropWhile_hd_not: "xs = [] \<or> \<not> p (hd xs) \<Longrightarrow> dropWhile p xs = xs"
  by (cases xs) auto

lemma rdrop_while_last_not: "xs = [] \<or> \<not> p (last xs) \<Longrightarrow> rdrop_while p xs = xs"
  by (auto simp: rdrop_while_def dropWhile_hd_not hd_rev)

lemma strip_id: "xs = [] \<or> (\<not> is_space (hd xs) \<and> \<not> is_space (last xs)) \<Longrightarrow> strip xs = xs"
  by (auto simp: strip_def dropWhile_hd_not rdrop_while_last_not)

lemma strip_Nil [simp]: "strip [] = []"
  by (simp add: strip_id)

lemma hd_dropWhile_not: "dropWhile p xs \<noteq> [] \<Longrightarrow> \<not> p (hd (dropWhile p xs))"
  by (induction xs) auto

lemma last_rdrop_while_not: "rdrop_while p xs \<noteq> [] \<Longrightarrow> \<not> p (last (rdrop_while p xs))"
  using hd_dropWhile_not [of p "rev xs"] by (simp add: rdrop_while_def last_rev)

lemma rdrop_while_prefix: "prefix (rdrop_while p xs) xs"
proof -
  have "suffix (dropWhile p (rev xs)) (rev xs)" by (rule suffix_dropWhile)
  then show ?thesis by (simp add: rdrop_while_def suffix_to_prefix)
qed

lemma strip_ends:
  assumes "strip xs \<noteq> []"
  shows "\<not> is_space (hd (strip xs))" and "\<not> is_space (last (strip xs))"
proof -
  let ?ys = "dropWhile is_space xs"
  have ne: "rdrop_while is_space ?ys \<noteq> []" using assms by (simp add: strip_def)
  from rdrop_while_prefix [of is_space ?ys] obtain zs where zs: "?ys = rdrop_while is_space ?ys @ zs"
    by (auto simp: prefix_def)
  with ne have "hd ?ys = hd (rdrop_while is_space ?ys)" by (metis hd_append2)
  moreover from zs ne have "?ys \<noteq> []" by (metis append_is_Nil_conv)
  ultimately show "\<not> is_space (hd (strip xs))"
    using hd_dropWhile_not [of is_space xs] by (simp add: strip_def)
  show "\<not> is_space (last (strip xs))"
    using ne last_rdrop_while_not by (simp add: strip_def)
qed

lemma strip_strip [simp]: "strip (strip xs) = strip xs"
  by (rule strip_id) (use strip_ends in blast)

lemma set_strip: "set (strip xs) \<subseteq> set xs"
  by (auto simp: strip_def rdrop_while_def dest!: set_dropWhileD)

lemma lower_append [simp]: "lower (xs @ ys) = lower xs @ lower ys"
  by (simp add: lower_def)

lemma lower_Nil [simp]: "lower [] = []"
  by (simp add: lower_def)

lemma length_lower [simp]: "length (lower s) = length s"
  by (simp add: lower_def)

lemma lower_char_idem: "lower_char (lower_char c) = lower_char c"
proof (cases "(65 \<le> code c \<and> code c \<le> 90) \<or> (192 \<le> code c \<and> code c \<le> 222 \<and> code c \<noteq> 215)")
  case True
  then have "code c + 32 < 256" by auto
  then have "code (char_of (code c + 32) :: char) = code c + 32" by simp
  with True show ?thesis by (auto simp: lower_char_def)
next
  case False
  then have "lower_char c = c" unfolding lower_char_def by (rule if_not_P)
  then show ?thesis by simp
qed

lemma lower_idem [simp]: "lower (lower s) = lower s"
  by (simp add: lower_def lower_char_idem)

lemma int_of_str_show_nat: "int_of_str (show_nat n) = Some (int n)"
proof -
  obtain c cs where s: "show_nat n = c # cs" by (cases "show_nat n") simp_all
  have dig: "\<forall>c \<in> set (show_nat n). is_digit c" by (rule show_nat_digits)
  then have "\<not> is_space (hd (show_nat n))" "\<not> is_space (last (show_nat n))"
    by (simp_all add: not_space_digit)
  then have "strip (show_nat n) = c # cs" using s by (simp add: strip_id)
  moreover have "c \<noteq> CHR ''-''" "c \<noteq> CHR ''+''" using dig s by (auto simp: is_digit_def)
  moreover have "digits_us False (c # cs) = Some (show_nat n)"
    using digits_us_digits [OF dig, of False] s by simp
  ultimately show ?thesis by (simp add: int_of_str_def)
qed

end
