(* ===== verification/PyVal.thy ===== *)
theory PyVal
  imports PyText
begin

text \<open>
  Python's dynamic values, as decoded JSON gives them to the sources: what \<open>bool(v)\<close>, \<open>str(v)\<close>,
  \<open>repr(v)\<close>, \<open>int(v)\<close>, \<open>v.get(k)\<close> and \<open>v in {...}\<close> do on each kind of value, the exception
  included. A finite float is its shortest decimal, significand and exponent, which is what
  \<open>repr\<close> prints; arithmetic on it is exact.
\<close>

section \<open>Exceptions\<close>

text \<open>
  \<open>HttpError\<close> is FastAPI's and Starlette's \<open>HTTPException(status, detail)\<close>. \<open>Upstream\<close> stands for
  an exception raised by code outside the repository. \<open>Unrepresentable\<close> is not an exception of the
  source: it marks an input outside the model (a \<open>\u\<close> escape above 255). \<open>OutOfFuel\<close> is the
  exhausted recursion bound of the JSON decoder, shown unreachable in theory Json.
\<close>

datatype pyexc =
    AttributeError | TypeError | ValueError | KeyError | IndexError | OverflowError
  | AssertionError | JSONDecodeError | RuntimeError string | HttpError int string
  | Upstream string | Unrepresentable | OutOfFuel

section \<open>Values\<close>

datatype pyfloat = Dec int int | PosInf | NegInf | NaN

datatype pyval =
    PyNone | PyBool bool | PyInt int | PyFloat pyfloat | PyStr string
  | PyList "pyval list" | PyDict "(string \<times> pyval) list"

definition dec_val :: "int \<Rightarrow> int \<Rightarrow> rat" where
  "dec_val m e = of_int m * (if 0 \<le> e then 10 ^ nat e else 1 / 10 ^ nat (- e))"

function dec_norm :: "int \<Rightarrow> int \<Rightarrow> pyfloat" where
  "dec_norm m e = (if m = 0 then Dec 0 0 else if m mod 10 = 0 then dec_norm (m div 10) (e + 1) else Dec m e)"
  by pat_completeness auto
termination
  by (relation "measure (\<lambda>(m, e). nat \<bar>m\<bar>)") auto

declare dec_norm.simps [simp del]

fun truthy :: "pyval \<Rightarrow> bool" where
  "truthy PyNone = False"
| "truthy (PyBool b) = b"
| "truthy (PyInt k) = (k \<noteq> 0)"
| "truthy (PyFloat (Dec m e)) = (m \<noteq> 0)"
| "truthy (PyFloat f) = True"
| "truthy (PyStr s) = (s \<noteq> [])"
| "truthy (PyList vs) = (vs \<noteq> [])"
| "truthy (PyDict d) = (d \<noteq> [])"

definition py_or :: "pyval \<Rightarrow> pyval \<Rightarrow> pyval" where
  "py_or a b = (if truthy a then a else b)"

fun is_dict :: "pyval \<Rightarrow> bool" where
  "is_dict (PyDict d) = True"
| "is_dict _ = False"

text \<open>\<open>v.get(k, default)\<close>: only dictionaries have the method.\<close>

fun py_get :: "pyval \<Rightarrow> string \<Rightarrow> pyval \<Rightarrow> (pyexc, pyval) result" where
  "py_get (PyDict d) k dflt = Inr (case map_of d k of None \<Rightarrow> dflt | Some v \<Rightarrow> v)"
| "py_get _ k dflt = Inl AttributeError"

text \<open>\<open>d.get(k)\<close> of a dictionary.\<close>

definition dget :: "(string \<times> pyval) list \<Rightarrow> string \<Rightarrow> pyval" where
  "dget d k = (case map_of d k of None \<Rightarrow> PyNone | Some v \<Rightarrow> v)"

text \<open>\<open>v in {'a', 'b'}\<close>: lists and dictionaries are not hashable.\<close>

fun py_in :: "pyval \<Rightarrow> string list \<Rightarrow> (pyexc, bool) result" where
  "py_in (PyStr s) S = Inr (s \<in> set S)"
| "py_in (PyList vs) S = Inl TypeError"
| "py_in (PyDict d) S = Inl TypeError"
| "py_in _ S = Inr False"

text \<open>\<open>int(v)\<close>.\<close>

fun py_int :: "pyval \<Rightarrow> (pyexc, int) result" where
  "py_int (PyBool b) = Inr (if b then 1 else 0)"
| "py_int (PyInt k) = Inr k"
| "py_int (PyFloat (Dec m e)) = Inr (trunc_rat (dec_val m e))"
| "py_int (PyFloat NaN) = Inl ValueError"
| "py_int (PyFloat f) = Inl OverflowError"
| "py_int (PyStr s) = (case int_of_str s of None \<Rightarrow> Inl ValueError | Some k \<Rightarrow> Inr k)"
| "py_int _ = Inl TypeError"

text \<open>
  \<open>float(v)\<close>: a string is stripped, signed, and is \<open>inf\<close>, \<open>infinity\<close>, \<open>nan\<close> or a decimal with
  underscores between digits, a fraction and an exponent.
\<close>

definition us_digits :: "string \<Rightarrow> string option" where
  "us_digits s = (if s = [] then Some [] else digits_us False s)"

definition float_exp :: "string \<Rightarrow> int option" where
  "float_exp s =
     (case s of
        [] \<Rightarrow> Some 0
      | c # cs \<Rightarrow>
          if c = CHR ''e'' \<or> c = CHR ''E'' then
            (case cs of
               [] \<Rightarrow> None
             | d # ds \<Rightarrow>
                 if d = CHR ''-'' then map_option (\<lambda>x. - int (nat_of_digits x)) (digits_us False ds)
                 else if d = CHR ''+'' then map_option (\<lambda>x. int (nat_of_digits x)) (digits_us False ds)
                 else map_option (\<lambda>x. int (nat_of_digits x)) (digits_us False cs))
          else None)"

definition float_body :: "bool \<Rightarrow> string \<Rightarrow> pyfloat option" where
  "float_body neg s =
     (let isd = (\<lambda>c. is_digit c \<or> c = CHR ''_'');
          a = takeWhile isd s; r = dropWhile isd s;
          b = (if r \<noteq> [] \<and> hd r = CHR ''.'' then takeWhile isd (tl r) else []);
          r2 = (if r \<noteq> [] \<and> hd r = CHR ''.'' then dropWhile isd (tl r) else r);
          sg = (if neg then -1 else 1 :: int)
      in if lower s = ''inf'' \<or> lower s = ''infinity'' then Some (if neg then NegInf else PosInf)
         else if lower s = ''nan'' then Some NaN
         else if a = [] \<and> b = [] then None
         else case (us_digits a, us_digits b, float_exp r2) of
             (Some x, Some y, Some e) \<Rightarrow>
               Some (dec_norm (sg * int (nat_of_digits (x @ y))) (e - int (length y)))
           | _ \<Rightarrow> None)"

definition float_of_str :: "string \<Rightarrow> pyfloat option" where
  "float_of_str s =
     (case strip s of
        [] \<Rightarrow> None
      | c # cs \<Rightarrow>
          if c = CHR ''-'' then float_body True cs
          else if c = CHR ''+'' then float_body False cs
          else float_body False (c # cs))"

fun py_float :: "pyval \<Rightarrow> (pyexc, pyfloat) result" where
  "py_float (PyBool b) = Inr (Dec (if b then 1 else 0) 0)"
| "py_float (PyInt k) = Inr (dec_norm k 0)"
| "py_float (PyFloat f) = Inr f"
| "py_float (PyStr s) = (case float_of_str s of None \<Rightarrow> Inl ValueError | Some f \<Rightarrow> Inr f)"
| "py_float _ = Inl TypeError"

section \<open>Rendering\<close>

definition hex_digit :: "nat \<Rightarrow> char" where
  "hex_digit n = (if n < 10 then char_of (48 + n) else char_of (87 + n))"

definition is_printable :: "char \<Rightarrow> bool" where
  "is_printable c \<longleftrightarrow> (32 \<le> code c \<and> code c < 127) \<or> (160 < code c \<and> code c \<noteq> 173)"

definition repr_char :: "char \<Rightarrow> char \<Rightarrow> string" where
  "repr_char q c =
     (if c = q \<or> c = CHR 0x5C then [CHR 0x5C, c]
      else if code c = 10 then [CHR 0x5C, CHR ''n'']
      else if code c = 13 then [CHR 0x5C, CHR ''r'']
      else if code c = 9 then [CHR 0x5C, CHR ''t'']
      else if is_printable c then [c]
      else [CHR 0x5C, CHR ''x'', hex_digit (code c div 16), hex_digit (code c mod 16)])"

definition repr_str :: "string \<Rightarrow> string" where
  "repr_str s =
     (let q = (if CHR 0x27 \<in> set s \<and> CHR 0x22 \<notin> set s then CHR 0x22 else CHR 0x27)
      in q # concat (map (repr_char q) s) @ [q])"

text \<open>\<open>repr\<close> of a finite float: fixed notation for decimal points in \<open>(-4, 16]\<close>.\<close>

definition repr_dec :: "int \<Rightarrow> int \<Rightarrow> string" where
  "repr_dec m e =
     (if m = 0 then ''0.0''
      else
        let ds = show_nat (nat \<bar>m\<bar>); n = int (length ds); p = n + e;
            sg = (if m < 0 then ''-'' else [])
        in sg @
          (if - 4 < p \<and> p \<le> 16 then
             (if p \<le> 0 then ''0.'' @ replicate (nat (- p)) CHR ''0'' @ ds
              else if n \<le> p then ds @ replicate (nat (p - n)) CHR ''0'' @ ''.0''
              else take (nat p) ds @ ''.'' @ drop (nat p) ds)
           else
             take 1 ds @ (if n = 1 then [] else ''.'' @ drop 1 ds) @ ''e'' @
             (let x = p - 1; xs = show_nat (nat \<bar>x\<bar>)
              in (if x < 0 then ''-'' else ''+'') @ (if length xs < 2 then CHR ''0'' # xs else xs))))"

fun repr_float :: "pyfloat \<Rightarrow> string" where
  "repr_float (Dec m e) = repr_dec m e"
| "repr_float PosInf = ''inf''"
| "repr_float NegInf = ''-inf''"
| "repr_float NaN = ''nan''"

fun py_repr :: "pyval \<Rightarrow> string" where
  "py_repr PyNone = ''None''"
| "py_repr (PyBool b) = (if b then ''True'' else ''False'')"
| "py_repr (PyInt k) = show_int k"
| "py_repr (PyFloat f) = repr_float f"
| "py_repr (PyStr s) = repr_str s"
| "py_repr (PyList vs) = ''['' @ join '', '' (map py_repr vs) @ '']''"
| "py_repr (PyDict d) = ''{'' @ join '', '' (map (\<lambda>(k, v). repr_str k @ '': '' @ py_repr v) d) @ ''}''"

text \<open>\<open>str(v)\<close>, which is also what an f-string inserts.\<close>

fun py_str :: "pyval \<Rightarrow> string" where
  "py_str (PyStr s) = s"
| "py_str v = py_repr v"

section \<open>Lemmas\<close>

lemma py_or_simps [simp]:
  "truthy a \<Longrightarrow> py_or a b = a"
  "\<not> truthy a \<Longrightarrow> py_or a b = b"
  by (simp_all add: py_or_def)

lemma truthy_py_or: "truthy (py_or a b) \<longleftrightarrow> truthy a \<or> truthy b"
  by (simp add: py_or_def)

lemma py_get_error: "py_get v k dflt = Inl e \<longleftrightarrow> \<not> is_dict v \<and> e = AttributeError"
  by (cases v) auto

lemma is_dict_iff: "is_dict v \<longleftrightarrow> (\<exists>d. v = PyDict d)"
  by (cases v) auto

lemma py_in_total: "(\<forall>vs. v \<noteq> PyList vs) \<Longrightarrow> \<not> is_dict v \<Longrightarrow> \<exists>b. py_in v S = Inr b"
  by (cases v) auto

lemma dec_val_10: "dec_val (10 * m) e = dec_val m (e + 1)"
proof (cases "0 \<le> e")
  case True
  then have "nat (e + 1) = Suc (nat e)" by simp
  with True show ?thesis by (simp add: dec_val_def)
next
  case False
  show ?thesis
  proof (cases "e = - 1")
    case True
    then show ?thesis by (simp add: dec_val_def)
  next
    case False
    with \<open>\<not> 0 \<le> e\<close> have "e + 1 < 0" "nat (- e) = Suc (nat (- (e + 1)))" by simp_all
    then show ?thesis by (simp add: dec_val_def)
  qed
qed

text \<open>Normalising a decimal does not change its value.\<close>

lemma dec_norm_val: "dec_norm m e = Dec m' e' \<Longrightarrow> dec_val m' e' = dec_val m e"
proof (induction m e rule: dec_norm.induct)
  case (1 m e)
  show ?case
  proof (cases "m \<noteq> 0 \<and> m mod 10 = 0")
    case True
    then have "m = 10 * (m div 10)" by auto
    moreover have "dec_val m' e' = dec_val (m div 10) (e + 1)"
      using 1 True by (subst (asm) (2) dec_norm.simps) simp
    ultimately show ?thesis by (metis dec_val_10)
  next
    case False
    with 1(2) show ?thesis by (subst (asm) dec_norm.simps) (auto simp: dec_val_def split: if_splits)
  qed
qed

end
