(* ===== verification/Auth.thy ===== *)
theory Auth
  imports PyVal
begin

text \<open>
  The authentication contract of every agent (\<open>agentkit/auth.py\<close>, \<open>agentkit/web.py\<close>): access tokens,
  refresh tokens, bearer headers, webhook signatures.

  PyJWT is the parameter \<open>jwtlib\<close> (\<open>encode\<close>, and \<open>decode\<close> at a wall-clock time); \<open>jwt_ok\<close> states the
  documented behaviour the code relies on. \<open>secrets.token_hex\<close> is an argument, the drawn token, and
  HMAC-SHA256 a parameter. The module-level refresh store is the state.
\<close>

section \<open>Principals and the JWT library\<close>

record principal =
  p_sub :: string
  p_tenant :: string
  p_role :: string
  p_name :: pyval

definition is_admin :: "principal \<Rightarrow> bool" where
  "is_admin p \<longleftrightarrow> p_role p \<in> set [''admin'', ''manager'']"

definition AuthError :: "string \<Rightarrow> pyexc" where
  "AuthError detail = HttpError 401 detail"

datatype jwt_exc = ExpiredSignatureError | PyJWTError

record jwtlib =
  jwt_encode :: "pyval dict \<Rightarrow> string \<Rightarrow> string \<Rightarrow> string"
  jwt_decode :: "secs \<Rightarrow> string \<Rightarrow> string \<Rightarrow> string list \<Rightarrow> string option \<Rightarrow> string list \<Rightarrow> jwt_exc + pyval dict"

definition aud_matches :: "string \<Rightarrow> pyval \<Rightarrow> bool" where
  "aud_matches a v = (case v of PyStr s \<Rightarrow> s = a | PyList vs \<Rightarrow> PyStr a \<in> set vs | _ \<Rightarrow> False)"

definition claim :: "pyval dict \<Rightarrow> string \<Rightarrow> pyval" where
  "claim c k = (case map_of c k of None \<Rightarrow> PyNone | Some v \<Rightarrow> v)"

text \<open>
  What PyJWT documents: a token that decodes carries every required claim, has not expired and
  matches the expected audience; a token encoded with a secret decodes with that secret while it is
  valid, and is reported as expired from its expiry on.
\<close>

definition claims_valid :: "secs \<Rightarrow> string option \<Rightarrow> string list \<Rightarrow> pyval dict \<Rightarrow> bool" where
  "claims_valid now aud req c \<longleftrightarrow>
     list_all (\<lambda>k. claim c k \<noteq> PyNone) req
     \<and> (case py_int (claim c ''exp'') of Inr e \<Rightarrow> now < of_int e | Inl _ \<Rightarrow> claim c ''exp'' = PyNone)
     \<and> (case aud of None \<Rightarrow> True | Some a \<Rightarrow> aud_matches a (claim c ''aud''))"

definition jwt_sound :: "jwtlib \<Rightarrow> bool" where
  "jwt_sound lib \<longleftrightarrow>
     (\<forall>now tok sec algs aud req c. jwt_decode lib now tok sec algs aud req = Inr c \<longrightarrow> claims_valid now aud req c)"

definition jwt_roundtrip :: "jwtlib \<Rightarrow> pyval dict \<Rightarrow> string \<Rightarrow> string \<Rightarrow> bool" where
  "jwt_roundtrip lib c sec alg \<longleftrightarrow>
     (\<forall>now algs aud req e. alg \<in> set algs \<longrightarrow> map_of c ''exp'' = Some (PyInt e) \<longrightarrow>
        jwt_decode lib now (jwt_encode lib c sec alg) sec algs aud req =
          (if of_int e \<le> now then Inl ExpiredSignatureError
           else if claims_valid now aud req c then Inr c else Inl PyJWTError))"

section \<open>Access tokens\<close>

definition mint_claims ::
  "secs \<Rightarrow> string \<Rightarrow> string \<Rightarrow> string \<Rightarrow> int \<Rightarrow> string option \<Rightarrow> string option \<Rightarrow> pyval dict" where
  "mint_claims now sub tenant role ttl_s audience name =
     (let n = trunc_rat now in
      [(''sub'', PyStr sub), (''tenant'', PyStr tenant), (''role'', PyStr role),
       (''iat'', PyInt n), (''exp'', PyInt (n + ttl_s))]
      @ (case audience of None \<Rightarrow> [] | Some a \<Rightarrow> if a = [] then [] else [(''aud'', PyStr a)])
      @ (case name of None \<Rightarrow> [] | Some a \<Rightarrow> if a = [] then [] else [(''name'', PyStr a)]))"

definition mint_token ::
  "jwtlib \<Rightarrow> secs \<Rightarrow> string \<Rightarrow> string \<Rightarrow> string \<Rightarrow> string \<Rightarrow> string \<Rightarrow> int \<Rightarrow> string option \<Rightarrow> string option \<Rightarrow> string" where
  "mint_token lib now sub tenant role secret algorithm ttl_s audience name =
     jwt_encode lib (mint_claims now sub tenant role ttl_s audience name) secret algorithm"

definition verify_token ::
  "jwtlib \<Rightarrow> secs \<Rightarrow> string \<Rightarrow> string \<Rightarrow> string list \<Rightarrow> string option \<Rightarrow> (pyexc, principal) result" where
  "verify_token lib now token secret algorithms audience =
     (if secret = [] then Inl (AuthError ''auth not configured'')
      else
        let required = [''exp'', ''sub''] @ (case audience of None \<Rightarrow> [] | Some _ \<Rightarrow> [''aud''])
        in case jwt_decode lib now token secret algorithms audience required of
             Inl ExpiredSignatureError \<Rightarrow> Inl (AuthError ''token expired'')
           | Inl PyJWTError \<Rightarrow> Inl (AuthError ''invalid token'')
           | Inr claims \<Rightarrow>
               let tenant = claim claims ''tenant''; role = claim claims ''role'' in
               if \<not> truthy tenant \<or> \<not> truthy role then Inl (AuthError ''token missing tenant/role'')
               else (case map_of claims ''sub'' of
                       None \<Rightarrow> Inl KeyError
                     | Some s \<Rightarrow> Inr \<lparr>p_sub = py_str s, p_tenant = py_str tenant, p_role = py_str role,
                                      p_name = claim claims ''name''\<rparr>))"

section \<open>Refresh tokens\<close>

record refresh_claims =
  rc_sub :: string
  rc_tenant :: string
  rc_role :: string
  rc_audience :: "string option"
  rc_name :: "string option"

type_synonym refresh_store = "(string \<times> refresh_claims \<times> secs) dict"

definition dict_pop :: "string \<Rightarrow> 'a dict \<Rightarrow> 'a option \<times> 'a dict" where
  "dict_pop k d = (map_of d k, filter (\<lambda>p. fst p \<noteq> k) d)"

definition rotate_tokens ::
  "jwtlib \<Rightarrow> secs \<Rightarrow> secs \<Rightarrow> string \<Rightarrow> refresh_claims \<Rightarrow> string \<Rightarrow> string \<Rightarrow> int \<Rightarrow> int \<Rightarrow> refresh_store
    \<Rightarrow> (string \<times> string) \<times> refresh_store" where
  "rotate_tokens lib now mt rnd c secret algorithm access_ttl_s refresh_ttl_s st =
     ((mint_token lib now (rc_sub c) (rc_tenant c) (rc_role c) secret algorithm access_ttl_s
         (rc_audience c) (rc_name c), rnd),
      dict_set rnd (secret, c, mt + of_int refresh_ttl_s) st)"

definition default_refresh_ttl_s :: int where
  "default_refresh_ttl_s = 86400 * 7"

definition refresh_access ::
  "jwtlib \<Rightarrow> secs \<Rightarrow> secs \<Rightarrow> string \<Rightarrow> string \<Rightarrow> string \<Rightarrow> string \<Rightarrow> int \<Rightarrow> refresh_store
    \<Rightarrow> (pyexc, string \<times> string) result \<times> refresh_store" where
  "refresh_access lib now mt rnd refresh_token secret algorithm access_ttl_s st =
     (case dict_pop refresh_token st of
        (None, st1) \<Rightarrow> (Inl (AuthError ''invalid refresh token''), st1)
      | (Some (stored_secret, c, expires_at), st1) \<Rightarrow>
          if secret \<noteq> stored_secret then (Inl (AuthError ''invalid refresh token''), st1)
          else if expires_at < mt then (Inl (AuthError ''refresh token expired''), st1)
          else if rc_sub c = [] \<or> rc_tenant c = [] \<or> rc_role c = []
          then (Inl (AuthError ''invalid refresh token claims''), st1)
          else case rotate_tokens lib now mt rnd c secret algorithm access_ttl_s default_refresh_ttl_s st1 of
                 (pair, st2) \<Rightarrow> (Inr pair, st2))"

section \<open>Headers\<close>

record auth_settings =
  jwt_secret :: string
  jwt_algorithms :: "string list"
  jwt_audience :: "string option"

definition current_principal :: "jwtlib \<Rightarrow> secs \<Rightarrow> auth_settings \<Rightarrow> string \<Rightarrow> (pyexc, principal) result" where
  "current_principal lib now st authorization =
     (case partition_at (CHR '' '') authorization of
        (scheme, _, token) \<Rightarrow>
          if lower scheme \<noteq> ''bearer'' \<or> token = [] then Inl (AuthError ''missing bearer token'')
          else verify_token lib now token (jwt_secret st) (jwt_algorithms st) (jwt_audience st))"

definition require_admin :: "principal \<Rightarrow> (pyexc, principal) result" where
  "require_admin p = (if \<not> is_admin p then Inl (HttpError 403 ''admin required'') else Inr p)"

text \<open>\<open>hmac.compare_digest\<close> on two \<open>str\<close>: a TypeError when one is not ASCII.\<close>

definition compare_digest :: "string \<Rightarrow> string \<Rightarrow> (pyexc, bool) result" where
  "compare_digest a b = (if list_all is_ascii a \<and> list_all is_ascii b then Inr (a = b) else Inl TypeError)"

definition verify_webhook_signature ::
  "(string \<Rightarrow> string \<Rightarrow> string) \<Rightarrow> string \<Rightarrow> string option \<Rightarrow> string \<Rightarrow> (pyexc, bool) result" where
  "verify_webhook_signature hmac_sha256 raw header secret =
     (case header of
        None \<Rightarrow> Inr False
      | Some h \<Rightarrow>
          if secret = [] \<or> h = [] then Inr False
          else
            let c0 = strip h;
                candidate = (if prefix ''sha256='' (lower c0) then drop (length ''sha256='') c0 else c0)
            in compare_digest (hmac_sha256 secret raw) candidate)"

section \<open>Lemmas\<close>

lemma map_of_dict_pop [simp]: "map_of (snd (dict_pop k d)) = (map_of d)(k := None)"
  by (simp add: dict_pop_def map_of_filter_key)

lemma fst_dict_pop [simp]: "fst (dict_pop k d) = map_of d k"
  by (simp add: dict_pop_def)

lemma repr_str_ne [simp]: "repr_str s \<noteq> []"
  by (simp add: repr_str_def Let_def)

lemma show_int_ne [simp]: "show_int k \<noteq> []"
  by (simp add: show_int_def)

lemma repr_float_ne: "repr_float f \<noteq> []"
proof (cases f)
  case (Dec m e)
  let ?ds = "show_nat (nat \<bar>m\<bar>)"
  have "?ds \<noteq> []" by simp
  then show ?thesis using Dec
    by (cases "?ds") (auto simp: repr_dec_def Let_def)
qed simp_all

lemma py_str_truthy: "truthy v \<Longrightarrow> py_str v \<noteq> []"
  by (cases v) (simp_all add: repr_float_ne)

end
