(* ===== verification/AgentConfig.thy ===== *)
theory AgentConfig
  imports Auth
begin

text \<open>
  The settings every agent shares (\<open>agentkit/config.py\<close>), as far as the code reads them: the derived
  database and Redis URLs, the private-mode switches and the boot gate. How pydantic fills the
  fields from the environment is outside the model.
\<close>

datatype env = Dev | Staging | Prod

record agent_settings = auth_settings +
  cfg_agent_name :: string
  cfg_env :: env
  cfg_postgres_host :: string
  cfg_postgres_port :: int
  cfg_postgres_user :: string
  cfg_postgres_password :: string
  cfg_postgres_db :: "string option"
  cfg_redis_host :: string
  cfg_redis_port :: int
  cfg_redis_password :: string
  cfg_redis_db :: int
  cfg_rabbitmq_url :: string
  cfg_llm_base_url :: string
  cfg_otel_endpoint :: string
  cfg_private_mode :: bool
  cfg_safe_write_hosts :: "string list"
  cfg_boot_gate :: bool
  cfg_rate_limit_per_minute :: int
  cfg_trust_proxy :: bool

definition effective_otel_enabled :: "('a) agent_settings_scheme \<Rightarrow> bool" where
  "effective_otel_enabled s \<longleftrightarrow> cfg_otel_endpoint s \<noteq> [] \<and> \<not> cfg_private_mode s"

definition database_name :: "('a) agent_settings_scheme \<Rightarrow> string" where
  "database_name s = (case cfg_postgres_db s of None \<Rightarrow> cfg_agent_name s
     | Some d \<Rightarrow> if d = [] then cfg_agent_name s else d)"

definition database_url :: "('a) agent_settings_scheme \<Rightarrow> string" where
  "database_url s =
     (let pw = (if cfg_postgres_password s \<noteq> [] then '':'' @ cfg_postgres_password s else [])
      in ''postgresql://'' @ cfg_postgres_user s @ pw @ ''@'' @ cfg_postgres_host s @ '':''
         @ show_int (cfg_postgres_port s) @ ''/'' @ database_name s)"

definition redis_url :: "('a) agent_settings_scheme \<Rightarrow> string" where
  "redis_url s =
     (let pw = (if cfg_redis_password s \<noteq> [] then '':'' @ cfg_redis_password s @ ''@'' else [])
      in ''redis://'' @ pw @ cfg_redis_host s @ '':'' @ show_int (cfg_redis_port s) @ ''/''
         @ show_int (cfg_redis_db s))"

definition gateway_host :: "string \<Rightarrow> string" where
  "gateway_host u =
     hd (split_on (CHR '':'') (hd (split_on (CHR ''/'')
       (replace_sub ''http://'' [] (replace_sub ''https://'' [] u)))))"

definition placeholder_patterns :: "string list" where
  "placeholder_patterns = [''example.com'', ''your-gateway'', ''localhost'', ''127.0.0.1'', ''0.0.0.0'']"

definition env_name :: "env \<Rightarrow> string" where
  "env_name e = (case e of Dev \<Rightarrow> ''dev'' | Staging \<Rightarrow> ''staging'' | Prod \<Rightarrow> ''prod'')"

definition validate_egress_boot_gate :: "('a) agent_settings_scheme \<Rightarrow> (pyexc, unit) result" where
  "validate_egress_boot_gate s =
     (if \<not> cfg_private_mode s \<or> \<not> cfg_boot_gate s then Inr ()
      else if cfg_env s = Dev then Inr ()
      else
        let h = gateway_host (cfg_llm_base_url s) in
        if h = [] \<or> list_ex (\<lambda>p. contains h p) placeholder_patterns
        then Inl (RuntimeError
          (''Egress boot gate (BR-011): private_mode is on, env='' @ repr_str (env_name (cfg_env s)) @ '', '' @
           ''but LLM_BASE_URL appears to be a placeholder ('' @ repr_str (cfg_llm_base_url s) @ ''). '' @
           ''Set a real gateway URL or set EGRESS_BOOT_GATE=false (not recommended).''))
        else Inr ())"

lemma split_on_ne [simp]: "split_on c s \<noteq> []"
  by (induction s) (auto split: list.splits)

lemma hd_split_on: "hd (split_on c s) = takeWhile (\<lambda>x. x \<noteq> c) s"
proof (induction s)
  case (Cons x xs)
  then show ?case by (cases "split_on c xs") auto
qed simp

end
