(* ===== verification/Json.thy ===== *)
theory Json
  imports PyVal
begin

text \<open>
  Python's \<open>json.loads\<close> and \<open>json.dumps\<close> (\<open>ensure_ascii\<close>), as the sources use them: to read an
  LLM answer (\<open>extract_json\<close>, \<open>complete_json\<close>), a webhook body, the agent registry and the
  dashboard's cache, and to write the registry. The decoder is a recursive descent with a
  recursion bound (the fuel); \<open>json_loads\<close> starts it with more fuel than the text can use
  (\<open>json_loads_fuel\<close>), so the bound is never the reason for an error.
  An integer of more than 4300 digits raises \<open>ValueError\<close>, not \<open>JSONDecodeError\<close>, as CPython's
  \<open>int\<close> does. Floats of more than 17 digits or out of range are kept exact.
\<close>

section \<open>Decoder\<close>

definition is_jws :: "char \<Rightarrow> bool" where
  "is_jws c \<longleftrightarrow> code c = 32 \<or> code c = 9 \<or> code c = 10 \<or> code c = 13"

definition skip_ws :: "string \<Rightarrow> string" where
  "skip_ws s = dropWhile is_jws s"

definition hex_val :: "char \<Rightarrow> nat option" where
  "hex_val c =
     (if is_digit c then Some (code c - 48)
      else if 97 \<le> code c \<and> code c \<le> 102 then Some (code c - 87)
      else if 65 \<le> code c \<and> code c \<le> 70 then Some (code c - 55)
      else None)"

definition hex4 :: "char \<Rightarrow> char \<Rightarrow> char \<Rightarrow> char \<Rightarrow> nat option" where
  "hex4 a b c d =
     (case (hex_val a, hex_val b, hex_val c, hex_val d) of
        (Some i, Some j, Some k, Some l) \<Rightarrow> Some (((i * 16 + j) * 16 + k) * 16 + l)
      | _ \<Rightarrow> None)"

definition simple_escape :: "char \<Rightarrow> char option" where
  "simple_escape e =
     (if e = CHR 0x22 \<or> e = CHR 0x5C \<or> e = CHR ''/'' then Some e
      else if e = CHR ''b'' then Some (CHR 0x08) else if e = CHR ''f'' then Some (CHR 0x0C)
      else if e = CHR ''n'' then Some (CHR 0x0A) else if e = CHR ''r'' then Some (CHR 0x0D)
      else if e = CHR ''t'' then Some (CHR 0x09) else None)"

text \<open>The characters of a string literal after its opening quote, and what follows the closing one.\<close>

fun scan_str :: "string \<Rightarrow> (pyexc, string \<times> string) result" where
  "scan_str [] = Inl JSONDecodeError"
| "scan_str (c # cs) =
     (if c = CHR 0x22 then Inr ([], cs)
      else if code c < 32 then Inl JSONDecodeError
      else if c = CHR 0x5C then
        (case cs of
           [] \<Rightarrow> Inl JSONDecodeError
         | e # es \<Rightarrow>
             if e = CHR ''u'' then
               (case es of
                  h1 # h2 # h3 # h4 # rest \<Rightarrow>
                    (case hex4 h1 h2 h3 h4 of
                       None \<Rightarrow> Inl JSONDecodeError
                     | Some n \<Rightarrow>
                         if 256 \<le> n then Inl Unrepresentable
                         else rbind (scan_str rest) (\<lambda>(s, r). Inr (char_of n # s, r)))
                | _ \<Rightarrow> Inl JSONDecodeError)
             else
               (case simple_escape e of
                  None \<Rightarrow> Inl JSONDecodeError
                | Some ch \<Rightarrow> rbind (scan_str es) (\<lambda>(s, r). Inr (ch # s, r))))
      else rbind (scan_str cs) (\<lambda>(s, r). Inr (c # s, r)))"

text \<open>
  A number: optional minus, \<open>0\<close> or a digit run without leading zero, then optionally a fraction
  and an exponent, each taken only when it has a digit.
\<close>

definition span_digits :: "string \<Rightarrow> string \<times> string" where
  "span_digits s = (takeWhile is_digit s, dropWhile is_digit s)"

definition scan_frac :: "string \<Rightarrow> string option \<times> string" where
  "scan_frac s =
     (case s of
        c # cs \<Rightarrow>
          if c = CHR ''.'' \<and> takeWhile is_digit cs \<noteq> []
          then (Some (takeWhile is_digit cs), dropWhile is_digit cs) else (None, s)
      | [] \<Rightarrow> (None, s))"

definition scan_exp :: "string \<Rightarrow> int option \<times> string" where
  "scan_exp s =
     (case s of
        c # cs \<Rightarrow>
          if c = CHR ''e'' \<or> c = CHR ''E'' then
            (let neg = (cs \<noteq> [] \<and> hd cs = CHR ''-'');
                 ds = (if cs \<noteq> [] \<and> (hd cs = CHR ''-'' \<or> hd cs = CHR ''+'') then tl cs else cs)
             in if takeWhile is_digit ds \<noteq> []
                then (Some ((if neg then -1 else 1) * int (nat_of_digits (takeWhile is_digit ds))),
                      dropWhile is_digit ds)
                else (None, s))
          else (None, s)
      | [] \<Rightarrow> (None, s))"

definition scan_num :: "bool \<Rightarrow> string \<Rightarrow> (pyexc, pyval \<times> string) result" where
  "scan_num neg s =
     (let ds = (if s \<noteq> [] \<and> hd s = CHR ''0'' then ''0'' else takeWhile is_digit s);
          r0 = drop (length ds) s; sg = (if neg then -1 else 1 :: int)
      in if ds = [] then Inl JSONDecodeError
         else case scan_frac r0 of (fr, r1) \<Rightarrow>
              case scan_exp r1 of (ex, r2) \<Rightarrow>
                if fr = None \<and> ex = None then
                  (if length ds > 4300 then Inl ValueError
                   else Inr (PyInt (sg * int (nat_of_digits ds)), r2))
                else
                  (let fs = (case fr of None \<Rightarrow> [] | Some f \<Rightarrow> f);
                       x = (case ex of None \<Rightarrow> 0 | Some k \<Rightarrow> k)
                   in Inr (PyFloat (dec_norm (sg * int (nat_of_digits (ds @ fs))) (x - int (length fs))), r2)))"

definition starts :: "string \<Rightarrow> string \<Rightarrow> bool" where
  "starts s p \<longleftrightarrow> take (length p) s = p"

definition scan_atom :: "string \<Rightarrow> (pyexc, pyval \<times> string) result" where
  "scan_atom s =
     (if starts s ''null'' then Inr (PyNone, drop 4 s)
      else if starts s ''true'' then Inr (PyBool True, drop 4 s)
      else if starts s ''false'' then Inr (PyBool False, drop 5 s)
      else if starts s ''NaN'' then Inr (PyFloat NaN, drop 3 s)
      else if starts s ''Infinity'' then Inr (PyFloat PosInf, drop 8 s)
      else if starts s ''-Infinity'' then Inr (PyFloat NegInf, drop 9 s)
      else if starts s ''-'' then scan_num True (tl s)
      else scan_num False s)"

text \<open>
  \<open>parse_val\<close> reads one value; \<open>parse_elems\<close> and \<open>parse_members\<close> the elements of an array and
  the members of an object up to and including the closing bracket (the opening one and the
  whitespace after it already read, and the empty case excluded). A repeated key keeps its first
  position and its last value, as \<open>dict\<close> does.
\<close>

fun parse_val :: "nat \<Rightarrow> string \<Rightarrow> (pyexc, pyval \<times> string) result"
  and parse_elems :: "nat \<Rightarrow> string \<Rightarrow> (pyexc, pyval list \<times> string) result"
  and parse_members :: "nat \<Rightarrow> string \<Rightarrow> (pyexc, (string \<times> pyval) list \<times> string) result"
where
  "parse_val 0 s = Inl OutOfFuel"
| "parse_val (Suc n) s =
     (case s of
        [] \<Rightarrow> Inl JSONDecodeError
      | c # cs \<Rightarrow>
          if c = CHR 0x22 then rbind (scan_str cs) (\<lambda>(t, r). Inr (PyStr t, r))
          else if c = CHR ''['' then
            (let s1 = skip_ws cs in
             if s1 \<noteq> [] \<and> hd s1 = CHR '']'' then Inr (PyList [], tl s1)
             else rbind (parse_elems n s1) (\<lambda>(vs, r). Inr (PyList vs, r)))
          else if c = CHR ''{'' then
            (let s1 = skip_ws cs in
             if s1 \<noteq> [] \<and> hd s1 = CHR ''}'' then Inr (PyDict [], tl s1)
             else rbind (parse_members n s1)
                    (\<lambda>(kvs, r). Inr (PyDict (foldl (\<lambda>d (k, v). dict_set k v d) [] kvs), r)))
          else scan_atom s)"
| "parse_elems 0 s = Inl OutOfFuel"
| "parse_elems (Suc n) s =
     rbind (parse_val n s) (\<lambda>(v, r).
       case skip_ws r of
         [] \<Rightarrow> Inl JSONDecodeError
       | c # r1 \<Rightarrow>
           if c = CHR '']'' then Inr ([v], r1)
           else if c = CHR '','' then
             rbind (parse_elems n (skip_ws r1)) (\<lambda>(vs, r2). Inr (v # vs, r2))
           else Inl JSONDecodeError)"
| "parse_members 0 s = Inl OutOfFuel"
| "parse_members (Suc n) s =
     (case s of
        [] \<Rightarrow> Inl JSONDecodeError
      | c # cs \<Rightarrow>
          if c \<noteq> CHR 0x22 then Inl JSONDecodeError
          else rbind (scan_str cs) (\<lambda>(k, r).
            case skip_ws r of
              [] \<Rightarrow> Inl JSONDecodeError
            | d # r1 \<Rightarrow>
                if d \<noteq> CHR '':'' then Inl JSONDecodeError
                else rbind (parse_val n (skip_ws r1)) (\<lambda>(v, r2).
                  case skip_ws r2 of
                    [] \<Rightarrow> Inl JSONDecodeError
                  | e # r3 \<Rightarrow>
                      if e = CHR ''}'' then Inr ([(k, v)], r3)
                      else if e = CHR '','' then
                        rbind (parse_members n (skip_ws r3)) (\<lambda>(kvs, r4). Inr ((k, v) # kvs, r4))
                      else Inl JSONDecodeError)))"

definition json_loads :: "string \<Rightarrow> (pyexc, pyval) result" where
  "json_loads s =
     rbind (parse_val (2 * length s + 2) (skip_ws s)) (\<lambda>(v, r).
       if skip_ws r = [] then Inr v else Inl JSONDecodeError)"

section \<open>Encoder\<close>

definition json_char :: "char \<Rightarrow> string" where
  "json_char c =
     (if c = CHR 0x22 then [CHR 0x5C, CHR 0x22]
      else if c = CHR 0x5C then [CHR 0x5C, CHR 0x5C]
      else if code c = 10 then [CHR 0x5C, CHR ''n'']
      else if code c = 13 then [CHR 0x5C, CHR ''r'']
      else if code c = 9 then [CHR 0x5C, CHR ''t'']
      else if code c = 12 then [CHR 0x5C, CHR ''f'']
      else if code c = 8 then [CHR 0x5C, CHR ''b'']
      else if 32 \<le> code c \<and> code c \<le> 126 then [c]
      else [CHR 0x5C, CHR ''u'', CHR ''0'', CHR ''0'', hex_digit (code c div 16), hex_digit (code c mod 16)])"

definition json_str :: "string \<Rightarrow> string" where
  "json_str s = CHR 0x22 # concat (map json_char s) @ [CHR 0x22]"

fun json_float :: "pyfloat \<Rightarrow> string" where
  "json_float (Dec m e) = repr_dec m e"
| "json_float PosInf = ''Infinity''"
| "json_float NegInf = ''-Infinity''"
| "json_float NaN = ''NaN''"

text \<open>\<open>json.dumps(v, separators=(isep, ksep))\<close>; the default separators are \<open>', '\<close> and \<open>': '\<close>.\<close>

fun json_dumps :: "string \<Rightarrow> string \<Rightarrow> pyval \<Rightarrow> string" where
  "json_dumps isep ksep PyNone = ''null''"
| "json_dumps isep ksep (PyBool b) = (if b then ''true'' else ''false'')"
| "json_dumps isep ksep (PyInt k) = show_int k"
| "json_dumps isep ksep (PyFloat f) = json_float f"
| "json_dumps isep ksep (PyStr s) = json_str s"
| "json_dumps isep ksep (PyList vs) = ''['' @ join isep (map (json_dumps isep ksep) vs) @ '']''"
| "json_dumps isep ksep (PyDict d) =
     ''{'' @ join isep (map (\<lambda>(k, v). json_str k @ ksep @ json_dumps isep ksep v) d) @ ''}''"

abbreviation json_compact :: "pyval \<Rightarrow> string" where
  "json_compact \<equiv> json_dumps '','' '':''"

end
