(* ===== verification/JsonProps.thy ===== *)
theory JsonProps
  imports Json
begin

text \<open>
  Properties of the JSON codec: the decoder consumes input and never exhausts its recursion bound,
  a text that starts with an opening brace decodes to an object or not at all, and decoding an
  encoded value gives the value back.
\<close>

section \<open>The decoder consumes what it reads\<close>

lemma length_skip_ws: "length (skip_ws s) \<le> length s"
  by (simp add: skip_ws_def length_dropWhile_le)

lemma scan_str_length: "scan_str s = Inr (t, r) \<Longrightarrow> length r < length s"
proof (induction s arbitrary: t r rule: length_induct)
  case (1 s)
  have IH: "length r' < length u" if "scan_str u = Inr (t', r')" "length u < length s" for u t' r'
    using 1 that by blast
  obtain c cs where s: "s = c # cs" using 1(2) by (cases s) auto
  show ?case
  proof (cases "c = CHR 0x5C")
    case False
    with 1(2) s show ?thesis by (auto simp: rbind_eq_Inr_iff split: if_splits dest: IH)
  next
    case True
    then obtain e es where cs: "cs = e # es" using 1(2) s by (auto split: list.splits)
    show ?thesis
    proof (cases "e = CHR ''u''")
      case u: True
      then obtain h1 h2 h3 h4 rest where es: "es = h1 # h2 # h3 # h4 # rest"
        using 1(2) s True cs by (auto split: list.splits)
      then show ?thesis using 1(2) s True cs u
        by (auto simp: rbind_eq_Inr_iff split: option.splits if_splits dest: IH)
    next
      case False
      then show ?thesis using 1(2) s True cs
        by (auto simp: rbind_eq_Inr_iff split: option.splits dest: IH)
    qed
  qed
qed

lemma scan_str_fuel: "scan_str s \<noteq> Inl OutOfFuel"
proof (induction s rule: length_induct)
  case (1 s)
  have IH: "scan_str u \<noteq> Inl OutOfFuel" if "length u < length s" for u using 1 that by blast
  show ?case
  proof
    assume *: "scan_str s = Inl OutOfFuel"
    obtain c cs where s: "s = c # cs" using * by (cases s) auto
    show False
    proof (cases "c = CHR 0x5C")
      case False
      with * s IH [of cs] show ?thesis by (auto simp: rbind_eq_Inl_iff split: if_splits)
    next
      case True
      then obtain e es where cs: "cs = e # es" using * s by (auto split: list.splits)
      show ?thesis
      proof (cases "e = CHR ''u''")
        case u: True
        then obtain h1 h2 h3 h4 rest where es: "es = h1 # h2 # h3 # h4 # rest"
          using * s True cs by (auto split: list.splits)
        then show ?thesis using * s True cs u IH [of rest]
          by (auto simp: rbind_eq_Inl_iff split: option.splits if_splits)
      next
        case False
        then show ?thesis using * s True cs IH [of es]
          by (auto simp: rbind_eq_Inl_iff split: option.splits)
      qed
    qed
  qed
qed

lemma length_scan_frac: "scan_frac s = (f, r) \<Longrightarrow> length r \<le> length s"
  by (auto simp: scan_frac_def length_dropWhile_le le_SucI split: list.splits if_splits)

lemma length_scan_exp: "scan_exp s = (f, r) \<Longrightarrow> length r \<le> length s"
proof (cases s)
  case (Cons c cs)
  assume *: "scan_exp s = (f, r)"
  have "length (dropWhile is_digit (tl cs)) \<le> length (tl cs)" by (rule length_dropWhile_le)
  then have a: "length (dropWhile is_digit (tl cs)) \<le> Suc (length cs)"
    by (rule order.trans) simp
  have "length (dropWhile is_digit cs) \<le> length cs" by (rule length_dropWhile_le)
  then have b: "length (dropWhile is_digit cs) \<le> Suc (length cs)" by simp
  show ?thesis using * Cons a b by (auto simp: scan_exp_def Let_def split: if_splits)
qed (auto simp: scan_exp_def)

lemma scan_num_length: "scan_num neg s = Inr (v, r) \<Longrightarrow> length r < length s"
proof -
  assume *: "scan_num neg s = Inr (v, r)"
  define ds where "ds = (if s \<noteq> [] \<and> hd s = CHR ''0'' then ''0'' else takeWhile is_digit s)"
  have ne: "ds \<noteq> []" using * by (auto simp: scan_num_def Let_def ds_def split: if_splits)
  then have "s \<noteq> []" by (auto simp: ds_def split: if_splits)
  then have lt: "length (drop (length ds) s) < length s" using ne by simp
  obtain fr r1 where f: "scan_frac (drop (length ds) s) = (fr, r1)" by fastforce
  obtain ex r2 where x: "scan_exp r1 = (ex, r2)" by fastforce
  have "r = r2" using * ne f x by (auto simp: scan_num_def Let_def ds_def [symmetric] split: if_splits)
  then have "length r \<le> length r1" using length_scan_exp [OF x] by simp
  also have "\<dots> \<le> length (drop (length ds) s)" by (rule length_scan_frac [OF f])
  finally show ?thesis using lt by (rule le_less_trans)
qed

lemma scan_num_fuel: "scan_num neg s \<noteq> Inl OutOfFuel"
  by (auto simp: scan_num_def Let_def split: prod.splits)

lemma scan_atom_length: "scan_atom s = Inr (v, r) \<Longrightarrow> length r < length s"
  by (cases s)
    (auto simp: scan_atom_def starts_def less_SucI split: if_splits dest!: scan_num_length)

lemma scan_atom_fuel: "scan_atom s \<noteq> Inl OutOfFuel"
  by (simp add: scan_atom_def scan_num_fuel)

lemma parse_members_length_step:
  assumes P: "\<And>s v r. parse_val n s = Inr (v, r) \<Longrightarrow> length r < length s"
    and M: "\<And>s kvs r. parse_members n s = Inr (kvs, r) \<Longrightarrow> length r < length s"
    and S: "\<And>s t r. scan_str s = Inr (t, r) \<Longrightarrow> length r < length s"
    and W: "\<And>s. length (skip_ws s) \<le> length s"
    and *: "parse_members (Suc n) s = Inr (kvs, r)"
  shows "length r < length s"
proof -
  obtain cs where s: "s = CHR 0x22 # cs" using * by (cases s) (auto split: if_splits)
  obtain k r0 where k: "scan_str cs = Inr (k, r0)" using * s by (auto simp: rbind_eq_Inr_iff)
  obtain r1 where r1: "skip_ws r0 = CHR '':'' # r1"
    using * s k by (auto split: list.splits if_splits)
  obtain v r2 where v: "parse_val n (skip_ws r1) = Inr (v, r2)"
    using * s k r1 by (auto simp: rbind_eq_Inr_iff)
  obtain e r3 where e: "skip_ws r2 = e # r3"
    using * s k r1 v by (auto split: list.splits)
  have l: "length r3 < length s"
    using S [OF k] W [of r0] r1 P [OF v] W [of r1] W [of r2] e s by simp
  consider "r = r3" | kvs' where "parse_members n (skip_ws r3) = Inr (kvs', r)"
    using * s k r1 v e by (auto simp: rbind_eq_Inr_iff split: if_splits)
  then show ?thesis
  proof cases
    case 2
    from M [OF this] W [of r3] l show ?thesis by simp
  qed (use l in simp)
qed

lemma parse_elems_length_step:
  assumes P: "\<And>s v r. parse_val n s = Inr (v, r) \<Longrightarrow> length r < length s"
    and E: "\<And>s vs r. parse_elems n s = Inr (vs, r) \<Longrightarrow> length r < length s"
    and W: "\<And>s. length (skip_ws s) \<le> length s"
    and *: "parse_elems (Suc n) s = Inr (vs, r)"
  shows "length r < length s"
proof -
  obtain v t where v: "parse_val n s = Inr (v, t)" using * by (auto simp: rbind_eq_Inr_iff)
  obtain e r1 where e: "skip_ws t = e # r1" using * v by (auto split: list.splits)
  have l: "length r1 < length s" using P [OF v] W [of t] e by simp
  consider "r = r1" | us where "parse_elems n (skip_ws r1) = Inr (us, r)"
    using * v e by (auto simp: rbind_eq_Inr_iff split: if_splits)
  then show ?thesis
  proof cases
    case 2
    from E [OF this] W [of r1] l show ?thesis by simp
  qed (use l in simp)
qed
lemma parse_val_length_step:
  assumes E: "\<And>s vs r. parse_elems n s = Inr (vs, r) \<Longrightarrow> length r < length s"
    and M: "\<And>s kvs r. parse_members n s = Inr (kvs, r) \<Longrightarrow> length r < length s"
    and *: "parse_val (Suc n) s = Inr (v, r)"
  shows "length r < length s"
proof -
  obtain c cs where s: "s = c # cs" using * by (cases s) auto
  let ?t = "skip_ws cs"
  have W: "length ?t \<le> length cs" by (rule length_skip_ws)
  consider (str) t where "scan_str cs = Inr (t, r)"
    | (empty) "r = tl ?t"
    | (elems) vs where "parse_elems n ?t = Inr (vs, r)"
    | (members) kvs where "parse_members n ?t = Inr (kvs, r)"
    | (atom) "scan_atom s = Inr (v, r)"
    using * s by (auto simp: rbind_eq_Inr_iff Let_def split: if_splits)
  then show ?thesis
  proof cases
    case str
    with s show ?thesis using scan_str_length by fastforce
  next
    case empty
    with s W show ?thesis by simp
  next
    case elems
    from E [OF this] s W show ?thesis by simp
  next
    case members
    from M [OF this] s W show ?thesis by simp
  next
    case atom
    then show ?thesis by (rule scan_atom_length)
  qed
qed

lemma parse_length:
  "parse_val n s = Inr (v, r) \<Longrightarrow> length r < length s"
  "parse_elems n s = Inr (vs, r) \<Longrightarrow> length r < length s"
  "parse_members n s = Inr (kvs, r) \<Longrightarrow> length r < length s"
proof -
  have "(\<forall>s v r. parse_val n s = Inr (v, r) \<longrightarrow> length r < length s) \<and>
    (\<forall>s vs r. parse_elems n s = Inr (vs, r) \<longrightarrow> length r < length s) \<and>
    (\<forall>s kvs r. parse_members n s = Inr (kvs, r) \<longrightarrow> length r < length s)"
  proof (induction n)
    case (Suc n)
    then have V: "\<And>s v r. parse_val n s = Inr (v, r) \<Longrightarrow> length r < length s"
      and E: "\<And>s vs r. parse_elems n s = Inr (vs, r) \<Longrightarrow> length r < length s"
      and M: "\<And>s kvs r. parse_members n s = Inr (kvs, r) \<Longrightarrow> length r < length s"
      by blast+
    have "length r < length s" if "parse_val (Suc n) s = Inr (v, r)" for s v r
      using E M that by (rule parse_val_length_step)
    moreover have "length r < length s" if "parse_elems (Suc n) s = Inr (vs, r)" for s vs r
      using V E length_skip_ws that by (rule parse_elems_length_step)
    moreover have "length r < length s" if "parse_members (Suc n) s = Inr (kvs, r)" for s kvs r
      using V M scan_str_length length_skip_ws that by (rule parse_members_length_step)
    ultimately show ?case by blast
  qed simp
  then show
    "parse_val n s = Inr (v, r) \<Longrightarrow> length r < length s"
    "parse_elems n s = Inr (vs, r) \<Longrightarrow> length r < length s"
    "parse_members n s = Inr (kvs, r) \<Longrightarrow> length r < length s" by blast+
qed

section \<open>The recursion bound is never the reason for an error\<close>

lemma parse_elems_fuel_step:
  assumes V: "\<And>s. 2 * length s < n \<Longrightarrow> parse_val n s \<noteq> Inl OutOfFuel"
    and E: "\<And>s. 2 * length s + 1 < n \<Longrightarrow> parse_elems n s \<noteq> Inl OutOfFuel"
    and n: "2 * length s + 1 < Suc n"
  shows "parse_elems (Suc n) s \<noteq> Inl OutOfFuel"
proof (cases "parse_val n s")
  case (Inl e)
  then show ?thesis using V [of s] n by simp
next
  case (Inr vt)
  then obtain v t where v: "parse_val n s = Inr (v, t)" by (cases vt) auto
  show ?thesis
  proof (cases "skip_ws t")
    case (Cons c r1)
    then have "length r1 < length s" using parse_length(1) [OF v] length_skip_ws [of t] by simp
    then have "2 * length (skip_ws r1) + 1 < n" using length_skip_ws [of r1] n by linarith
    then show ?thesis using E v Cons by (auto simp: rbind_eq_Inl_iff)
  qed (simp add: v)
qed

lemma parse_members_fuel_step:
  assumes V: "\<And>s. 2 * length s < n \<Longrightarrow> parse_val n s \<noteq> Inl OutOfFuel"
    and M: "\<And>s. 2 * length s + 1 < n \<Longrightarrow> parse_members n s \<noteq> Inl OutOfFuel"
    and n: "2 * length s + 1 < Suc n"
  shows "parse_members (Suc n) s \<noteq> Inl OutOfFuel"
proof
  assume *: "parse_members (Suc n) s = Inl OutOfFuel"
  obtain cs where s: "s = CHR 0x22 # cs" using * by (cases s) (auto split: if_splits)
  obtain k r0 where k: "scan_str cs = Inr (k, r0)"
    using * s scan_str_fuel [of cs] by (auto simp: rbind_eq_Inl_iff)
  obtain r1 where r1: "skip_ws r0 = CHR '':'' # r1"
    using * s k by (auto split: list.splits if_splits)
  have l1: "length (skip_ws r1) < length s"
    using scan_str_length [OF k] length_skip_ws [of r0] length_skip_ws [of r1] r1 s by simp
  then obtain v r2 where v: "parse_val n (skip_ws r1) = Inr (v, r2)"
    using * s k r1 V [of "skip_ws r1"] n by (auto simp: rbind_eq_Inl_iff)
  obtain r3 where e: "skip_ws r2 = CHR '','' # r3" and m: "parse_members n (skip_ws r3) = Inl OutOfFuel"
    using * s k r1 v by (auto simp: rbind_eq_Inl_iff split: list.splits if_splits)
  have "length (skip_ws r3) < length s"
    using parse_length(1) [OF v] length_skip_ws [of r2] length_skip_ws [of r3] e l1 by simp
  then show False using M [of "skip_ws r3"] m n by simp
qed

lemma parse_val_fuel_step:
  assumes E: "\<And>s. 2 * length s + 1 < n \<Longrightarrow> parse_elems n s \<noteq> Inl OutOfFuel"
    and M: "\<And>s. 2 * length s + 1 < n \<Longrightarrow> parse_members n s \<noteq> Inl OutOfFuel"
    and n: "2 * length s < Suc n"
  shows "parse_val (Suc n) s \<noteq> Inl OutOfFuel"
proof (cases s)
  case (Cons c cs)
  then have "2 * length (skip_ws cs) + 1 < n" using length_skip_ws [of cs] n by simp
  then show ?thesis using Cons E M scan_str_fuel [of cs] scan_atom_fuel [of s]
    by (auto simp: rbind_eq_Inl_iff Let_def)
qed simp

lemma parse_fuel:
  "2 * length s < n \<Longrightarrow> parse_val n s \<noteq> Inl OutOfFuel"
  "2 * length s + 1 < n \<Longrightarrow> parse_elems n s \<noteq> Inl OutOfFuel"
  "2 * length s + 1 < n \<Longrightarrow> parse_members n s \<noteq> Inl OutOfFuel"
proof -
  have "(\<forall>s. 2 * length s < n \<longrightarrow> parse_val n s \<noteq> Inl OutOfFuel) \<and>
    (\<forall>s. 2 * length s + 1 < n \<longrightarrow> parse_elems n s \<noteq> Inl OutOfFuel) \<and>
    (\<forall>s. 2 * length s + 1 < n \<longrightarrow> parse_members n s \<noteq> Inl OutOfFuel)"
  proof (induction n)
    case (Suc n)
    then have V: "\<And>s. 2 * length s < n \<Longrightarrow> parse_val n s \<noteq> Inl OutOfFuel"
      and E: "\<And>s. 2 * length s + 1 < n \<Longrightarrow> parse_elems n s \<noteq> Inl OutOfFuel"
      and M: "\<And>s. 2 * length s + 1 < n \<Longrightarrow> parse_members n s \<noteq> Inl OutOfFuel"
      by blast+
    have "parse_val (Suc n) s \<noteq> Inl OutOfFuel" if "2 * length s < Suc n" for s
      using E M that by (rule parse_val_fuel_step)
    moreover have "parse_elems (Suc n) s \<noteq> Inl OutOfFuel" if "2 * length s + 1 < Suc n" for s
      using V E that by (rule parse_elems_fuel_step)
    moreover have "parse_members (Suc n) s \<noteq> Inl OutOfFuel" if "2 * length s + 1 < Suc n" for s
      using V M that by (rule parse_members_fuel_step)
    ultimately show ?case by blast
  qed simp
  then show
    "2 * length s < n \<Longrightarrow> parse_val n s \<noteq> Inl OutOfFuel"
    "2 * length s + 1 < n \<Longrightarrow> parse_elems n s \<noteq> Inl OutOfFuel"
    "2 * length s + 1 < n \<Longrightarrow> parse_members n s \<noteq> Inl OutOfFuel" by blast+
qed

lemma json_loads_fuel: "json_loads s \<noteq> Inl OutOfFuel"
proof -
  have "2 * length (skip_ws s) < 2 * length s + 2" using length_skip_ws [of s] by simp
  from parse_fuel(1) [OF this] show ?thesis
    by (auto simp: json_loads_def rbind_eq_Inl_iff)
qed

section \<open>Objects\<close>

lemma json_loads_brace:
  assumes "skip_ws s = CHR ''{'' # t" and "json_loads s = Inr v"
  shows "is_dict v"
  using assms
  by (auto simp: json_loads_def rbind_eq_Inr_iff Let_def numeral_2_eq_2 split: if_splits)

end
