(* ===== verification/Prompts.thy ===== *)
theory Prompts
  imports JsonProps
begin

text \<open>
  The prompt helpers every agent shares (\<open>agentkit/prompts.py\<close>): fencing of untrusted text, and
  the tolerant extraction of a JSON object from an LLM answer. \<open>text[:k]\<close> is \<open>py_take k\<close>, a
  negative bound counting from the end.
\<close>

section \<open>Fencing\<close>

definition py_take :: "int \<Rightarrow> 'a list \<Rightarrow> 'a list" where
  "py_take k s = (if 0 \<le> k then take (nat k) s else take (length s - nat (- k)) s)"

definition signal_open :: string where
  "signal_open = ''<<UNTRUSTED_SIGNAL>>''"

definition signal_close :: string where
  "signal_close = ''<<END_UNTRUSTED_SIGNAL>>''"

definition fence_untrusted :: "string \<Rightarrow> string \<Rightarrow> string \<Rightarrow> int \<Rightarrow> string" where
  "fence_untrusted open_marker close_marker text max_chars =
     open_marker @ nl @ py_take max_chars text @ nl @ close_marker"

section \<open>Extraction of a JSON object\<close>

text \<open>
  The code fence of an LLM answer: \<open>text.split("```", 2)[1]\<close> when there are two fence marks, all
  backticks stripped from both ends when there is one; then a leading \<open>json\<close> tag.
\<close>

definition strip_code_fence :: "string \<Rightarrow> string" where
  "strip_code_fence text0 =
     (let text1 = strip text0 in
      if prefix ''```'' text1 then
        (let text2 =
           (if 2 \<le> count_sub ''```'' text1 then
              (case split_first ''```'' (drop 3 text1) of
                 Some (mid, _) \<Rightarrow> mid
               | None \<Rightarrow> drop 3 text1)
            else strip_of (CHR ''`'') text1)
         in if prefix ''json'' (lower (lstrip text2)) then drop 4 (lstrip text2) else text2)
      else text1)"

definition find_char :: "char \<Rightarrow> string \<Rightarrow> nat option" where
  "find_char c s =
     (let n = length (takeWhile (\<lambda>x. x \<noteq> c) s) in if n < length s then Some n else None)"

definition rfind_char :: "char \<Rightarrow> string \<Rightarrow> nat option" where
  "rfind_char c s = map_option (\<lambda>n. length s - 1 - n) (find_char c (rev s))"

text \<open>The span from the first opening brace to the last closing one; \<open>None\<close> when there is none.\<close>

definition brace_span :: "string \<Rightarrow> string option" where
  "brace_span s =
     (case (find_char (CHR ''{'') s, rfind_char (CHR ''}'') s) of
        (Some a, Some b) \<Rightarrow> if b < a then None else Some (drop a (take (b + 1) s))
      | _ \<Rightarrow> None)"

definition extract_json :: "string \<Rightarrow> (pyexc, pyval dict) result" where
  "extract_json text =
     (case brace_span (strip_code_fence text) of
        None \<Rightarrow> Inr []
      | Some t \<Rightarrow>
          (case json_loads t of
             Inl JSONDecodeError \<Rightarrow> Inr []
           | Inl e \<Rightarrow> Inl e
           | Inr (PyDict d) \<Rightarrow> Inr d
           | Inr _ \<Rightarrow> Inr []))"

section \<open>Lemmas\<close>

lemma length_py_take: "0 \<le> k \<Longrightarrow> length (py_take k s) \<le> nat k"
  by (simp add: py_take_def)

lemma py_take_prefix: "prefix (py_take k s) s"
  by (auto simp: py_take_def take_is_prefix)

lemma find_char_Some: "find_char c s = Some n \<Longrightarrow> n < length s \<and> s ! n = c \<and> (\<forall>i < n. s ! i \<noteq> c)"
proof -
  assume a: "find_char c s = Some n"
  then have n: "n = length (takeWhile (\<lambda>x. x \<noteq> c) s)" "n < length s"
    by (auto simp: find_char_def Let_def split: if_splits)
  have "s ! n = c" using nth_length_takeWhile [of "\<lambda>x. x \<noteq> c" s] n by simp
  moreover have "\<forall>i < n. s ! i \<noteq> c"
  proof (intro allI impI)
    fix i assume i: "i < n"
    then have "takeWhile (\<lambda>x. x \<noteq> c) s ! i \<noteq> c" using n(1) nth_mem set_takeWhileD by fast
    then show "s ! i \<noteq> c" using i n(1) by (simp add: takeWhile_nth)
  qed
  ultimately show ?thesis using n(2) by simp
qed

lemma brace_span_hd: "brace_span s = Some t \<Longrightarrow> \<exists>r. t = CHR ''{'' # r"
proof -
  assume "brace_span s = Some t"
  then obtain a b where ab: "find_char (CHR ''{'') s = Some a" "\<not> b < a" "t = drop a (take (b + 1) s)"
    by (auto simp: brace_span_def split: option.splits if_splits)
  from find_char_Some [OF ab(1)] have a: "a < length s" "s ! a = CHR ''{''" by auto
  have l: "a < length (take (b + 1) s)" using a(1) ab(2) by simp
  have "take (b + 1) s ! a = CHR ''{''" using a ab(2) by simp
  with l show ?thesis using ab(3) by (metis Cons_nth_drop_Suc)
qed

end
