(* ===== verification/Llm.thy ===== *)
theory Llm
  imports Prompts
begin

text \<open>
  The metered LLM client (\<open>agentkit/llm.py\<close>): the price table and its override, the pre-flight and
  post-call cost ceilings, the usage meter, the circuit breaker, and the four call paths
  \<open>complete\<close>, \<open>complete_with_tools\<close>, \<open>complete_json\<close> and \<open>embed_texts\<close>.

  \<^item> The gateway is the parameter \<open>gw\<close>: what it answers a request, given the requests sent before.
    \<open>llm_sent\<close> in the client's state is that history, so a theorem can say whether a request left.
  \<^item> \<open>time.monotonic\<close> is the parameter \<open>clk\<close>, read once per call to it; \<open>llm_ticks\<close> counts the reads.
  \<^item> Amounts are exact rationals. Log lines are not modelled.
\<close>

section \<open>Prices and usage\<close>

type_synonym price_table = "(rat \<times> rat) dict"

definition default_prices :: price_table where
  "default_prices =
     [(''claude-sonnet'', 3, 15), (''gpt-5'', 5/4, 10), (''gemini-pro'', 5/4, 5),
      (''deepseek-chat'', 3/10, 11/10), (''deepseek-reasoner'', 55/100, 22/10),
      (''qwen3.5-flash'', 1/10, 4/10), (''qwen3.5-plus'', 4/10, 12/10), (''glm-5.1'', 6/10, 22/10),
      (''kimi-k2.6'', 6/10, 25/10), (''minimax-m3'', 3/10, 12/10), (''grok-4.3'', 3, 15)]"

definition zero_price :: "rat \<times> rat" where
  "zero_price = (0, 0)"

definition unpriced_sentinel :: "rat \<times> rat" where
  "unpriced_sentinel = (1000, 1000)"

text \<open>\<open>in_price, out_price = pair\<close>: any iterable of exactly two items unpacks.\<close>

fun unpack2 :: "pyval \<Rightarrow> (pyexc, pyval \<times> pyval) result" where
  "unpack2 (PyList [a, b]) = Inr (a, b)"
| "unpack2 (PyList _) = Inl ValueError"
| "unpack2 (PyStr [a, b]) = Inr (PyStr [a], PyStr [b])"
| "unpack2 (PyStr _) = Inl ValueError"
| "unpack2 (PyDict [(a, _), (b, _)]) = Inr (PyStr a, PyStr b)"
| "unpack2 (PyDict _) = Inl ValueError"
| "unpack2 _ = Inl TypeError"

text \<open>A non-finite price is outside the model's rational table.\<close>

definition finite_float :: "pyval \<Rightarrow> (pyexc, rat) result" where
  "finite_float v = rbind (py_float v) (\<lambda>f. case f of Dec m e \<Rightarrow> Inr (dec_val m e) | _ \<Rightarrow> Inl Unrepresentable)"

text \<open>
  The override loop writes into the table as it goes: an entry that raises ends the loop, and the
  entries before it stay.
\<close>

fun apply_override :: "(string \<times> pyval) list \<Rightarrow> price_table \<Rightarrow> price_table" where
  "apply_override [] ps = ps"
| "apply_override ((m, pair) # rest) ps =
     (case rbind (unpack2 pair) (\<lambda>(i, out).
             rbind (finite_float i) (\<lambda>a. rbind (finite_float out) (\<lambda>b. Inr (a, b)))) of
        Inl _ \<Rightarrow> ps
      | Inr ab \<Rightarrow> apply_override rest (dict_set m ab ps))"

definition load_prices :: "string option \<Rightarrow> price_table" where
  "load_prices raw =
     (case raw of
        None \<Rightarrow> default_prices
      | Some t \<Rightarrow>
          if t = [] then default_prices
          else (case json_loads t of
                  Inr (PyDict d) \<Rightarrow> apply_override d default_prices
                | _ \<Rightarrow> default_prices))"

record usage =
  u_prompt_tokens :: int
  u_completion_tokens :: int
  u_cost_usd :: usd
  u_by_model :: "usd dict"

definition usage0 :: usage where
  "usage0 = \<lparr>u_prompt_tokens = 0, u_completion_tokens = 0, u_cost_usd = 0, u_by_model = []\<rparr>"

definition add_model :: "string \<times> usd \<Rightarrow> usd dict \<Rightarrow> usd dict" where
  "add_model p d =
     (case p of (m, x) \<Rightarrow> dict_set m ((case map_of d m of None \<Rightarrow> 0 | Some y \<Rightarrow> y) + x) d)"

definition usage_add :: "usage \<Rightarrow> usage \<Rightarrow> usage" where
  "usage_add u v =
     \<lparr>u_prompt_tokens = u_prompt_tokens u + u_prompt_tokens v,
      u_completion_tokens = u_completion_tokens u + u_completion_tokens v,
      u_cost_usd = u_cost_usd u + u_cost_usd v,
      u_by_model = fold add_model (u_by_model v) (u_by_model u)\<rparr>"

definition estimate_cost :: "price_table \<Rightarrow> bool \<Rightarrow> string \<Rightarrow> int \<Rightarrow> int \<Rightarrow> usd" where
  "estimate_cost prices allow_unpriced mdl ptoks ctoks =
     (let (ip, op) =
        (case map_of prices mdl of
           Some pr \<Rightarrow> pr
         | None \<Rightarrow> if allow_unpriced then zero_price else unpriced_sentinel)
      in (of_int ptoks * ip + of_int ctoks * op) / 1000000)"

type_synonym message = "string dict"

definition msg_get :: "message \<Rightarrow> string \<Rightarrow> string" where
  "msg_get m k = (case map_of m k of None \<Rightarrow> [] | Some v \<Rightarrow> v)"

definition estimate_prompt_tokens :: "message list \<Rightarrow> int" where
  "estimate_prompt_tokens ms =
     int ((\<Sum>m\<leftarrow>ms. length (msg_get m ''role'') + length (msg_get m ''content'')) div 4 + 4 * length ms)"

definition estimate_max_cost :: "price_table \<Rightarrow> bool \<Rightarrow> string \<Rightarrow> int \<Rightarrow> int \<Rightarrow> usd" where
  "estimate_max_cost prices allow_unpriced mdl ptoks max_toks =
     estimate_cost prices allow_unpriced mdl ptoks max_toks"

text \<open>The variant for tool conversations: \<open>None\<close> content counts as empty.\<close>

type_synonym any_message = "pyval dict"

definition any_get :: "any_message \<Rightarrow> string \<Rightarrow> pyval \<Rightarrow> pyval" where
  "any_get m k dflt = (case map_of m k of None \<Rightarrow> dflt | Some v \<Rightarrow> v)"

definition estimate_tokens_loose :: "any_message list \<Rightarrow> int" where
  "estimate_tokens_loose ms =
     int ((\<Sum>m\<leftarrow>ms. length (py_str (any_get m ''role'' (PyStr []))) +
                    length (py_str (py_or (any_get m ''content'' PyNone) (PyStr [])))) div 4 + 4 * length ms)"

section \<open>Errors and the breaker\<close>

text \<open>
  The errors a call path can raise: the client's own, the gateway's as \<open>openai\<close> classifies them
  (\<open>OtherError s\<close>: any other exception, with its integer \<open>status_code\<close> if it has one), and the
  index error of an answer without choices.
\<close>

datatype llm_exc =
    JobCostCapExceeded | CostLimitExceeded | CircuitOpenError | JSONValidationError
  | APIConnectionError | APITimeoutError | APIStatusError "int option" | OtherError "int option"
  | NoChoice

definition status_code :: "llm_exc \<Rightarrow> int option" where
  "status_code e = (case e of APIStatusError s \<Rightarrow> s | OtherError s \<Rightarrow> s | _ \<Rightarrow> None)"

definition is_breaker_failure :: "llm_exc \<Rightarrow> bool" where
  "is_breaker_failure e =
     (if e = CostLimitExceeded then False
      else if e = APIConnectionError \<or> e = APITimeoutError then True
      else case status_code e of Some s \<Rightarrow> 500 \<le> s | None \<Rightarrow> True)"

record breaker =
  brk_threshold :: int
  brk_cooldown_s :: secs
  brk_failures :: int
  brk_opened_at :: "secs option"

text \<open>\<open>check\<close> reads the clock only when the breaker is open.\<close>

definition breaker_blocks :: "secs \<Rightarrow> breaker \<Rightarrow> bool" where
  "breaker_blocks now b =
     (if brk_threshold b \<le> 0 then False
      else case brk_opened_at b of None \<Rightarrow> False | Some t \<Rightarrow> now - t < brk_cooldown_s b)"

definition record_success :: "breaker \<Rightarrow> breaker" where
  "record_success b = (if brk_threshold b \<le> 0 then b else b\<lparr>brk_failures := 0, brk_opened_at := None\<rparr>)"

definition record_failure :: "secs \<Rightarrow> breaker \<Rightarrow> breaker" where
  "record_failure now b =
     (if brk_threshold b \<le> 0 then b
      else let n = brk_failures b + 1 in
           if brk_threshold b \<le> n then b\<lparr>brk_failures := n, brk_opened_at := Some now\<rparr>
           else b\<lparr>brk_failures := n\<rparr>)"

section \<open>The client\<close>

record tool_call =
  tc_id :: string
  tc_name :: string
  tc_arguments :: string

record tool_turn =
  tt_content :: "string option"
  tt_calls :: "tool_call list"
  tt_finish :: string

text \<open>An answer of the gateway; a raw tool call's arguments may be null.\<close>

record choice =
  ch_content :: "string option"
  ch_tool_calls :: "(string \<times> string \<times> string option) list option"
  ch_finish :: "string option"

record response =
  r_usage :: "(int \<times> int) option"
  r_choices :: "choice list"

datatype request =
    ChatReq string "message list" int rat
  | ToolReq string "any_message list" int rat "pyval list" pyval
  | EmbedReq string "string list"

record llm =
  llm_prices :: price_table
  llm_model :: string
  llm_embed_model :: string
  llm_max_tokens :: int
  max_cost_usd :: usd
  job_cost_cap_usd :: usd
  llm_usage :: usage
  llm_allow_unpriced :: bool
  llm_brk :: breaker
  llm_sent :: "request list"
  llm_ticks :: nat

type_synonym 'r gateway = "request list \<Rightarrow> request \<Rightarrow> llm_exc + 'r"

definition check_breaker :: "(nat \<Rightarrow> secs) \<Rightarrow> llm \<Rightarrow> bool \<times> llm" where
  "check_breaker clk s =
     (if brk_threshold (llm_brk s) \<le> 0 \<or> brk_opened_at (llm_brk s) = None then (False, s)
      else (breaker_blocks (clk (llm_ticks s)) (llm_brk s), s\<lparr>llm_ticks := Suc (llm_ticks s)\<rparr>))"

text \<open>\<open>record_failure\<close> reads the clock only when it opens the breaker.\<close>

definition note_failure :: "(nat \<Rightarrow> secs) \<Rightarrow> llm \<Rightarrow> llm" where
  "note_failure clk s =
     (let b = record_failure (clk (llm_ticks s)) (llm_brk s) in
      if 0 < brk_threshold (llm_brk s) \<and> brk_threshold (llm_brk s) \<le> brk_failures (llm_brk s) + 1
      then s\<lparr>llm_brk := b, llm_ticks := Suc (llm_ticks s)\<rparr> else s\<lparr>llm_brk := b\<rparr>)"

definition settle :: "(nat \<Rightarrow> secs) \<Rightarrow> llm_exc + 'r \<Rightarrow> llm \<Rightarrow> llm" where
  "settle clk r s =
     (case r of
        Inl e \<Rightarrow> if is_breaker_failure e then note_failure clk s else s
      | Inr _ \<Rightarrow> s\<lparr>llm_brk := record_success (llm_brk s)\<rparr>)"

definition call_gateway :: "'r gateway \<Rightarrow> (nat \<Rightarrow> secs) \<Rightarrow> request \<Rightarrow> llm \<Rightarrow> (llm_exc + 'r) \<times> llm" where
  "call_gateway gw clk req s =
     (case check_breaker clk s of
        (True, s1) \<Rightarrow> (Inl CircuitOpenError, s1)
      | (False, s1) \<Rightarrow>
          if 0 < job_cost_cap_usd s1 \<and> job_cost_cap_usd s1 \<le> u_cost_usd (llm_usage s1)
          then (Inl JobCostCapExceeded, s1)
          else let r = gw (llm_sent s1) req; s2 = s1\<lparr>llm_sent := llm_sent s1 @ [req]\<rparr>
               in (r, settle clk r s2))"

definition call_usage :: "llm \<Rightarrow> string \<Rightarrow> (int \<times> int) option \<Rightarrow> usage" where
  "call_usage s mdl u =
     (let p = (case u of None \<Rightarrow> 0 | Some (a, _) \<Rightarrow> a); c = (case u of None \<Rightarrow> 0 | Some (_, b) \<Rightarrow> b)
      in \<lparr>u_prompt_tokens = p, u_completion_tokens = c,
          u_cost_usd = estimate_cost (llm_prices s) (llm_allow_unpriced s) mdl p c, u_by_model = []\<rparr>)"

definition str_or :: "string option \<Rightarrow> string \<Rightarrow> string" where
  "str_or v dflt = (case v of None \<Rightarrow> dflt | Some t \<Rightarrow> if t = [] then dflt else t)"

definition int_or :: "int option \<Rightarrow> int \<Rightarrow> int" where
  "int_or v dflt = (case v of None \<Rightarrow> dflt | Some k \<Rightarrow> if k = 0 then dflt else k)"

definition complete ::
  "response gateway \<Rightarrow> (nat \<Rightarrow> secs) \<Rightarrow> message list \<Rightarrow> string option \<Rightarrow> int option \<Rightarrow> rat \<Rightarrow> llm
    \<Rightarrow> (llm_exc + string \<times> usage) \<times> llm" where
  "complete gw clk messages model_arg max_toks temperature s =
     (let mdl = str_or model_arg (llm_model s);
          out_cap = int_or max_toks (llm_max_tokens s);
          projected = estimate_max_cost (llm_prices s) (llm_allow_unpriced s) mdl
                        (estimate_prompt_tokens messages) out_cap
      in if max_cost_usd s < projected then (Inl CostLimitExceeded, s)
         else case call_gateway gw clk (ChatReq mdl messages out_cap temperature) s of
             (Inl e, s1) \<Rightarrow> (Inl e, s1)
           | (Inr resp, s1) \<Rightarrow>
               let u = call_usage s1 mdl (r_usage resp) in
               if max_cost_usd s1 < u_cost_usd u then (Inl CostLimitExceeded, s1)
               else let u1 = u\<lparr>u_by_model := [(mdl, u_cost_usd u)]\<rparr>;
                        s2 = s1\<lparr>llm_usage := usage_add (llm_usage s1) u1\<rparr>
                    in case r_choices resp of
                        [] \<Rightarrow> (Inl NoChoice, s2)
                      | ch # _ \<Rightarrow> (Inr (str_or (ch_content ch) [], u1), s2))"

definition complete_with_tools ::
  "response gateway \<Rightarrow> (nat \<Rightarrow> secs) \<Rightarrow> any_message list \<Rightarrow> pyval list \<Rightarrow> pyval \<Rightarrow> string option
    \<Rightarrow> int option \<Rightarrow> rat \<Rightarrow> llm \<Rightarrow> (llm_exc + tool_turn \<times> usage) \<times> llm" where
  "complete_with_tools gw clk messages tools tool_choice model_arg max_toks temperature s =
     (let mdl = str_or model_arg (llm_model s);
          out_cap = int_or max_toks (llm_max_tokens s);
          projected = estimate_max_cost (llm_prices s) (llm_allow_unpriced s) mdl
                        (estimate_tokens_loose messages) out_cap
      in if max_cost_usd s < projected then (Inl CostLimitExceeded, s)
         else case call_gateway gw clk (ToolReq mdl messages out_cap temperature tools tool_choice) s of
             (Inl e, s1) \<Rightarrow> (Inl e, s1)
           | (Inr resp, s1) \<Rightarrow>
               let u = call_usage s1 mdl (r_usage resp) in
               if max_cost_usd s1 < u_cost_usd u then (Inl CostLimitExceeded, s1)
               else let u1 = u\<lparr>u_by_model := [(mdl, u_cost_usd u)]\<rparr>;
                        s2 = s1\<lparr>llm_usage := usage_add (llm_usage s1) u1\<rparr>
                    in case r_choices resp of
                        [] \<Rightarrow> (Inl NoChoice, s2)
                      | ch # _ \<Rightarrow>
                          (let calls = map (\<lambda>(i, n, a). \<lparr>tc_id = i, tc_name = n, tc_arguments = str_or a []\<rparr>)
                                         (case ch_tool_calls ch of None \<Rightarrow> [] | Some cs \<Rightarrow> cs)
                           in (Inr (\<lparr>tt_content = ch_content ch, tt_calls = calls,
                                     tt_finish = str_or (ch_finish ch) []\<rparr>, u1), s2)))"

section \<open>Schema-validated completion\<close>

definition json_substring :: "string \<Rightarrow> string" where
  "json_substring text = (case brace_span (strip_code_fence text) of None \<Rightarrow> [] | Some t \<Rightarrow> t)"

text \<open>
  A pydantic model: what its validation returns on a decoded value, \<open>None\<close> being its
  \<open>ValidationError\<close>, and its JSON schema.
\<close>

record 'm schema =
  model_validate :: "pyval \<Rightarrow> 'm option"
  model_json_schema :: pyval

definition corrective :: "'m schema \<Rightarrow> string" where
  "corrective sch =
     ''Your previous response was not valid against the required '' @
     ''schema. Return ONLY a JSON object matching this JSON Schema, '' @
     ''with no prose or code fences:'' @ nl @
     json_dumps '', '' '': '' (model_json_schema sch)"

definition decode_answer :: "'m schema \<Rightarrow> string \<Rightarrow> 'm option" where
  "decode_answer sch text =
     (case json_loads (json_substring text) of Inl _ \<Rightarrow> None | Inr v \<Rightarrow> model_validate sch v)"

definition retry_convo :: "'m schema \<Rightarrow> string \<Rightarrow> message list \<Rightarrow> message list" where
  "retry_convo sch text convo =
     convo @ [[(''role'', ''assistant''), (''content'', text)],
              [(''role'', ''user''), (''content'', corrective sch)]]"

text \<open>The loop \<open>for attempt in range(max_retries + 1)\<close>, with the attempts left as its first argument.\<close>

fun json_attempts ::
  "nat \<Rightarrow> response gateway \<Rightarrow> (nat \<Rightarrow> secs) \<Rightarrow> 'm schema \<Rightarrow> string \<Rightarrow> int option \<Rightarrow> rat \<Rightarrow> message list
    \<Rightarrow> usage \<Rightarrow> llm \<Rightarrow> (llm_exc + 'm \<times> usage) \<times> llm" where
  "json_attempts 0 gw clk sch mdl max_toks temp convo tot s = (Inl JSONValidationError, s)"
| "json_attempts (Suc n) gw clk sch mdl max_toks temp convo tot s =
     (case complete gw clk convo (Some mdl) max_toks temp s of
        (Inl e, s1) \<Rightarrow> (Inl e, s1)
      | (Inr (text, u), s1) \<Rightarrow>
          let total1 = usage_add tot u in
          case decode_answer sch text of
            Some obj \<Rightarrow> (Inr (obj, total1), s1)
          | None \<Rightarrow> json_attempts n gw clk sch mdl max_toks temp (retry_convo sch text convo) total1 s1)"

definition complete_json ::
  "response gateway \<Rightarrow> (nat \<Rightarrow> secs) \<Rightarrow> message list \<Rightarrow> 'm schema \<Rightarrow> string option \<Rightarrow> int option \<Rightarrow> rat
    \<Rightarrow> int \<Rightarrow> llm \<Rightarrow> (llm_exc + 'm \<times> usage) \<times> llm" where
  "complete_json gw clk messages sch model_arg max_toks temp max_retries s =
     json_attempts (nat (max_retries + 1)) gw clk sch (str_or model_arg (llm_model s)) max_toks temp messages usage0 s"

section \<open>Embeddings\<close>

definition embed_texts ::
  "rat list list gateway \<Rightarrow> (nat \<Rightarrow> secs) \<Rightarrow> string list \<Rightarrow> llm \<Rightarrow> (llm_exc + rat list list) \<times> llm" where
  "embed_texts gw clk texts s =
     (case check_breaker clk s of
        (True, s1) \<Rightarrow> (Inl CircuitOpenError, s1)
      | (False, s1) \<Rightarrow>
          let req = EmbedReq (llm_embed_model s1) texts; r = gw (llm_sent s1) req;
              s2 = s1\<lparr>llm_sent := llm_sent s1 @ [req]\<rparr>
          in (r, settle clk r s2))"

end
