(* ===== verification/Tables.thy ===== *)
theory Tables
  imports PyVal
begin

text \<open>
  Database tables as the sources' SQL uses them. A table with a unique key is the association list of
  its rows in insertion order; \<open>INSERT ... ON CONFLICT (key) DO UPDATE\<close> is an update that merges the
  new row into the old one. \<open>keyed_table\<close> is the contract such a statement offers its callers: what a
  lookup returns after it. Its client lemma says what a sequence of such statements leaves in a row.
\<close>

locale keyed_table =
  fixes get :: "'k \<Rightarrow> 't \<Rightarrow> 'row option"
    and put :: "'k \<Rightarrow> 'x \<Rightarrow> 't \<Rightarrow> 't"
    and merge :: "'x \<Rightarrow> 'row option \<Rightarrow> 'row"
  assumes get_put: "get k' (put k x t) = (if k' = k then Some (merge x (get k t)) else get k' t)"
begin

definition put_all :: "('k \<times> 'x) list \<Rightarrow> 't \<Rightarrow> 't" where
  "put_all xs t = fold (\<lambda>(k, x). put k x) xs t"

definition writes_to :: "'k \<Rightarrow> ('k \<times> 'x) list \<Rightarrow> 'x list" where
  "writes_to k xs = map snd (filter (\<lambda>p. fst p = k) xs)"

lemma put_all_Nil [simp]: "put_all [] t = t"
  by (simp add: put_all_def)

lemma put_all_snoc: "put_all (xs @ [(k, x)]) t = put k x (put_all xs t)"
  by (simp add: put_all_def)

lemma writes_to_snoc: "writes_to k (xs @ [(k', x)]) = writes_to k xs @ (if k' = k then [x] else [])"
  by (simp add: writes_to_def)

text \<open>A row holds its own writes, merged in order, and nothing of the others'.\<close>

lemma get_put_all: "get k (put_all xs t) = fold (\<lambda>x r. Some (merge x r)) (writes_to k xs) (get k t)"
proof (induction xs rule: rev_induct)
  case Nil
  then show ?case by (simp add: writes_to_def)
next
  case (snoc p xs)
  then show ?case by (cases p) (auto simp: put_all_snoc writes_to_snoc get_put)
qed

lemma get_put_all_other: "writes_to k xs = [] \<Longrightarrow> get k (put_all xs t) = get k t"
  by (simp add: get_put_all)

lemma get_put_all_last:
  assumes "\<And>x r. merge x r = new x" and "writes_to k xs \<noteq> []"
  shows "get k (put_all xs t) = Some (new (last (writes_to k xs)))"
proof -
  obtain ys y where w: "writes_to k xs = ys @ [y]" using assms(2) by (cases "writes_to k xs" rule: rev_cases) auto
  then show ?thesis by (simp add: get_put_all assms(1))
qed

text \<open>A property of rows that merging establishes from an absent row and keeps holds in every row.\<close>

lemma row_invariant:
  assumes "\<And>x. x \<in> set (writes_to k xs) \<Longrightarrow> I (merge x None)"
    and "\<And>x r. x \<in> set (writes_to k xs) \<Longrightarrow> I r \<Longrightarrow> I (merge x (Some r))"
    and "\<And>r. get k t = Some r \<Longrightarrow> I r" and "get k (put_all xs t) = Some r"
  shows "I r"
proof -
  have "\<forall>r0. (\<forall>r. r0 = Some r \<longrightarrow> I r) \<longrightarrow>
      (\<forall>r. fold (\<lambda>x r. Some (merge x r)) ws r0 = Some r \<longrightarrow> I r)"
    if "\<And>x. x \<in> set ws \<Longrightarrow> I (merge x None)" "\<And>x r. x \<in> set ws \<Longrightarrow> I r \<Longrightarrow> I (merge x (Some r))" for ws
    using that
  proof (induction ws)
    case (Cons w ws)
    show ?case
    proof (intro allI impI)
      fix r0 r assume a: "\<forall>r. r0 = Some r \<longrightarrow> I r" "fold (\<lambda>x r. Some (merge x r)) (w # ws) r0 = Some r"
      have "I (merge w r0)" using a(1) Cons.prems by (cases r0) auto
      moreover have "fold (\<lambda>x r. Some (merge x r)) ws (Some (merge w r0)) = Some r" using a(2) by simp
      ultimately show "I r" using Cons.IH Cons.prems by (metis list.set_intros(2) option.inject)
    qed
  qed simp
  from this [of "writes_to k xs", OF assms(1,2)] assms(3) assms(4) [unfolded get_put_all]
  show ?thesis by blast
qed

end

text \<open>The upsert of an association list, and the rows it never touches.\<close>

definition upsert_row :: "('x \<Rightarrow> 'row option \<Rightarrow> 'row) \<Rightarrow> 'k \<Rightarrow> 'x \<Rightarrow> ('k \<times> 'row) list \<Rightarrow> ('k \<times> 'row) list" where
  "upsert_row merge k x t = AList.update k (merge x (map_of t k)) t"

lemma map_of_upsert_row:
  "map_of (upsert_row merge k x t) k' = (if k' = k then Some (merge x (map_of t k)) else map_of t k')"
  by (simp add: upsert_row_def)

lemma distinct_upsert_row: "distinct (map fst t) \<Longrightarrow> distinct (map fst (upsert_row merge k x t))"
  by (simp add: upsert_row_def distinct_update)

lemma keyed_upsert_row: "keyed_table (\<lambda>k t. map_of t k) (upsert_row merge) merge"
  by unfold_locales (simp add: map_of_upsert_row)

section \<open>What every step keeps, every history keeps\<close>

locale kept_invariant =
  fixes step :: "'ev \<Rightarrow> 's \<Rightarrow> 's"
    and inv :: "'s \<Rightarrow> bool"
  assumes step_keeps: "inv s \<Longrightarrow> inv (step ev s)"
begin

lemma history_keeps: "inv s \<Longrightarrow> inv (fold step evs s)"
  by (induction evs arbitrary: s) (simp_all add: step_keeps)

end

end
