(* ===== verification/MonStore.thy ===== *)
theory MonStore
  imports Tables
begin

text \<open>
  The monitoring agent's tables (\<open>monitoring_agent/store.py\<close>): \<open>incidents\<close>, one row per problem, and
  \<open>agent_probe_state\<close>, the memory between sweeps. Each SQL statement is one operation; \<open>now\<close> is the
  database's \<open>now()\<close> in it. SHA-256 is the parameter \<open>sha\<close> (its hex digest).
\<close>

section \<open>Incidents\<close>

definition make_dedup_key :: "(string \<Rightarrow> string) \<Rightarrow> string \<Rightarrow> string \<Rightarrow> string" where
  "make_dedup_key sha source fingerprint = take 32 (sha (source @ [CHR 0x00] @ fingerprint))"

record incident_row =
  in_id :: int
  in_source :: string
  in_severity :: string
  in_title :: string
  in_body :: string
  in_count :: int
  in_first_seen :: secs
  in_last_seen :: secs
  in_status :: string

text \<open>The values of one \<open>INSERT\<close>; the identity column has drawn its number even when the row exists.\<close>

record occurrence =
  oc_id :: int
  oc_source :: string
  oc_severity :: string
  oc_title :: string
  oc_body :: string
  oc_now :: secs

definition incident_merge :: "occurrence \<Rightarrow> incident_row option \<Rightarrow> incident_row" where
  "incident_merge x r =
     (case r of
        None \<Rightarrow> \<lparr>in_id = oc_id x, in_source = oc_source x, in_severity = oc_severity x, in_title = oc_title x,
                 in_body = oc_body x, in_count = 1, in_first_seen = oc_now x, in_last_seen = oc_now x,
                 in_status = ''open''\<rparr>
      | Some i \<Rightarrow> i\<lparr>in_count := in_count i + 1, in_last_seen := oc_now x, in_severity := oc_severity x,
                    in_title := oc_title x, in_body := oc_body x,
                    in_status := (if in_status i = ''resolved'' then ''open'' else in_status i)\<rparr>)"

record incident_store =
  is_rows :: "(string \<times> incident_row) list"
  is_next_id :: int

text \<open>What \<open>upsert\<close> returns: the row, and what it found before.\<close>

record incident =
  ic_key :: string
  ic_row :: incident_row
  ic_is_new :: bool
  ic_seconds_since_prev :: "secs option"

text \<open>The two statements of \<open>upsert\<close>: the read of the previous time, and the write.\<close>

definition upsert_read :: "string \<Rightarrow> incident_store \<Rightarrow> secs option" where
  "upsert_read key st = map_option in_last_seen (map_of (is_rows st) key)"

definition upsert_write ::
  "string \<Rightarrow> string \<Rightarrow> string \<Rightarrow> string \<Rightarrow> string \<Rightarrow> secs \<Rightarrow> secs option \<Rightarrow> incident_store \<Rightarrow> incident \<times> incident_store" where
  "upsert_write key source severity title body now prev st =
     (let x = \<lparr>oc_id = is_next_id st, oc_source = source, oc_severity = severity, oc_title = title,
               oc_body = body, oc_now = now\<rparr>;
          row = incident_merge x (map_of (is_rows st) key)
      in (\<lparr>ic_key = key, ic_row = row, ic_is_new = (prev = None),
           ic_seconds_since_prev = map_option (\<lambda>p. in_last_seen row - p) prev\<rparr>,
          \<lparr>is_rows = upsert_row incident_merge key x (is_rows st), is_next_id = is_next_id st + 1\<rparr>))"

definition incident_upsert ::
  "string \<Rightarrow> string \<Rightarrow> string \<Rightarrow> string \<Rightarrow> string \<Rightarrow> secs \<Rightarrow> incident_store \<Rightarrow> incident \<times> incident_store" where
  "incident_upsert key source severity title body now st =
     upsert_write key source severity title body now (upsert_read key st) st"

definition update_where :: "string \<Rightarrow> (incident_row \<Rightarrow> bool) \<Rightarrow> (incident_row \<Rightarrow> incident_row) \<Rightarrow> incident_store \<Rightarrow> incident_store" where
  "update_where key p f st =
     st\<lparr>is_rows := map (\<lambda>(k, r). if k = key \<and> p r then (k, f r) else (k, r)) (is_rows st)\<rparr>"

definition mark_alert_failed :: "string \<Rightarrow> incident_store \<Rightarrow> incident_store" where
  "mark_alert_failed key = update_where key (\<lambda>r. True) (\<lambda>r. r\<lparr>in_status := ''alert_failed''\<rparr>)"

definition clear_alert_failed :: "string \<Rightarrow> incident_store \<Rightarrow> incident_store" where
  "clear_alert_failed key = update_where key (\<lambda>r. in_status r = ''alert_failed'') (\<lambda>r. r\<lparr>in_status := ''open''\<rparr>)"

definition incidents_recent :: "nat \<Rightarrow> incident_store \<Rightarrow> (string \<times> incident_row) list" where
  "incidents_recent limit st = take limit (sort_key (\<lambda>p. - in_last_seen (snd p)) (is_rows st))"

definition days :: "int \<Rightarrow> secs" where
  "days n = of_int n * 86400"

definition incidents_prune :: "int \<Rightarrow> secs \<Rightarrow> incident_store \<Rightarrow> nat \<times> incident_store" where
  "incidents_prune retention_days now st =
     (if retention_days \<le> 0 then (0, st)
      else
        let dead = (\<lambda>r. in_status r = ''resolved'' \<and> in_last_seen r < now - days retention_days)
        in (length (filter (\<lambda>p. dead (snd p)) (is_rows st)),
            st\<lparr>is_rows := filter (\<lambda>p. \<not> dead (snd p)) (is_rows st)\<rparr>))"

definition open_count_by_source :: "string \<Rightarrow> incident_store \<Rightarrow> nat" where
  "open_count_by_source source st =
     length (filter (\<lambda>p. in_status (snd p) = ''open'' \<and> in_source (snd p) = source) (is_rows st))"

section \<open>Probe state\<close>

record probe_state =
  pb_fail_streak :: int
  pb_last_restart :: "int option"
  pb_last_depth :: "int option"
  pb_updated_at :: secs

type_synonym probe_table = "(string \<times> probe_state) list"

definition probe_get :: "string \<Rightarrow> probe_table \<Rightarrow> int \<times> int option \<times> int option" where
  "probe_get target t =
     (case map_of t target of None \<Rightarrow> (0, None, None)
      | Some p \<Rightarrow> (pb_fail_streak p, pb_last_restart p, pb_last_depth p))"

definition probe_prune :: "int \<Rightarrow> secs \<Rightarrow> probe_table \<Rightarrow> nat \<times> probe_table" where
  "probe_prune retention_days now t =
     (if retention_days \<le> 0 then (0, t)
      else let dead = (\<lambda>p. pb_updated_at (snd p) < now - days retention_days)
           in (length (filter dead t), filter (\<lambda>p. \<not> dead p) t))"

text \<open>One write to a row: the outcome of an endpoint probe, a restart count, or a queue depth.\<close>

datatype probe_write = Endpoint bool secs | Restart int secs | Depth int secs

definition fresh_probe :: "secs \<Rightarrow> probe_state" where
  "fresh_probe now = \<lparr>pb_fail_streak = 0, pb_last_restart = None, pb_last_depth = None, pb_updated_at = now\<rparr>"

definition probe_merge :: "probe_write \<Rightarrow> probe_state option \<Rightarrow> probe_state" where
  "probe_merge w r =
     (case w of
        Endpoint ok now \<Rightarrow>
          (case r of None \<Rightarrow> (fresh_probe now)\<lparr>pb_fail_streak := (if ok then 0 else 1)\<rparr>
           | Some p \<Rightarrow> p\<lparr>pb_fail_streak := (if ok then 0 else pb_fail_streak p + 1), pb_updated_at := now\<rparr>)
      | Restart k now \<Rightarrow>
          (case r of None \<Rightarrow> (fresh_probe now)\<lparr>pb_last_restart := Some k\<rparr>
           | Some p \<Rightarrow> p\<lparr>pb_last_restart := Some k, pb_updated_at := now\<rparr>)
      | Depth k now \<Rightarrow>
          (case r of None \<Rightarrow> (fresh_probe now)\<lparr>pb_last_depth := Some k\<rparr>
           | Some p \<Rightarrow> p\<lparr>pb_last_depth := Some k, pb_updated_at := now\<rparr>))"

definition record_endpoint :: "string \<Rightarrow> bool \<Rightarrow> secs \<Rightarrow> probe_table \<Rightarrow> int \<times> probe_table" where
  "record_endpoint target ok now t =
     (let t1 = upsert_row probe_merge target (Endpoint ok now) t
      in (case map_of t1 target of None \<Rightarrow> 0 | Some p \<Rightarrow> pb_fail_streak p, t1))"

definition record_restart :: "string \<Rightarrow> int \<Rightarrow> secs \<Rightarrow> probe_table \<Rightarrow> int option \<times> probe_table" where
  "record_restart target k now t =
     (case map_of t target of None \<Rightarrow> None | Some p \<Rightarrow> pb_last_restart p,
      upsert_row probe_merge target (Restart k now) t)"

definition record_depth :: "string \<Rightarrow> int \<Rightarrow> secs \<Rightarrow> probe_table \<Rightarrow> int option \<times> probe_table" where
  "record_depth target k now t =
     (case map_of t target of None \<Rightarrow> None | Some p \<Rightarrow> pb_last_depth p,
      upsert_row probe_merge target (Depth k now) t)"

section \<open>Both are keyed tables\<close>

interpretation inc: keyed_table "\<lambda>k t. map_of t k" "upsert_row incident_merge" incident_merge
  by (rule keyed_upsert_row)

interpretation prb: keyed_table "\<lambda>k t. map_of t k" "upsert_row probe_merge" probe_merge
  by (rule keyed_upsert_row)

lemma is_rows_upsert:
  "is_rows (snd (incident_upsert key src sev ti bo now st)) =
     upsert_row incident_merge key \<lparr>oc_id = is_next_id st, oc_source = src, oc_severity = sev, oc_title = ti,
       oc_body = bo, oc_now = now\<rparr> (is_rows st)"
  by (simp add: incident_upsert_def upsert_write_def Let_def)

lemma upsert_row_of:
  "ic_row (fst (incident_upsert key src sev ti bo now st)) =
     incident_merge \<lparr>oc_id = is_next_id st, oc_source = src, oc_severity = sev, oc_title = ti,
       oc_body = bo, oc_now = now\<rparr> (map_of (is_rows st) key)"
  by (simp add: incident_upsert_def upsert_write_def Let_def)

lemma map_of_update_where:
  "map_of (is_rows (update_where key p f st)) k =
     (if k = key then map_option (\<lambda>r. if p r then f r else r) (map_of (is_rows st) k) else map_of (is_rows st) k)"
proof -
  have "map_of (map (\<lambda>(k, r). if k = key \<and> p r then (k, f r) else (k, r)) d) k =
     (if k = key then map_option (\<lambda>r. if p r then f r else r) (map_of d k) else map_of d k)" for d
  proof (induction d)
    case (Cons a d)
    obtain k0 r0 where a: "a = (k0, r0)" by (cases a)
    show ?case
    proof (cases "k0 = k")
      case True
      then show ?thesis by (simp add: a)
    next
      case False
      with Cons.IH show ?thesis by (cases "k0 = key"; cases "k = key") (simp_all add: a)
    qed
  qed simp
  then show ?thesis by (simp add: update_where_def)
qed

section \<open>A flag that outlives everything but its own clearing\<close>

text \<open>
  What the triage graph needs of the store to retry a lost page: the flag is set on an existing row,
  survives every touch of the row and every operation on other rows, and goes when cleared.
\<close>

locale retry_flag =
  fixes present flagged :: "'k \<Rightarrow> 's \<Rightarrow> bool"
    and touch :: "'k \<Rightarrow> 'x \<Rightarrow> 's \<Rightarrow> 's"
    and set_flag clear_flag :: "'k \<Rightarrow> 's \<Rightarrow> 's"
  assumes set_flagged: "present k s \<Longrightarrow> flagged k (set_flag k s)"
    and clear_unflags: "\<not> flagged k (clear_flag k s)"
    and touch_keeps: "flagged k s \<Longrightarrow> flagged k (touch k' x s)"
    and touch_present: "present k (touch k x s)"
    and other_set: "k' \<noteq> k \<Longrightarrow> flagged k (set_flag k' s) = flagged k s"
    and other_clear: "k' \<noteq> k \<Longrightarrow> flagged k (clear_flag k' s) = flagged k s"
    and set_keeps: "flagged k s \<Longrightarrow> flagged k (set_flag k s)"
begin

definition flag_op :: "'k \<times> ('x + bool) \<Rightarrow> 's \<Rightarrow> 's" where
  "flag_op op s = (case snd op of Inl x \<Rightarrow> touch (fst op) x s
     | Inr b \<Rightarrow> if b then set_flag (fst op) s else clear_flag (fst op) s)"

lemma flag_survives:
  assumes "flagged k s" and "\<forall>op \<in> set ops. op \<noteq> (k, Inr False)"
  shows "flagged k (fold flag_op ops s)"
  using assms
proof (induction ops arbitrary: s)
  case (Cons op ops)
  have "flagged k (flag_op op s)"
  proof (cases "fst op = k")
    case True
    then show ?thesis using Cons.prems touch_keeps set_keeps
      by (cases op) (auto simp: flag_op_def split: sum.split)
  next
    case False
    then show ?thesis using Cons.prems touch_keeps other_set other_clear
      by (auto simp: flag_op_def split: sum.split)
  qed
  with Cons show ?case by simp
qed simp

end

definition incident_present :: "string \<Rightarrow> incident_store \<Rightarrow> bool" where
  "incident_present k st \<longleftrightarrow> map_of (is_rows st) k \<noteq> None"

definition incident_failed :: "string \<Rightarrow> incident_store \<Rightarrow> bool" where
  "incident_failed k st \<longleftrightarrow> (\<exists>r. map_of (is_rows st) k = Some r \<and> in_status r = ''alert_failed'')"

definition incident_touch :: "string \<Rightarrow> occurrence \<Rightarrow> incident_store \<Rightarrow> incident_store" where
  "incident_touch k x st = snd (incident_upsert k (oc_source x) (oc_severity x) (oc_title x) (oc_body x) (oc_now x) st)"

interpretation page: retry_flag incident_present incident_failed incident_touch mark_alert_failed clear_alert_failed
  by unfold_locales
    (auto simp: incident_present_def incident_failed_def incident_touch_def is_rows_upsert map_of_upsert_row
      incident_merge_def mark_alert_failed_def clear_alert_failed_def map_of_update_where split: option.splits if_splits)

end
