(* ===== verification/PyTime.thy ===== *)
theory PyTime
  imports PyVal
begin

text \<open>
  Points in time as seconds since 1970-01-01T00:00Z, and their \<open>datetime.isoformat()\<close> in UTC; the
  decimal text of a float held exactly as a rational.
\<close>

definition float_of_rat :: "rat \<Rightarrow> pyfloat" where
  "float_of_rat x =
     (case List.find (\<lambda>n. frac (x * 10 ^ n) = 0) [0..<18] of
        Some n \<Rightarrow> dec_norm \<lfloor>x * 10 ^ n\<rfloor> (- int n)
      | None \<Rightarrow> dec_norm (round_half_even (x * 10 ^ 17)) (- 17))"

definition show_float :: "rat \<Rightarrow> string" where
  "show_float x = repr_float (float_of_rat x)"

text \<open>Year, month and day of a day number (day 0 is 1970-01-01, Gregorian calendar).\<close>

definition civil :: "int \<Rightarrow> int \<times> int \<times> int" where
  "civil z0 =
     (let z = z0 + 719468; era = z div 146097; doe = z mod 146097;
          yoe = (doe - doe div 1460 + doe div 36524 - doe div 146096) div 365;
          doy = doe - (365 * yoe + yoe div 4 - yoe div 100);
          mp = (5 * doy + 2) div 153;
          d = doy - (153 * mp + 2) div 5 + 1;
          m = (if mp < 10 then mp + 3 else mp - 9)
      in (yoe + era * 400 + (if m \<le> 2 then 1 else 0), m, d))"

definition pad :: "nat \<Rightarrow> int \<Rightarrow> string" where
  "pad n k = (let s = show_int k in replicate (n - length s) CHR ''0'' @ s)"

definition day_of :: "secs \<Rightarrow> int" where
  "day_of t = \<lfloor>t / 86400\<rfloor>"

definition show_date :: "int \<Rightarrow> string" where
  "show_date d = (case civil d of (y, m, dd) \<Rightarrow> pad 4 y @ ''-'' @ pad 2 m @ ''-'' @ pad 2 dd)"

definition isoformat :: "secs \<Rightarrow> string" where
  "isoformat t =
     (let d = day_of t; us = \<lfloor>(t - of_int d * 86400) * 1000000\<rfloor>; s = us div 1000000; f = us mod 1000000
      in show_date d @ ''T'' @ pad 2 (s div 3600) @ '':'' @ pad 2 (s div 60 mod 60) @ '':'' @ pad 2 (s mod 60)
         @ (if f = 0 then [] else ''.'' @ pad 6 f) @ ''+00:00'')"

end
