(* ===== verification/UrlParse.thy ===== *)
theory UrlParse
  imports PyVal
begin

text \<open>
  The parts of Python's \<open>urllib.parse.urlparse\<close> and \<open>ipaddress.ip_address\<close> that the sources rely on:
  scheme, network location, host name and port of a URL, and the validity of an address literal.
\<close>

section \<open>Addresses\<close>

definition ipv4_octet :: "string \<Rightarrow> bool" where
  "ipv4_octet s \<longleftrightarrow> s \<noteq> [] \<and> list_all is_digit s \<and> length s \<le> 3
     \<and> (s = ''0'' \<or> hd s \<noteq> CHR ''0'') \<and> nat_of_digits s \<le> 255"

definition is_ipv4 :: "string \<Rightarrow> bool" where
  "is_ipv4 s \<longleftrightarrow> (let ps = split_on (CHR ''.'') s in length ps = 4 \<and> list_all ipv4_octet ps)"

definition is_hexdigit :: "char \<Rightarrow> bool" where
  "is_hexdigit c \<longleftrightarrow> is_digit c \<or> (65 \<le> code c \<and> code c \<le> 70) \<or> (97 \<le> code c \<and> code c \<le> 102)"

definition hextet :: "string \<Rightarrow> bool" where
  "hextet s \<longleftrightarrow> s \<noteq> [] \<and> list_all is_hexdigit s \<and> length s \<le> 4"

text \<open>The groups of an IPv6 literal, a trailing IPv4 part standing for two.\<close>

definition ipv6_groups :: "string \<Rightarrow> string list option" where
  "ipv6_groups s =
     (let ps = split_on (CHR '':'') s in
      if length ps < 3 then None
      else if CHR ''.'' \<in> set (last ps) then
        (if is_ipv4 (last ps) then Some (butlast ps @ [''0'', ''0'']) else None)
      else Some ps)"

definition ipv6_body :: "string list \<Rightarrow> bool" where
  "ipv6_body ps \<longleftrightarrow>
     (let n = length ps; inner = filter (\<lambda>i. ps ! i = []) [1..<n - 1] in
      n \<le> 9 \<and> length inner \<le> 1 \<and>
      (case inner of
         [] \<Rightarrow> n = 8 \<and> list_all hextet ps
       | k # _ \<Rightarrow>
           (let hi = (if hd ps = [] then k - 1 else k);
                lo = (if last ps = [] then n - k - 2 else n - k - 1)
            in (hd ps = [] \<longrightarrow> hi = 0) \<and> (last ps = [] \<longrightarrow> lo = 0) \<and> hi + lo \<le> 7
               \<and> list_all hextet (take hi ps) \<and> list_all hextet (drop (n - lo) ps))))"

definition is_ipv6 :: "string \<Rightarrow> bool" where
  "is_ipv6 s \<longleftrightarrow>
     (case partition_at (CHR ''%'') s of
        (a, f, scope) \<Rightarrow>
          (f \<longrightarrow> scope \<noteq> [] \<and> CHR ''%'' \<notin> set scope) \<and> CHR ''/'' \<notin> set s \<and>
          (case ipv6_groups a of None \<Rightarrow> False | Some ps \<Rightarrow> ipv6_body ps))"

definition is_ip :: "string \<Rightarrow> bool" where
  "is_ip s \<longleftrightarrow> is_ipv4 s \<or> is_ipv6 s"

section \<open>URLs\<close>

record url =
  url_scheme :: string
  url_netloc :: string

definition is_scheme_char :: "char \<Rightarrow> bool" where
  "is_scheme_char c \<longleftrightarrow> is_asciialpha c \<or> is_digit c \<or> c \<in> set ''+-.''"

definition split_scheme :: "string \<Rightarrow> string \<times> string" where
  "split_scheme u =
     (case partition_at (CHR '':'') u of
        (h, f, t) \<Rightarrow>
          if f \<and> h \<noteq> [] \<and> is_asciialpha (hd h) \<and> list_all is_scheme_char h then (lower h, t) else ([], u))"

definition bracket_host_ok :: "string \<Rightarrow> bool" where
  "bracket_host_ok netloc \<longleftrightarrow>
     (if CHR ''['' \<in> set netloc \<or> CHR '']'' \<in> set netloc then
        CHR ''['' \<in> set netloc \<and> CHR '']'' \<in> set netloc \<and>
        is_ipv6 (fst (partition_at (CHR '']'') (snd (snd (partition_at (CHR ''['') netloc)))))
      else True)"

text \<open>
  \<open>urlparse(u)\<close>; \<open>ValueError\<close> for unbalanced or invalid brackets. The rare \<open>[v1.x]\<close> literals are
  refused here.
\<close>

definition urlparse :: "string \<Rightarrow> (pyexc, url) result" where
  "urlparse u0 =
     (let u = filter (\<lambda>c. code c \<notin> {9, 10, 13}) (dropWhile (\<lambda>c. code c \<le> 32) u0) in
      case split_scheme u of
        (sch, rest) \<Rightarrow>
          let netloc = (if prefix ''//'' rest
                        then takeWhile (\<lambda>c. c \<notin> set ''/?#'') (drop 2 rest) else [])
          in if bracket_host_ok netloc then Inr \<lparr>url_scheme = sch, url_netloc = netloc\<rparr>
             else Inl ValueError)"

text \<open>The host and port texts of a network location, the port absent when there is no colon.\<close>

definition host_info :: "url \<Rightarrow> string \<times> string option" where
  "host_info u =
     (let hi = snd (snd (rpartition_at (CHR ''@'') (url_netloc u))) in
      case partition_at (CHR ''['') hi of
        (_, True, br) \<Rightarrow>
          (case partition_at (CHR '']'') br of
             (h, _, r) \<Rightarrow>
               (case partition_at (CHR '':'') r of (_, f, p) \<Rightarrow> (h, if f then Some p else None)))
      | (_, False, _) \<Rightarrow>
          (case partition_at (CHR '':'') hi of (h, f, p) \<Rightarrow> (h, if f then Some p else None)))"

definition url_hostname :: "url \<Rightarrow> string option" where
  "url_hostname u =
     (let h = fst (host_info u) in
      if h = [] then None
      else case partition_at (CHR ''%'') h of
        (a, f, z) \<Rightarrow> Some (lower a @ (if f then ''%'' else []) @ z))"

text \<open>\<open>parsed.port\<close>: a text that is not digits, or a number above 65535, raises.\<close>

definition url_port :: "url \<Rightarrow> (pyexc, int option) result" where
  "url_port u =
     (case snd (host_info u) of
        None \<Rightarrow> Inr None
      | Some p \<Rightarrow>
          if p \<noteq> [] \<and> list_all is_digit p then
            (if nat_of_digits p \<le> 65535 then Inr (Some (int (nat_of_digits p))) else Inl ValueError)
          else if p = [] then Inr None
          else Inl ValueError)"

end
