(* ===== verification/Signals.thy ===== *)
theory Signals
  imports PyTime UrlParse
begin

text \<open>
  Signal intake of the monitoring agent (\<open>monitoring_agent/collectors.py\<close>), the pure part: the
  normalised \<open>Signal\<close>, the webhook parsers, and the rules that turn an observation into signals.
  Values from decoded JSON are \<open>pyval\<close>, and every method call on one that lacks the method is an
  error of the model as it is in the code.
\<close>

section \<open>Signals\<close>

record signal =
  sg_source :: string
  sg_fingerprint :: string
  sg_title :: string
  sg_body :: string
  sg_severity :: string
  sg_url :: pyval
  sg_meta :: "pyval dict"

definition opt_int :: "int option \<Rightarrow> pyval" where
  "opt_int v = (case v of None \<Rightarrow> PyNone | Some k \<Rightarrow> PyInt k)"

definition opt_str :: "string option \<Rightarrow> pyval" where
  "opt_str v = (case v of None \<Rightarrow> PyNone | Some s \<Rightarrow> PyStr s)"

text \<open>\<open>a or b or c\<close> over expressions that may raise: evaluated left to right, up to the first true one.\<close>

fun or_chain :: "(pyexc, pyval) result list \<Rightarrow> (pyexc, pyval) result" where
  "or_chain [] = Inr PyNone"
| "or_chain [r] = r"
| "or_chain (r # rs) = rbind r (\<lambda>v. if truthy v then Inr v else or_chain rs)"

definition pget :: "pyval \<Rightarrow> string \<Rightarrow> (pyexc, pyval) result" where
  "pget v k = py_get v k PyNone"

definition to_int :: "pyval \<Rightarrow> (pyexc, int) result" where
  "to_int v = (case py_int v of Inl TypeError \<Rightarrow> Inr 0 | Inl ValueError \<Rightarrow> Inr 0 | r \<Rightarrow> r)"

definition py_lower :: "pyval \<Rightarrow> (pyexc, string) result" where
  "py_lower v = (case v of PyStr s \<Rightarrow> Inr (lower s) | _ \<Rightarrow> Inl AttributeError)"

definition get_default :: "string dict \<Rightarrow> string \<Rightarrow> string \<Rightarrow> string" where
  "get_default d k dflt = (case map_of d k of None \<Rightarrow> dflt | Some v \<Rightarrow> v)"

section \<open>Sentry webhook\<close>

definition sentry_level_map :: "string dict" where
  "sentry_level_map = [(''fatal'', ''critical''), (''error'', ''warning''), (''warning'', ''warning''),
     (''info'', ''info''), (''debug'', ''info'')]"

definition parse_sentry :: "pyval \<Rightarrow> (pyexc, signal) result" where
  "parse_sentry payload =
     rbind (py_get payload ''data'' payload) (\<lambda>data.
     rbind (if is_dict data then py_get data ''event'' data else Inr (PyDict [])) (\<lambda>event.
     rbind (if is_dict data then py_get data ''issue'' (PyDict []) else Inr (PyDict [])) (\<lambda>issue.
     rbind (or_chain [pget event ''title'', pget issue ''title'', pget event ''message'',
                      pget payload ''message'', Inr (PyStr ''Sentry event'')]) (\<lambda>title.
     rbind (or_chain [pget event ''culprit'', pget issue ''culprit'', Inr (PyStr [])]) (\<lambda>culprit.
     rbind (rbind (or_chain [pget event ''level'', pget issue ''level'', Inr (PyStr ''error'')]) py_lower) (\<lambda>level.
     rbind (or_chain [pget event ''project'', pget payload ''project'',
                      (if is_dict data then pget data ''project_slug'' else Inr PyNone),
                      Inr (PyStr ''unknown'')]) (\<lambda>project.
     rbind (or_chain [pget event ''web_url'', pget event ''issue_url'', pget issue ''permalink'',
                      pget payload ''url'']) (\<lambda>permalink.
     rbind (rbind (or_chain [pget event ''count'', pget issue ''count'', pget payload ''count'']) to_int) (\<lambda>count.
     rbind (pget event ''fingerprint'') (\<lambda>fp_parts.
       let fingerprint = (case fp_parts of
             PyList (p # ps) \<Rightarrow> join '':'' (map py_str (p # ps))
           | _ \<Rightarrow> py_str project @ '':'' @ py_str (py_or culprit title));
           lines = [if truthy culprit then ''culprit: '' @ py_str culprit else [],
                    ''project: '' @ py_str project, ''level: '' @ level]
                   @ (if count \<noteq> 0 then [''count: '' @ show_int count] else [])
       in Inr \<lparr>sg_source = ''sentry'', sg_fingerprint = fingerprint, sg_title = py_str title,
               sg_body = join nl (filter (\<lambda>l. l \<noteq> []) lines),
               sg_severity = get_default sentry_level_map level ''warning'',
               sg_url = (if truthy permalink then PyStr (py_str permalink) else PyNone),
               sg_meta = [(''project'', PyStr (py_str project)), (''culprit'', culprit),
                          (''level'', PyStr level), (''count'', PyInt count)]\<rparr>))))))))))"

section \<open>Alertmanager webhook\<close>

definition alert_severity_map :: "string dict" where
  "alert_severity_map = [(''critical'', ''critical''), (''page'', ''critical''), (''error'', ''warning''),
     (''warning'', ''warning''), (''info'', ''info''), (''none'', ''info'')]"

text \<open>\<open>(body + text).strip()\<close>: only a string has \<open>+\<close> with a string.\<close>

definition add_strip :: "pyval \<Rightarrow> string \<Rightarrow> (pyexc, pyval) result" where
  "add_strip v t = (case v of PyStr s \<Rightarrow> Inr (PyStr (strip (s @ t))) | _ \<Rightarrow> Inl TypeError)"

definition dict_or_empty :: "pyval dict \<Rightarrow> string \<Rightarrow> pyval dict" where
  "dict_or_empty a k = (case map_of a k of Some (PyDict d) \<Rightarrow> d | _ \<Rightarrow> [])"

definition parse_one_alert :: "pyval dict \<Rightarrow> (pyexc, signal) result" where
  "parse_one_alert a =
     (let labels = PyDict (dict_or_empty a ''labels''); annotations = PyDict (dict_or_empty a ''annotations'')
      in rbind (or_chain [pget labels ''alertname'', pget (PyDict a) ''name'', Inr (PyStr ''alert'')]) (\<lambda>name.
         rbind (or_chain [pget labels ''instance'', pget labels ''service'', Inr (PyStr [])]) (\<lambda>instance.
         rbind (or_chain [pget labels ''severity'', pget (PyDict a) ''severity'', Inr (PyStr ''warning'')]) (\<lambda>sev.
         rbind (py_get (PyDict a) ''status'' (PyStr ''firing'')) (\<lambda>status.
         rbind (or_chain [pget annotations ''summary'', Inr name]) (\<lambda>title.
         rbind (or_chain [pget annotations ''description'', pget annotations ''message'', Inr (PyStr [])]) (\<lambda>body0.
         rbind (if truthy instance then add_strip body0 (nl @ ''instance: '' @ py_str instance) else Inr body0) (\<lambda>body1.
         rbind (add_strip body1 (nl @ ''status: '' @ py_str status)) (\<lambda>body.
         rbind (or_chain [pget (PyDict a) ''fingerprint'', Inr (PyStr (py_str name @ '':'' @ py_str instance))]) (\<lambda>fp.
         rbind (or_chain [pget (PyDict a) ''generatorURL'', pget annotations ''runbook_url'']) (\<lambda>url.
           Inr \<lparr>sg_source = ''alert'', sg_fingerprint = py_str fp, sg_title = py_str title,
                sg_body = py_str body,
                sg_severity = get_default alert_severity_map (lower (py_str sev)) ''warning'', sg_url = url,
                sg_meta = [(''alertname'', name), (''instance'', instance), (''status'', status),
                           (''labels'', labels)]\<rparr>)))))))))))"

definition parse_alert :: "pyval \<Rightarrow> (pyexc, signal list) result" where
  "parse_alert payload =
     rbind (pget payload ''alerts'') (\<lambda>al.
       let raw = (case al of PyList vs \<Rightarrow> vs | _ \<Rightarrow> [payload]) in
       rmap parse_one_alert (concat (map (\<lambda>v. case v of PyDict d \<Rightarrow> [d] | _ \<Rightarrow> []) raw)))"

section \<open>HTTP probes\<close>

record probe_result =
  pr_target :: string
  pr_ok :: bool
  pr_status_code :: "int option"
  pr_latency :: "rat option"
  pr_tls_days :: "int option"
  pr_error :: "string option"

definition is_probeable_url :: "string \<Rightarrow> bool" where
  "is_probeable_url u =
     (case urlparse u of
        Inl _ \<Rightarrow> False
      | Inr p \<Rightarrow> url_scheme p \<in> set [''http'', ''https''] \<and> url_hostname p \<noteq> None)"

definition target_host :: "string \<Rightarrow> (pyexc, string) result" where
  "target_host t = rbind (urlparse t) (\<lambda>p. Inr (case url_hostname p of None \<Rightarrow> t | Some h \<Rightarrow> h))"

definition opt_int_text :: "int option \<Rightarrow> string" where
  "opt_int_text v = py_str (opt_int v)"

definition cert_signal :: "string \<Rightarrow> string \<Rightarrow> int \<Rightarrow> int option \<Rightarrow> signal option" where
  "cert_signal host t cert_warn_days tls_days =
     (case tls_days of
        None \<Rightarrow> None
      | Some d \<Rightarrow>
          if d \<le> cert_warn_days then
            Some \<lparr>sg_source = ''healthcheck'', sg_fingerprint = ''cert:'' @ t,
              sg_title = host @ '' TLS cert expiring in '' @ show_int d @ ''d'',
              sg_body = ''target: '' @ t @ nl @ ''tls_expiry_days: '' @ show_int d,
              sg_severity = (if d \<le> 3 then ''critical'' else ''warning''), sg_url = PyStr t,
              sg_meta = [(''kind'', PyStr ''cert''), (''tls_expiry_days'', PyInt d)]\<rparr>
          else None)"

definition probe_to_signal :: "rat \<Rightarrow> int \<Rightarrow> probe_result \<Rightarrow> (pyexc, signal option) result" where
  "probe_to_signal slow cert_warn_days r =
     rbind (target_host (pr_target r)) (\<lambda>host.
       let t = pr_target r; status = opt_int_text (pr_status_code r) in
       if \<not> pr_ok r then
         (let detail = (case pr_error r of Some (c # e) \<Rightarrow> c # e | _ \<Rightarrow> ''HTTP '' @ status)
          in Inr (Some \<lparr>sg_source = ''healthcheck'', sg_fingerprint = ''down:'' @ t, sg_title = host @ '' is DOWN'',
                sg_body = ''target: '' @ t @ nl @ ''status: '' @ status @ nl @ ''error: '' @ detail,
                sg_severity = ''critical'', sg_url = PyStr t,
                sg_meta = [(''kind'', PyStr ''down''), (''status_code'', opt_int (pr_status_code r)),
                           (''error'', opt_str (pr_error r))]\<rparr>))
       else case pr_latency r of
         Some l \<Rightarrow>
           if slow < l then
             Inr (Some \<lparr>sg_source = ''healthcheck'', sg_fingerprint = ''slow:'' @ t, sg_title = host @ '' is SLOW'',
                sg_body = ''target: '' @ t @ nl @ ''latency: '' @ show_float l @ ''s (threshold '' @ show_float slow @ ''s)''
                  @ nl @ ''status: '' @ status,
                sg_severity = ''warning'', sg_url = PyStr t,
                sg_meta = [(''kind'', PyStr ''slow''), (''latency_seconds'', PyFloat (float_of_rat l))]\<rparr>)
           else Inr (cert_signal host t cert_warn_days (pr_tls_days r))
       | None \<Rightarrow> Inr (cert_signal host t cert_warn_days (pr_tls_days r)))"

end
