(* ===== verification/AuditLog.thy ===== *)
theory AuditLog
  imports Tables Json "HOL-Library.Multiset"
begin

text \<open>
  The audit log (\<open>agentkit/audit.py\<close>) and the run heartbeats (\<open>agentkit/heartbeat.py\<close>). A table is the
  list of its rows in insertion order; \<open>None\<close> stands for a missing pool; the flag \<open>db_ok\<close> says whether
  the statement reaches the database. \<open>ORDER BY ts DESC\<close> leaves rows of equal time in insertion order
  here; SQL leaves their order open. Times are seconds.
\<close>

section \<open>Audit log\<close>

record audit_row =
  ar_id :: nat
  ar_tenant :: string
  ar_ts :: secs
  ar_actor :: string
  ar_action :: string
  ar_resource :: "string option"
  ar_metadata :: pyval

type_synonym audit_log = "audit_row list"

definition audit_append ::
  "bool \<Rightarrow> secs \<Rightarrow> string \<Rightarrow> string \<Rightarrow> string \<Rightarrow> string option \<Rightarrow> pyval \<Rightarrow> secs option
    \<Rightarrow> audit_log option \<Rightarrow> audit_log option" where
  "audit_append db_ok now tenant actor action resource metadata ts pool =
     (case pool of
        None \<Rightarrow> None
      | Some rows \<Rightarrow>
          if \<not> db_ok then Some rows
          else Some (rows @ [\<lparr>ar_id = Suc (fold max (map ar_id rows) 0), ar_tenant = tenant,
                 ar_ts = (case ts of Some t \<Rightarrow> t | None \<Rightarrow> now), ar_actor = actor, ar_action = action,
                 ar_resource = resource, ar_metadata = py_or metadata (PyDict [])\<rparr>]))"

definition opt_clause :: "string option \<Rightarrow> (string \<Rightarrow> bool) \<Rightarrow> bool" where
  "opt_clause v p = (case v of None \<Rightarrow> True | Some s \<Rightarrow> s = [] \<or> p s)"

definition audit_where ::
  "string \<Rightarrow> string option \<Rightarrow> string option \<Rightarrow> string option \<Rightarrow> secs option \<Rightarrow> audit_row \<Rightarrow> bool" where
  "audit_where tenant action actor resource before r \<longleftrightarrow>
     ar_tenant r = tenant \<and> opt_clause action (\<lambda>s. ar_action r = s) \<and> opt_clause actor (\<lambda>s. ar_actor r = s)
     \<and> opt_clause resource (\<lambda>s. ar_resource r = Some s)
     \<and> (case before of None \<Rightarrow> True | Some t \<Rightarrow> ar_ts r < t)"

definition audit_query ::
  "string \<Rightarrow> string option \<Rightarrow> string option \<Rightarrow> string option \<Rightarrow> nat \<Rightarrow> secs option \<Rightarrow> audit_log option
    \<Rightarrow> audit_row list" where
  "audit_query tenant action actor resource limit before pool =
     (case pool of
        None \<Rightarrow> []
      | Some rows \<Rightarrow> take limit (sort_key (\<lambda>r. - ar_ts r) (filter (audit_where tenant action actor resource before) rows)))"

definition distinct_actions :: "string \<Rightarrow> audit_log option \<Rightarrow> string list" where
  "distinct_actions tenant pool =
     (case pool of
        None \<Rightarrow> []
      | Some rows \<Rightarrow> sort (remdups (map ar_action (filter (\<lambda>r. ar_tenant r = tenant) rows))))"

section \<open>Run heartbeats\<close>

definition ident_ok :: "string \<Rightarrow> bool" where
  "ident_ok table \<longleftrightarrow>
     (let body = filter (\<lambda>c. c \<noteq> CHR ''_'') table in table \<noteq> [] \<and> body \<noteq> [] \<and> list_all is_alnum body)"

record beat_row =
  bt_ts :: secs
  bt_status :: string
  bt_meta :: pyval

type_synonym beat_db = "beat_row dict dict"

definition create_heartbeat_table :: "string \<Rightarrow> beat_db \<Rightarrow> (pyexc, beat_db) result" where
  "create_heartbeat_table table db =
     (if \<not> ident_ok table then Inl ValueError
      else Inr (if map_of db table = None then dict_set table [] db else db))"

definition beat_merge :: "beat_row \<Rightarrow> beat_row option \<Rightarrow> beat_row" where
  "beat_merge x r = x"

definition beat ::
  "secs \<Rightarrow> string \<Rightarrow> string \<Rightarrow> pyval \<Rightarrow> secs option \<Rightarrow> string \<Rightarrow> bool \<Rightarrow> beat_db \<Rightarrow> (pyexc, beat_db) result" where
  "beat now job status meta ts table ensure_table db =
     rbind (if ensure_table then create_heartbeat_table table db else Inr db) (\<lambda>db1.
       if \<not> ident_ok table then Inl ValueError
       else case map_of db1 table of
           None \<Rightarrow> Inl (Upstream ''UndefinedTable'')
         | Some rows \<Rightarrow>
             Inr (dict_set table
               (upsert_row beat_merge job
                  \<lparr>bt_ts = (case ts of Some t \<Rightarrow> t | None \<Rightarrow> now), bt_status = status, bt_meta = py_or meta (PyDict [])\<rparr>
                  rows) db1))"

definition last_beat :: "string \<Rightarrow> string \<Rightarrow> beat_db \<Rightarrow> (pyexc, beat_row option) result" where
  "last_beat job table db =
     (if \<not> ident_ok table then Inl ValueError
      else case map_of db table of
          None \<Rightarrow> Inl (Upstream ''UndefinedTable'')
        | Some rows \<Rightarrow> Inr (map_option (\<lambda>r. r\<lparr>bt_meta := py_or (bt_meta r) (PyDict [])\<rparr>) (map_of rows job)))"

interpretation beats: keyed_table "\<lambda>k t. map_of t k" "upsert_row beat_merge" beat_merge
  by (rule keyed_upsert_row)

section \<open>Pages of the activity stream\<close>

text \<open>
  A reader that asks for the next page with the time of the oldest row shown, until a page is empty:
  the fuel is one more than the number of rows.
\<close>

fun read_pages ::
  "nat \<Rightarrow> (secs option \<Rightarrow> audit_row list) \<Rightarrow> secs option \<Rightarrow> audit_row list" where
  "read_pages 0 page before = []"
| "read_pages (Suc n) page before =
     (case page before of [] \<Rightarrow> [] | r # rs \<Rightarrow> (r # rs) @ read_pages n page (Some (ar_ts (last (r # rs)))))"

definition matching :: "string \<Rightarrow> string option \<Rightarrow> string option \<Rightarrow> string option \<Rightarrow> audit_log \<Rightarrow> audit_row list" where
  "matching tenant action actor resource rows =
     sort_key (\<lambda>r. - ar_ts r) (filter (audit_where tenant action actor resource None) rows)"

lemma audit_where_before:
  "audit_where tn ac an rs (Some t) r \<longleftrightarrow> audit_where tn ac an rs None r \<and> ar_ts r < t"
  by (auto simp: audit_where_def)

lemma query_before:
  "audit_query tn ac an rs k (Some t) (Some rows) = take k (filter (\<lambda>r. ar_ts r < t) (matching tn ac an rs rows))"
proof -
  have "audit_where tn ac an rs (Some t) = (\<lambda>r. audit_where tn ac an rs None r \<and> ar_ts r < t)"
    by (auto simp: fun_eq_iff audit_where_before)
  then show ?thesis by (simp add: audit_query_def matching_def filter_sort)
qed

lemma query_none: "audit_query tn ac an rs k None (Some rows) = take k (matching tn ac an rs rows)"
  by (simp add: audit_query_def matching_def)

lemma filter_before_drop:
  assumes "sorted_wrt (\<lambda>x y. ar_ts y < ar_ts x) L" and "0 < i" and "i \<le> length L"
  shows "filter (\<lambda>r. ar_ts r < ar_ts (L ! (i - 1))) L = drop i L"
proof -
  have L: "L = take (i - 1) L @ L ! (i - 1) # drop i L"
    using assms(2,3) id_take_nth_drop [of "i - 1" L] by simp
  have s: "sorted_wrt (\<lambda>x y. ar_ts y < ar_ts x) (take (i - 1) L @ L ! (i - 1) # drop i L)"
    using assms(1) L by simp
  have "filter (\<lambda>r. ar_ts r < ar_ts (L ! (i - 1))) (take (i - 1) L @ L ! (i - 1) # drop i L) = drop i L"
    using s by (auto simp: sorted_wrt_append filter_empty_conv less_le_not_le intro!: filter_True)
  with L show ?thesis by simp
qed

lemma matching_sorted:
  assumes "distinct (map ar_ts rows)"
  shows "sorted_wrt (\<lambda>x y. ar_ts y < ar_ts x) (matching tn ac an rs rows)"
proof -
  let ?L = "matching tn ac an rs rows"
  have "sorted (map (\<lambda>r. - ar_ts r) ?L)" by (simp add: matching_def)
  moreover have "distinct (map (\<lambda>r. - ar_ts r) ?L)"
  proof -
    have i: "inj_on ar_ts (set rows)" "distinct rows" using assms by (simp_all add: distinct_map)
    have "distinct ?L" using i(2) by (simp add: matching_def)
    moreover have "set ?L \<subseteq> set rows" by (auto simp: matching_def)
    ultimately show ?thesis using i(1) by (auto simp: distinct_map inj_on_def)
  qed
  ultimately have "sorted_wrt (<) (map (\<lambda>r. - ar_ts r) ?L)" by (simp add: strict_sorted_iff)
  then show ?thesis by (simp add: sorted_wrt_map)
qed

lemma read_pages_drop:
  assumes s: "sorted_wrt (\<lambda>x y. ar_ts y < ar_ts x) L" and k: "0 < k"
    and p: "\<And>t. page (Some t) = take k (filter (\<lambda>r. ar_ts r < t) L)"
  shows "0 < i \<Longrightarrow> i \<le> length L \<Longrightarrow> length L - i < n \<Longrightarrow>
    read_pages n page (Some (ar_ts (L ! (i - 1)))) = drop i L"
proof (induction n arbitrary: i)
  case (Suc n)
  have pg: "page (Some (ar_ts (L ! (i - 1)))) = take k (drop i L)"
    using p filter_before_drop [OF s Suc.prems(1,2)] by simp
  show ?case
  proof (cases "i = length L")
    case True
    with pg show ?thesis by simp
  next
    case False
    let ?j = "min (length L) (i + k)"
    obtain r rs where r: "take k (drop i L) = r # rs" using False Suc.prems k by (cases "take k (drop i L)") auto
    let ?m = "min k (length L - i)"
    have m: "0 < ?m" "?m \<le> length L - i" using k False Suc.prems by auto
    have "length (take k (drop i L)) = ?m" by (simp add: min.commute)
    moreover have "last (take k (drop i L)) = take k (drop i L) ! (length (take k (drop i L)) - 1)"
      by (rule last_conv_nth) (simp add: r)
    ultimately have "last (take k (drop i L)) = take k (drop i L) ! (?m - 1)" by (simp only:)
    also have "\<dots> = L ! (i + (?m - 1))"
    proof -
      have "?m - 1 < k" using m by linarith
      then show ?thesis using Suc.prems(2) by (simp only: nth_take nth_drop)
    qed
    also have "i + (?m - 1) = ?j - 1" using m Suc.prems(2) k by (cases "i + k \<le> length L") (auto simp: min_def)
    finally have lst: "last (r # rs) = L ! (?j - 1)" by (simp only: r)
    have "read_pages n page (Some (ar_ts (L ! (?j - 1)))) = drop ?j L"
      by (rule Suc.IH) (use Suc.prems False k in auto)
    moreover have "drop ?j L = drop k (drop i L)" by (simp add: min_def add.commute)
    then have "take k (drop i L) @ drop ?j L = drop i L" by (simp only: append_take_drop_id)
    ultimately show ?thesis using pg r lst by simp
  qed
qed simp

section \<open>Properties\<close>

text \<open>
  C11: paging through a tenant's stream with the time of the oldest row shown returns, when no two
  rows of the log have the same time, every matching row of that tenant exactly once, newest first,
  and no row of another tenant.
\<close>

theorem activity_pages_complete:
  assumes "distinct (map ar_ts rows)" and "0 < k"
  shows "read_pages (Suc (length rows)) (\<lambda>b. audit_query tn ac an rs k b (Some rows)) None
      = matching tn ac an rs rows
    \<and> mset (matching tn ac an rs rows) = mset (filter (audit_where tn ac an rs None) rows)
    \<and> (\<forall>r \<in> set (matching tn ac an rs rows). ar_tenant r = tn)"
proof (intro conjI)
  let ?L = "matching tn ac an rs rows" and ?page = "\<lambda>b. audit_query tn ac an rs k b (Some rows)"
  note s = matching_sorted [OF assms(1), of tn ac an rs]
  have len: "length ?L \<le> length rows" by (simp add: matching_def)
  show "read_pages (Suc (length rows)) ?page None = ?L"
  proof (cases "?L = []")
    case True
    then show ?thesis by (simp add: query_none)
  next
    case False
    let ?i = "min k (length ?L)"
    obtain r rs' where r: "take k ?L = r # rs'" using False assms(2) by (cases "take k ?L") auto
    have "last (take k ?L) = take k ?L ! (length (take k ?L) - 1)" by (rule last_conv_nth) (simp add: r)
    also have "length (take k ?L) = ?i" by (simp add: min.commute)
    also have "take k ?L ! (?i - 1) = ?L ! (?i - 1)" using False assms(2) by simp
    finally have lst: "last (r # rs') = ?L ! (?i - 1)" by (simp only: r)
    have "read_pages (length rows) ?page (Some (ar_ts (?L ! (?i - 1)))) = drop ?i ?L"
    proof (rule read_pages_drop [OF s assms(2) query_before])
      show "0 < ?i" "?i \<le> length ?L" using False assms(2) by auto
      with len show "length ?L - ?i < length rows" by linarith
    qed
    moreover have "take k ?L @ drop ?i ?L = ?L" by (cases "k \<le> length ?L") simp_all
    ultimately show ?thesis using r lst by (simp add: query_none)
  qed
  show "mset ?L = mset (filter (audit_where tn ac an rs None) rows)" by (simp add: matching_def)
  show "\<forall>r \<in> set ?L. ar_tenant r = tn" by (auto simp: matching_def audit_where_def)
qed

definition demo_row :: "nat \<Rightarrow> secs \<Rightarrow> audit_row" where
  "demo_row i t = \<lparr>ar_id = i, ar_tenant = ''acme'', ar_ts = t, ar_actor = ''u'', ar_action = ''run'',
     ar_resource = None, ar_metadata = PyDict []\<rparr>"

theorem activity_pages_complete_witness:
  "read_pages 4 (\<lambda>b. audit_query ''acme'' None None None 2 b (Some [demo_row 1 10, demo_row 2 30, demo_row 3 20])) None
     = [demo_row 2 30, demo_row 3 20, demo_row 1 10]"
proof -
  let ?rows = "[demo_row 1 10, demo_row 2 30, demo_row 3 20]"
  have "matching ''acme'' None None None ?rows = [demo_row 2 30, demo_row 3 20, demo_row 1 10]"
    by (simp add: matching_def audit_where_def opt_clause_def demo_row_def)
  moreover have "read_pages (Suc (length ?rows)) (\<lambda>b. audit_query ''acme'' None None None 2 b (Some ?rows)) None
      = matching ''acme'' None None None ?rows"
    by (rule activity_pages_complete [THEN conjunct1]) (simp_all add: demo_row_def)
  ultimately show ?thesis by (simp add: numeral_eq_Suc)
qed

end
