(* ===== verification/Collectors.thy ===== *)
theory Collectors
  imports Signals AuditLog
begin

text \<open>
  The collectors of the monitoring agent (\<open>monitoring_agent/collectors.py\<close>): HTTP probes, agent
  endpoints, containers, heartbeats, queues, host memory, and the rules that make signals of them.

  The network is a parameter: what each GET gives. \<open>HttpErr\<close> is an \<open>httpx.HTTPError\<close> with its text,
  \<open>HttpRaise\<close> any other exception, and a body that does not decode is \<open>None\<close>.
\<close>

section \<open>The network\<close>

datatype 'a http = HttpOk 'a | HttpErr string | HttpRaise pyexc

record probe_obs =
  po_get :: "int http"
  po_elapsed :: rat
  po_tls :: "(pyexc, int option) result"

section \<open>Target probes\<close>

text \<open>The TLS check: a port that does not parse raises here, outside the guarded part.\<close>

definition tls_expiry_days :: "(pyexc, int option) result \<Rightarrow> string \<Rightarrow> (pyexc, int option) result" where
  "tls_expiry_days check target =
     rbind (urlparse target) (\<lambda>p.
       if url_scheme p \<noteq> ''https'' then Inr None
       else rbind (url_port p) (\<lambda>_.
         if url_hostname p = None then Inr None
         else (case check of Inl _ \<Rightarrow> Inr None | Inr d \<Rightarrow> Inr d)))"

definition probe_target :: "(string \<Rightarrow> probe_obs) \<Rightarrow> string \<Rightarrow> (pyexc, probe_result) result" where
  "probe_target net target =
     (if \<not> is_probeable_url target then
        Inr \<lparr>pr_target = target, pr_ok = False, pr_status_code = None, pr_latency = None, pr_tls_days = None,
             pr_error = Some ''rejected: target URL is not an http(s) URL''\<rparr>
      else
        let o1 = net target in
        rbind (case po_get o1 of
            HttpOk sc \<Rightarrow> Inr (Some sc, sc < 500, None)
          | HttpErr e \<Rightarrow> Inr (None, False, Some e)
          | HttpRaise x \<Rightarrow> Inl x) (\<lambda>(status_code, ok, err).
        rbind (tls_expiry_days (po_tls o1) target) (\<lambda>tls_days.
          Inr \<lparr>pr_target = target, pr_ok = ok, pr_status_code = status_code,
               pr_latency = Some (py_round 4 (po_elapsed o1)), pr_tls_days = tls_days, pr_error = err\<rparr>)))"

text \<open>
  \<open>asyncio.gather\<close> gives the results in target order, or raises; the semaphore only bounds how many
  probes run at a time.
\<close>

definition sweep :: "(string \<Rightarrow> probe_obs) \<Rightarrow> string list \<Rightarrow> rat \<Rightarrow> int \<Rightarrow> (pyexc, signal list) result" where
  "sweep net targets slow cert_warn_days =
     rbind (rmap (probe_target net) targets) (\<lambda>results.
     rbind (rmap (probe_to_signal slow cert_warn_days) results) (\<lambda>sigs.
       Inr (List.map_filter (\<lambda>s. s) sigs)))"

section \<open>Agent endpoints\<close>

definition agent_health :: string where
  "agent_health = ''agent_health''"

record endpoint_result =
  er_agent :: string
  er_base_url :: string
  er_healthz_ok :: bool
  er_ready :: "bool option"
  er_failed_checks :: "string list"
  er_latency :: "rat option"
  er_error :: "string option"

record endpoint_obs =
  eo_healthz :: "int http"
  eo_elapsed :: rat
  eo_readyz :: "(int \<times> pyval option) http"

definition failed_checks :: "pyval option \<Rightarrow> string list" where
  "failed_checks body =
     (case body of
        Some (PyDict b) \<Rightarrow>
          (case map_of b ''checks'' of
             Some (PyDict c) \<Rightarrow> sort (map fst (filter (\<lambda>(k, v). v = PyBool False) c))
           | _ \<Rightarrow> [])
      | _ \<Rightarrow> [])"

definition probe_agent_endpoint :: "endpoint_obs \<Rightarrow> string \<Rightarrow> string \<Rightarrow> (pyexc, endpoint_result) result" where
  "probe_agent_endpoint ob agent base_url =
     (let down = (\<lambda>lat err. \<lparr>er_agent = agent, er_base_url = base_url, er_healthz_ok = False, er_ready = None,
            er_failed_checks = [], er_latency = lat, er_error = Some err\<rparr>);
          lat = py_round 4 (eo_elapsed ob)
      in if \<not> is_probeable_url base_url
         then Inr (down None ''rejected: agent endpoint is not an http(s) URL'')
         else case eo_healthz ob of
             HttpRaise x \<Rightarrow> Inl x
           | HttpErr e \<Rightarrow> Inr (down None e)
           | HttpOk sc \<Rightarrow>
               if sc \<noteq> 200 then Inr (down (Some lat) (''healthz HTTP '' @ show_int sc))
               else
                 let up = (\<lambda>ready checks. \<lparr>er_agent = agent, er_base_url = base_url, er_healthz_ok = True,
                       er_ready = ready, er_failed_checks = checks, er_latency = Some lat, er_error = None\<rparr>)
                 in case eo_readyz ob of
                      HttpRaise x \<Rightarrow> Inl x
                    | HttpErr e \<Rightarrow> Inr (up (Some False) [])
                    | HttpOk (rcode, body) \<Rightarrow> Inr (up (Some (rcode = 200)) (failed_checks body)))"

definition endpoint_to_signals :: "rat \<Rightarrow> int \<Rightarrow> int \<Rightarrow> endpoint_result \<Rightarrow> signal list" where
  "endpoint_to_signals slow fail_streak fail_streak_to_alert r =
     (let a = er_agent r; u = er_base_url r; head = ''agent: '' @ a @ nl @ ''url: '' @ u @ nl in
      if \<not> er_healthz_ok r then
        (if fail_streak_to_alert \<le> fail_streak then
           [\<lparr>sg_source = agent_health, sg_fingerprint = ''agent-down:'' @ a, sg_title = ''agent '' @ a @ '' is DOWN'',
             sg_body = head @ ''error: '' @ py_str (opt_str (er_error r)) @ nl @ ''fail_streak: '' @ show_int fail_streak,
             sg_severity = ''critical'', sg_url = PyStr u,
             sg_meta = [(''kind'', PyStr ''agent-down''), (''agent'', PyStr a), (''fail_streak'', PyInt fail_streak)]\<rparr>]
         else [])
      else if er_ready r = Some False then
        map (\<lambda>c. \<lparr>sg_source = agent_health, sg_fingerprint = ''agent-notready:'' @ a @ '':'' @ c,
             sg_title = ''agent '' @ a @ '' not ready ('' @ c @ '')'',
             sg_body = head @ ''failed_check: '' @ c @ nl @ ''fail_streak: '' @ show_int fail_streak,
             sg_severity = ''warning'', sg_url = PyStr u,
             sg_meta = [(''kind'', PyStr ''agent-notready''), (''agent'', PyStr a), (''failed_check'', PyStr c),
                        (''fail_streak'', PyInt fail_streak)]\<rparr>)
          (if er_failed_checks r = [] then [''unknown''] else er_failed_checks r)
      else case er_latency r of
        None \<Rightarrow> []
      | Some l \<Rightarrow>
          if slow < l then
            [\<lparr>sg_source = agent_health, sg_fingerprint = ''agent-slow:'' @ a, sg_title = ''agent '' @ a @ '' is SLOW'',
              sg_body = head @ ''latency: '' @ show_float l @ ''s (threshold '' @ show_float slow @ ''s)'',
              sg_severity = ''warning'', sg_url = PyStr u,
              sg_meta = [(''kind'', PyStr ''agent-slow''), (''agent'', PyStr a),
                         (''latency_seconds'', PyFloat (float_of_rat l))]\<rparr>]
          else [])"

section \<open>Containers\<close>

record container_state =
  cs_name :: string
  cs_status :: string
  cs_oom_killed :: bool
  cs_restart_count :: int
  cs_health :: pyval
  cs_exit_code :: "int option"

text \<open>The \<open>Names\<close> of a listing entry, as the loop over them sees it.\<close>

definition iter_names :: "pyval \<Rightarrow> (pyexc, pyval list) result" where
  "iter_names v =
     (case v of
        PyList vs \<Rightarrow> Inr vs
      | PyStr s \<Rightarrow> Inr (map (\<lambda>c. PyStr [c]) s)
      | PyDict d \<Rightarrow> Inr (map (\<lambda>(k, _). PyStr k) d)
      | _ \<Rightarrow> if truthy v then Inl TypeError else Inr [])"

definition add_name :: "string list \<Rightarrow> pyval \<Rightarrow> pyval \<Rightarrow> pyval dict \<Rightarrow> (pyexc, pyval dict) result" where
  "add_name wanted cid raw by_name =
     (case raw of
        PyStr s \<Rightarrow>
          (let nm = lstrip_of (CHR ''/'') s in
           Inr (if nm \<in> set wanted \<and> truthy cid then dict_set nm cid by_name else by_name))
      | _ \<Rightarrow> Inl AttributeError)"

definition add_listing :: "string list \<Rightarrow> pyval \<Rightarrow> pyval dict \<Rightarrow> (pyexc, pyval dict) result" where
  "add_listing wanted c by_name =
     rbind (pget c ''Id'') (\<lambda>cid.
     rbind (py_get c ''Names'' (PyList [])) (\<lambda>names.
     rbind (iter_names names) (\<lambda>raws. rfold (add_name wanted cid) raws by_name)))"

definition parse_container_inspect :: "string \<Rightarrow> pyval \<Rightarrow> (pyexc, container_state) result" where
  "parse_container_inspect name data =
     (let state = (case data of PyDict d \<Rightarrow> (case map_of d ''State'' of None \<Rightarrow> PyDict [] | Some v \<Rightarrow> v) | _ \<Rightarrow> PyDict []);
          health = (case state of
             PyDict st \<Rightarrow> (case map_of st ''Health'' of
                 Some (PyDict h) \<Rightarrow> (case map_of h ''Status'' of None \<Rightarrow> PyNone | Some v \<Rightarrow> v) | _ \<Rightarrow> PyNone)
           | _ \<Rightarrow> PyNone)
      in rbind (py_get state ''Status'' (PyStr ''unknown'')) (\<lambda>status.
         rbind (py_get state ''OOMKilled'' (PyBool False)) (\<lambda>oom.
         rbind (rbind (pget data ''RestartCount'') to_int) (\<lambda>restarts.
         rbind (if pget state ''Status'' = Inr (PyStr ''exited'')
                then rbind (rbind (pget state ''ExitCode'') to_int) (\<lambda>k. Inr (Some k)) else Inr None) (\<lambda>exit_code.
           Inr \<lparr>cs_name = name, cs_status = py_str status, cs_oom_killed = truthy oom,
                cs_restart_count = restarts, cs_health = health, cs_exit_code = exit_code\<rparr>)))))"

definition blank_container :: "string \<Rightarrow> string \<Rightarrow> container_state" where
  "blank_container name status = \<lparr>cs_name = name, cs_status = status, cs_oom_killed = False,
     cs_restart_count = 0, cs_health = PyNone, cs_exit_code = None\<rparr>"

text \<open>An inspection that fails, or whose body does not decode, reports the status \<open>unknown\<close>.\<close>

definition inspect_one ::
  "(pyval \<Rightarrow> pyval option http) \<Rightarrow> pyval dict \<Rightarrow> string \<Rightarrow> (pyexc, container_state) result" where
  "inspect_one inspect by_name name =
     (case map_of by_name name of
        None \<Rightarrow> Inr (blank_container name ''missing'')
      | Some PyNone \<Rightarrow> Inr (blank_container name ''missing'')
      | Some cid \<Rightarrow>
          (case inspect cid of
             HttpRaise x \<Rightarrow> Inl x
           | HttpErr e \<Rightarrow> Inr (blank_container name ''unknown'')
           | HttpOk None \<Rightarrow> Inr (blank_container name ''unknown'')
           | HttpOk (Some data) \<Rightarrow>
               (case parse_container_inspect name data of
                  Inl ValueError \<Rightarrow> Inr (blank_container name ''unknown'')
                | r \<Rightarrow> r)))"

definition collect_container_states ::
  "pyval option http \<Rightarrow> (pyval \<Rightarrow> pyval option http) \<Rightarrow> string list \<Rightarrow> (pyexc, container_state list) result" where
  "collect_container_states listing inspect names =
     (case listing of
        HttpRaise x \<Rightarrow> Inl x
      | HttpErr e \<Rightarrow> Inr []
      | HttpOk None \<Rightarrow> Inr []
      | HttpOk (Some containers) \<Rightarrow>
          rbind (rfold (add_listing names) (case containers of PyList vs \<Rightarrow> vs | _ \<Rightarrow> []) []) (\<lambda>by_name.
            rmap (inspect_one inspect by_name) names))"

definition container_to_signals :: "int option \<Rightarrow> int \<Rightarrow> container_state \<Rightarrow> signal list" where
  "container_to_signals prev_restart restart_loop_threshold cur =
     (let n = cs_name cur; st = cs_status cur; head = ''container: '' @ n @ nl;
          sig = (\<lambda>fp title body sev meta. \<lparr>sg_source = agent_health, sg_fingerprint = fp @ '':'' @ n, sg_title = title,
                   sg_body = body, sg_severity = sev, sg_url = PyNone,
                   sg_meta = (''kind'', PyStr fp) # (''container'', PyStr n) # meta\<rparr>)
      in (if cs_oom_killed cur
          then [sig ''container-oom'' (''container '' @ n @ '' OOMKilled'')
                  (head @ ''status: '' @ st @ nl @ ''oom_killed: true'') ''critical'' []] else [])
         @ (case prev_restart of
              None \<Rightarrow> []
            | Some p \<Rightarrow>
                let delta = cs_restart_count cur - p in
                if restart_loop_threshold \<le> delta
                then [sig ''container-crashloop'' (''container '' @ n @ '' crash-looping'')
                        (head @ ''restart_count: '' @ show_int (cs_restart_count cur) @ nl @ ''delta_since_last_sweep: ''
                          @ show_int delta @ '' (threshold '' @ show_int restart_loop_threshold @ '')'')
                        ''critical'' [(''restart_delta'', PyInt delta)]]
                else [])
         @ (if st \<in> set [''exited'', ''dead'', ''missing'']
            then [sig ''container-down'' (''container '' @ n @ '' is '' @ st)
                    (head @ ''status: '' @ st @ nl @ ''exit_code: '' @ opt_int_text (cs_exit_code cur))
                    ''critical'' [(''status'', PyStr st)]]
            else if cs_health cur = PyStr ''unhealthy''
            then [sig ''container-unhealthy'' (''container '' @ n @ '' unhealthy'')
                    (head @ ''status: '' @ st @ nl @ ''health: unhealthy'') ''warning'' []]
            else []))"

section \<open>Heartbeats\<close>

record heartbeat_state =
  hb_agent :: string
  hb_last_finished :: "secs option"
  hb_last_status :: "string option"
  hb_expected_interval :: int

definition heartbeat_to_signal :: "rat \<Rightarrow> secs \<Rightarrow> heartbeat_state \<Rightarrow> signal option" where
  "heartbeat_to_signal grace now h =
     (let a = hb_agent h; iv = hb_expected_interval h;
          sig = (\<lambda>fp title body sev meta. Some \<lparr>sg_source = agent_health, sg_fingerprint = fp @ '':'' @ a,
                   sg_title = title, sg_body = body, sg_severity = sev, sg_url = PyNone,
                   sg_meta = (''kind'', PyStr fp) # (''agent'', PyStr a) # meta\<rparr>)
      in case hb_last_finished h of
           None \<Rightarrow>
             if 0 < iv then sig ''batch-overdue'' (''batch '' @ a @ '' has never reported a run'')
               (''agent: '' @ a @ nl @ ''expected_interval_s: '' @ show_int iv @ nl @ ''last_finished: never'')
               ''warning'' []
             else None
         | Some fin \<Rightarrow>
             let status = lower (case hb_last_status h of None \<Rightarrow> [] | Some s \<Rightarrow> s);
                 age = now - fin
             in if status \<in> set [''failed'', ''partial''] then
                  sig ''batch-failed'' (''batch '' @ a @ '' last run '' @ status)
                    (''agent: '' @ a @ nl @ ''last_status: '' @ status @ nl @ ''last_finished: '' @ isoformat fin)
                    (if status = ''failed'' then ''critical'' else ''warning'') [(''status'', PyStr status)]
                else if 0 < iv \<and> of_int iv * grace < age then
                  sig ''batch-overdue'' (''batch '' @ a @ '' run overdue'')
                    (''agent: '' @ a @ nl @ ''last_finished: '' @ isoformat fin @ nl @ ''age_s: ''
                      @ show_int (trunc_rat age) @ '' (interval '' @ show_int iv @ ''s x '' @ show_float grace @ '')'')
                    (if of_int iv * 3 < age then ''critical'' else ''warning'') [(''age_s'', PyInt (trunc_rat age))]
                else None)"

record heartbeat_cfg =
  hc_db :: "string option"
  hc_table :: string
  hc_job :: "string option"
  hc_interval :: int

text \<open>
  Each agent's database is one of a family; one that cannot be opened is \<open>None\<close> and is skipped, as
  is any read that fails. A configuration without \<open>db\<close> raises outside the guard.
\<close>

definition read_beat :: "(string \<Rightarrow> beat_db option) \<Rightarrow> string \<times> heartbeat_cfg \<Rightarrow> (pyexc, heartbeat_state list) result" where
  "read_beat dbs ac =
     (case ac of (agent, cfg) \<Rightarrow>
        case hc_db cfg of
          None \<Rightarrow> Inl KeyError
        | Some db \<Rightarrow>
            let row = (case dbs db of
                None \<Rightarrow> Inl (Upstream ''PoolError'')
              | Some tables \<Rightarrow>
                  last_beat (case hc_job cfg of None \<Rightarrow> agent | Some j \<Rightarrow> j) (hc_table cfg) tables)
            in case row of
                 Inl _ \<Rightarrow> Inr []
               | Inr r \<Rightarrow> Inr [\<lparr>hb_agent = agent, hb_last_finished = map_option bt_ts r,
                     hb_last_status = map_option bt_status r, hb_expected_interval = hc_interval cfg\<rparr>])"

definition collect_heartbeats ::
  "(string \<Rightarrow> beat_db option) \<Rightarrow> heartbeat_cfg dict \<Rightarrow> (pyexc, heartbeat_state list) result" where
  "collect_heartbeats dbs configs = rbind (rmap (read_beat dbs) configs) (\<lambda>xs. Inr (concat xs))"

section \<open>Queues\<close>

definition add_depth :: "string list \<Rightarrow> pyval \<Rightarrow> int dict \<Rightarrow> (pyexc, int dict) result" where
  "add_depth wanted q depths =
     rbind (pget q ''name'') (\<lambda>name.
     rbind (py_in name wanted) (\<lambda>hit.
       if hit then rbind (rbind (pget q ''messages_ready'') to_int) (\<lambda>k. Inr (dict_set (py_str name) k depths))
       else Inr depths))"

definition collect_queue_depths :: "pyval option http \<Rightarrow> string list \<Rightarrow> (pyexc, int dict) result" where
  "collect_queue_depths resp queues =
     (case resp of
        HttpRaise x \<Rightarrow> Inl x
      | HttpErr e \<Rightarrow> Inr []
      | HttpOk None \<Rightarrow> Inr []
      | HttpOk (Some data) \<Rightarrow> rfold (add_depth queues) (case data of PyList vs \<Rightarrow> vs | _ \<Rightarrow> []) [])"

definition queue_to_signal :: "int \<Rightarrow> string \<Rightarrow> int \<Rightarrow> int option \<Rightarrow> signal option" where
  "queue_to_signal threshold name depth prev_depth =
     (if depth \<le> threshold then None
      else
        let rising = (case prev_depth of None \<Rightarrow> True | Some p \<Rightarrow> p \<le> depth) in
        if \<not> rising then None
        else Some \<lparr>sg_source = agent_health, sg_fingerprint = ''queue-backlog:'' @ name,
          sg_title = ''alert queue '' @ name @ '' backing up'',
          sg_body = ''queue: '' @ name @ nl @ ''messages_ready: '' @ show_int depth @ '' (threshold '' @ show_int threshold
            @ '')'' @ nl @ ''prev_depth: '' @ opt_int_text prev_depth @ nl
            @ ''likely cause: alert consumer (bridge) down'',
          sg_severity = ''critical'', sg_url = PyNone,
          sg_meta = [(''kind'', PyStr ''queue-backlog''), (''queue'', PyStr name), (''depth'', PyInt depth),
                     (''prev_depth'', opt_int prev_depth)]\<rparr>)"

section \<open>Host memory\<close>

definition parse_meminfo_line :: "string \<Rightarrow> int dict \<Rightarrow> (pyexc, int dict) result" where
  "parse_meminfo_line line out =
     (case partition_at (CHR '':'') line of
        (key, found, rest) \<Rightarrow>
          if \<not> found then Inr out
          else case split_ws rest of
              [] \<Rightarrow> Inr out
            | w # _ \<Rightarrow>
                if list_all is_pydigit w then
                  (case int_of_str w of None \<Rightarrow> Inl ValueError | Some k \<Rightarrow> Inr (dict_set (strip key) k out))
                else Inr out)"

definition parse_meminfo :: "string \<Rightarrow> (pyexc, int dict) result" where
  "parse_meminfo t = rfold parse_meminfo_line (splitlines t) []"

definition host_vitals_to_signals :: "int \<Rightarrow> int \<Rightarrow> int dict \<Rightarrow> signal list" where
  "host_vitals_to_signals mem_avail_warn_mb swap_used_warn_mb meminfo =
     (let swap_total = (case map_of meminfo ''SwapTotal'' of None \<Rightarrow> 0 | Some k \<Rightarrow> k);
          swap_free = (case map_of meminfo ''SwapFree'' of None \<Rightarrow> 0 | Some k \<Rightarrow> k);
          swap_used_mb = (if swap_total \<noteq> 0 then (swap_total - swap_free) div 1024 else 0)
      in (case map_of meminfo ''MemAvailable'' of
            None \<Rightarrow> []
          | Some avail_kb \<Rightarrow>
              let avail_mb = avail_kb div 1024 in
              if avail_mb < mem_avail_warn_mb then
                [\<lparr>sg_source = agent_health, sg_fingerprint = ''host-mem-low'',
                  sg_title = ''host RAM low: '' @ show_int avail_mb @ '' MiB available'',
                  sg_body = ''MemAvailable: '' @ show_int avail_mb @ '' MiB (warn < '' @ show_int mem_avail_warn_mb @ '' MiB)'',
                  sg_severity = (if avail_mb < mem_avail_warn_mb div 2 then ''critical'' else ''warning''),
                  sg_url = PyNone,
                  sg_meta = [(''kind'', PyStr ''host-mem-low''), (''available_mb'', PyInt avail_mb)]\<rparr>]
              else [])
         @ (if swap_used_warn_mb < swap_used_mb then
              [\<lparr>sg_source = agent_health, sg_fingerprint = ''host-swap-pressure'',
                sg_title = ''host swapping: '' @ show_int swap_used_mb @ '' MiB in use'',
                sg_body = ''swap_used: '' @ show_int swap_used_mb @ '' MiB (warn > '' @ show_int swap_used_warn_mb @ '' MiB)'',
                sg_severity = ''warning'', sg_url = PyNone,
                sg_meta = [(''kind'', PyStr ''host-swap-pressure''), (''swap_used_mb'', PyInt swap_used_mb)]\<rparr>]
            else []))"

text \<open>An unreadable file is \<open>None\<close>.\<close>

definition read_host_meminfo :: "string option \<Rightarrow> (pyexc, int dict) result" where
  "read_host_meminfo file = (case file of None \<Rightarrow> Inr [] | Some t \<Rightarrow> parse_meminfo t)"

end
