(* ===== verification/Notify.thy ===== *)
theory Notify
  imports Json
begin

text \<open>
  Alert publishing over RabbitMQ (\<open>agentkit/notify.py\<close>). The broker is a parameter: the fate of each
  connect, channel, exchange declaration and publish. A pool holds at most one connection and one
  channel; \<open>None\<close> is Python's \<open>None\<close>, the flag says whether it has been closed since.
\<close>

record alert =
  al_agent :: string
  al_severity :: string
  al_title :: string
  al_body :: string
  al_dedup_key :: "string option"
  al_url :: pyval
  al_meta :: "pyval dict option"

definition exchange :: string where
  "exchange = ''agent.alerts''"

definition alert_dict :: "alert \<Rightarrow> pyval" where
  "alert_dict a = PyDict
     [(''agent'', PyStr (al_agent a)), (''severity'', PyStr (al_severity a)), (''title'', PyStr (al_title a)),
      (''body'', PyStr (al_body a)),
      (''dedup_key'', case al_dedup_key a of None \<Rightarrow> PyNone | Some k \<Rightarrow> PyStr k),
      (''url'', al_url a), (''meta'', case al_meta a of None \<Rightarrow> PyNone | Some m \<Rightarrow> PyDict m)]"

definition encode_alert :: "alert \<Rightarrow> string" where
  "encode_alert a = json_dumps '', '' '': '' (alert_dict a)"

definition routing_key :: "alert \<Rightarrow> string" where
  "routing_key a = al_agent a @ ''.'' @ al_severity a"

section \<open>The pool\<close>

datatype handle = Open | Closed

record notify_pool =
  np_conn :: "handle option"
  np_channel :: "handle option"
  np_connects :: nat
  np_sent :: "(string \<times> string) list"

definition pool_new :: notify_pool where
  "pool_new = \<lparr>np_conn = None, np_channel = None, np_connects = 0, np_sent = []\<rparr>"

text \<open>
  \<open>_ensure\<close> under its lock; \<open>connect_ok\<close> and \<open>channel_ok\<close> say whether the two broker calls succeed.
\<close>

definition ensure_channel :: "bool \<Rightarrow> bool \<Rightarrow> notify_pool \<Rightarrow> (pyexc, unit) result \<times> notify_pool" where
  "ensure_channel connect_ok channel_ok p =
     (if np_channel p = Some Open then (Inr (), p)
      else
        let need = (np_conn p \<noteq> Some Open);
            p1 = (if need then p\<lparr>np_connects := Suc (np_connects p)\<rparr> else p)
        in if need \<and> \<not> connect_ok then (Inl (Upstream ''AMQPConnectionError''), p1)
           else
             let p2 = p1\<lparr>np_conn := Some Open\<rparr> in
             if \<not> channel_ok then (Inl (Upstream ''ChannelError''), p2)
             else (Inr (), p2\<lparr>np_channel := Some Open\<rparr>))"

definition publish :: "bool \<Rightarrow> bool \<Rightarrow> bool \<Rightarrow> alert \<Rightarrow> notify_pool \<Rightarrow> (pyexc, unit) result \<times> notify_pool" where
  "publish connect_ok channel_ok send_ok a p =
     (case ensure_channel connect_ok channel_ok p of
        (Inl e, p1) \<Rightarrow> (Inl e, p1)
      | (Inr _, p1) \<Rightarrow>
          if \<not> send_ok then (Inl (Upstream ''PublishError''), p1)
          else (Inr (), p1\<lparr>np_sent := np_sent p1 @ [(routing_key a, encode_alert a)]\<rparr>))"

definition pool_close :: "notify_pool \<Rightarrow> notify_pool" where
  "pool_close p = p\<lparr>np_conn := None, np_channel := None\<rparr>"

text \<open>The broker goes away: both handles report closed.\<close>

definition broker_bounce :: "notify_pool \<Rightarrow> notify_pool" where
  "broker_bounce p = p\<lparr>np_conn := map_option (\<lambda>_. Closed) (np_conn p),
     np_channel := map_option (\<lambda>_. Closed) (np_channel p)\<rparr>"

section \<open>Pools by URL\<close>

type_synonym pools = "notify_pool dict"

definition shared_pool :: "string \<Rightarrow> pools \<Rightarrow> notify_pool \<times> pools" where
  "shared_pool url ps =
     (case map_of ps url of Some p \<Rightarrow> (p, ps) | None \<Rightarrow> (pool_new, dict_set url pool_new ps))"

definition publish_alert ::
  "bool \<Rightarrow> bool \<Rightarrow> bool \<Rightarrow> string \<Rightarrow> alert \<Rightarrow> pools \<Rightarrow> (pyexc, unit) result \<times> pools" where
  "publish_alert connect_ok channel_ok send_ok url a ps =
     (case shared_pool url ps of
        (p, ps1) \<Rightarrow>
          (case publish connect_ok channel_ok send_ok a p of (r, p1) \<Rightarrow> (r, dict_set url p1 ps1)))"

definition close_shared_pools :: "pools \<Rightarrow> pools" where
  "close_shared_pools ps = []"

section \<open>Lemmas\<close>

lemma publish_sent:
  "fst (publish c h s a p) = Inr () \<Longrightarrow>
     np_sent (snd (publish c h s a p)) = np_sent p @ [(routing_key a, encode_alert a)]"
  by (auto simp: publish_def ensure_channel_def Let_def split: if_splits sum.splits prod.splits)

lemma publish_failed:
  "fst (publish c h s a p) = Inl e \<Longrightarrow> np_sent (snd (publish c h s a p)) = np_sent p"
  by (auto simp: publish_def ensure_channel_def Let_def split: if_splits sum.splits prod.splits)

lemma publish_reuses:
  "np_channel p = Some Open \<Longrightarrow> np_connects (snd (publish c h s a p)) = np_connects p"
  by (simp add: publish_def ensure_channel_def)

end
