(* ===== verification/Sweep.thy ===== *)
theory Sweep
  imports Triage
begin

text \<open>
  The periodic jobs of the monitoring agent (\<open>monitoring_agent/scheduler.py\<close>): the health sweep, the
  meta sweep over agents, containers, queues, batch runs and the host, and the retention prune.
  What the network and the databases give a sweep is a parameter.
\<close>

section \<open>Health sweep\<close>

record sweep_cfg =
  sc_targets :: "string list"
  sc_slow_threshold :: rat
  sc_cert_warn_days :: int
  sc_agent_endpoints :: "string dict"
  sc_fail_streak_to_alert :: int
  sc_watched_containers :: "string list"
  sc_restart_loop_threshold :: int
  sc_watched_queues :: "string list"
  sc_queue_depth_threshold :: int
  sc_heartbeat_sources :: "heartbeat_cfg dict"
  sc_mem_avail_warn_mb :: int
  sc_swap_used_warn_mb :: int
  sc_incident_retention_days :: int
  sc_probe_state_retention_days :: int
  sc_poll_interval :: int
  sc_meta_enabled :: bool
  sc_meta_poll_interval :: int
  sc_prune_interval :: int

type_synonym triager = "signal \<Rightarrow> triage_world \<Rightarrow> (pyexc, triage_result) result \<times> triage_world"

text \<open>Triage one signal after the other; the number of pages delivered. An exception ends the loop.\<close>

fun triage_all :: "triager \<Rightarrow> signal list \<Rightarrow> nat \<Rightarrow> triage_world \<Rightarrow> (pyexc, nat) result \<times> triage_world" where
  "triage_all tri [] n w = (Inr n, w)"
| "triage_all tri (s # ss) n w =
     (case tri s w of
        (Inl e, w1) \<Rightarrow> (Inl e, w1)
      | (Inr r, w1) \<Rightarrow> triage_all tri ss (if tr_alerted r = Some True then Suc n else n) w1)"

definition run_sweep ::
  "(string \<Rightarrow> probe_obs) \<Rightarrow> triager \<Rightarrow> sweep_cfg \<Rightarrow> triage_world \<Rightarrow> (pyexc, nat \<times> nat \<times> nat) result \<times> triage_world" where
  "run_sweep net tri cfg w =
     (case sweep net (sc_targets cfg) (sc_slow_threshold cfg) (sc_cert_warn_days cfg) of
        Inl e \<Rightarrow> (Inl e, w)
      | Inr signals \<Rightarrow>
          (case triage_all tri signals 0 w of
             (Inl e, w1) \<Rightarrow> (Inl e, w1)
           | (Inr alerted, w1) \<Rightarrow> (Inr (length (sc_targets cfg), length signals, alerted), w1)))"

section \<open>Meta sweep\<close>

record meta_net =
  mn_endpoints :: "string \<Rightarrow> endpoint_obs"
  mn_listing :: "pyval option http"
  mn_inspect :: "pyval \<Rightarrow> pyval option http"
  mn_queues :: "pyval option http"
  mn_dbs :: "(string \<Rightarrow> beat_db option) option"
  mn_meminfo :: "string option"

definition meta_endpoint ::
  "meta_net \<Rightarrow> sweep_cfg \<Rightarrow> secs \<Rightarrow> string \<times> string \<Rightarrow> signal list \<times> probe_table \<Rightarrow> signal list \<times> probe_table" where
  "meta_endpoint net cfg now au acc =
     (case (au, acc) of
        ((agent, base_url), (signals, pt)) \<Rightarrow>
          (case probe_agent_endpoint (mn_endpoints net agent) agent base_url of
             Inl _ \<Rightarrow> (signals, pt)
           | Inr res \<Rightarrow>
               (case record_endpoint (''endpoint:'' @ agent) (er_healthz_ok res) now pt of
                  (streak, pt1) \<Rightarrow>
                    (signals @ endpoint_to_signals (sc_slow_threshold cfg) streak (sc_fail_streak_to_alert cfg) res, pt1))))"

definition meta_container ::
  "sweep_cfg \<Rightarrow> secs \<Rightarrow> container_state \<Rightarrow> signal list \<times> probe_table \<Rightarrow> signal list \<times> probe_table" where
  "meta_container cfg now st acc =
     (case acc of
        (signals, pt) \<Rightarrow>
          (case record_restart (''container:'' @ cs_name st) (cs_restart_count st) now pt of
             (prev, pt1) \<Rightarrow> (signals @ container_to_signals prev (sc_restart_loop_threshold cfg) st, pt1)))"

definition meta_queue ::
  "sweep_cfg \<Rightarrow> secs \<Rightarrow> string \<times> int \<Rightarrow> signal list \<times> probe_table \<Rightarrow> signal list \<times> probe_table" where
  "meta_queue cfg now nd acc =
     (case (nd, acc) of
        ((name, depth), (signals, pt)) \<Rightarrow>
          (case record_depth (''queue:'' @ name) depth now pt of
             (prev, pt1) \<Rightarrow>
               (signals @ (case queue_to_signal (sc_queue_depth_threshold cfg) name depth prev of
                             None \<Rightarrow> [] | Some s \<Rightarrow> [s]), pt1)))"

text \<open>Each source is collected in a guard of its own: if it raises, its signals are absent.\<close>

definition meta_containers :: "meta_net \<Rightarrow> sweep_cfg \<Rightarrow> secs \<Rightarrow> signal list \<times> probe_table \<Rightarrow> signal list \<times> probe_table" where
  "meta_containers net cfg now acc =
     (case collect_container_states (mn_listing net) (mn_inspect net) (sc_watched_containers cfg) of
        Inl _ \<Rightarrow> acc
      | Inr states \<Rightarrow> fold (meta_container cfg now) states acc)"

definition meta_queues :: "meta_net \<Rightarrow> sweep_cfg \<Rightarrow> secs \<Rightarrow> signal list \<times> probe_table \<Rightarrow> signal list \<times> probe_table" where
  "meta_queues net cfg now acc =
     (case collect_queue_depths (mn_queues net) (sc_watched_queues cfg) of
        Inl _ \<Rightarrow> acc
      | Inr depths \<Rightarrow> fold (meta_queue cfg now) depths acc)"

definition meta_heartbeats :: "meta_net \<Rightarrow> sweep_cfg \<Rightarrow> secs \<Rightarrow> signal list" where
  "meta_heartbeats net cfg now =
     (case mn_dbs net of
        None \<Rightarrow> []
      | Some dbs \<Rightarrow>
          (case collect_heartbeats dbs (sc_heartbeat_sources cfg) of
             Inl _ \<Rightarrow> []
           | Inr hbs \<Rightarrow> List.map_filter (heartbeat_to_signal (3/2) now) hbs))"

definition meta_host :: "meta_net \<Rightarrow> sweep_cfg \<Rightarrow> signal list" where
  "meta_host net cfg =
     (case read_host_meminfo (mn_meminfo net) of
        Inl _ \<Rightarrow> []
      | Inr m \<Rightarrow> if m = [] then [] else host_vitals_to_signals (sc_mem_avail_warn_mb cfg) (sc_swap_used_warn_mb cfg) m)"

definition collect_meta_signals :: "meta_net \<Rightarrow> sweep_cfg \<Rightarrow> secs \<Rightarrow> probe_table \<Rightarrow> signal list \<times> probe_table" where
  "collect_meta_signals net cfg now pt =
     (let a = fold (meta_endpoint net cfg now) (sc_agent_endpoints cfg) ([], pt);
          b = meta_containers net cfg now a;
          c = meta_queues net cfg now b
      in (fst c @ meta_heartbeats net cfg now @ meta_host net cfg, snd c))"

definition run_meta_sweep ::
  "meta_net \<Rightarrow> triager \<Rightarrow> sweep_cfg \<Rightarrow> probe_table \<Rightarrow> triage_world
    \<Rightarrow> (pyexc, nat \<times> nat \<times> nat \<times> nat) result \<times> probe_table \<times> triage_world" where
  "run_meta_sweep net tri cfg pt w =
     (case collect_meta_signals net cfg (tw_now w) pt of
        (signals, pt1) \<Rightarrow>
          (case triage_all tri signals 0 w of
             (Inl e, w1) \<Rightarrow> (Inl e, pt1, w1)
           | (Inr alerted, w1) \<Rightarrow>
               (Inr (length (sc_agent_endpoints cfg), length (sc_watched_containers cfg), length signals, alerted), pt1, w1)))"

section \<open>Retention and jobs\<close>

text \<open>Each prune is guarded: the flags say whether its statement reaches the database.\<close>

definition run_retention_prune ::
  "bool \<Rightarrow> bool \<Rightarrow> sweep_cfg \<Rightarrow> secs \<Rightarrow> incident_store \<Rightarrow> probe_table \<Rightarrow> (nat \<times> nat) \<times> incident_store \<times> probe_table" where
  "run_retention_prune inc_ok probe_ok cfg now st pt =
     (case (if inc_ok then incidents_prune (sc_incident_retention_days cfg) now st else (0, st)) of
        (i, st1) \<Rightarrow>
          (case (if probe_ok then probe_prune (sc_probe_state_retention_days cfg) now pt else (0, pt)) of
             (p, pt1) \<Rightarrow> ((i, p), st1, pt1)))"

definition build_scheduler :: "sweep_cfg \<Rightarrow> bool \<Rightarrow> bool \<Rightarrow> (string \<times> int) list" where
  "build_scheduler cfg have_meta_deps have_store =
     [(''health_sweep'', sc_poll_interval cfg)]
     @ (if sc_meta_enabled cfg \<and> have_meta_deps then [(''meta_sweep'', sc_meta_poll_interval cfg)] else [])
     @ (if have_store \<and> have_meta_deps \<and> 0 < sc_prune_interval cfg
        then [(''retention_prune'', sc_prune_interval cfg)] else [])"

end
