(* ===== verification/MonSettings.thy ===== *)
theory MonSettings
  imports AgentConfig Sweep
begin

text \<open>
  The monitoring agent's settings (\<open>monitoring_agent/settings.py\<close>): its fields with their defaults
  over the shared ones, and the parts of them the triage graph and the sweeps are built with.
\<close>

record mon_settings = agent_settings +
  ms_webhook_secret :: string
  ms_webhook_max_body_bytes :: int
  ms_webhook_max_alerts :: int
  ms_brand :: string
  ms_poll_interval_seconds :: int
  ms_targets :: "string list"
  ms_slow_threshold_seconds :: rat
  ms_cert_warn_days :: int
  ms_probe_timeout_seconds :: rat
  ms_dedup_window_minutes :: int
  ms_notify_max_attempts :: int
  ms_notify_retry_backoff_seconds :: rat
  ms_sweep_concurrency :: int
  ms_incident_retention_days :: int
  ms_probe_state_retention_days :: int
  ms_retention_prune_interval_seconds :: int
  ms_meta_enabled :: bool
  ms_meta_poll_interval_seconds :: int
  ms_agent_endpoints :: "string dict"
  ms_docker_proxy_url :: string
  ms_watched_containers :: "string list"
  ms_heartbeat_sources :: "heartbeat_cfg dict"
  ms_rabbit_mgmt_url :: string
  ms_watched_queues :: "string list"
  ms_queue_depth_threshold :: int
  ms_restart_loop_threshold :: int
  ms_error_spike_threshold :: int
  ms_fail_streak_to_alert :: int
  ms_meta_probe_timeout_seconds :: rat
  ms_host_meminfo_path :: string
  ms_host_mem_avail_warn_mb :: int
  ms_host_swap_used_warn_mb :: int

definition mon_defaults :: "agent_settings \<Rightarrow> mon_settings" where
  "mon_defaults s = agent_settings.extend
     (s\<lparr>cfg_agent_name := ''monitoring-agent'', cfg_postgres_db := Some ''monitoring'', cfg_redis_db := 2\<rparr>)
     \<lparr>ms_webhook_secret = [], ms_webhook_max_body_bytes = 256 * 1024, ms_webhook_max_alerts = 50,
      ms_brand = ''the monitored service'', ms_poll_interval_seconds = 60,
      ms_targets = [''https://example.com'', ''https://app.example.com''],
      ms_slow_threshold_seconds = 2, ms_cert_warn_days = 14, ms_probe_timeout_seconds = 10,
      ms_dedup_window_minutes = 30, ms_notify_max_attempts = 3, ms_notify_retry_backoff_seconds = 1/2,
      ms_sweep_concurrency = 8, ms_incident_retention_days = 90, ms_probe_state_retention_days = 30,
      ms_retention_prune_interval_seconds = 86400, ms_meta_enabled = True, ms_meta_poll_interval_seconds = 120,
      ms_agent_endpoints = [(''security-agent'', ''http://security-agent:8000''),
        (''web_ext_control'', ''http://web_ext_control:8000'')],
      ms_docker_proxy_url = ''http://docker-socket-proxy:2375'',
      ms_watched_containers = [''monitoring_agent'', ''security-agent'', ''web_ext_control'',
        ''agent-postgres-1'', ''agent-redis-1'', ''agent-rabbitmq-1''],
      ms_heartbeat_sources =
        [(''security-agent'', \<lparr>hc_db = Some ''security'', hc_table = ''run_heartbeats'', hc_job = Some ''scan'',
            hc_interval = 86400\<rparr>),
         (''web-ext-pipeline'', \<lparr>hc_db = Some ''web_ext_pipeline'', hc_table = ''run_heartbeats'',
            hc_job = Some ''pipeline'', hc_interval = 0\<rparr>)],
      ms_rabbit_mgmt_url = ''http://agent-rabbitmq-1:15672'', ms_watched_queues = [''agent.alerts.telegram''],
      ms_queue_depth_threshold = 100, ms_restart_loop_threshold = 3, ms_error_spike_threshold = 5,
      ms_fail_streak_to_alert = 2, ms_meta_probe_timeout_seconds = 5, ms_host_meminfo_path = ''/proc/meminfo'',
      ms_host_mem_avail_warn_mb = 1536, ms_host_swap_used_warn_mb = 512\<rparr>"

text \<open>What the lifespan passes to the graph, and what the sweeps read.\<close>

definition triage_cfg_of :: "mon_settings \<Rightarrow> triage_cfg" where
  "triage_cfg_of s = \<lparr>tc_agent_name = cfg_agent_name s, tc_dedup_window_minutes = ms_dedup_window_minutes s,
     tc_brand = ms_brand s, tc_notify_max_attempts = ms_notify_max_attempts s\<rparr>"

definition sweep_cfg_of :: "mon_settings \<Rightarrow> sweep_cfg" where
  "sweep_cfg_of s = \<lparr>sc_targets = ms_targets s, sc_slow_threshold = ms_slow_threshold_seconds s,
     sc_cert_warn_days = ms_cert_warn_days s, sc_agent_endpoints = ms_agent_endpoints s,
     sc_fail_streak_to_alert = ms_fail_streak_to_alert s, sc_watched_containers = ms_watched_containers s,
     sc_restart_loop_threshold = ms_restart_loop_threshold s, sc_watched_queues = ms_watched_queues s,
     sc_queue_depth_threshold = ms_queue_depth_threshold s, sc_heartbeat_sources = ms_heartbeat_sources s,
     sc_mem_avail_warn_mb = ms_host_mem_avail_warn_mb s, sc_swap_used_warn_mb = ms_host_swap_used_warn_mb s,
     sc_incident_retention_days = ms_incident_retention_days s,
     sc_probe_state_retention_days = ms_probe_state_retention_days s,
     sc_poll_interval = ms_poll_interval_seconds s, sc_meta_enabled = ms_meta_enabled s,
     sc_meta_poll_interval = ms_meta_poll_interval_seconds s,
     sc_prune_interval = ms_retention_prune_interval_seconds s\<rparr>"

end
