(* ===== verification/TriageProps.thy ===== *)
theory TriageProps
  imports Sweep
begin

text \<open>
  Lemmas on the triage graph and the incidents table: what the retry loop of \<open>notify\<close> leaves, the one
  form every run of \<open>triage\<close> has, and what a row of the table remembers.
\<close>

section \<open>The retry loop\<close>

lemma try_publish_frame [frame]:
  "tw_store (snd (try_publish k br a w)) = tw_store w"
  "tw_llm (snd (try_publish k br a w)) = tw_llm w"
  "tw_now (snd (try_publish k br a w)) = tw_now w"
  by (induction k arbitrary: w) (simp_all add: Let_def)

lemma try_publish_delivered:
  "tw_delivered (snd (try_publish k br a w)) = tw_delivered w @ (if fst (try_publish k br a w) then [a] else [])"
  by (induction k arbitrary: w) (simp_all add: Let_def)

lemma try_publish_attempts:
  "tw_attempts (snd (try_publish k br a w)) \<le> tw_attempts w + k
   \<and> (0 < k \<longrightarrow> tw_attempts w < tw_attempts (snd (try_publish k br a w)))
   \<and> (\<not> fst (try_publish k br a w) \<longrightarrow> tw_attempts (snd (try_publish k br a w)) = tw_attempts w + k)"
proof (induction k arbitrary: w)
  case (Suc k)
  show ?case
  proof (cases "br (tw_attempts w) a")
    case False
    have "tw_attempts (snd (try_publish k br a (w\<lparr>tw_attempts := Suc (tw_attempts w)\<rparr>))) \<ge> Suc (tw_attempts w)"
      by (cases k) (use Suc.IH [of "w\<lparr>tw_attempts := Suc (tw_attempts w)\<rparr>"] in auto)
    then show ?thesis
      using False Suc.IH [of "w\<lparr>tw_attempts := Suc (tw_attempts w)\<rparr>"] by simp
  qed (simp add: Let_def)
qed simp

lemma try_publish_succeeds:
  "fst (try_publish k br a w) = (\<exists>i<k. br (tw_attempts w + i) a)"
proof (induction k arbitrary: w)
  case (Suc k)
  have "(\<exists>i<Suc k. br (tw_attempts w + i) a) = (br (tw_attempts w) a \<or> (\<exists>i<k. br (Suc (tw_attempts w) + i) a))"
    unfolding Ex_less_Suc2 by simp
  then show ?case by (simp add: Let_def Suc.IH)
qed simp

lemma notify_attempts_pos [simp]: "0 < notify_attempts cfg"
  by (simp add: notify_attempts_def)

section \<open>One run of the graph\<close>

definition sig_key :: "(string \<Rightarrow> string) \<Rightarrow> signal \<Rightarrow> string" where
  "sig_key sha sg = make_dedup_key sha (sg_source sg) (sg_fingerprint sg)"

definition bad_severity :: "pyval dict \<Rightarrow> bool" where
  "bad_severity parsed \<longleftrightarrow> (case dget parsed ''severity'' of PyList _ \<Rightarrow> True | PyDict _ \<Rightarrow> True | _ \<Rightarrow> False)"

lemma classify_parsed_cases:
  "if bad_severity parsed then classify_parsed sg parsed = Inl TypeError
   else \<exists>sev cat hyp. classify_parsed sg parsed = Inr (sev, cat, hyp) \<and> sev \<in> set valid_severity"
proof (cases "bad_severity parsed")
  case True
  then show ?thesis by (auto simp: bad_severity_def classify_parsed_def split: pyval.splits)
next
  case False
  have "suggested_or_warning sg \<in> set valid_severity"
    by (simp add: suggested_or_warning_def valid_severity_def)
  with False show ?thesis
    by (cases "dget parsed ''severity''") (auto simp: bad_severity_def classify_parsed_def)
qed

text \<open>The occurrence a run writes, and the incident it gets back.\<close>

definition occ_of :: "signal \<Rightarrow> string \<Rightarrow> pyval \<Rightarrow> secs \<Rightarrow> incident_store \<Rightarrow> occurrence" where
  "occ_of sg sev hyp now st = \<lparr>oc_id = is_next_id st, oc_source = sg_source sg, oc_severity = sev,
     oc_title = sg_title sg, oc_body = with_hypothesis (sg_body sg) hyp, oc_now = now\<rparr>"

lemma dedup_store:
  "is_rows (snd (dedup sha cfg sg sev hyp now st)) =
     upsert_row incident_merge (sig_key sha sg) (occ_of sg sev hyp now st) (is_rows st)"
  by (simp add: dedup_def is_rows_upsert sig_key_def occ_of_def split: prod.splits)
    (metis is_rows_upsert snd_conv)

lemma dedup_row:
  "ic_row (fst (fst (dedup sha cfg sg sev hyp now st))) =
     incident_merge (occ_of sg sev hyp now st) (map_of (is_rows st) (sig_key sha sg))"
  by (simp add: dedup_def sig_key_def occ_of_def incident_upsert_def upsert_write_def Let_def)

lemma dedup_key: "ic_key (fst (fst (dedup sha cfg sg sev hyp now st))) = sig_key sha sg"
  by (simp add: dedup_def sig_key_def incident_upsert_def upsert_write_def Let_def)

lemma dedup_suppressed:
  "snd (fst (dedup sha cfg sg sev hyp now st)) =
     (case map_of (is_rows st) (sig_key sha sg) of None \<Rightarrow> False
      | Some p \<Rightarrow> now - in_last_seen p < of_int (tc_dedup_window_minutes cfg * 60))"
  by (auto simp: dedup_def sig_key_def incident_upsert_def upsert_write_def upsert_read_def incident_merge_def Let_def
      split: option.splits)

text \<open>When the graph stays quiet: a repeat inside the window, not critical, whose last page was delivered.\<close>

definition quiet :: "triage_cfg \<Rightarrow> string \<Rightarrow> secs \<Rightarrow> incident_row option \<Rightarrow> bool" where
  "quiet cfg sev now prev =
     (case prev of None \<Rightarrow> False
      | Some p \<Rightarrow> now - in_last_seen p < of_int (tc_dedup_window_minutes cfg * 60) \<and> sev \<noteq> ''critical''
          \<and> in_status p \<noteq> ''alert_failed'')"

lemma decide_dedup:
  "decide (fst (fst (dedup sha cfg sg sev hyp now st))) sev (snd (fst (dedup sha cfg sg sev hyp now st))) =
     (if quiet cfg sev now (map_of (is_rows st) (sig_key sha sg)) then ''suppress'' else ''alert'')"
  by (auto simp: decide_def dedup_suppressed dedup_row quiet_def incident_merge_def split: option.splits)

text \<open>
  What a run that returns has done: \<open>row\<close> is the incident row it wrote, \<open>a\<close> the page it built. The two
  branches are the two ends of the graph.
\<close>

definition quiet_run :: "triage_result \<Rightarrow> triage_world \<Rightarrow> string \<Rightarrow> incident_row \<Rightarrow> triage_world \<Rightarrow> bool" where
  "quiet_run r w k row w' \<longleftrightarrow>
     tr_action r = ''suppress'' \<and> tr_alerted r = None \<and> tw_attempts w' = tw_attempts w
     \<and> tw_delivered w' = tw_delivered w \<and> map_of (is_rows (tw_store w')) k = Some row"

definition paging_run ::
  "(nat \<Rightarrow> alert \<Rightarrow> bool) \<Rightarrow> triage_cfg \<Rightarrow> triage_result \<Rightarrow> triage_world \<Rightarrow> string \<Rightarrow> incident_row \<Rightarrow> alert \<Rightarrow> triage_world \<Rightarrow> bool" where
  "paging_run br cfg r w k row a w' \<longleftrightarrow>
     (let ok = (\<exists>i<notify_attempts cfg. br (tw_attempts w + i) a) in
      tr_action r = ''alert'' \<and> tr_alerted r = Some ok \<and> tr_alert_failed r = Some (\<not> ok)
      \<and> tw_attempts w < tw_attempts w' \<and> tw_attempts w' \<le> tw_attempts w + notify_attempts cfg
      \<and> tw_delivered w' = tw_delivered w @ (if ok then [a] else [])
      \<and> al_dedup_key a = Some k \<and> al_severity a = tr_severity r
      \<and> map_of (is_rows (tw_store w')) k = Some (row\<lparr>in_status :=
          (if ok then (if in_status row = ''alert_failed'' then ''open'' else in_status row) else ''alert_failed'')\<rparr>))"

lemma notify_run:
  assumes "notify br cfg sg sev cat hyp inc w = ((al, af), w')"
    and "map_of (is_rows (tw_store w)) (ic_key inc) = Some (ic_row inc)"
  shows "let a = build_alert cfg sg sev cat hyp inc; ok = (\<exists>i<notify_attempts cfg. br (tw_attempts w + i) a) in
      al = ok \<and> af = (\<not> ok) \<and> tw_attempts w < tw_attempts w' \<and> tw_attempts w' \<le> tw_attempts w + notify_attempts cfg
      \<and> tw_delivered w' = tw_delivered w @ (if ok then [a] else []) \<and> tw_now w' = tw_now w
      \<and> (\<forall>k'. map_of (is_rows (tw_store w')) k' = (if k' = ic_key inc then Some ((ic_row inc)\<lparr>in_status :=
          (if ok then (if in_status (ic_row inc) = ''alert_failed'' then ''open'' else in_status (ic_row inc))
           else ''alert_failed'')\<rparr>) else map_of (is_rows (tw_store w)) k'))"
proof -
  let ?a = "build_alert cfg sg sev cat hyp inc"
  obtain b w1 where t: "try_publish (notify_attempts cfg) br ?a w = (b, w1)" by fastforce
  have frame: "tw_store w1 = tw_store w" "tw_now w1 = tw_now w" using try_publish_frame [of "notify_attempts cfg" br ?a w] t by simp_all
  have att: "tw_attempts w < tw_attempts w1" "tw_attempts w1 \<le> tw_attempts w + notify_attempts cfg"
    using try_publish_attempts [of "notify_attempts cfg" br ?a w] t by simp_all
  have dl: "tw_delivered w1 = tw_delivered w @ (if b then [?a] else [])"
    using try_publish_delivered [of "notify_attempts cfg" br ?a w] t by simp
  have b: "b = (\<exists>i<notify_attempts cfg. br (tw_attempts w + i) ?a)"
    using try_publish_succeeds [of "notify_attempts cfg" br ?a w] t by simp
  have al: "al = b" "af = (\<not> b)" and
    w': "w' = (if b then (if in_status (ic_row inc) = ''alert_failed''
             then w1\<lparr>tw_store := clear_alert_failed (ic_key inc) (tw_store w1)\<rparr> else w1)
           else w1\<lparr>tw_store := mark_alert_failed (ic_key inc) (tw_store w1)\<rparr>)"
    using assms(1) by (auto simp: notify_def t split: bool.splits)
  show ?thesis unfolding Let_def b [symmetric]
    using att dl al assms(2) by (auto simp: w' frame mark_alert_failed_def clear_alert_failed_def map_of_update_where)
qed

lemma triage_raises:
  assumes "bad_severity (fst (ask_llm gw clk cfg sg (tw_llm w)))"
  shows "triage gw clk sha br cfg sg w = (Inl TypeError, w\<lparr>tw_llm := snd (ask_llm gw clk cfg sg (tw_llm w))\<rparr>)"
  using assms classify_parsed_cases [of "fst (ask_llm gw clk cfg sg (tw_llm w))" sg]
  by (cases "ask_llm gw clk cfg sg (tw_llm w)") (simp add: triage_def)

lemma triage_returns:
  assumes "\<not> bad_severity (fst (ask_llm gw clk cfg sg (tw_llm w)))"
  shows "\<exists>r w'. triage gw clk sha br cfg sg w = (Inr r, w')"
proof -
  obtain parsed s1 where q: "ask_llm gw clk cfg sg (tw_llm w) = (parsed, s1)" by fastforce
  obtain sev cat hyp where c: "classify_parsed sg parsed = Inr (sev, cat, hyp)"
    using classify_parsed_cases [of parsed sg] assms q by auto
  obtain inc sup st1 where d: "dedup sha cfg sg sev hyp (tw_now w) (tw_store w) = ((inc, sup), st1)" by (metis prod.exhaust)
  obtain al af w3 where n: "notify br cfg sg sev cat hyp inc (w\<lparr>tw_llm := s1, tw_store := st1\<rparr>) = ((al, af), w3)"
    by (metis prod.exhaust)
  show ?thesis by (simp add: triage_def q c d n Let_def)
qed

lemma triage_run:
  assumes "triage gw clk sha br cfg sg w = (Inr r, w')"
  shows "\<exists>row hyp. row = incident_merge (occ_of sg (tr_severity r) hyp (tw_now w) (tw_store w))
        (map_of (is_rows (tw_store w)) (sig_key sha sg))
      \<and> tr_severity r \<in> set valid_severity \<and> tw_now w' = tw_now w
      \<and> (\<forall>k'. k' \<noteq> sig_key sha sg \<longrightarrow> map_of (is_rows (tw_store w')) k' = map_of (is_rows (tw_store w)) k')
      \<and> (if quiet cfg (tr_severity r) (tw_now w) (map_of (is_rows (tw_store w)) (sig_key sha sg))
         then quiet_run r w (sig_key sha sg) row w' else \<exists>a. paging_run br cfg r w (sig_key sha sg) row a w')"
proof -
  let ?k = "sig_key sha sg"
  obtain parsed s1 where q: "ask_llm gw clk cfg sg (tw_llm w) = (parsed, s1)" by fastforce
  have "\<not> bad_severity parsed" using triage_raises [of gw clk cfg sg w sha br] assms q by fastforce
  then obtain sev cat hyp where c: "classify_parsed sg parsed = Inr (sev, cat, hyp)" "sev \<in> set valid_severity"
    using classify_parsed_cases [of parsed sg] by auto
  obtain inc sup st1 where d: "dedup sha cfg sg sev hyp (tw_now w) (tw_store w) = ((inc, sup), st1)" by (metis prod.exhaust)
  let ?prev = "map_of (is_rows (tw_store w)) ?k"
  let ?row = "incident_merge (occ_of sg sev hyp (tw_now w) (tw_store w)) ?prev"
  have row: "ic_row inc = ?row" and key: "ic_key inc = ?k"
    using dedup_row [of sha cfg sg sev hyp "tw_now w" "tw_store w"] dedup_key [of sha cfg sg sev hyp "tw_now w" "tw_store w"] d
    by simp_all
  have dec: "decide inc sev sup = (if quiet cfg sev (tw_now w) ?prev then ''suppress'' else ''alert'')"
    using decide_dedup [of sha cfg sg sev hyp "tw_now w" "tw_store w"] d by simp
  have rows: "map_of (is_rows st1) k' = (if k' = ?k then Some ?row else map_of (is_rows (tw_store w)) k')" for k'
    using dedup_store [of sha cfg sg sev hyp "tw_now w" "tw_store w"] d by (simp add: map_of_upsert_row)
  let ?w2 = "w\<lparr>tw_llm := s1, tw_store := st1\<rparr>"
  show ?thesis
  proof (cases "quiet cfg sev (tw_now w) ?prev")
    case True
    then show ?thesis using assms c(2)
      by (intro exI [of _ ?row] exI [of _ hyp]) (auto simp: triage_def q c(1) d dec Let_def rows quiet_run_def)
  next
    case False
    obtain al af w3 where n: "notify br cfg sg sev cat hyp inc ?w2 = ((al, af), w3)" by (metis prod.exhaust)
    have r: "r = \<lparr>tr_severity = sev, tr_category = cat, tr_incident = inc, tr_suppressed = sup, tr_action = ''alert'',
        tr_alerted = Some al, tr_alert_failed = Some af\<rparr>" and w': "w' = w3"
      using assms False by (auto simp: triage_def q c(1) d dec Let_def n)
    have a: "al_dedup_key (build_alert cfg sg sev cat hyp inc) = Some ?k"
      "al_severity (build_alert cfg sg sev cat hyp inc) = sev" by (simp_all add: build_alert_def Let_def key)
    let ?a = "build_alert cfg sg sev cat hyp inc"
    let ?ok = "\<exists>i<notify_attempts cfg. br (tw_attempts w + i) ?a"
    have nr: "al = ?ok" "af = (\<not> ?ok)" "tw_attempts w < tw_attempts w3"
      "tw_attempts w3 \<le> tw_attempts w + notify_attempts cfg" "tw_delivered w3 = tw_delivered w @ (if ?ok then [?a] else [])"
      "tw_now w3 = tw_now w"
      "map_of (is_rows (tw_store w3)) k' = (if k' = ?k then Some (?row\<lparr>in_status :=
          (if ?ok then (if in_status ?row = ''alert_failed'' then ''open'' else in_status ?row) else ''alert_failed'')\<rparr>)
        else map_of (is_rows (tw_store w)) k')" for k'
      using notify_run [OF n] by (simp_all add: rows key row Let_def)
    have "paging_run br cfg r w ?k ?row ?a w'"
      unfolding paging_run_def Let_def using nr a by (simp add: r w')
    moreover have "\<forall>k'. k' \<noteq> ?k \<longrightarrow> map_of (is_rows (tw_store w')) k' = map_of (is_rows (tw_store w)) k'"
      unfolding w' nr(7) by simp
    moreover have "tr_severity r = sev" "tw_now w' = tw_now w" by (simp_all add: r w' nr(6))
    ultimately show ?thesis using False c(2) by auto
  qed
qed

end
