(* ===== verification/JsonBytes.thy ===== *)
theory JsonBytes
  imports JsonProps
begin

text \<open>
  Python's \<open>json.loads\<close> of bytes: how a request or response body becomes text before it is decoded.
\<close>

text \<open>A body is a list of bytes, held as characters.\<close>

definition is_cont :: "char \<Rightarrow> bool" where
  "is_cont c \<longleftrightarrow> 128 \<le> code c \<and> code c \<le> 191"

text \<open>
  UTF-8, surrogates accepted as \<open>json.loads\<close> does: a code point above 255 is outside the model, an
  ill-formed sequence is a \<open>UnicodeDecodeError\<close>, which is a \<open>ValueError\<close>.
\<close>

fun utf8_decode :: "string \<Rightarrow> (pyexc, string) result" where
  "utf8_decode [] = Inr []"
| "utf8_decode (b # bs) =
     (if code b < 128 then rbind (utf8_decode bs) (\<lambda>t. Inr (b # t))
      else if 194 \<le> code b \<and> code b \<le> 223 then
        (case bs of
           c # cs \<Rightarrow>
             if \<not> is_cont c then Inl ValueError
             else if code b \<le> 195
             then rbind (utf8_decode cs) (\<lambda>t. Inr (char_of ((code b - 192) * 64 + (code c - 128)) # t))
             else rbind (utf8_decode cs) (\<lambda>_. Inl Unrepresentable)
         | [] \<Rightarrow> Inl ValueError)
      else if 224 \<le> code b \<and> code b \<le> 239 then
        (case bs of
           c # d # cs \<Rightarrow>
             if is_cont c \<and> is_cont d \<and> (code b = 224 \<longrightarrow> 160 \<le> code c)
             then rbind (utf8_decode cs) (\<lambda>_. Inl Unrepresentable) else Inl ValueError
         | _ \<Rightarrow> Inl ValueError)
      else if 240 \<le> code b \<and> code b \<le> 244 then
        (case bs of
           c # d # e # cs \<Rightarrow>
             if is_cont c \<and> is_cont d \<and> is_cont e \<and> (code b = 240 \<longrightarrow> 144 \<le> code c) \<and> (code b = 244 \<longrightarrow> code c \<le> 143)
             then rbind (utf8_decode cs) (\<lambda>_. Inl Unrepresentable) else Inl ValueError
         | _ \<Rightarrow> Inl ValueError)
      else Inl ValueError)"

text \<open>
  \<open>json.loads\<close> of bytes: a UTF-8 byte order mark is dropped; a UTF-16 or UTF-32 text, which its first
  bytes give away, is outside the model.
\<close>

definition json_loads_bytes :: "string \<Rightarrow> (pyexc, pyval) result" where
  "json_loads_bytes raw =
     (if prefix [CHR 0xEF, CHR 0xBB, CHR 0xBF] raw then rbind (utf8_decode (drop 3 raw)) json_loads
      else if prefix [CHR 0xFE, CHR 0xFF] raw \<or> prefix [CHR 0xFF, CHR 0xFE] raw \<or> CHR 0x00 \<in> set (take 4 raw)
      then Inl Unrepresentable
      else rbind (utf8_decode raw) json_loads)"

end
