(* ===== verification/MonitorApi.thy ===== *)
theory MonitorApi
  imports MonSettings TriageProps JsonBytes
begin

text \<open>
  The HTTP surface of the monitoring agent (\<open>monitoring_agent/api.py\<close>): the signed webhooks, the
  admin routes and the lifespan's pools. A route returns its JSON body or raises (\<open>HttpError\<close> is
  the response FastAPI makes of it, any other exception is a 500), and the world it leaves.
  HMAC-SHA256, PyJWT, the network and the databases are arguments.
\<close>

section \<open>Reading a webhook body\<close>

definition parse_json_body :: "string \<Rightarrow> (pyexc, pyval) result" where
  "parse_json_body raw =
     (case json_loads_bytes raw of
        Inl JSONDecodeError \<Rightarrow> Inl (HttpError 400 ''invalid JSON body'')
      | r \<Rightarrow> r)"

type_synonym hmac = "string \<Rightarrow> string \<Rightarrow> string"

definition verified_webhook_body ::
  "hmac \<Rightarrow> mon_settings \<Rightarrow> string \<Rightarrow> string option \<Rightarrow> (pyexc, string) result" where
  "verified_webhook_body hm st raw sig =
     (if ms_webhook_max_body_bytes st < int (length raw) then Inl (HttpError 413 ''webhook body too large'')
      else rbind (verify_webhook_signature hm raw sig (ms_webhook_secret st)) (\<lambda>ok.
        if \<not> ok then Inl (HttpError 401 ''invalid or missing webhook signature'') else Inr raw))"

definition webhook_object :: "hmac \<Rightarrow> mon_settings \<Rightarrow> string \<Rightarrow> string option \<Rightarrow> (pyexc, pyval) result" where
  "webhook_object hm st raw sig =
     rbind (verified_webhook_body hm st raw sig) (\<lambda>body.
     rbind (parse_json_body body) (\<lambda>payload.
       if is_dict payload then Inr payload else Inl (HttpError 400 ''expected a JSON object'')))"

section \<open>Webhooks\<close>

definition intake_response :: "triage_result \<Rightarrow> pyval" where
  "intake_response r = PyDict
     [(''incident_id'', PyInt (in_id (ic_row (tr_incident r)))), (''severity'', PyStr (tr_severity r)),
      (''category'', tr_category r), (''action'', PyStr (tr_action r)), (''suppressed'', PyBool (tr_suppressed r)),
      (''alerted'', PyBool (tr_alerted r = Some True)), (''count'', PyInt (in_count (ic_row (tr_incident r))))]"

definition webhook_sentry ::
  "hmac \<Rightarrow> triager \<Rightarrow> mon_settings \<Rightarrow> string \<Rightarrow> string option \<Rightarrow> triage_world
    \<Rightarrow> (pyexc, pyval) result \<times> triage_world" where
  "webhook_sentry hm tri st raw sig w =
     (case rbind (webhook_object hm st raw sig) parse_sentry of
        Inl e \<Rightarrow> (Inl e, w)
      | Inr sg \<Rightarrow>
          (case tri sg w of
             (Inl e, w1) \<Rightarrow> (Inl e, w1)
           | (Inr r, w1) \<Rightarrow> (Inr (intake_response r), w1)))"

text \<open>The runs of the graph, in order; the first exception ends them.\<close>

fun triage_each :: "triager \<Rightarrow> signal list \<Rightarrow> triage_world \<Rightarrow> (pyexc, triage_result list) result \<times> triage_world" where
  "triage_each tri [] w = (Inr [], w)"
| "triage_each tri (s # ss) w =
     (case tri s w of
        (Inl e, w1) \<Rightarrow> (Inl e, w1)
      | (Inr r, w1) \<Rightarrow>
          (case triage_each tri ss w1 of
             (Inl e, w2) \<Rightarrow> (Inl e, w2)
           | (Inr rs, w2) \<Rightarrow> (Inr (r # rs), w2)))"

definition cap_alerts :: "mon_settings \<Rightarrow> signal list \<Rightarrow> signal list \<times> int" where
  "cap_alerts st sgs =
     (let dropped = max 0 (int (length sgs) - ms_webhook_max_alerts st)
      in (if dropped \<noteq> 0 then py_take (ms_webhook_max_alerts st) sgs else sgs, dropped))"

definition alert_response :: "triage_result list \<Rightarrow> nat \<Rightarrow> int \<Rightarrow> pyval" where
  "alert_response rs received dropped = PyDict
     [(''received'', PyInt (int received)), (''dropped'', PyInt dropped),
      (''alerted'', PyInt (int (length (filter (\<lambda>r. tr_alerted r = Some True) rs)))),
      (''incidents'', PyList (map intake_response rs))]"

definition webhook_alert ::
  "hmac \<Rightarrow> triager \<Rightarrow> mon_settings \<Rightarrow> string \<Rightarrow> string option \<Rightarrow> triage_world
    \<Rightarrow> (pyexc, pyval) result \<times> triage_world" where
  "webhook_alert hm tri st raw sig w =
     (case rbind (webhook_object hm st raw sig) parse_alert of
        Inl e \<Rightarrow> (Inl e, w)
      | Inr all_sgs \<Rightarrow>
          (case cap_alerts st all_sgs of
             (sgs, dropped) \<Rightarrow>
               (case triage_each tri sgs w of
                  (Inl e, w1) \<Rightarrow> (Inl e, w1)
                | (Inr rs, w1) \<Rightarrow> (Inr (alert_response rs (length sgs) dropped), w1))))"

section \<open>Admin routes\<close>

definition admin_principal :: "jwtlib \<Rightarrow> secs \<Rightarrow> mon_settings \<Rightarrow> string \<Rightarrow> (pyexc, principal) result" where
  "admin_principal lib now st authorization =
     rbind (current_principal lib now (auth_settings.truncate st) authorization) require_admin"

definition incident_json :: "string \<times> incident_row \<Rightarrow> pyval" where
  "incident_json kr = (case kr of (k, i) \<Rightarrow> PyDict
     [(''id'', PyInt (in_id i)), (''dedup_key'', PyStr k), (''source'', PyStr (in_source i)),
      (''severity'', PyStr (in_severity i)), (''title'', PyStr (in_title i)), (''count'', PyInt (in_count i)),
      (''status'', PyStr (in_status i)), (''first_seen'', PyStr (isoformat (in_first_seen i))),
      (''last_seen'', PyStr (isoformat (in_last_seen i)))])"

definition list_incidents ::
  "jwtlib \<Rightarrow> secs \<Rightarrow> mon_settings \<Rightarrow> string \<Rightarrow> int \<Rightarrow> incident_store \<Rightarrow> (pyexc, pyval) result" where
  "list_incidents lib now st authorization limit store =
     rbind (admin_principal lib now st authorization) (\<lambda>_.
       let rows = incidents_recent (nat (max 1 (min limit 500))) store
       in Inr (PyDict [(''count'', PyInt (int (length rows))), (''incidents'', PyList (map incident_json rows))]))"

definition trigger_sweep ::
  "jwtlib \<Rightarrow> secs \<Rightarrow> mon_settings \<Rightarrow> string \<Rightarrow> (string \<Rightarrow> probe_obs) \<Rightarrow> triager \<Rightarrow> triage_world
    \<Rightarrow> (pyexc, nat \<times> nat \<times> nat) result \<times> triage_world" where
  "trigger_sweep lib now st authorization net tri w =
     (case admin_principal lib now st authorization of
        Inl e \<Rightarrow> (Inl e, w)
      | Inr _ \<Rightarrow> run_sweep net tri (sweep_cfg_of st) w)"

definition trigger_meta_sweep ::
  "jwtlib \<Rightarrow> secs \<Rightarrow> mon_settings \<Rightarrow> string \<Rightarrow> meta_net \<Rightarrow> triager \<Rightarrow> probe_table \<Rightarrow> triage_world
    \<Rightarrow> (pyexc, nat \<times> nat \<times> nat \<times> nat) result \<times> probe_table \<times> triage_world" where
  "trigger_meta_sweep lib now st authorization net tri pt w =
     (case admin_principal lib now st authorization of
        Inl e \<Rightarrow> (Inl e, pt, w)
      | Inr _ \<Rightarrow> run_meta_sweep net tri (sweep_cfg_of st) pt w)"

definition opt_val :: "('a \<Rightarrow> pyval) \<Rightarrow> 'a option \<Rightarrow> pyval" where
  "opt_val f v = (case v of None \<Rightarrow> PyNone | Some x \<Rightarrow> f x)"

definition endpoint_json :: "endpoint_result \<Rightarrow> pyval" where
  "endpoint_json r = PyDict
     [(''agent'', PyStr (er_agent r)), (''url'', PyStr (er_base_url r)), (''healthz_ok'', PyBool (er_healthz_ok r)),
      (''ready'', opt_val PyBool (er_ready r)), (''failed_checks'', PyList (map PyStr (er_failed_checks r))),
      (''latency_seconds'', opt_val (\<lambda>x. PyFloat (float_of_rat x)) (er_latency r)),
      (''error'', opt_val PyStr (er_error r))]"

definition container_json :: "container_state \<Rightarrow> pyval" where
  "container_json s = PyDict
     [(''name'', PyStr (cs_name s)), (''status'', PyStr (cs_status s)), (''oom_killed'', PyBool (cs_oom_killed s)),
      (''restart_count'', PyInt (cs_restart_count s)), (''health'', cs_health s),
      (''exit_code'', opt_int (cs_exit_code s))]"

definition heartbeat_json :: "secs \<Rightarrow> heartbeat_state \<Rightarrow> pyval" where
  "heartbeat_json now h = PyDict
     [(''agent'', PyStr (hb_agent h)), (''last_finished'', opt_val (\<lambda>t. PyStr (isoformat t)) (hb_last_finished h)),
      (''last_status'', opt_str (hb_last_status h)), (''expected_interval_s'', PyInt (hb_expected_interval h)),
      (''overdue_or_failed'', PyBool (heartbeat_to_signal (3/2) now h \<noteq> None))]"

text \<open>The agents are probed outside any guard; containers and heartbeats each in one of their own.\<close>

definition agents_snapshot ::
  "jwtlib \<Rightarrow> secs \<Rightarrow> mon_settings \<Rightarrow> string \<Rightarrow> meta_net \<Rightarrow> incident_store \<Rightarrow> (pyexc, pyval) result" where
  "agents_snapshot lib now st authorization net store =
     rbind (admin_principal lib now st authorization) (\<lambda>_.
     rbind (rmap (\<lambda>(name, base_url). probe_agent_endpoint (mn_endpoints net name) name base_url) (ms_agent_endpoints st))
       (\<lambda>agents.
       let states = (case collect_container_states (mn_listing net) (mn_inspect net) (ms_watched_containers st) of
             Inl _ \<Rightarrow> [] | Inr ss \<Rightarrow> ss);
           hbs = (case mn_dbs net of
               None \<Rightarrow> []
             | Some dbs \<Rightarrow> (case collect_heartbeats dbs (ms_heartbeat_sources st) of Inl _ \<Rightarrow> [] | Inr h \<Rightarrow> h))
       in Inr (PyDict
            [(''agents'', PyList (map endpoint_json agents)), (''containers'', PyList (map container_json states)),
             (''heartbeats'', PyList (map (heartbeat_json now) hbs)),
             (''open_agent_health_incidents'', PyInt (int (open_count_by_source agent_health store)))])))"

section \<open>Cross-database pools\<close>

definition db_url_for :: "mon_settings \<Rightarrow> string \<Rightarrow> string" where
  "db_url_for st db_name = (case rpartition_at CHR ''/'' (database_url st) of (head, _, _) \<Rightarrow> head @ ''/'' @ db_name)"

text \<open>A pool is its connection string and its server options; one that fails to open is not kept.\<close>

record cross_pool =
  cp_conninfo :: string
  cp_autocommit :: bool
  cp_options :: string

definition pool_for ::
  "mon_settings \<Rightarrow> (string \<Rightarrow> bool) \<Rightarrow> string \<Rightarrow> cross_pool dict \<Rightarrow> (pyexc, cross_pool) result \<times> cross_pool dict" where
  "pool_for st opens db_name pools =
     (case map_of pools db_name of
        Some p \<Rightarrow> (Inr p, pools)
      | None \<Rightarrow>
          let p = \<lparr>cp_conninfo = db_url_for st db_name, cp_autocommit = True,
                   cp_options = ''-c default_transaction_read_only=on''\<rparr>
          in if opens (cp_conninfo p) then (Inr p, dict_set db_name p pools)
             else (Inl (Upstream ''PoolError''), pools))"

end
