(* ===== verification/JsonRoundtrip.thy ===== *)
theory JsonRoundtrip
  imports JsonProps
begin

text \<open>
  Decoding an encoded value gives it back: \<open>json.loads(json.dumps(v)) == v\<close> for values whose
  objects have distinct keys, whose integers have at most 4300 digits and whose finite floats are in
  their canonical form.
\<close>

text \<open>A finite float in its canonical form: no trailing zeros in the significand.\<close>

definition canonical :: "int \<Rightarrow> int \<Rightarrow> bool" where
  "canonical m e \<longleftrightarrow> dec_norm m e = Dec m e"

fun jwf :: "pyval \<Rightarrow> bool" where
  "jwf (PyFloat (Dec m e)) = canonical m e"
| "jwf (PyInt k) = (length (show_nat (nat \<bar>k\<bar>)) \<le> 4300)"
| "jwf (PyList vs) = list_all jwf vs"
| "jwf (PyDict d) = (distinct (map fst d) \<and> list_all (\<lambda>(k, v). jwf v) d)"
| "jwf _ = True"

section \<open>Strings\<close>

lemma hex_val_hex_digit [simp]: "n < 16 \<Longrightarrow> hex_val (hex_digit n) = Some n"
  by (simp add: hex_val_def hex_digit_def is_digit_def)

lemma code_less: "code c < 256"
  by (rule nat_of_char_less_256)

lemma hex4_00: "hex4 CHR ''0'' CHR ''0'' (hex_digit (code c div 16)) (hex_digit (code c mod 16)) = Some (code c)"
proof -
  have "code c div 16 < 16" using code_less [of c] by (simp add: less_mult_imp_div_less)
  then show ?thesis by (simp add: hex4_def hex_val_def [of "CHR ''0''"] is_digit_def)
qed

lemma code_eqs:
  "code c = 10 \<longleftrightarrow> c = CHR 0x0A" "code c = 13 \<longleftrightarrow> c = CHR 0x0D" "code c = 9 \<longleftrightarrow> c = CHR 0x09"
  "code c = 12 \<longleftrightarrow> c = CHR 0x0C" "code c = 8 \<longleftrightarrow> c = CHR 0x08"
  using of_char_eq_iff [of c "CHR 0x0A", where 'a = nat] of_char_eq_iff [of c "CHR 0x0D", where 'a = nat]
    of_char_eq_iff [of c "CHR 0x09", where 'a = nat] of_char_eq_iff [of c "CHR 0x0C", where 'a = nat]
    of_char_eq_iff [of c "CHR 0x08", where 'a = nat]
  by simp_all

lemma scan_str_json_char: "scan_str (json_char c @ r) = rbind (scan_str r) (\<lambda>(s, r'). Inr (c # s, r'))"
proof -
  consider "c = CHR 0x22" | "c = CHR 0x5C" | "c = CHR 0x0A" | "c = CHR 0x0D" | "c = CHR 0x09"
    | "c = CHR 0x0C" | "c = CHR 0x08"
    | (plain) "c \<noteq> CHR 0x22" "c \<noteq> CHR 0x5C" "32 \<le> code c" "code c \<le> 126"
    | (hex) "c \<noteq> CHR 0x22" "c \<noteq> CHR 0x5C" "code c \<notin> {8, 9, 10, 12, 13}" "\<not> (32 \<le> code c \<and> code c \<le> 126)"
    by (auto simp: code_eqs)
  then show ?thesis
  proof cases
    case hex
    have "\<not> 256 \<le> code c" unfolding not_le by (rule code_less)
    with hex show ?thesis by (simp add: json_char_def hex4_00)
  next
    case plain
    then show ?thesis by (auto simp: json_char_def)
  qed (simp_all add: json_char_def simple_escape_def)
qed

lemma scan_str_json_str: "scan_str (concat (map json_char s) @ CHR 0x22 # r) = Inr (s, r)"
  by (induction s) (simp_all add: scan_str_json_char)

section \<open>Integers\<close>

definition delim :: "string \<Rightarrow> bool" where
  "delim r \<longleftrightarrow> r = [] \<or> hd r \<in> {CHR '','', CHR '']'', CHR ''}''}"

lemma delim_simps [simp]: "delim []" "delim (CHR '','' # r)" "delim (CHR '']'' # r)" "delim (CHR ''}'' # r)"
  by (simp_all add: delim_def)

lemma takeWhile_digits: "\<forall>c \<in> set ds. is_digit c \<Longrightarrow> delim r \<Longrightarrow>
    takeWhile is_digit (ds @ r) = ds \<and> dropWhile is_digit (ds @ r) = r"
  by (cases r) (auto simp: delim_def is_digit_def)

lemma show_nat_hd0: "hd (show_nat n) = CHR ''0'' \<Longrightarrow> n = 0"
proof (induction n rule: show_nat.induct)
  case (1 n)
  show ?case
  proof (cases "n < 10")
    case True
    then have "show_nat n = [digit_char n]" by (subst show_nat.simps) simp
    with 1(2) have "code (digit_char n) = 48" by simp
    with True show ?thesis by simp
  next
    case False
    then have "show_nat n = show_nat (n div 10) @ [digit_char (n mod 10)]"
      by (subst show_nat.simps) simp
    with 1(2) have "hd (show_nat (n div 10)) = CHR ''0''" by simp
    with 1(1) False have "n div 10 = 0" by simp
    with False show ?thesis by simp
  qed
qed

lemma scan_frac_delim: "delim r \<Longrightarrow> scan_frac r = (None, r)"
  by (cases r) (auto simp: scan_frac_def delim_def)

lemma scan_exp_delim: "delim r \<Longrightarrow> scan_exp r = (None, r)"
  by (cases r) (auto simp: scan_exp_def delim_def)

lemma scan_num_show_nat:
  assumes "delim r" and "length (show_nat n) \<le> 4300"
  shows "scan_num neg (show_nat n @ r) = Inr (PyInt ((if neg then -1 else 1) * int n), r)"
proof -
  have tw: "takeWhile is_digit (show_nat n @ r) = show_nat n"
    using takeWhile_digits [OF show_nat_digits assms(1)] by blast
  have ds: "(if show_nat n @ r \<noteq> [] \<and> hd (show_nat n @ r) = CHR ''0'' then ''0''
      else takeWhile is_digit (show_nat n @ r)) = show_nat n"
  proof (cases "hd (show_nat n) = CHR ''0''")
    case True
    then have "n = 0" by (rule show_nat_hd0)
    moreover have "show_nat 0 = ''0''" by code_simp
    ultimately have "show_nat n = ''0''" by simp
    then show ?thesis by simp
  next
    case False
    then show ?thesis using tw by simp
  qed
  show ?thesis unfolding scan_num_def Let_def ds using assms
    by (simp add: scan_frac_delim scan_exp_delim)
qed

lemma starts_Cons: "starts (c # cs) (p # ps) \<longleftrightarrow> c = p \<and> starts cs ps"
  by (simp add: starts_def)

lemma show_nat_first: obtains c cs where "show_nat n = c # cs" and "is_digit c"
  using show_nat_digits [of n] show_nat_nonempty [of n] by (cases "show_nat n") auto

lemma scan_atom_show_int:
  assumes "delim r" and "length (show_nat (nat \<bar>k\<bar>)) \<le> 4300"
  shows "scan_atom (show_int k @ r) = Inr (PyInt k, r)"
proof -
  obtain c cs where s: "show_nat (nat \<bar>k\<bar>) = c # cs" and d: "is_digit c" by (rule show_nat_first)
  from d have ne: "c \<noteq> CHR ''n''" "c \<noteq> CHR ''t''" "c \<noteq> CHR ''f''" "c \<noteq> CHR ''N''" "c \<noteq> CHR ''I''" "c \<noteq> CHR ''-''"
    by (auto simp: is_digit_def)
  show ?thesis
  proof (cases "k < 0")
    case True
    then have si: "show_int k @ r = CHR ''-'' # show_nat (nat \<bar>k\<bar>) @ r" by (simp add: show_int_def)
    show ?thesis
      unfolding si using True ne s scan_num_show_nat [OF assms, of True]
      by (simp add: scan_atom_def starts_Cons starts_def)
  next
    case False
    then have si: "show_int k @ r = show_nat (nat \<bar>k\<bar>) @ r" by (simp add: show_int_def)
    show ?thesis
      unfolding si using False ne s scan_num_show_nat [OF assms, of False]
      by (simp add: scan_atom_def starts_Cons)
  qed
qed

lemma show_int_first: obtains c cs where "show_int k = c # cs" and "is_digit c \<or> c = CHR ''-''"
proof -
  obtain c cs where *: "show_nat (nat \<bar>k\<bar>) = c # cs" "is_digit c" by (rule show_nat_first)
  show thesis
  proof (cases "k < 0")
    case True
    then show ?thesis using that [of "CHR ''-''"] by (simp add: show_int_def)
  next
    case False
    then show ?thesis using that [of c cs] * by (simp add: show_int_def)
  qed
qed

section \<open>Floats\<close>

lemma nat_of_digits_append: "nat_of_digits (a @ b) = nat_of_digits a * 10 ^ length b + nat_of_digits b"
proof (induction b rule: rev_induct)
  case (snoc c b)
  have "nat_of_digits (a @ b @ [c]) = 10 * nat_of_digits (a @ b) + digit_val c"
    by (simp add: nat_of_digits_def)
  then show ?case using snoc by (simp add: nat_of_digits_snoc algebra_simps)
qed (simp add: nat_of_digits_def)

lemma nat_of_digits_zeros: "nat_of_digits (replicate k CHR ''0'') = 0"
  by (induction k) (simp_all add: replicate_append_same [symmetric] nat_of_digits_snoc digit_val_def, simp add: nat_of_digits_def)

lemma nat_of_digits_0 [simp]: "nat_of_digits (CHR ''0'' # ds) = nat_of_digits ds"
  by (simp add: nat_of_digits_def digit_val_def)

lemma dec_norm_shift: "m \<noteq> 0 \<Longrightarrow> dec_norm (m * 10 ^ k) e = dec_norm m (e + int k)"
proof (induction k arbitrary: e)
  case (Suc k)
  have "dec_norm (m * 10 ^ Suc k) e = dec_norm (m * 10 ^ k) (e + 1)"
    using Suc.prems by (subst dec_norm.simps) (simp add: mult.left_commute)
  then show ?case using Suc by (simp add: algebra_simps)
qed simp

lemma scan_frac_digits:
  assumes "\<forall>c \<in> set fs. is_digit c" and "fs \<noteq> []" and "r = [] \<or> \<not> is_digit (hd r)"
  shows "scan_frac (CHR ''.'' # fs @ r) = (Some fs, r)"
proof -
  have "takeWhile is_digit (fs @ r) = fs" "dropWhile is_digit (fs @ r) = r"
    using assms by (cases r; auto)+
  then show ?thesis using assms(2) by (simp add: scan_frac_def)
qed

lemma scan_exp_digits:
  assumes "\<forall>c \<in> set xs. is_digit c" and "xs \<noteq> []" and "delim r"
  shows "scan_exp (CHR ''e'' # (if x < 0 then ''-'' else ''+'') @ xs @ r) =
    (Some ((if x < 0 then -1 else 1) * int (nat_of_digits xs)), r)"
  using takeWhile_digits [OF assms(1,3)] assms(2) by (simp add: scan_exp_def)

text \<open>\<open>scan_num\<close> on digits, a fraction and an exponent, each optional but one of the last two there.\<close>

lemma scan_num_float:
  assumes ds: "(if ds @ t \<noteq> [] \<and> hd (ds @ t) = CHR ''0'' then ''0'' else takeWhile is_digit (ds @ t)) = ds"
    and "ds \<noteq> []" and "scan_frac t = (fr, t1)" and "scan_exp t1 = (ex, r)" and "fr \<noteq> None \<or> ex \<noteq> None"
  shows "scan_num neg (ds @ t) =
    (let fs = (case fr of None \<Rightarrow> [] | Some f \<Rightarrow> f); x = (case ex of None \<Rightarrow> 0 | Some k \<Rightarrow> k)
     in Inr (PyFloat (dec_norm ((if neg then -1 else 1) * int (nat_of_digits (ds @ fs))) (x - int (length fs))), r))"
  unfolding scan_num_def Let_def ds using assms(2-5) by auto

text \<open>The text of a positive finite float, without its sign.\<close>

definition dec_body :: "nat \<Rightarrow> int \<Rightarrow> string" where
  "dec_body k e =
     (let ds = show_nat k; n = int (length ds); p = n + e in
      if - 4 < p \<and> p \<le> 16 then
        (if p \<le> 0 then ''0.'' @ replicate (nat (- p)) CHR ''0'' @ ds
         else if n \<le> p then ds @ replicate (nat (p - n)) CHR ''0'' @ ''.0''
         else take (nat p) ds @ ''.'' @ drop (nat p) ds)
      else
        take 1 ds @ (if n = 1 then [] else ''.'' @ drop 1 ds) @ ''e'' @
        (let x = p - 1; xs = show_nat (nat \<bar>x\<bar>)
         in (if x < 0 then ''-'' else ''+'') @ (if length xs < 2 then CHR ''0'' # xs else xs)))"

lemma repr_dec_body: "m \<noteq> 0 \<Longrightarrow> repr_dec m e = (if m < 0 then ''-'' else []) @ dec_body (nat \<bar>m\<bar>) e"
  by (simp add: repr_dec_def dec_body_def Let_def)

lemma take_digits:
  assumes "\<forall>c \<in> set ds. is_digit c" and "ds \<noteq> []" and "hd ds \<noteq> CHR ''0''" and "t = [] \<or> \<not> is_digit (hd t)"
  shows "(if ds @ t \<noteq> [] \<and> hd (ds @ t) = CHR ''0'' then ''0'' else takeWhile is_digit (ds @ t)) = ds"
proof -
  have "takeWhile is_digit (ds @ t) = ds" using assms(1,4) by (cases t) auto
  then show ?thesis using assms(2,3) by simp
qed

lemma delim_not_digit: "delim r \<Longrightarrow> r = [] \<or> \<not> is_digit (hd r)"
  by (auto simp: delim_def is_digit_def)

lemma show_nat_hd: "0 < k \<Longrightarrow> hd (show_nat k) \<noteq> CHR ''0''"
  using show_nat_hd0 by blast

lemma is_digit_0 [simp]: "is_digit CHR ''0''"
  by (simp add: is_digit_def)

abbreviation sgn_of :: "bool \<Rightarrow> int" where
  "sgn_of neg \<equiv> (if neg then -1 else 1)"

lemma scan_small:
  assumes k: "0 < k" and r: "delim r" and e: "p = int (length (show_nat k)) + e" "p \<le> 0"
  shows "scan_num neg (''0.'' @ replicate (nat (- p)) CHR ''0'' @ show_nat k @ r) =
    Inr (PyFloat (dec_norm (sgn_of neg * int k) e), r)"
proof -
  let ?fs = "replicate (nat (- p)) CHR ''0'' @ show_nat k"
  have dig: "\<forall>c \<in> set ?fs. is_digit c" using show_nat_digits by auto
  have f: "scan_frac (CHR ''.'' # ?fs @ r) = (Some ?fs, r)"
    by (rule scan_frac_digits [OF dig _ delim_not_digit [OF r]]) simp
  have n: "nat_of_digits (''0'' @ ?fs) = k"
    by (simp add: nat_of_digits_append nat_of_digits_zeros)
  show ?thesis
    using scan_num_float [of "''0''" "CHR ''.'' # ?fs @ r", OF _ _ f scan_exp_delim [OF r], of neg] n e
    by (simp add: Let_def algebra_simps)
qed

lemma scan_large:
  assumes k: "0 < k" and r: "delim r" and "0 \<le> e"
  shows "scan_num neg (show_nat k @ replicate (nat e) CHR ''0'' @ ''.0'' @ r) =
    Inr (PyFloat (dec_norm (sgn_of neg * int k) e), r)"
proof -
  let ?ds = "show_nat k @ replicate (nat e) CHR ''0''"
  have dig: "\<forall>c \<in> set ?ds. is_digit c" using show_nat_digits by auto
  have f: "scan_frac (CHR ''.'' # ''0'' @ r) = (Some ''0'', r)"
    by (rule scan_frac_digits [OF _ _ delim_not_digit [OF r]]) (simp_all add: is_digit_def)
  have t: "(if ?ds @ CHR ''.'' # ''0'' @ r \<noteq> [] \<and> hd (?ds @ CHR ''.'' # ''0'' @ r) = CHR ''0'' then ''0''
      else takeWhile is_digit (?ds @ CHR ''.'' # ''0'' @ r)) = ?ds"
    by (rule take_digits [OF dig]) (use show_nat_hd [OF k] in \<open>simp_all add: is_digit_def\<close>)
  have n: "int (nat_of_digits (?ds @ ''0'')) = int k * 10 ^ Suc (nat e)"
    using nat_of_digits_zeros [of "Suc (nat e)"] by (simp add: nat_of_digits_append replicate_append_same)
  have "dec_norm (sgn_of neg * (int k * 10 ^ Suc (nat e))) (- 1) = dec_norm (sgn_of neg * int k) e"
    using dec_norm_shift [of "sgn_of neg * int k" "Suc (nat e)" "- 1"] k assms(3) by (simp add: mult.assoc)
  then show ?thesis
    using scan_num_float [OF t _ f scan_exp_delim [OF r], of neg] n by (simp add: Let_def)
qed

lemma scan_mid:
  assumes k: "0 < k" and r: "delim r" and "0 < j" and "j < length (show_nat k)" and "e = int j - int (length (show_nat k))"
  shows "scan_num neg (take j (show_nat k) @ ''.'' @ drop j (show_nat k) @ r) =
    Inr (PyFloat (dec_norm (sgn_of neg * int k) e), r)"
proof -
  let ?ds = "take j (show_nat k)" and ?fs = "drop j (show_nat k)"
  have dd: "\<forall>c \<in> set ?ds. is_digit c" and df: "\<forall>c \<in> set ?fs. is_digit c"
    using show_nat_digits [of k] set_take_subset [of j "show_nat k"] set_drop_subset [of j "show_nat k"] by blast+
  have f: "scan_frac (CHR ''.'' # ?fs @ r) = (Some ?fs, r)"
    by (rule scan_frac_digits [OF df _ delim_not_digit [OF r]]) (use assms in simp)
  have t: "(if ?ds @ CHR ''.'' # ?fs @ r \<noteq> [] \<and> hd (?ds @ CHR ''.'' # ?fs @ r) = CHR ''0'' then ''0''
      else takeWhile is_digit (?ds @ CHR ''.'' # ?fs @ r)) = ?ds"
    by (rule take_digits [OF dd]) (use show_nat_hd [OF k] assms in \<open>simp_all add: is_digit_def hd_take\<close>)
  have "?ds \<noteq> []" using assms by simp
  then show ?thesis
    using scan_num_float [OF t _ f scan_exp_delim [OF r], of neg] assms by (simp add: Let_def of_nat_diff)
qed

lemma scan_sci:
  assumes k: "0 < k" and r: "delim r" and x: "x = int (length (show_nat k)) + e - 1"
  shows "scan_num neg (take 1 (show_nat k) @ (if length (show_nat k) = 1 then [] else ''.'' @ drop 1 (show_nat k)) @ ''e'' @
      (if x < 0 then ''-'' else ''+'') @
      (if length (show_nat (nat \<bar>x\<bar>)) < 2 then CHR ''0'' # show_nat (nat \<bar>x\<bar>) else show_nat (nat \<bar>x\<bar>)) @ r) =
    Inr (PyFloat (dec_norm (sgn_of neg * int k) e), r)"
proof -
  let ?ds = "take 1 (show_nat k)" and ?fs = "drop 1 (show_nat k)"
  let ?xs = "if length (show_nat (nat \<bar>x\<bar>)) < 2 then CHR ''0'' # show_nat (nat \<bar>x\<bar>) else show_nat (nat \<bar>x\<bar>)"
  let ?sg = "if x < 0 then ''-'' else ''+''"
  let ?t = "(if length (show_nat k) = 1 then [] else ''.'' @ ?fs) @ ''e'' @ ?sg @ ?xs @ r"
  have dd: "\<forall>c \<in> set ?ds. is_digit c" and df: "\<forall>c \<in> set ?fs. is_digit c"
    using show_nat_digits [of k] set_take_subset [of 1 "show_nat k"] set_drop_subset [of 1 "show_nat k"] by blast+
  have dx: "\<forall>c \<in> set ?xs. is_digit c" "?xs \<noteq> []" using show_nat_digits by auto
  have nx: "nat_of_digits ?xs = nat \<bar>x\<bar>"
    by simp
  have ex: "scan_exp (CHR ''e'' # ?sg @ ?xs @ r) = (Some x, r)"
    using scan_exp_digits [OF dx r, of x] by (simp only: nx) simp
  have ne: "\<not> is_digit CHR ''e''" "\<not> is_digit CHR ''.''" by (simp_all add: is_digit_def)
  have t: "(if ?ds @ ?t \<noteq> [] \<and> hd (?ds @ ?t) = CHR ''0'' then ''0'' else takeWhile is_digit (?ds @ ?t)) = ?ds"
    by (rule take_digits [OF dd]) (use show_nat_hd [OF k] ne in \<open>simp_all add: hd_take\<close>)
  have ds: "?ds \<noteq> []" by simp
  show ?thesis
  proof (cases "length (show_nat k) = 1")
    case True
    have f: "scan_frac ?t = (None, CHR ''e'' # ?sg @ ?xs @ r)" using True by (simp add: scan_frac_def)
    show ?thesis using scan_num_float [OF t ds f ex, of neg] True x by (simp add: Let_def)
  next
    case False
    then have "?fs \<noteq> []" using show_nat_nonempty [of k] by (cases "show_nat k") auto
    then have f: "scan_frac ?t = (Some ?fs, CHR ''e'' # ?sg @ ?xs @ r)"
      using scan_frac_digits [OF df, of "CHR ''e'' # ?sg @ ?xs @ r"] False ne by simp
    have l: "int (length ?fs) = int (length (show_nat k)) - 1" using False show_nat_nonempty [of k]
      by (cases "show_nat k") auto
    show ?thesis using scan_num_float [OF t ds f ex, of neg] False x l
      by (simp add: Let_def del: length_drop)
  qed
qed

lemma scan_dec_body:
  assumes k: "0 < k" and r: "delim r"
  shows "scan_num neg (dec_body k e @ r) = Inr (PyFloat (dec_norm (sgn_of neg * int k) e), r)"
proof -
  let ?n = "int (length (show_nat k))"
  let ?p = "?n + e"
  consider (small) "- 4 < ?p" "?p \<le> 0" | (large) "0 < ?p" "?p \<le> 16" "?n \<le> ?p" | (mid) "0 < ?p" "?p \<le> 16" "?p < ?n"
    | (sci) "\<not> (- 4 < ?p \<and> ?p \<le> 16)" by linarith
  then show ?thesis
  proof cases
    case small
    then show ?thesis using scan_small [OF k r refl, where e = e and neg = neg] by (simp add: dec_body_def Let_def)
  next
    case large
    then show ?thesis using scan_large [OF k r, where e = e and neg = neg] by (simp add: dec_body_def Let_def)
  next
    case mid
    then show ?thesis using scan_mid [OF k r, where j = "nat ?p" and e = e and neg = neg] by (simp add: dec_body_def Let_def)
  next
    case sci
    then show ?thesis using scan_sci [OF k r refl, where e = e and neg = neg] unfolding dec_body_def Let_def if_not_P [OF sci] append_assoc
      by simp
  qed
qed

lemma dec_body_first: "0 < k \<Longrightarrow> \<exists>c cs. dec_body k e = c # cs \<and> is_digit c"
proof -
  obtain c cs where s: "show_nat k = c # cs" "is_digit c" by (rule show_nat_first)
  then show ?thesis by (cases "nat (int (length (show_nat k)) + e)") (auto simp: dec_body_def Let_def)
qed

lemma repr_dec_first: "\<exists>c cs. repr_dec m e = c # cs \<and> (is_digit c \<or> c = CHR ''-'')"
proof (cases "m = 0")
  case True
  then show ?thesis by (simp add: repr_dec_def)
next
  case False
  then obtain c cs where "dec_body (nat \<bar>m\<bar>) e = c # cs" "is_digit c" using dec_body_first [of "nat \<bar>m\<bar>" e] by auto
  then show ?thesis using False by (simp add: repr_dec_body)
qed

lemma scan_atom_float:
  assumes "canonical m e" and r: "delim r"
  shows "scan_atom (repr_dec m e @ r) = Inr (PyFloat (Dec m e), r)"
proof (cases "m = 0")
  case True
  then have e: "e = 0" using assms(1) by (simp add: canonical_def dec_norm.simps)
  have f: "scan_frac (CHR ''.'' # ''0'' @ r) = (Some ''0'', r)"
    by (rule scan_frac_digits [OF _ _ delim_not_digit [OF r]]) simp_all
  have "scan_num False (''0'' @ CHR ''.'' # ''0'' @ r) = Inr (PyFloat (Dec 0 0), r)"
    using scan_num_float [of "''0''" "CHR ''.'' # ''0'' @ r", OF _ _ f scan_exp_delim [OF r], of False]
    by (simp add: Let_def dec_norm.simps nat_of_digits_def digit_val_def)
  then show ?thesis by (simp add: True e repr_dec_def scan_atom_def starts_def)
next
  case False
  let ?k = "nat \<bar>m\<bar>"
  have k: "0 < ?k" using False by simp
  obtain c cs where c: "dec_body ?k e = c # cs" "is_digit c" using dec_body_first [OF k] by blast
  from c(2) have ne: "c \<noteq> CHR ''n''" "c \<noteq> CHR ''t''" "c \<noteq> CHR ''f''" "c \<noteq> CHR ''N''" "c \<noteq> CHR ''I''" "c \<noteq> CHR ''-''"
    by (auto simp: is_digit_def)
  have n: "dec_norm m e = Dec m e" using assms(1) by (simp add: canonical_def)
  show ?thesis
  proof (cases "m < 0")
    case True
    then show ?thesis using scan_dec_body [OF k r, of True e] ne c n
      by (simp add: repr_dec_body scan_atom_def starts_Cons starts_def)
  next
    case f: False
    then show ?thesis using scan_dec_body [OF k r, of False e] ne c n False
      by (simp add: repr_dec_body scan_atom_def starts_Cons)
  qed
qed

section \<open>The first character of an encoding\<close>

definition ok_first :: "char \<Rightarrow> bool" where
  "ok_first c \<longleftrightarrow> c = CHR 0x22 \<or> c = CHR ''['' \<or> c = CHR ''{'' \<or> c = CHR ''n'' \<or> c = CHR ''t'' \<or> c = CHR ''f''
     \<or> c = CHR ''-'' \<or> c = CHR ''I'' \<or> c = CHR ''N'' \<or> is_digit c"

lemma ok_first_not: "ok_first c \<Longrightarrow> \<not> is_jws c \<and> c \<noteq> CHR '']'' \<and> c \<noteq> CHR ''}''"
  by (auto simp: ok_first_def is_jws_def is_digit_def)

lemma json_dumps_first: "jwf v \<Longrightarrow> \<exists>c cs. json_dumps isep ksep v = c # cs \<and> ok_first c"
proof (cases v)
  case (PyInt k)
  obtain c cs where "show_int k = c # cs" "is_digit c \<or> c = CHR ''-''" by (rule show_int_first)
  then show ?thesis using PyInt by (auto simp: ok_first_def)
next
  case (PyFloat f)
  then show ?thesis using repr_dec_first by (cases f) (fastforce simp: ok_first_def)+
qed (auto simp: json_str_def ok_first_def)

lemma skip_ws_Cons: "\<not> is_jws c \<Longrightarrow> skip_ws (c # cs) = c # cs"
  by (simp add: skip_ws_def)

lemma skip_ws_punct [simp]:
  "skip_ws (CHR '','' # r) = CHR '','' # r" "skip_ws (CHR '']'' # r) = CHR '']'' # r"
  "skip_ws (CHR ''}'' # r) = CHR ''}'' # r" "skip_ws (CHR '':'' # r) = CHR '':'' # r"
  "skip_ws (CHR 0x22 # r) = CHR 0x22 # r" "skip_ws [] = []"
  by (simp_all add: skip_ws_def is_jws_def)

lemma skip_ws_over: "\<forall>c \<in> set ws. is_jws c \<Longrightarrow> skip_ws (ws @ s) = skip_ws s"
  by (simp add: skip_ws_def dropWhile_append2)

lemma skip_ws_dumps: "jwf v \<Longrightarrow> skip_ws (json_dumps isep ksep v @ r) = json_dumps isep ksep v @ r"
  using json_dumps_first [of v isep ksep] ok_first_not by (fastforce simp: skip_ws_Cons)


section \<open>Containers\<close>

text \<open>The separators of \<open>json.dumps\<close>: a comma and a colon, each followed by whitespace or nothing.\<close>

definition sep_ok :: "char \<Rightarrow> string \<Rightarrow> bool" where
  "sep_ok c s \<longleftrightarrow> (\<exists>ws. s = c # ws \<and> (\<forall>x \<in> set ws. is_jws x))"

definition decodes :: "string \<Rightarrow> string \<Rightarrow> pyval \<Rightarrow> bool" where
  "decodes isep ksep v \<longleftrightarrow>
     (\<forall>n r. delim r \<longrightarrow> 2 * length (json_dumps isep ksep v) < n \<longrightarrow>
        parse_val n (json_dumps isep ksep v @ r) = Inr (v, r))"

lemma decodesD: "decodes isep ksep v \<Longrightarrow> delim r \<Longrightarrow> 2 * length (json_dumps isep ksep v) < n \<Longrightarrow>
    parse_val n (json_dumps isep ksep v @ r) = Inr (v, r)"
  unfolding decodes_def by blast

lemma decodesI: "(\<And>m r. delim r \<Longrightarrow> parse_val (Suc m) (json_dumps isep ksep v @ r) = Inr (v, r)) \<Longrightarrow>
    decodes isep ksep v"
  unfolding decodes_def by (metis less_nat_zero_code not0_implies_Suc)

lemma skip_ws_join:
  assumes "vs \<noteq> []" and "list_all jwf vs"
  shows "skip_ws (join osep (map (json_dumps isep ksep) vs) @ r) = join osep (map (json_dumps isep ksep) vs) @ r
    \<and> hd (join osep (map (json_dumps isep ksep) vs) @ r) \<noteq> CHR '']''"
proof -
  obtain v ws where vs: "vs = v # ws" using assms(1) by (cases vs) auto
  then obtain c cs where d: "json_dumps isep ksep v = c # cs" "ok_first c"
    using assms(2) json_dumps_first [of v isep ksep] by auto
  then have "\<exists>t. join osep (map (json_dumps isep ksep) vs) = c # t" unfolding vs by (cases ws) auto
  then show ?thesis using ok_first_not [OF d(2)] by (auto simp: skip_ws_Cons)
qed

lemma parse_elems_dumps:
  assumes "sep_ok CHR '','' osep"
  shows "vs \<noteq> [] \<Longrightarrow> list_all jwf vs \<Longrightarrow> list_all (decodes isep ksep) vs \<Longrightarrow>
    2 * length (join osep (map (json_dumps isep ksep) vs)) + 1 < n \<Longrightarrow>
    parse_elems n (join osep (map (json_dumps isep ksep) vs) @ CHR '']'' # r) = Inr (vs, r)"
proof (induction vs arbitrary: n)
  case (Cons v vs)
  obtain m where n: "n = Suc m" using Cons.prems(4) by (cases n) auto
  obtain ws where isep: "osep = CHR '','' # ws" "\<forall>x \<in> set ws. is_jws x"
    using assms unfolding sep_ok_def by blast
  have dv: "decodes isep ksep v" using Cons.prems(3) by simp
  show ?case
  proof (cases "vs = []")
    case True
    have "parse_val m (json_dumps isep ksep v @ CHR '']'' # r) = Inr (v, CHR '']'' # r)"
      using Cons.prems(4) True n by (intro decodesD [OF dv]) simp_all
    then show ?thesis by (simp add: True n)
  next
    case False
    then obtain w us where vs: "vs = w # us" by (cases vs) auto
    let ?J = "join osep (map (json_dumps isep ksep) vs)"
    have J: "join osep (map (json_dumps isep ksep) (v # vs)) = json_dumps isep ksep v @ CHR '','' # ws @ ?J"
      by (simp add: vs isep(1))
    have "parse_val m (json_dumps isep ksep v @ CHR '','' # ws @ ?J @ CHR '']'' # r) =
        Inr (v, CHR '','' # ws @ ?J @ CHR '']'' # r)"
      using Cons.prems(4) J n by (intro decodesD [OF dv]) simp_all
    moreover have "skip_ws (ws @ ?J @ CHR '']'' # r) = ?J @ CHR '']'' # r"
      using skip_ws_join [of vs] False Cons.prems(2) by (simp add: skip_ws_over isep(2))
    moreover have "parse_elems m (?J @ CHR '']'' # r) = Inr (vs, r)"
      using Cons.prems J n False by (intro Cons.IH) simp_all
    ultimately show ?thesis unfolding J n by simp
  qed
qed simp

text \<open>One member, and the members of an object.\<close>

abbreviation dump_kv :: "string \<Rightarrow> string \<Rightarrow> string \<times> pyval \<Rightarrow> string" where
  "dump_kv isep ksep \<equiv> (\<lambda>(k, v). json_str k @ ksep @ json_dumps isep ksep v)"

lemma parse_members_step:
  assumes "sep_ok CHR '':'' ksep" and "jwf v" and "decodes isep ksep v"
    and "delim r" and "2 * length (json_dumps isep ksep v) < m"
  shows "parse_members (Suc m) (dump_kv isep ksep (k, v) @ r) =
    (case skip_ws r of
       [] \<Rightarrow> Inl JSONDecodeError
     | e # r3 \<Rightarrow>
         if e = CHR ''}'' then Inr ([(k, v)], r3)
         else if e = CHR '','' then
           rbind (parse_members m (skip_ws r3)) (\<lambda>(kvs, r4). Inr ((k, v) # kvs, r4))
         else Inl JSONDecodeError)"
proof -
  obtain ws where ksep: "ksep = CHR '':'' # ws" "\<forall>x \<in> set ws. is_jws x"
    using assms(1) unfolding sep_ok_def by blast
  have "skip_ws (ws @ json_dumps isep ksep v @ r) = json_dumps isep ksep v @ r"
    by (simp add: skip_ws_over ksep(2) skip_ws_dumps assms(2))
  then show ?thesis
    using decodesD [OF assms(3-5)] scan_str_json_str [of k "ksep @ json_dumps isep ksep v @ r"]
    by (simp add: json_str_def ksep(1))
qed

lemma parse_members_dumps:
  assumes "sep_ok CHR '','' isep" and "sep_ok CHR '':'' ksep"
  shows "d \<noteq> [] \<Longrightarrow> list_all (\<lambda>p. jwf (snd p)) d \<Longrightarrow> list_all (\<lambda>p. decodes isep ksep (snd p)) d \<Longrightarrow>
    2 * length (join isep (map (dump_kv isep ksep) d)) + 1 < n \<Longrightarrow>
    parse_members n (join isep (map (dump_kv isep ksep) d) @ CHR ''}'' # r) = Inr (d, r)"
proof (induction d arbitrary: n)
  case (Cons p d)
  obtain k v where p: "p = (k, v)" by (cases p)
  obtain m where n: "n = Suc m" using Cons.prems(4) by (cases n) auto
  obtain ws where isep: "isep = CHR '','' # ws" "\<forall>x \<in> set ws. is_jws x"
    using assms(1) unfolding sep_ok_def by blast
  have v: "jwf v" "decodes isep ksep v" using Cons.prems p by simp_all
  let ?J = "join isep (map (dump_kv isep ksep) d)"
  show ?case
  proof (cases d)
    case Nil
    then have "2 * length (json_dumps isep ksep v) < m" using Cons.prems(4) n p by simp
    from parse_members_step [OF assms(2) v delim_simps(4) this] show ?thesis
      by (simp add: Nil n p)
  next
    case (Cons q us)
    have J: "join isep (map (dump_kv isep ksep) (p # d)) = dump_kv isep ksep (k, v) @ CHR '','' # ws @ ?J"
      by (simp add: Cons isep(1) p)
    obtain t where t: "?J = CHR 0x22 # t" using Cons by (cases q; cases us) (auto simp: json_str_def)
    have s: "skip_ws (ws @ ?J @ CHR ''}'' # r) = ?J @ CHR ''}'' # r"
      by (simp add: skip_ws_over isep(2) t)
    have le: "2 * length (json_dumps isep ksep v) < m" using Cons.prems(4) unfolding J n by simp
    have "parse_members m (?J @ CHR ''}'' # r) = Inr (d, r)"
      using Cons.prems Cons unfolding J n by (intro Cons.IH) simp_all
    then have "parse_members (Suc m) (dump_kv isep ksep (k, v) @ CHR '','' # ws @ ?J @ CHR ''}'' # r) =
        Inr ((k, v) # d, r)"
      using parse_members_step [OF assms(2) v delim_simps(2) le, of k "ws @ ?J @ CHR ''}'' # r"]
      by (simp add: s del: parse_members.simps)
    then have "parse_members (Suc m) (join isep (map (dump_kv isep ksep) (p # d)) @ CHR ''}'' # r) =
        Inr ((k, v) # d, r)"
      unfolding J append_assoc append_Cons .
    then show ?thesis by (simp only: n p)
  qed
qed simp

lemma update_new: "k \<notin> fst ` set e \<Longrightarrow> AList.update k v e = e @ [(k, v)]"
  by (induction e) auto

lemma foldl_dict_set:
  "distinct (map fst (e @ d)) \<Longrightarrow> foldl (\<lambda>d (k, v). dict_set k v d) e d = e @ d"
proof (induction d arbitrary: e)
  case (Cons p d)
  obtain k v where p: "p = (k, v)" by (cases p)
  have "AList.update k v e = e @ [(k, v)]" using Cons.prems p by (intro update_new) auto
  then show ?case using Cons.IH [of "e @ [(k, v)]"] Cons.prems p by simp
qed simp

lemma decodes_PyList:
  assumes "sep_ok CHR '','' isep" and "list_all jwf vs" and "list_all (decodes isep ksep) vs"
  shows "decodes isep ksep (PyList vs)"
  unfolding decodes_def
proof (intro allI impI)
  fix n r
  assume *: "2 * length (json_dumps isep ksep (PyList vs)) < n"
  then obtain m where n: "n = Suc m" by (cases n) auto
  let ?J = "join isep (map (json_dumps isep ksep) vs)"
  show "parse_val n (json_dumps isep ksep (PyList vs) @ r) = Inr (PyList vs, r)"
  proof (cases "vs = []")
    case False
    have "2 * length ?J + 1 < m" using * n by simp
    then have "parse_elems m (?J @ CHR '']'' # r) = Inr (vs, r)"
      by (rule parse_elems_dumps [OF assms(1) False assms(2,3)])
    then show ?thesis using skip_ws_join [OF False assms(2), of isep isep ksep "CHR '']'' # r"]
      by (simp add: n)
  qed (simp add: n)
qed

lemma decodes_PyDict:
  assumes "sep_ok CHR '','' isep" and "sep_ok CHR '':'' ksep" and "distinct (map fst d)"
    and "list_all (\<lambda>p. jwf (snd p)) d" and "list_all (\<lambda>p. decodes isep ksep (snd p)) d"
  shows "decodes isep ksep (PyDict d)"
  unfolding decodes_def
proof (intro allI impI)
  fix n r
  assume *: "2 * length (json_dumps isep ksep (PyDict d)) < n"
  then obtain m where n: "n = Suc m" by (cases n) auto
  let ?J = "join isep (map (dump_kv isep ksep) d)"
  show "parse_val n (json_dumps isep ksep (PyDict d) @ r) = Inr (PyDict d, r)"
  proof (cases d)
    case (Cons p e)
    then obtain t where t: "?J = CHR 0x22 # t" by (cases p; cases e) (auto simp: json_str_def)
    have "2 * length ?J + 1 < m" using * n by simp
    then have "parse_members m (?J @ CHR ''}'' # r) = Inr (d, r)"
      using parse_members_dumps [OF assms(1,2) _ assms(4,5)] Cons by blast
    then show ?thesis using t foldl_dict_set [of "[]" d] assms(3) by (simp add: n)
  qed (simp add: n)
qed

lemma scan_atom_words:
  "scan_atom (''null'' @ r) = Inr (PyNone, r)" "scan_atom (''true'' @ r) = Inr (PyBool True, r)"
  "scan_atom (''false'' @ r) = Inr (PyBool False, r)"
  by (simp_all add: scan_atom_def starts_def)

lemma decodes_PyInt: "jwf (PyInt k) \<Longrightarrow> decodes isep ksep (PyInt k)"
  unfolding decodes_def
proof (intro allI impI)
  fix n r
  assume j: "jwf (PyInt k)" and d: "delim r" and *: "2 * length (json_dumps isep ksep (PyInt k)) < n"
  then obtain m where n: "n = Suc m" by (cases n) auto
  obtain c cs where c: "show_int k = c # cs" "is_digit c \<or> c = CHR ''-''" by (rule show_int_first)
  then have "c \<noteq> CHR 0x22" "c \<noteq> CHR ''[''" "c \<noteq> CHR ''{''" by (auto simp: is_digit_def)
  then show "parse_val n (json_dumps isep ksep (PyInt k) @ r) = Inr (PyInt k, r)"
    using scan_atom_show_int [OF d, of k] j c(1) by (simp add: n)
qed

lemma scan_atom_specials:
  "scan_atom (''NaN'' @ r) = Inr (PyFloat NaN, r)" "scan_atom (''Infinity'' @ r) = Inr (PyFloat PosInf, r)"
  "scan_atom (''-Infinity'' @ r) = Inr (PyFloat NegInf, r)"
  by (simp_all add: scan_atom_def starts_def)

lemma parse_val_atom:
  assumes "s = c # cs" and "is_digit c \<or> c = CHR ''-''"
  shows "parse_val (Suc m) s = scan_atom s"
proof -
  from assms(2) have "c \<noteq> CHR 0x22" "c \<noteq> CHR ''[''" "c \<noteq> CHR ''{''" by (auto simp: is_digit_def)
  then show ?thesis by (simp add: assms(1))
qed

lemma decodes_PyFloat: "jwf (PyFloat f) \<Longrightarrow> decodes isep ksep (PyFloat f)"
proof (cases f)
  case (Dec m e)
  assume j: "jwf (PyFloat f)"
  obtain c cs where first: "repr_dec m e = c # cs" "is_digit c \<or> c = CHR ''-''"
    using repr_dec_first by blast
  show ?thesis
  proof (rule decodesI)
    fix n r
    assume "delim r"
    then show "parse_val (Suc n) (json_dumps isep ksep (PyFloat f) @ r) = Inr (PyFloat f, r)"
      using scan_atom_float [of m e r] j Dec first parse_val_atom [OF _ first(2), of "repr_dec m e @ r" "cs @ r" n]
      by (simp del: parse_val.simps)
  qed
qed (use scan_atom_specials in \<open>auto intro!: decodesI\<close>)

lemma decodes_dumps:
  assumes "sep_ok CHR '','' isep" and "sep_ok CHR '':'' ksep"
  shows "jwf v \<Longrightarrow> decodes isep ksep v"
proof (induction v)
  case (PyStr s)
  show ?case using scan_str_json_str by (intro decodesI) (auto simp: json_str_def)
next
  case (PyList vs)
  then show ?case by (intro decodes_PyList [OF assms(1)]) (auto simp: list_all_iff)
next
  case (PyDict d)
  then show ?case by (intro decodes_PyDict [OF assms]) (auto simp: list_all_iff)
next
  case (PyBool b)
  show ?case using scan_atom_words by (intro decodesI) auto
next
  case PyNone
  show ?case using scan_atom_words by (intro decodesI) auto
qed (simp_all add: decodes_PyInt decodes_PyFloat)

lemma json_loads_dumps:
  assumes "sep_ok CHR '','' isep" and "sep_ok CHR '':'' ksep" and "jwf v"
  shows "json_loads (json_dumps isep ksep v) = Inr v"
proof -
  have "parse_val (2 * length (json_dumps isep ksep v) + 2) (json_dumps isep ksep v @ []) = Inr (v, [])"
    by (intro decodesD [OF decodes_dumps [OF assms]]) simp_all
  then show ?thesis using skip_ws_dumps [OF assms(3), of isep ksep "[]"] by (simp add: json_loads_def)
qed

end
