(* ===== verification/DashRegistry.thy ===== *)
theory DashRegistry
  imports AgentConfig JsonRoundtrip
begin

text \<open>
  The dashboard's settings (\<open>dashboard/settings.py\<close>) and its registry of agents
  (\<open>dashboard/registry.py\<close>): the configured agents, the specification built from each, and the
  lookups by slug and by capability. \<open>model_dump\<close> is the dictionary of an \<open>AgentConfig\<close> in the
  order its fields are declared. How pydantic validates an object into an \<open>AgentConfig\<close> is a
  parameter of the operations that use it (theory CliConfig).
\<close>

section \<open>Settings\<close>

datatype agent_kind = KServer | KBatch | KSelf

record agent_config =
  ac_slug :: string
  ac_url :: string
  ac_kind :: agent_kind
  ac_title :: string
  ac_port :: int
  ac_features :: "string list"

definition kind_name :: "agent_kind \<Rightarrow> string" where
  "kind_name k = (case k of KServer \<Rightarrow> ''server'' | KBatch \<Rightarrow> ''batch'' | KSelf \<Rightarrow> ''self'')"

definition model_dump :: "agent_config \<Rightarrow> pyval" where
  "model_dump a = PyDict
     [(''slug'', PyStr (ac_slug a)), (''url'', PyStr (ac_url a)), (''kind'', PyStr (kind_name (ac_kind a))),
      (''title'', PyStr (ac_title a)), (''port'', PyInt (ac_port a)),
      (''features'', PyList (map PyStr (ac_features a)))]"

definition default_agents :: "agent_config list" where
  "default_agents =
     [\<lparr>ac_slug = ''monitoring'', ac_url = ''http://monitoring:8000'', ac_kind = KServer,
        ac_title = ''monitoring'', ac_port = 8002, ac_features = [''incidents'']\<rparr>,
      \<lparr>ac_slug = ''security'', ac_url = ''http://security:8000'', ac_kind = KServer,
        ac_title = ''security'', ac_port = 8003, ac_features = [''findings'']\<rparr>,
      \<lparr>ac_slug = ''pm'', ac_url = ''http://pm:8000'', ac_kind = KServer,
        ac_title = ''pm'', ac_port = 8001, ac_features = [''pm'']\<rparr>,
      \<lparr>ac_slug = ''web-ext-pipeline'', ac_url = ''http://web-ext-pipeline:8000'', ac_kind = KBatch,
        ac_title = ''web-ext-pipeline'', ac_port = 0, ac_features = [''runs'']\<rparr>,
      \<lparr>ac_slug = ''ultraqa'', ac_url = ''http://ultraqa:8000'', ac_kind = KServer,
        ac_title = ''ultraqa'', ac_port = 8007, ac_features = [''findings'', ''coverage'']\<rparr>,
      \<lparr>ac_slug = ''dashboard'', ac_url = ''http://dashboard:8000'', ac_kind = KSelf,
        ac_title = ''dashboard (self)'', ac_port = 8005, ac_features = []\<rparr>]"

record dash_settings = agent_settings +
  ds_agents :: "agent_config list"
  ds_brand :: string
  ds_upstream_token_ttl_s :: int
  ds_upstream_token_sub :: string
  ds_session_cookie_name :: string
  ds_csrf_cookie_name :: string
  ds_session_cookie_secure :: "bool option"
  ds_upstream_timeout_s :: rat
  ds_cache_ttl_s :: int

text \<open>The defaults of the dashboard's own fields, over any shared settings.\<close>

definition dash_defaults :: "agent_settings \<Rightarrow> dash_settings" where
  "dash_defaults s = agent_settings.extend
     (s\<lparr>cfg_agent_name := ''dashboard'', cfg_postgres_db := Some ''dashboard'', cfg_redis_db := 4\<rparr>)
     \<lparr>ds_agents = default_agents, ds_brand = ''agents'', ds_upstream_token_ttl_s = 3600,
      ds_upstream_token_sub = ''dashboard'', ds_session_cookie_name = ''agents_dash'',
      ds_csrf_cookie_name = ''agents_csrf'', ds_session_cookie_secure = None,
      ds_upstream_timeout_s = 3, ds_cache_ttl_s = 8\<rparr>"

definition effective_session_cookie_secure :: "dash_settings \<Rightarrow> bool" where
  "effective_session_cookie_secure s =
     (case ds_session_cookie_secure s of Some b \<Rightarrow> b | None \<Rightarrow> cfg_env s \<noteq> Dev)"

section \<open>Registry\<close>

record agent_spec =
  sp_slug :: string
  sp_title :: string
  sp_base_url :: string
  sp_port :: int
  sp_kind :: agent_kind
  sp_incidents :: bool
  sp_findings :: bool
  sp_coverage :: bool
  sp_runs :: bool
  sp_pm :: bool

definition known_features :: "string list" where
  "known_features = [''incidents'', ''findings'', ''coverage'', ''runs'', ''pm'']"

definition spec_from_config :: "agent_config \<Rightarrow> agent_spec" where
  "spec_from_config c =
     (let fs = set (map (\<lambda>f. lower (strip f)) (ac_features c)) in
      \<lparr>sp_slug = ac_slug c, sp_title = (if ac_title c \<noteq> [] then ac_title c else ac_slug c),
       sp_base_url = ac_url c, sp_port = ac_port c, sp_kind = ac_kind c,
       sp_incidents = (''incidents'' \<in> fs), sp_findings = (''findings'' \<in> fs),
       sp_coverage = (''coverage'' \<in> fs), sp_runs = (''runs'' \<in> fs), sp_pm = (''pm'' \<in> fs)\<rparr>)"

definition build_registry :: "agent_config list \<Rightarrow> agent_spec list" where
  "build_registry agents = map spec_from_config agents"

definition by_slug :: "agent_spec list \<Rightarrow> string \<Rightarrow> agent_spec option" where
  "by_slug reg slug = find (\<lambda>s. sp_slug s = slug) reg"

text \<open>\<open>getattr(spec, 'has_' + feature, False)\<close>.\<close>

definition has_attr :: "agent_spec \<Rightarrow> string \<Rightarrow> bool" where
  "has_attr s f =
     (if f = ''incidents'' then sp_incidents s else if f = ''findings'' then sp_findings s
      else if f = ''coverage'' then sp_coverage s else if f = ''runs'' then sp_runs s
      else if f = ''pm'' then sp_pm s else False)"

definition with_feature :: "agent_spec list \<Rightarrow> string \<Rightarrow> agent_spec option" where
  "with_feature reg f = find (\<lambda>s. has_attr s f) reg"

section \<open>Lemmas\<close>

lemma find_SomeD: "find P xs = Some x \<Longrightarrow> x \<in> set xs \<and> P x"
  by (induction xs) (auto split: if_splits)

lemma slugs_build_registry [simp]: "map sp_slug (build_registry agents) = map ac_slug agents"
  by (simp add: build_registry_def spec_from_config_def Let_def comp_def)

lemma by_slug_None: "by_slug (build_registry agents) slug = None \<longleftrightarrow> slug \<notin> ac_slug ` set agents"
  by (auto simp: by_slug_def find_None_iff build_registry_def spec_from_config_def Let_def)

text \<open>An unknown capability is no agent's.\<close>

lemma with_feature_unknown: "f \<notin> set known_features \<Longrightarrow> with_feature reg f = None"
  by (auto simp: with_feature_def find_None_iff has_attr_def known_features_def)

text \<open>A capability is resolved to the first agent that declares it, whatever its case and padding.\<close>

lemma with_feature_declares:
  assumes "f \<in> set known_features"
  shows "with_feature (build_registry agents) f =
    map_option spec_from_config (find (\<lambda>c. f \<in> (\<lambda>x. lower (strip x)) ` set (ac_features c)) agents)"
proof -
  have "has_attr (spec_from_config c) f = (f \<in> (\<lambda>x. lower (strip x)) ` set (ac_features c))" for c
    using assms by (auto simp: has_attr_def spec_from_config_def Let_def known_features_def)
  then show ?thesis by (induction agents) (simp_all add: with_feature_def build_registry_def)
qed

lemma jwf_model_dump: "length (show_nat (nat \<bar>ac_port a\<bar>)) \<le> 4300 \<Longrightarrow> jwf (model_dump a)"
  by (simp add: model_dump_def list_all_iff)

end
