(* ===== verification/Egress.thy ===== *)
theory Egress
  imports AgentConfig UrlParse
begin

text \<open>
  The private-mode egress guard (\<open>agentkit/egress.py\<close>). A guarded primitive either raises or lets the
  connection (or the request) through; what the socket or the inner transport then does is outside.
\<close>

section \<open>The allow-list\<close>

record allow_list =
  al_pairs :: "(string \<times> int) list"
  al_safe_write_hosts :: "string list"

datatype egress_exc =
    EgressBlocked string int "string list"
  | MutatingVerbBlocked string string int "string list"
  | EgressPy pyexc

definition mutating_methods :: "string list" where
  "mutating_methods = [''POST'', ''PUT'', ''DELETE'', ''PATCH'']"

definition scheme_default_ports :: "int dict" where
  "scheme_default_ports =
     [(''http'', 80), (''https'', 443), (''postgresql'', 5432), (''postgres'', 5432), (''amqp'', 5672),
      (''amqps'', 5671), (''redis'', 6379), (''rediss'', 6380)]"

definition int_or_none :: "int option \<Rightarrow> int option \<Rightarrow> int option" where
  "int_or_none a b = (case a of Some k \<Rightarrow> if k = 0 then b else Some k | None \<Rightarrow> b)"

definition split_hostport :: "string \<Rightarrow> (pyexc, string option \<times> int option) result" where
  "split_hostport u =
     (if u = [] then Inr (None, None)
      else if contains u ''://'' then
        rbind (urlparse u) (\<lambda>parsed.
          rbind (url_port parsed) (\<lambda>port.
            Inr (url_hostname parsed, int_or_none port (map_of scheme_default_ports (url_scheme parsed)))))
      else if contains u '':'' then
        (case rpartition_at (CHR '':'') u of
           (host, _, port_s) \<Rightarrow> Inr (Some host, int_of_str port_s))
      else Inr (Some u, None))"

definition add_pair :: "string \<Rightarrow> (string \<times> int) list \<Rightarrow> (pyexc, (string \<times> int) list) result" where
  "add_pair u pairs = rbind (split_hostport u) (\<lambda>(h, p).
     case (h, p) of (Some host, Some port) \<Rightarrow> Inr (pairs @ [(host, port)]) | _ \<Rightarrow> Inr pairs)"

definition add_write_host :: "string \<Rightarrow> string list \<Rightarrow> (pyexc, string list) result" where
  "add_write_host u ws = rbind (split_hostport u) (\<lambda>(h, p).
     case h of Some host \<Rightarrow> Inr (if host = [] then ws else List.insert host ws) | None \<Rightarrow> Inr ws)"

definition from_settings :: "('a) agent_settings_scheme \<Rightarrow> (pyexc, allow_list) result" where
  "from_settings s =
     rbind (rfold add_pair [cfg_llm_base_url s, database_url s, redis_url s, cfg_rabbitmq_url s] []) (\<lambda>pairs.
     rbind (add_write_host (cfg_llm_base_url s) []) (\<lambda>ws0.
     rbind (rfold add_write_host (cfg_safe_write_hosts s) ws0) (\<lambda>ws.
       Inr \<lparr>al_pairs = pairs, al_safe_write_hosts = ws\<rparr>)))"

definition allows :: "allow_list \<Rightarrow> string \<Rightarrow> int \<Rightarrow> bool" where
  "allows al host port \<longleftrightarrow> (host, port) \<in> set (al_pairs al)"

definition allows_write :: "allow_list \<Rightarrow> string \<Rightarrow> bool" where
  "allows_write al host \<longleftrightarrow> host \<in> set (al_safe_write_hosts al)"

section \<open>Guards\<close>

text \<open>\<open>Inr (h, p)\<close>: \<open>socket.create_connection((h, p))\<close> is called.\<close>

definition guarded_connect ::
  "string \<Rightarrow> int \<Rightarrow> agent_settings option \<Rightarrow> allow_list option \<Rightarrow> (egress_exc, string \<times> int) result" where
  "guarded_connect host port settings al =
     (if (case settings of Some s \<Rightarrow> \<not> cfg_private_mode s | None \<Rightarrow> False) then Inr (host, port)
      else
        let lst = (case al of
            Some a \<Rightarrow> Inr (Some a)
          | None \<Rightarrow> (case settings of None \<Rightarrow> Inr None
                     | Some s \<Rightarrow> rbind (from_settings s) (\<lambda>a. Inr (Some a))))
        in case lst of
             Inl e \<Rightarrow> Inl (EgressPy e)
           | Inr None \<Rightarrow> Inr (host, port)
           | Inr (Some a) \<Rightarrow>
               if \<not> allows a host port then Inl (EgressBlocked host port (map fst (al_pairs a)))
               else Inr (host, port))"

record http_request =
  rq_method :: string
  rq_scheme :: string
  rq_host :: string
  rq_port :: "int option"

definition upper :: "string \<Rightarrow> string" where
  "upper s = map upper_ascii_char s"

definition rq_dest :: "http_request \<Rightarrow> string \<times> int" where
  "rq_dest r = (rq_host r,
     case rq_port r of Some k \<Rightarrow> (if k = 0 then (if rq_scheme r = ''https'' then 443 else 80) else k)
     | None \<Rightarrow> (if rq_scheme r = ''https'' then 443 else 80))"

text \<open>\<open>Inr r\<close>: the request is delegated to the inner transport.\<close>

definition handle_async_request ::
  "allow_list \<Rightarrow> bool \<Rightarrow> http_request \<Rightarrow> (egress_exc, http_request) result" where
  "handle_async_request al private_mode r =
     (if \<not> private_mode then Inr r
      else case rq_dest r of
        (host, port) \<Rightarrow>
          if \<not> allows al host port then Inl (EgressBlocked host port (map fst (al_pairs al)))
          else if upper (rq_method r) \<in> set mutating_methods \<and> \<not> allows_write al host
          then Inl (MutatingVerbBlocked (upper (rq_method r)) host port (sort (al_safe_write_hosts al)))
          else Inr r)"

text \<open>The client: the guard its requests pass, \<open>None\<close> outside private mode.\<close>

definition guarded_httpx_client :: "agent_settings \<Rightarrow> (pyexc, allow_list option) result" where
  "guarded_httpx_client s =
     (if \<not> cfg_private_mode s then Inr None else rbind (from_settings s) (\<lambda>al. Inr (Some al)))"

definition client_send :: "allow_list option \<Rightarrow> http_request \<Rightarrow> (egress_exc, http_request) result" where
  "client_send t r = (case t of None \<Rightarrow> Inr r | Some al \<Rightarrow> handle_async_request al True r)"

section \<open>Lemmas\<close>

lemmas url_simps = split_hostport_def contains_def urlparse_def split_scheme_def host_info_def
  url_port_def url_hostname_def Let_def rpartition_at_def is_asciialpha_def is_scheme_char_def
  is_digit_def bracket_host_ok_def lower_def lower_char_def scheme_default_ports_def int_or_none_def
  nat_of_digits_def digit_val_def

lemma add_pair_mem:
  assumes "add_pair u ps = Inr qs" and "(h, p) \<in> set qs"
  shows "(h, p) \<in> set ps \<or> split_hostport u = Inr (Some h, Some p)"
proof -
  obtain ho po where sp: "split_hostport u = Inr (ho, po)"
    using assms(1) by (auto simp: add_pair_def rbind_eq_Inr_iff)
  with assms show ?thesis by (cases ho; cases po) (auto simp: add_pair_def)
qed

lemma rfold_add_pair_mem:
  "rfold add_pair us ps = Inr qs \<Longrightarrow> (h, p) \<in> set qs \<Longrightarrow>
     (h, p) \<in> set ps \<or> (\<exists>u \<in> set us. split_hostport u = Inr (Some h, Some p))"
proof (induction us arbitrary: ps)
  case (Cons u us)
  then obtain ps1 where a: "add_pair u ps = Inr ps1" "rfold add_pair us ps1 = Inr qs"
    by (auto simp: rbind_eq_Inr_iff)
  from Cons.IH [OF a(2) Cons.prems(2)] add_pair_mem [OF a(1)] show ?case by auto
qed auto

lemma add_write_host_mem:
  assumes "add_write_host u ws = Inr vs" and "h \<in> set vs"
  shows "h \<in> set ws \<or> (\<exists>p. split_hostport u = Inr (Some h, p))"
proof -
  obtain ho po where sp: "split_hostport u = Inr (ho, po)"
    using assms(1) by (auto simp: add_write_host_def rbind_eq_Inr_iff)
  with assms show ?thesis by (cases ho) (auto simp: add_write_host_def split: if_splits)
qed

lemma rfold_add_write_mem:
  "rfold add_write_host us ws = Inr vs \<Longrightarrow> h \<in> set vs \<Longrightarrow>
     h \<in> set ws \<or> (\<exists>u \<in> set us. \<exists>p. split_hostport u = Inr (Some h, p))"
proof (induction us arbitrary: ws)
  case (Cons u us)
  then obtain ws1 where a: "add_write_host u ws = Inr ws1" "rfold add_write_host us ws1 = Inr vs"
    by (auto simp: rbind_eq_Inr_iff)
  from Cons.IH [OF a(2) Cons.prems(2)] add_write_host_mem [OF a(1)] show ?case by auto
qed auto

lemma from_settings_allows:
  assumes "from_settings s = Inr al" and "allows al h p"
  shows "\<exists>u \<in> set [cfg_llm_base_url s, database_url s, redis_url s, cfg_rabbitmq_url s].
    split_hostport u = Inr (Some h, Some p)"
proof -
  obtain pairs where "rfold add_pair [cfg_llm_base_url s, database_url s, redis_url s, cfg_rabbitmq_url s] [] = Inr pairs"
      and "al_pairs al = pairs"
    using assms(1) unfolding from_settings_def rbind_eq_Inr_iff by auto
  with rfold_add_pair_mem [of "[cfg_llm_base_url s, database_url s, redis_url s, cfg_rabbitmq_url s]" "[]" pairs h p] assms(2)
  show ?thesis by (auto simp: allows_def)
qed

lemma from_settings_writes:
  assumes "from_settings s = Inr al" and "allows_write al h"
  shows "\<exists>u \<in> set (cfg_llm_base_url s # cfg_safe_write_hosts s). \<exists>p. split_hostport u = Inr (Some h, p)"
proof -
  obtain ws0 where w: "add_write_host (cfg_llm_base_url s) [] = Inr ws0"
      "rfold add_write_host (cfg_safe_write_hosts s) ws0 = Inr (al_safe_write_hosts al)"
    using assms(1) unfolding from_settings_def rbind_eq_Inr_iff by auto
  from rfold_add_write_mem [OF w(2)] add_write_host_mem [OF w(1)] assms(2)
  show ?thesis by (fastforce simp: allows_write_def)
qed

end
