(* ===== verification/EgressTheorems.thy ===== *)
theory EgressTheorems
  imports Egress
begin

text \<open>The properties of the egress guard and of the private-mode boot gate.\<close>

section \<open>Private mode\<close>

definition demo_settings :: "string \<Rightarrow> agent_settings" where
  "demo_settings llm_url =
     \<lparr>jwt_secret = ''k'', jwt_algorithms = [''HS256''], jwt_audience = None,
      cfg_agent_name = ''mon'', cfg_env = Prod, cfg_postgres_host = ''postgres'', cfg_postgres_port = 5,
      cfg_postgres_user = ''app'', cfg_postgres_password = ''pw'', cfg_postgres_db = None,
      cfg_redis_host = ''redis'', cfg_redis_port = 6, cfg_redis_password = [], cfg_redis_db = 0,
      cfg_rabbitmq_url = ''amqp://mq/'', cfg_llm_base_url = llm_url, cfg_otel_endpoint = [],
      cfg_private_mode = True, cfg_safe_write_hosts = [], cfg_boot_gate = True,
      cfg_rate_limit_per_minute = 60, cfg_trust_proxy = False\<rparr>"

text \<open>
  C7: in private mode a request that the guarded client lets out goes, unchanged, to a host and
  port that one of the four configured URLs names; and a POST, PUT, DELETE or PATCH, in any
  capitalisation, only to the host of the LLM gateway or of a configured safe-write entry.
\<close>

theorem egress_only_configured:
  assumes "cfg_private_mode s" and "guarded_httpx_client s = Inr t" and "client_send t r = Inr r'"
  shows "r' = r
    \<and> (\<exists>u \<in> set [cfg_llm_base_url s, database_url s, redis_url s, cfg_rabbitmq_url s].
         split_hostport u = Inr (Some (rq_host r), Some (snd (rq_dest r))))
    \<and> (upper (rq_method r) \<in> set mutating_methods \<longrightarrow>
         (\<exists>u \<in> set (cfg_llm_base_url s # cfg_safe_write_hosts s). \<exists>p. split_hostport u = Inr (Some (rq_host r), p)))"
proof -
  obtain al where al: "from_settings s = Inr al" "t = Some al"
    using assms(1,2) by (auto simp: guarded_httpx_client_def rbind_eq_Inr_iff)
  have d: "fst (rq_dest r) = rq_host r" by (simp add: rq_dest_def)
  have h: "r' = r" "allows al (rq_host r) (snd (rq_dest r))"
    "upper (rq_method r) \<in> set mutating_methods \<longrightarrow> allows_write al (rq_host r)"
    using assms(3) al(2) d
    by (auto simp: client_send_def handle_async_request_def split: prod.splits if_splits)
  show ?thesis using h from_settings_allows [OF al(1) h(2)] from_settings_writes [OF al(1)] by blast
qed

definition demo_post :: http_request where
  "demo_post = \<lparr>rq_method = ''post'', rq_scheme = ''https'', rq_host = ''llm.corp'', rq_port = None\<rparr>"

lemma demo_from_settings:
  "from_settings (demo_settings ''https://llm.corp/v1'') =
     Inr \<lparr>al_pairs = [(''llm.corp'', 443), (''postgres'', 5), (''redis'', 6), (''mq'', 5672)],
          al_safe_write_hosts = [''llm.corp'']\<rparr>"
proof -
  have u: "database_url (demo_settings ''https://llm.corp/v1'') = ''postgresql://app:pw@postgres:5/mon''"
    "redis_url (demo_settings ''https://llm.corp/v1'') = ''redis://redis:6/0''" by code_simp+
  have h: "split_hostport ''https://llm.corp/v1'' = Inr (Some ''llm.corp'', Some 443)"
    "split_hostport ''postgresql://app:pw@postgres:5/mon'' = Inr (Some ''postgres'', Some 5)"
    "split_hostport ''redis://redis:6/0'' = Inr (Some ''redis'', Some 6)"
    "split_hostport ''amqp://mq/'' = Inr (Some ''mq'', Some 5672)" by (simp_all add: url_simps)
  have c: "cfg_llm_base_url (demo_settings ''https://llm.corp/v1'') = ''https://llm.corp/v1''"
    "cfg_rabbitmq_url (demo_settings ''https://llm.corp/v1'') = ''amqp://mq/''"
    "cfg_safe_write_hosts (demo_settings ''https://llm.corp/v1'') = []" by (simp_all add: demo_settings_def)
  show ?thesis unfolding from_settings_def u c
    by (simp add: add_pair_def add_write_host_def h)
qed

theorem egress_only_configured_witness:
  "\<exists>u \<in> set [cfg_llm_base_url (demo_settings ''https://llm.corp/v1''), database_url (demo_settings ''https://llm.corp/v1''),
             redis_url (demo_settings ''https://llm.corp/v1''), cfg_rabbitmq_url (demo_settings ''https://llm.corp/v1'')].
     split_hostport u = Inr (Some (rq_host demo_post), Some (snd (rq_dest demo_post)))"
proof -
  have pm: "cfg_private_mode (demo_settings ''https://llm.corp/v1'')" by (simp add: demo_settings_def)
  have c: "guarded_httpx_client (demo_settings ''https://llm.corp/v1'') =
     Inr (Some \<lparr>al_pairs = [(''llm.corp'', 443), (''postgres'', 5), (''redis'', 6), (''mq'', 5672)],
          al_safe_write_hosts = [''llm.corp'']\<rparr>)"
    using pm by (simp add: guarded_httpx_client_def demo_from_settings)
  have "upper ''post'' = ''POST''" by code_simp
  then have "client_send (Some \<lparr>al_pairs = [(''llm.corp'', 443), (''postgres'', 5), (''redis'', 6), (''mq'', 5672)],
          al_safe_write_hosts = [''llm.corp'']\<rparr>) demo_post = Inr demo_post"
    by (simp add: client_send_def handle_async_request_def demo_post_def rq_dest_def allows_def allows_write_def)
  from egress_only_configured [OF pm c this] show ?thesis by blast
qed

section \<open>The boot gate\<close>

text \<open>
  Outside dev, with private mode and the gate on, an agent boots only if the text between the
  scheme and the first slash or colon of its gateway URL is non-empty and contains no placeholder.
  The test is on the text and not on the host that will be connected to: it lets through a URL whose
  host is \<open>localhost\<close> in capitals, or whose scheme is in capitals, and it refuses a real host that
  contains \<open>example.com\<close>.
\<close>

theorem boot_gate_text_only:
  assumes "cfg_private_mode s" and "cfg_boot_gate s" and "cfg_env s \<noteq> Dev"
  shows "(validate_egress_boot_gate s = Inr () \<longleftrightarrow>
       gateway_host (cfg_llm_base_url s) \<noteq> [] \<and>
       (\<forall>p \<in> set placeholder_patterns. \<not> contains (gateway_host (cfg_llm_base_url s)) p))
    \<and> (\<forall>u \<in> set [''http://LOCALHOST/v1'', ''HTTP://localhost/v1''].
         validate_egress_boot_gate (s\<lparr>cfg_llm_base_url := u\<rparr>) = Inr ()
         \<and> (\<exists>p. urlparse u = Inr p \<and> url_hostname p = Some ''localhost''))
    \<and> validate_egress_boot_gate (s\<lparr>cfg_llm_base_url := ''https://llm.example.company/v1''\<rparr>) \<noteq> Inr ()"
proof (intro conjI)
  show "validate_egress_boot_gate s = Inr () \<longleftrightarrow>
       gateway_host (cfg_llm_base_url s) \<noteq> [] \<and>
       (\<forall>p \<in> set placeholder_patterns. \<not> contains (gateway_host (cfg_llm_base_url s)) p)"
    using assms by (simp add: validate_egress_boot_gate_def Let_def list_ex_iff)
  have g: "validate_egress_boot_gate (s\<lparr>cfg_llm_base_url := u\<rparr>) = Inr () \<longleftrightarrow>
     gateway_host u \<noteq> [] \<and> \<not> list_ex (contains (gateway_host u)) placeholder_patterns" for u
    using assms by (simp add: validate_egress_boot_gate_def Let_def)
  have h: "gateway_host ''http://LOCALHOST/v1'' = ''LOCALHOST''" "gateway_host ''HTTP://localhost/v1'' = ''HTTP''"
    "gateway_host ''https://llm.example.company/v1'' = ''llm.example.company''" by code_simp+
  have c: "\<not> list_ex (contains ''LOCALHOST'') placeholder_patterns" "\<not> list_ex (contains ''HTTP'') placeholder_patterns"
    "list_ex (contains ''llm.example.company'') placeholder_patterns" by code_simp+
  have p: "\<exists>p. urlparse ''http://LOCALHOST/v1'' = Inr p \<and> url_hostname p = Some ''localhost''"
    "\<exists>p. urlparse ''HTTP://localhost/v1'' = Inr p \<and> url_hostname p = Some ''localhost''"
    by (rule exI [of _ "\<lparr>url_scheme = ''http'', url_netloc = ''LOCALHOST''\<rparr>"], code_simp,
        rule exI [of _ "\<lparr>url_scheme = ''http'', url_netloc = ''localhost''\<rparr>"], code_simp)
  show "\<forall>u \<in> set [''http://LOCALHOST/v1'', ''HTTP://localhost/v1''].
         validate_egress_boot_gate (s\<lparr>cfg_llm_base_url := u\<rparr>) = Inr ()
         \<and> (\<exists>p. urlparse u = Inr p \<and> url_hostname p = Some ''localhost'')"
    using g h c p by simp
  show "validate_egress_boot_gate (s\<lparr>cfg_llm_base_url := ''https://llm.example.company/v1''\<rparr>) \<noteq> Inr ()"
    using g h c by simp
qed

theorem boot_gate_text_only_witness:
  "validate_egress_boot_gate (demo_settings ''x''\<lparr>cfg_llm_base_url := ''http://LOCALHOST/v1''\<rparr>) = Inr ()"
  using boot_gate_text_only [of "demo_settings ''x''"] by (simp add: demo_settings_def)

end
