(* ===== verification/DashAuth.thy ===== *)
theory DashAuth
  imports DashRegistry EgressTheorems
begin

text \<open>
  Dashboard authentication (\<open>dashboard/auth.py\<close>): the admin session read from a cookie, and the
  dashboard's own service token for the agents it calls, cached and renewed before it expires. The
  primitives of personal access tokens (\<open>dashboard/pat.py\<close>). PyJWT, SHA-256 and the random source
  are arguments.
\<close>

section \<open>Sessions\<close>

definition verify_admin_token :: "jwtlib \<Rightarrow> secs \<Rightarrow> string \<Rightarrow> dash_settings \<Rightarrow> (pyexc, principal) result" where
  "verify_admin_token lib now token st =
     rbind (verify_token lib now token (jwt_secret st) (jwt_algorithms st) (jwt_audience st)) (\<lambda>p.
       if \<not> is_admin p then Inl (HttpError 403 ''admin required'') else Inr p)"

definition require_session :: "jwtlib \<Rightarrow> secs \<Rightarrow> dash_settings \<Rightarrow> string dict \<Rightarrow> (pyexc, principal) result" where
  "require_session lib now st cookies =
     (case map_of cookies (ds_session_cookie_name st) of
        None \<Rightarrow> Inl (AuthError ''no session'')
      | Some token \<Rightarrow> if token = [] then Inl (AuthError ''no session'') else verify_admin_token lib now token st)"

section \<open>The upstream token\<close>

record upstream_token =
  ut_token :: "string option"
  ut_exp :: int

definition upstream_new :: upstream_token where
  "upstream_new = \<lparr>ut_token = None, ut_exp = 0\<rparr>"

definition upstream_claims :: "dash_settings \<Rightarrow> int \<Rightarrow> pyval dict" where
  "upstream_claims st e =
     [(''sub'', PyStr (ds_upstream_token_sub st)), (''tenant'', PyStr ''platform''), (''role'', PyStr ''admin''),
      (''exp'', PyInt e)]
     @ (case jwt_audience st of None \<Rightarrow> [] | Some a \<Rightarrow> if a = [] then [] else [(''aud'', PyStr a)])"

definition upstream_get :: "jwtlib \<Rightarrow> dash_settings \<Rightarrow> secs \<Rightarrow> upstream_token \<Rightarrow> string \<times> upstream_token" where
  "upstream_get lib st now u =
     (case ut_token u of
        Some t \<Rightarrow>
          if now < of_int (ut_exp u - 60) then (t, u)
          else
            let e = trunc_rat now + ds_upstream_token_ttl_s st;
                t' = jwt_encode lib (upstream_claims st e) (jwt_secret st) ''HS256''
            in (t', \<lparr>ut_token = Some t', ut_exp = e\<rparr>)
      | None \<Rightarrow>
          let e = trunc_rat now + ds_upstream_token_ttl_s st;
              t' = jwt_encode lib (upstream_claims st e) (jwt_secret st) ''HS256''
          in (t', \<lparr>ut_token = Some t', ut_exp = e\<rparr>))"

definition auth_header :: "jwtlib \<Rightarrow> dash_settings \<Rightarrow> secs \<Rightarrow> upstream_token \<Rightarrow> string option \<times> upstream_token" where
  "auth_header lib st now u =
     (if jwt_secret st = [] then (None, u)
      else case upstream_get lib st now u of (t, u') \<Rightarrow> (Some (''Bearer '' @ t), u'))"

section \<open>Personal access tokens\<close>

definition pat_prefix :: string where
  "pat_prefix = ''ab_''"

definition prefix_len :: nat where
  "prefix_len = 8"

definition new_pat_secret :: "string \<Rightarrow> string" where
  "new_pat_secret rnd = pat_prefix @ rnd"

definition hash_pat :: "(string \<Rightarrow> string) \<Rightarrow> string \<Rightarrow> string" where
  "hash_pat sha secret = sha secret"

definition split_prefix :: "string \<Rightarrow> string" where
  "split_prefix secret =
     (let body = (if prefix pat_prefix secret then drop (length pat_prefix) secret else secret)
      in pat_prefix @ take prefix_len body)"

definition mint_pat :: "(string \<Rightarrow> string) \<Rightarrow> string \<Rightarrow> string \<times> string \<times> string" where
  "mint_pat sha rnd = (let secret = new_pat_secret rnd in (secret, split_prefix secret, hash_pat sha secret))"

definition verify_pat :: "(string \<Rightarrow> string) \<Rightarrow> string \<Rightarrow> string \<Rightarrow> (pyexc, bool) result" where
  "verify_pat sha secret stored_hash = compare_digest (hash_pat sha secret) stored_hash"

section \<open>The token is always usable\<close>

text \<open>The tokens the dashboard has handed out so far: a sequence of calls at non-decreasing times.\<close>

definition token_inv :: "jwtlib \<Rightarrow> dash_settings \<Rightarrow> upstream_token \<Rightarrow> bool" where
  "token_inv lib st u \<longleftrightarrow>
     (\<forall>t. ut_token u = Some t \<longrightarrow> t = jwt_encode lib (upstream_claims st (ut_exp u)) (jwt_secret st) ''HS256'')"

lemma token_inv_new: "token_inv lib st upstream_new"
  by (simp add: token_inv_def upstream_new_def)

lemma upstream_get_inv [preserve]: "token_inv lib st u \<Longrightarrow> upstream_get lib st now u = (t, u') \<Longrightarrow> token_inv lib st u'"
  by (auto simp: upstream_get_def token_inv_def Let_def split: option.splits if_splits)

lemma trunc_rat_nonneg: "0 \<le> now \<Longrightarrow> trunc_rat now = \<lfloor>now\<rfloor>"
  by (simp add: trunc_rat_def)

text \<open>The token handed out is the one that expires at \<open>ut_exp\<close>, which is not yet reached.\<close>

lemma upstream_get_fresh:
  assumes "token_inv lib st u" and "upstream_get lib st now u = (t, u')" and "0 \<le> now"
  shows "t = jwt_encode lib (upstream_claims st (ut_exp u')) (jwt_secret st) ''HS256''
    \<and> (now < of_int (ut_exp u' - 60) \<or> ut_exp u' = \<lfloor>now\<rfloor> + ds_upstream_token_ttl_s st)"
  using assms
  by (auto simp: upstream_get_def token_inv_def Let_def trunc_rat_nonneg split: option.splits if_splits)

fun upstream_calls :: "jwtlib \<Rightarrow> dash_settings \<Rightarrow> secs list \<Rightarrow> upstream_token \<Rightarrow> upstream_token" where
  "upstream_calls lib st [] u = u"
| "upstream_calls lib st (t # ts) u = upstream_calls lib st ts (snd (upstream_get lib st t u))"

lemma upstream_calls_inv: "token_inv lib st u \<Longrightarrow> token_inv lib st (upstream_calls lib st ts u)"
proof (induction ts arbitrary: u)
  case (Cons t ts)
  then show ?case using upstream_get_inv [of lib st u t] by (cases "upstream_get lib st t u") simp
qed simp

text \<open>Claims without an issue time, as the dashboard and the operator's script write them.\<close>

definition service_claims :: "string \<Rightarrow> string \<Rightarrow> string \<Rightarrow> int \<Rightarrow> string option \<Rightarrow> pyval dict" where
  "service_claims sub tenant role e aud =
     [(''sub'', PyStr sub), (''tenant'', PyStr tenant), (''role'', PyStr role), (''exp'', PyInt e)]
     @ (case aud of None \<Rightarrow> [] | Some a \<Rightarrow> if a = [] then [] else [(''aud'', PyStr a)])"

lemma upstream_service_claims:
  "upstream_claims st e = service_claims (ds_upstream_token_sub st) ''platform'' ''admin'' e (jwt_audience st)"
  by (simp add: upstream_claims_def service_claims_def)

lemma service_claims_simps:
  "claim (service_claims sub tn ro e aud) ''exp'' = PyInt e" "map_of (service_claims sub tn ro e aud) ''exp'' = Some (PyInt e)"
  "claim (service_claims sub tn ro e aud) ''sub'' = PyStr sub"
  "map_of (service_claims sub tn ro e aud) ''sub'' = Some (PyStr sub)"
  "claim (service_claims sub tn ro e aud) ''tenant'' = PyStr tn"
  "claim (service_claims sub tn ro e aud) ''role'' = PyStr ro"
  "claim (service_claims sub tn ro e aud) ''name'' = PyNone"
  "claim (service_claims sub tn ro e aud) ''aud'' =
     (case aud of None \<Rightarrow> PyNone | Some a \<Rightarrow> if a = [] then PyNone else PyStr a)"
  by (simp_all add: service_claims_def claim_def split: option.split)

text \<open>A token with such claims verifies until it expires, wherever secret, algorithm and audience are the same.\<close>

lemma service_verified:
  assumes "jwt_roundtrip lib (service_claims sub tn ro e aud) secret alg"
    and "secret \<noteq> []" and "alg \<in> set algs" and "aud \<noteq> Some []" and "tn \<noteq> []" and "ro \<noteq> []"
  shows "verify_token lib t (jwt_encode lib (service_claims sub tn ro e aud) secret alg) secret algs aud =
    (if of_int e \<le> t then Inl (AuthError ''token expired'')
     else Inr \<lparr>p_sub = sub, p_tenant = tn, p_role = ro, p_name = PyNone\<rparr>)"
proof -
  let ?c = "service_claims sub tn ro e aud"
  let ?req = "[''exp'', ''sub''] @ (case aud of None \<Rightarrow> [] | Some _ \<Rightarrow> [''aud''])"
  have valid: "t < of_int e \<Longrightarrow> claims_valid t aud ?req ?c"
    using assms(4) by (auto simp: claims_valid_def service_claims_simps aud_matches_def split: option.split)
  have "jwt_decode lib t (jwt_encode lib ?c secret alg) secret algs aud ?req =
      (if of_int e \<le> t then Inl ExpiredSignatureError else if claims_valid t aud ?req ?c then Inr ?c else Inl PyJWTError)"
    using assms(1,3) service_claims_simps(2) [of sub tn ro e aud] unfolding jwt_roundtrip_def by blast
  then show ?thesis using assms(2,5,6) valid
    by (simp add: verify_token_def Let_def service_claims_simps not_le)
qed

lemma upstream_verified:
  assumes "jwt_roundtrip lib (upstream_claims st e) (jwt_secret st) ''HS256''"
    and "jwt_secret st \<noteq> []" and "''HS256'' \<in> set (jwt_algorithms st)" and "jwt_audience st \<noteq> Some []" and "t < of_int e"
  shows "\<exists>p. verify_token lib t (jwt_encode lib (upstream_claims st e) (jwt_secret st) ''HS256'') (jwt_secret st)
      (jwt_algorithms st) (jwt_audience st) = Inr p
    \<and> is_admin p \<and> p_sub p = ds_upstream_token_sub st \<and> p_tenant p = ''platform''"
  using service_verified [OF assms(1) [unfolded upstream_service_claims] assms(2-4)] assms(5)
  by (simp add: upstream_service_claims is_admin_def)

lemma lower_bearer: "lower ''Bearer'' = ''bearer''"
  by code_simp

text \<open>Whatever calls came before, the token the dashboard sends at time \<open>now\<close> is accepted as an
  admin's by every agent with the same secret, algorithm and audience, from \<open>now\<close> on for at least
  the shorter of 60 seconds and the token's lifetime less the fraction of a second lost by rounding
  down. The JWT library is any that decodes what it encoded.\<close>

lemma upstream_accepted:
  assumes "\<forall>e. jwt_roundtrip lib (upstream_claims st e) (jwt_secret st) ''HS256''"
    and "jwt_secret st \<noteq> []" and "''HS256'' \<in> set (jwt_algorithms st)" and "jwt_audience st \<noteq> Some []"
    and "\<forall>c. jwt_encode lib c (jwt_secret st) ''HS256'' \<noteq> []"
    and "0 \<le> now" and "t < now + 60" and "t < of_int (\<lfloor>now\<rfloor> + ds_upstream_token_ttl_s st)"
  shows "\<exists>tok u' p. auth_header lib st now (upstream_calls lib st ts upstream_new) = (Some (''Bearer '' @ tok), u')
    \<and> current_principal lib t (auth_settings.truncate st) (''Bearer '' @ tok) = Inr p
    \<and> require_admin p = Inr p \<and> p_tenant p = ''platform''"
proof -
  let ?u = "upstream_calls lib st ts upstream_new"
  obtain tok u' where g: "upstream_get lib st now ?u = (tok, u')" by fastforce
  note f = upstream_get_fresh [OF upstream_calls_inv [OF token_inv_new] g assms(6)]
  have "t < of_int (ut_exp u')"
    using f assms(7,8) by auto
  from upstream_verified [OF spec [OF assms(1)] assms(2-4) this] obtain p where
    p: "verify_token lib t tok (jwt_secret st) (jwt_algorithms st) (jwt_audience st) = Inr p" "is_admin p"
      "p_tenant p = ''platform''" using f by auto
  have ne: "tok \<noteq> []" using f assms(5) by simp
  have "current_principal lib t (auth_settings.truncate st) (''Bearer '' @ tok) = Inr p"
    using p(1) ne by (simp add: current_principal_def auth_settings.defs lower_bearer)
  then show ?thesis using g assms(2) p by (simp add: auth_header_def require_admin_def)
qed

text \<open>A library whose token is the expiry time in the clear, for the claims of one dashboard.\<close>

definition service_lib :: "dash_settings \<Rightarrow> jwtlib" where
  "service_lib st = \<lparr>jwt_encode = (\<lambda>c sec alg. case py_int (claim c ''exp'') of Inr e \<Rightarrow> show_int e | Inl _ \<Rightarrow> ''x''),
     jwt_decode = (\<lambda>now tok sec algs aud req.
       case int_of_str tok of
         None \<Rightarrow> Inl PyJWTError
       | Some e \<Rightarrow>
           if of_int e \<le> now then Inl ExpiredSignatureError
           else if claims_valid now aud req (upstream_claims st e) then Inr (upstream_claims st e) else Inl PyJWTError)\<rparr>"

lemma not_space_minus: "\<not> is_space CHR ''-''"
  by (simp add: is_space_def)

lemma int_of_str_show_int: "int_of_str (show_int k) = Some k"
proof (cases "k < 0")
  case True
  let ?s = "show_nat (nat (- k))"
  have dig: "\<forall>c \<in> set ?s. is_digit c" by (rule show_nat_digits)
  then have "strip (CHR ''-'' # ?s) = CHR ''-'' # ?s"
    by (intro strip_id) (simp add: not_space_digit not_space_minus)
  then show ?thesis using True digits_us_digits [OF dig, of False]
    by (simp add: show_int_def int_of_str_def)
next
  case False
  then show ?thesis by (simp add: show_int_def int_of_str_show_nat)
qed

lemma service_lib_roundtrip: "jwt_roundtrip (service_lib st) (upstream_claims st e) sec alg"
  by (simp add: jwt_roundtrip_def service_lib_def int_of_str_show_int upstream_service_claims service_claims_simps)

lemma service_lib_ne: "jwt_encode (service_lib st) c sec alg \<noteq> []"
  by (simp add: service_lib_def split: sum.split)

text \<open>A dashboard with a ten-minute token.\<close>

definition demo_dash :: dash_settings where
  "demo_dash = (dash_defaults (demo_settings ''http://llm.internal''))\<lparr>ds_upstream_token_ttl_s := 600\<rparr>"

lemma demo_dash_simps [simp]:
  "jwt_secret demo_dash = ''k''" "jwt_algorithms demo_dash = [''HS256'']" "jwt_audience demo_dash = None"
  "ds_upstream_token_ttl_s demo_dash = 600"
  by (simp_all add: demo_dash_def dash_defaults_def agent_settings.defs demo_settings_def)

end
