(* ===== verification/DashStore.thy ===== *)
theory DashStore
  imports AuditLog PyTime
begin

text \<open>
  The dashboard's own database (\<open>dashboard/store.py\<close>): heartbeats, the raw cost snapshots and their
  daily rollup, personal access tokens and the triage overlay. Each SQL statement is one operation;
  \<open>now\<close> is the database's \<open>now()\<close>, in UTC. A number a metric reports is \<open>None\<close> for JSON's null.
\<close>

section \<open>Tables\<close>

record heartbeat_row =
  hr_agent :: string
  hr_ts :: secs
  hr_up :: bool
  hr_ready :: "bool option"
  hr_uptime :: "rat option"
  hr_error_rate :: "rat option"
  hr_requests :: "int option"

record cost_event =
  ce_agent :: string
  ce_model :: string
  ce_ts :: secs
  ce_usd :: usd

text \<open>The key of the rollup: agent, model and day; the agent's total is under the empty model.\<close>

type_synonym cost_key = "string \<times> string \<times> int"
type_synonym cost_table = "(cost_key \<times> usd) list"

record pat_row =
  pt_id :: int
  pt_tenant :: string
  pt_prefix :: string
  pt_hash :: string
  pt_name :: string
  pt_scope :: string
  pt_role :: string
  pt_created_by :: string
  pt_created_at :: secs
  pt_expires_at :: secs
  pt_revoked_at :: "secs option"

record triage_row =
  ti_status :: string
  ti_note :: "string option"
  ti_actor :: string
  ti_updated_at :: secs

record dash_db =
  db_heartbeats :: "heartbeat_row list"
  db_cost_events :: "cost_event list"
  db_model_events :: "cost_event list"
  db_cost_daily :: cost_table
  db_pats :: "pat_row list"
  db_next_pat :: int
  db_triage :: "((string \<times> string) \<times> triage_row) list"

definition create_schema :: dash_db where
  "create_schema = \<lparr>db_heartbeats = [], db_cost_events = [], db_model_events = [], db_cost_daily = [],
     db_pats = [], db_next_pat = 1, db_triage = []\<rparr>"

definition incident_triage_statuses :: "string list" where
  "incident_triage_statuses = [''acknowledged'', ''resolved'', ''snoozed'', ''open'']"

definition agent_total_model :: string where
  "agent_total_model = []"

definition unknown_model :: string where
  "unknown_model = ''unknown''"

section \<open>Heartbeats\<close>

definition record_heartbeat :: "heartbeat_row \<Rightarrow> dash_db \<Rightarrow> dash_db" where
  "record_heartbeat r db = db\<lparr>db_heartbeats := db_heartbeats db @ [r]\<rparr>"

definition recent_heartbeats :: "string \<Rightarrow> int \<Rightarrow> nat \<Rightarrow> secs \<Rightarrow> dash_db \<Rightarrow> heartbeat_row list" where
  "recent_heartbeats agent hours limit now db =
     rev (take limit (sort_key (\<lambda>r. - hr_ts r)
       (filter (\<lambda>r. hr_agent r = agent \<and> now - of_int hours * 3600 < hr_ts r) (db_heartbeats db))))"

section \<open>Costs\<close>

text \<open>\<open>GREATEST\<close> of the stored figure and the new one.\<close>

definition cost_merge :: "usd \<Rightarrow> usd option \<Rightarrow> usd" where
  "cost_merge x old = (case old of None \<Rightarrow> x | Some y \<Rightarrow> max y x)"

definition rollup_upsert :: "cost_key \<Rightarrow> usd \<Rightarrow> dash_db \<Rightarrow> dash_db" where
  "rollup_upsert k x db = db\<lparr>db_cost_daily := upsert_row cost_merge k x (db_cost_daily db)\<rparr>"

text \<open>
  \<open>float(v or 0.0)\<close>. The model holds finite figures: NaN and the infinities, which Python's JSON
  decoder also accepts, are outside it and stand as an error here.
\<close>

definition usd_value :: "pyval \<Rightarrow> (pyexc, usd) result" where
  "usd_value v =
     (if \<not> truthy v then Inr 0
      else rbind (py_float v) (\<lambda>f. case f of Dec m e \<Rightarrow> Inr (dec_val m e) | _ \<Rightarrow> Inl Unrepresentable))"

text \<open>The two statements of \<open>record_cost\<close> commit one by one: the event, then its rollup.\<close>

definition log_cost :: "string \<Rightarrow> usd \<Rightarrow> secs \<Rightarrow> dash_db \<Rightarrow> dash_db" where
  "log_cost agent usd t db =
     db\<lparr>db_cost_events := db_cost_events db @ [\<lparr>ce_agent = agent, ce_model = [], ce_ts = t, ce_usd = usd\<rparr>]\<rparr>"

definition record_cost :: "string \<Rightarrow> pyval \<Rightarrow> secs \<Rightarrow> dash_db \<Rightarrow> (pyexc, unit) result \<times> dash_db" where
  "record_cost agent usd_today t db =
     (case usd_value usd_today of
        Inl e \<Rightarrow> (Inl e, db)
      | Inr usd \<Rightarrow> (Inr (), rollup_upsert (agent, agent_total_model, day_of t) usd (log_cost agent usd t db)))"

definition model_label :: "string \<Rightarrow> string" where
  "model_label model = (let s = strip model in if s = [] then unknown_model else s)"

definition log_model_cost :: "string \<Rightarrow> string \<Rightarrow> usd \<Rightarrow> secs \<Rightarrow> dash_db \<Rightarrow> dash_db" where
  "log_model_cost agent label usd t db =
     db\<lparr>db_model_events := db_model_events db @ [\<lparr>ce_agent = agent, ce_model = label, ce_ts = t, ce_usd = usd\<rparr>]\<rparr>"

text \<open>The loop over the reported models; a figure that is not a number ends it where it stands.\<close>

fun record_models :: "string \<Rightarrow> secs \<Rightarrow> pyval dict \<Rightarrow> dash_db \<Rightarrow> (pyexc, unit) result \<times> dash_db" where
  "record_models agent t [] db = (Inr (), db)"
| "record_models agent t ((model, v) # rest) db =
     (case usd_value v of
        Inl e \<Rightarrow> (Inl e, db)
      | Inr usd \<Rightarrow>
          let label = model_label model
          in record_models agent t rest
               (rollup_upsert (agent, label, day_of t) usd (log_model_cost agent label usd t db)))"

definition record_cost_by_model :: "string \<Rightarrow> pyval \<Rightarrow> secs \<Rightarrow> dash_db \<Rightarrow> (pyexc, unit) result \<times> dash_db" where
  "record_cost_by_model agent by_model t db =
     (if \<not> truthy by_model then (Inr (), db)
      else case by_model of
        PyDict d \<Rightarrow> record_models agent t d db
      | _ \<Rightarrow> (Inl AttributeError, db))"

text \<open>The first day inside a rolling window of \<open>n\<close> days is the day after \<open>window_start\<close>.\<close>

definition window_start :: "int \<Rightarrow> secs \<Rightarrow> int" where
  "window_start n now = day_of (now - of_int n * 86400)"

definition in_days :: "int \<Rightarrow> secs \<Rightarrow> cost_key \<times> usd \<Rightarrow> bool" where
  "in_days n now r \<longleftrightarrow> window_start n now < snd (snd (fst r))"

definition cost_series :: "int \<Rightarrow> secs \<Rightarrow> dash_db \<Rightarrow> (string \<times> int \<times> usd) list" where
  "cost_series n now db =
     map (\<lambda>((a, _, d), u). (a, d, u))
       (sort_key (\<lambda>r. - snd (snd (fst r))) (sort_key (\<lambda>r. fst (fst r))
         (filter (\<lambda>r. fst (snd (fst r)) = agent_total_model \<and> in_days n now r) (db_cost_daily db))))"

record cost_window =
  cw_agent :: string
  cw_week :: usd
  cw_month :: usd
  cw_all_time :: usd
  cw_last_active :: int

definition sum_usd :: "(cost_key \<times> usd) list \<Rightarrow> usd" where
  "sum_usd rs = (\<Sum>r\<leftarrow>rs. snd r)"

definition agent_rows :: "string \<Rightarrow> cost_table \<Rightarrow> (cost_key \<times> usd) list" where
  "agent_rows a t = filter (\<lambda>r. fst (fst r) = a \<and> fst (snd (fst r)) = agent_total_model) t"

definition window_of :: "int \<Rightarrow> int \<Rightarrow> secs \<Rightarrow> cost_table \<Rightarrow> string \<Rightarrow> cost_window" where
  "window_of wk mo now t a =
     (let rs = agent_rows a t in
      \<lparr>cw_agent = a, cw_week = py_round 6 (sum_usd (filter (in_days wk now) rs)),
       cw_month = py_round 6 (sum_usd (filter (in_days mo now) rs)), cw_all_time = py_round 6 (sum_usd rs),
       cw_last_active = Max (set (map (\<lambda>r. snd (snd (fst r))) rs))\<rparr>)"

definition cost_windows :: "int \<Rightarrow> int \<Rightarrow> secs \<Rightarrow> dash_db \<Rightarrow> cost_window list" where
  "cost_windows wk mo now db =
     (let t = db_cost_daily db;
          agents = sort (remdups (map (\<lambda>r. fst (fst r)) (filter (\<lambda>r. fst (snd (fst r)) = agent_total_model) t)))
      in map (window_of wk mo now t) (sort_key (\<lambda>a. - sum_usd (agent_rows a t)) agents))"

text \<open>Rows of a group by day and series name, in that order, each with the sum of its figures.\<close>

definition grouped :: "(cost_key \<times> usd \<Rightarrow> string) \<Rightarrow> (cost_key \<times> usd) list \<Rightarrow> (int \<times> string \<times> usd) list" where
  "grouped f rs =
     (let ds = sort (remdups (map (\<lambda>r. snd (snd (fst r))) rs))
      in concat (map (\<lambda>d. let day_rows = filter (\<lambda>r. snd (snd (fst r)) = d) rs
                          in map (\<lambda>m. (d, m, sum_usd (filter (\<lambda>r. f r = m) day_rows)))
                               (sort (remdups (map f day_rows)))) ds))"

definition cost_model_daily :: "int \<Rightarrow> secs \<Rightarrow> dash_db \<Rightarrow> (int \<times> string \<times> usd) list" where
  "cost_model_daily n now db =
     grouped (\<lambda>r. fst (snd (fst r)))
       (filter (\<lambda>r. fst (snd (fst r)) \<noteq> agent_total_model \<and> in_days n now r) (db_cost_daily db))"

definition cost_agent_daily :: "int \<Rightarrow> secs \<Rightarrow> dash_db \<Rightarrow> (int \<times> string \<times> usd) list" where
  "cost_agent_daily n now db =
     grouped (\<lambda>r. fst (fst r))
       (filter (\<lambda>r. fst (snd (fst r)) = agent_total_model \<and> in_days n now r) (db_cost_daily db))"

text \<open>
  The repair job: fold every group of snapshots, by its maximum, into the rollup. A group's maximum
  merged once is its snapshots merged one by one.
\<close>

definition event_key :: "cost_event \<Rightarrow> cost_key" where
  "event_key e = (ce_agent e, ce_model e, day_of (ce_ts e))"

definition rollup_events :: "cost_event list \<Rightarrow> dash_db \<Rightarrow> dash_db" where
  "rollup_events es db =
     fold (\<lambda>k. rollup_upsert k (Max (set (map ce_usd (filter (\<lambda>e. event_key e = k) es)))))
       (remdups (map event_key es)) db"

definition rollup_cost_daily :: "dash_db \<Rightarrow> dash_db" where
  "rollup_cost_daily db =
     rollup_events (db_model_events db) (rollup_events (db_cost_events db) db)"

definition prune_old_data :: "int \<Rightarrow> secs \<Rightarrow> dash_db option \<Rightarrow> (nat \<times> nat \<times> nat) option \<times> dash_db option" where
  "prune_old_data n now pool =
     (case pool of
        None \<Rightarrow> (None, None)
      | Some db \<Rightarrow>
          let cut = now - of_int n * 86400;
              old = (\<lambda>ts. ts < cut)
          in (Some (length (filter (old \<circ> hr_ts) (db_heartbeats db)), length (filter (old \<circ> ce_ts) (db_cost_events db)),
                    length (filter (old \<circ> ce_ts) (db_model_events db))),
              Some (db\<lparr>db_heartbeats := filter (Not \<circ> old \<circ> hr_ts) (db_heartbeats db),
                       db_cost_events := filter (Not \<circ> old \<circ> ce_ts) (db_cost_events db),
                       db_model_events := filter (Not \<circ> old \<circ> ce_ts) (db_model_events db)\<rparr>)))"

section \<open>Personal access tokens\<close>

text \<open>
  The column \<open>prefix\<close> is unique: a second row with it raises \<open>UniqueViolation\<close>, and its number is spent.
  \<open>created_at\<close> is left to the database's \<open>now()\<close>; a request has one clock here, so it is the instant from
  which the route counted the expiry, where the database's is a moment later.
\<close>

definition create_pat ::
  "string \<Rightarrow> string \<Rightarrow> string \<Rightarrow> string \<Rightarrow> string \<Rightarrow> string \<Rightarrow> string \<Rightarrow> secs \<Rightarrow> secs \<Rightarrow> dash_db \<Rightarrow> (pyexc, int) result \<times> dash_db" where
  "create_pat tenant pfx tok_hash name scope role created_by expires_at now db =
     (let i = db_next_pat db; db1 = db\<lparr>db_next_pat := i + 1\<rparr> in
      if pfx \<in> pt_prefix ` set (db_pats db) then (Inl (Upstream ''UniqueViolation''), db1)
      else (Inr i, db1\<lparr>db_pats := db_pats db @ [\<lparr>pt_id = i, pt_tenant = tenant, pt_prefix = pfx, pt_hash = tok_hash,
              pt_name = name, pt_scope = scope, pt_role = role, pt_created_by = created_by, pt_created_at = now,
              pt_expires_at = expires_at, pt_revoked_at = None\<rparr>]\<rparr>))"

text \<open>What a listing shows of a token: everything but its tenant and its hash.\<close>

record pat_view =
  pv_id :: int
  pv_prefix :: string
  pv_name :: string
  pv_scope :: string
  pv_role :: string
  pv_created_by :: string
  pv_created_at :: secs
  pv_expires_at :: secs
  pv_revoked_at :: "secs option"

definition view_of :: "pat_row \<Rightarrow> pat_view" where
  "view_of r = \<lparr>pv_id = pt_id r, pv_prefix = pt_prefix r, pv_name = pt_name r, pv_scope = pt_scope r, pv_role = pt_role r,
     pv_created_by = pt_created_by r, pv_created_at = pt_created_at r, pv_expires_at = pt_expires_at r,
     pv_revoked_at = pt_revoked_at r\<rparr>"

definition list_pats :: "string \<Rightarrow> dash_db \<Rightarrow> pat_view list" where
  "list_pats tenant db = map view_of (sort_key (\<lambda>r. - pt_created_at r) (filter (\<lambda>r. pt_tenant r = tenant) (db_pats db)))"

definition revocable :: "string \<Rightarrow> int \<Rightarrow> pat_row \<Rightarrow> bool" where
  "revocable tenant i r \<longleftrightarrow> pt_tenant r = tenant \<and> pt_id r = i \<and> pt_revoked_at r = None"

definition revoke_pat :: "string \<Rightarrow> int \<Rightarrow> secs \<Rightarrow> dash_db \<Rightarrow> bool \<times> dash_db" where
  "revoke_pat tenant i now db =
     (filter (revocable tenant i) (db_pats db) \<noteq> [],
      db\<lparr>db_pats := map (\<lambda>r. if revocable tenant i r then r\<lparr>pt_revoked_at := Some now\<rparr> else r) (db_pats db)\<rparr>)"

section \<open>Audit export and triage overlay\<close>

definition iter_audit_log :: "string \<Rightarrow> nat \<Rightarrow> audit_log \<Rightarrow> audit_log" where
  "iter_audit_log tenant limit rows = take limit (sort_key (\<lambda>r. - ar_ts r) (filter (\<lambda>r. ar_tenant r = tenant) rows))"

definition triage_merge :: "triage_row \<Rightarrow> triage_row option \<Rightarrow> triage_row" where
  "triage_merge new old = new"

definition set_incident_triage ::
  "string \<Rightarrow> string \<Rightarrow> string \<Rightarrow> string \<Rightarrow> string option \<Rightarrow> secs \<Rightarrow> dash_db option \<Rightarrow> dash_db option" where
  "set_incident_triage tenant key status actor note now pool =
     map_option (\<lambda>db. db\<lparr>db_triage := upsert_row triage_merge (tenant, key)
       \<lparr>ti_status = status, ti_note = note, ti_actor = actor, ti_updated_at = now\<rparr> (db_triage db)\<rparr>) pool"

definition incident_triage_map :: "string \<Rightarrow> dash_db option \<Rightarrow> (string \<times> triage_row) list" where
  "incident_triage_map tenant pool =
     (case pool of None \<Rightarrow> []
      | Some db \<Rightarrow> map (\<lambda>((_, k), r). (k, r)) (filter (\<lambda>p. fst (fst p) = tenant) (db_triage db)))"

end
