(* ===== verification/Aggregator.thy ===== *)
theory Aggregator
  imports DashAuth JsonBytes DashStore
begin

text \<open>
  The aggregation layer (\<open>dashboard/aggregator.py\<close>): the dashboard as an HTTP client of the agents.
  A request goes out with the dashboard's own token; every failure the client knows becomes the
  marker \<open>Unavailable\<close>, and boards are cached in Redis for a short time.

  What an agent answers is the parameter \<open>net\<close>: a status and the bytes of a body, a timeout or another
  \<open>httpx.HTTPError\<close> by its class name, or an exception httpx does not derive from it. The state is
  the cached token and the cache. \<open>now\<close> is the wall clock, read once per operation.
\<close>

section \<open>Results\<close>

datatype agg_result =
    Payload pyval
  | Unavailable string string
  | AlreadyRunning string

record http_req =
  hq_method :: string
  hq_url :: string
  hq_auth :: "string option"
  hq_json :: "pyval option"

datatype up_http = UpResp int string | UpTimeout string | UpError string | UpRaise pyexc

record agg_env =
  ae_lib :: jwtlib
  ae_settings :: dash_settings
  ae_net :: "http_req \<Rightarrow> up_http"

text \<open>A cached value is its text and when it expires; no cache, or one that cannot be reached.\<close>

record agg_state =
  ag_token :: upstream_token
  ag_cache :: "(string \<times> secs) dict option"
  ag_redis_up :: bool

type_synonym 'a agg = "agg_state \<Rightarrow> (pyexc, 'a) result \<times> agg_state"

section \<open>Requests\<close>

text \<open>What \<open>bad\<close> JSON stands for differs between reads and writes.\<close>

definition read_response :: "string \<Rightarrow> agg_result \<Rightarrow> up_http \<Rightarrow> (pyexc, agg_result) result" where
  "read_response slug bad h =
     (case h of
        UpRaise e \<Rightarrow> Inl e
      | UpTimeout _ \<Rightarrow> Inr (Unavailable slug ''timeout'')
      | UpError c \<Rightarrow> Inr (Unavailable slug (''connect: '' @ c))
      | UpResp sc body \<Rightarrow>
          if 400 \<le> sc then Inr (Unavailable slug (''http '' @ show_int sc))
          else (case json_loads_bytes body of
                  Inl JSONDecodeError \<Rightarrow> Inr bad
                | Inl e \<Rightarrow> Inl e
                | Inr v \<Rightarrow> Inr (Payload v)))"

definition send :: "agg_env \<Rightarrow> secs \<Rightarrow> string \<Rightarrow> string \<Rightarrow> pyval option \<Rightarrow> agg_state \<Rightarrow> up_http \<times> agg_state" where
  "send E now method url body s =
     (case auth_header (ae_lib E) (ae_settings E) now (ag_token s) of
        (hdr, tok) \<Rightarrow>
          (ae_net E \<lparr>hq_method = method, hq_url = url, hq_auth = hdr, hq_json = body\<rparr>, s\<lparr>ag_token := tok\<rparr>))"

definition agg_get :: "agg_env \<Rightarrow> secs \<Rightarrow> agent_spec \<Rightarrow> string \<Rightarrow> agg_result agg" where
  "agg_get E now spec path s =
     (case send E now ''GET'' (sp_base_url spec @ path) None s of
        (h, s1) \<Rightarrow> (read_response (sp_slug spec) (Unavailable (sp_slug spec) ''bad json'') h, s1))"

definition agg_post :: "agg_env \<Rightarrow> secs \<Rightarrow> agent_spec \<Rightarrow> string \<Rightarrow> pyval option \<Rightarrow> agg_result agg" where
  "agg_post E now spec path body s =
     (case send E now ''POST'' (sp_base_url spec @ path) body s of
        (h, s1) \<Rightarrow> (read_response (sp_slug spec) (Payload (PyDict [(''ok'', PyBool True)])) h, s1))"

section \<open>Cache\<close>

definition cache_key :: "string \<Rightarrow> string" where
  "cache_key k = ''dash:cache:'' @ k"

text \<open>Reading decodes outside the guard; an empty text is a miss.\<close>

definition cache_get :: "secs \<Rightarrow> string \<Rightarrow> agg_state \<Rightarrow> (pyexc, pyval) result" where
  "cache_get now k s =
     (case ag_cache s of
        None \<Rightarrow> Inr PyNone
      | Some c \<Rightarrow>
          if \<not> ag_redis_up s then Inr PyNone
          else (case map_of c (cache_key k) of
                  None \<Rightarrow> Inr PyNone
                | Some (raw, ends) \<Rightarrow> if ends \<le> now \<or> raw = [] then Inr PyNone else json_loads raw))"

definition cache_set :: "agg_env \<Rightarrow> secs \<Rightarrow> string \<Rightarrow> pyval \<Rightarrow> agg_state \<Rightarrow> agg_state" where
  "cache_set E now k v s =
     (case ag_cache s of
        None \<Rightarrow> s
      | Some c \<Rightarrow>
          if \<not> ag_redis_up s then s
          else s\<lparr>ag_cache := Some (dict_set (cache_key k)
                 (json_dumps '', '' '': '' v, now + of_int (ds_cache_ttl_s (ae_settings E))) c)\<rparr>)"

section \<open>Health tiles\<close>

text \<open>
  \<open>HealthDTO\<close>: the dataclass declares the types of its fields and checks none of them, so each field
  holds whatever it was given.
\<close>

record health_dto =
  hd_slug :: pyval
  hd_title :: pyval
  hd_port :: pyval
  hd_kind :: pyval
  hd_incidents :: pyval
  hd_findings :: pyval
  hd_runs :: pyval
  hd_pm :: pyval
  hd_live :: pyval
  hd_ready :: pyval
  hd_checks :: pyval
  hd_uptime :: pyval
  hd_error_rate :: pyval
  hd_requests :: pyval
  hd_cost :: pyval
  hd_cost_by_model :: pyval
  hd_last_run :: pyval
  hd_error :: pyval

text \<open>\<open>(v or 0.0) > 0.1\<close>: only numbers compare with a float.\<close>

definition above_tenth :: "pyval \<Rightarrow> (pyexc, bool) result" where
  "above_tenth v =
     (if \<not> truthy v then Inr False
      else case v of
          PyBool b \<Rightarrow> Inr b
        | PyInt k \<Rightarrow> Inr (0 < k)
        | PyFloat (Dec m e) \<Rightarrow> Inr (1/10 < dec_val m e)
        | PyFloat PosInf \<Rightarrow> Inr True
        | PyFloat _ \<Rightarrow> Inr False
        | _ \<Rightarrow> Inl TypeError)"

definition health_status :: "health_dto \<Rightarrow> (pyexc, string) result" where
  "health_status h =
     (if hd_kind h = PyStr ''batch'' then Inr ''grey''
      else if \<not> truthy (hd_live h) then Inr ''red''
      else if hd_ready h = PyBool False then Inr ''amber''
      else rbind (above_tenth (hd_error_rate h)) (\<lambda>b. Inr (if b then ''amber'' else ''green'')))"

definition apply_metrics :: "health_dto \<Rightarrow> pyval \<Rightarrow> (pyexc, health_dto) result" where
  "apply_metrics dto v =
     (case v of
        PyDict m \<Rightarrow> Inr (dto\<lparr>hd_uptime := dget m ''uptime_s'', hd_error_rate := dget m ''error_rate_5m'',
            hd_requests := dget m ''requests_5m'', hd_cost := dget m ''llm_cost_usd_today'',
            hd_cost_by_model := dget m ''cost_by_model_today'', hd_last_run := dget m ''last_run''\<rparr>)
      | _ \<Rightarrow> Inl AttributeError)"

definition blank_health :: "agent_spec \<Rightarrow> health_dto" where
  "blank_health spec =
     \<lparr>hd_slug = PyStr (sp_slug spec), hd_title = PyStr (sp_title spec), hd_port = PyInt (sp_port spec),
      hd_kind = PyStr (kind_name (sp_kind spec)), hd_incidents = PyBool (sp_incidents spec),
      hd_findings = PyBool (sp_findings spec), hd_runs = PyBool (sp_runs spec), hd_pm = PyBool (sp_pm spec),
      hd_live = PyBool False, hd_ready = PyNone, hd_checks = PyDict [], hd_uptime = PyNone, hd_error_rate = PyNone,
      hd_requests = PyNone, hd_cost = PyNone, hd_cost_by_model = PyNone, hd_last_run = PyNone, hd_error = PyNone\<rparr>"

definition fold_metrics :: "agg_result \<Rightarrow> health_dto \<Rightarrow> (pyexc, health_dto) result" where
  "fold_metrics metrics dto = (case metrics of Payload v \<Rightarrow> apply_metrics dto v | _ \<Rightarrow> Inr dto)"

definition fold_ready :: "agg_result \<Rightarrow> health_dto \<Rightarrow> (pyexc, health_dto) result" where
  "fold_ready readyz dto =
     (case readyz of
        Payload v \<Rightarrow>
          rbind (py_get v ''ready'' PyNone) (\<lambda>rd.
          rbind (py_get v ''checks'' (PyDict [])) (\<lambda>ch.
            Inr (dto\<lparr>hd_ready := PyBool (truthy rd), hd_checks := py_or ch (PyDict [])\<rparr>)))
      | Unavailable _ reason \<Rightarrow> Inr (dto\<lparr>hd_ready := (if reason = ''http 503'' then PyBool False else PyNone)\<rparr>)
      | AlreadyRunning _ \<Rightarrow> Inr dto)"

text \<open>The tile of an agent with a port, from its three probes (\<open>asyncio.gather\<close>: all of them, or an exception).\<close>

definition compose_health :: "health_dto \<Rightarrow> agg_result \<Rightarrow> agg_result \<Rightarrow> agg_result \<Rightarrow> (pyexc, health_dto) result" where
  "compose_health dto live readyz metrics =
     (case live of
        Unavailable _ reason \<Rightarrow> Inr (dto\<lparr>hd_live := PyBool False, hd_error := PyStr reason\<rparr>)
      | _ \<Rightarrow> rbind (fold_ready readyz (dto\<lparr>hd_live := PyBool True\<rparr>)) (fold_metrics metrics))"

definition health :: "agg_env \<Rightarrow> secs \<Rightarrow> agent_spec \<Rightarrow> health_dto agg" where
  "health E now spec s =
     (if sp_kind spec = KBatch then
        (case agg_get E now spec ''/metrics.json'' s of
           (r, s1) \<Rightarrow> (rbind r (\<lambda>metrics. fold_metrics metrics (blank_health spec)), s1))
      else
        (case agg_get E now spec ''/healthz'' s of
           (r1, s1) \<Rightarrow>
             (case agg_get E now spec ''/readyz'' s1 of
                (r2, s2) \<Rightarrow>
                  (case agg_get E now spec ''/metrics.json'' s2 of
                     (r3, s3) \<Rightarrow>
                       (rbind r1 (\<lambda>live. rbind r2 (\<lambda>readyz. rbind r3 (\<lambda>metrics.
                          compose_health (blank_health spec) live readyz metrics))), s3)))))"

text \<open>All the agents, in the order of the registry; every probe is sent even when one raises.\<close>

fun gather :: "('b \<Rightarrow> 'a agg) \<Rightarrow> 'b list \<Rightarrow> 'a list agg" where
  "gather f [] s = (Inr [], s)"
| "gather f (x # xs) s =
     (case f x s of
        (r, s1) \<Rightarrow>
          (case gather f xs s1 of
             (rs, s2) \<Rightarrow> (rbind r (\<lambda>v. rbind rs (\<lambda>vs. Inr (v # vs))), s2)))"

definition opt_text :: "string option \<Rightarrow> pyval" where
  "opt_text v = (case v of None \<Rightarrow> PyNone | Some x \<Rightarrow> PyStr x)"

definition health_to_dict :: "health_dto \<Rightarrow> pyval" where
  "health_to_dict d = PyDict
     [(''slug'', hd_slug d), (''title'', hd_title d), (''port'', hd_port d), (''kind'', hd_kind d),
      (''has_incidents'', hd_incidents d), (''has_findings'', hd_findings d), (''has_runs'', hd_runs d), (''has_pm'', hd_pm d),
      (''live'', hd_live d), (''ready'', hd_ready d), (''checks'', hd_checks d),
      (''uptime_s'', hd_uptime d), (''error_rate_5m'', hd_error_rate d), (''requests_5m'', hd_requests d),
      (''llm_cost_usd_today'', hd_cost d), (''cost_by_model_today'', hd_cost_by_model d),
      (''last_run'', hd_last_run d), (''error'', hd_error d)]"

text \<open>
  \<open>HealthDTO(**d)\<close>: a mapping with no unknown field and the four fields that have no default. A field
  that is missing takes its default; the class does not check types.
\<close>

definition health_fields :: "string list" where
  "health_fields = [''slug'', ''title'', ''port'', ''kind'', ''has_incidents'', ''has_findings'', ''has_runs'', ''has_pm'',
     ''live'', ''ready'', ''checks'', ''uptime_s'', ''error_rate_5m'', ''requests_5m'', ''llm_cost_usd_today'',
     ''cost_by_model_today'', ''last_run'', ''error'']"

definition field_or :: "pyval dict \<Rightarrow> string \<Rightarrow> pyval \<Rightarrow> pyval" where
  "field_or d k dflt = (case map_of d k of None \<Rightarrow> dflt | Some v \<Rightarrow> v)"

definition health_of_dict :: "pyval dict \<Rightarrow> health_dto" where
  "health_of_dict d =
     \<lparr>hd_slug = dget d ''slug'', hd_title = dget d ''title'', hd_port = dget d ''port'', hd_kind = dget d ''kind'',
      hd_incidents = field_or d ''has_incidents'' (PyBool False), hd_findings = field_or d ''has_findings'' (PyBool False),
      hd_runs = field_or d ''has_runs'' (PyBool False), hd_pm = field_or d ''has_pm'' (PyBool False),
      hd_live = field_or d ''live'' (PyBool False), hd_ready = dget d ''ready'', hd_checks = field_or d ''checks'' (PyDict []),
      hd_uptime = dget d ''uptime_s'', hd_error_rate = dget d ''error_rate_5m'', hd_requests = dget d ''requests_5m'',
      hd_cost = dget d ''llm_cost_usd_today'', hd_cost_by_model = dget d ''cost_by_model_today'',
      hd_last_run = dget d ''last_run'', hd_error = dget d ''error''\<rparr>"

definition health_from_dict :: "pyval \<Rightarrow> (pyexc, health_dto) result" where
  "health_from_dict v =
     (case v of
        PyDict d \<Rightarrow>
          if set (map fst d) \<subseteq> set health_fields \<and> {''slug'', ''title'', ''port'', ''kind''} \<subseteq> set (map fst d)
          then Inr (health_of_dict d) else Inl TypeError
      | _ \<Rightarrow> Inl TypeError)"

text \<open>The cached board: what is iterated when it is no list has no mappings in it.\<close>

definition cached_board :: "pyval \<Rightarrow> (pyexc, health_dto list) result" where
  "cached_board v =
     (case v of
        PyList ds \<Rightarrow> rmap health_from_dict ds
      | PyDict d \<Rightarrow> if d = [] then Inr [] else Inl TypeError
      | PyStr t \<Rightarrow> if t = [] then Inr [] else Inl TypeError
      | _ \<Rightarrow> Inl TypeError)"

definition agents_health :: "agg_env \<Rightarrow> secs \<Rightarrow> agent_spec list \<Rightarrow> bool \<Rightarrow> health_dto list agg" where
  "agents_health E now reg refresh s =
     (case (if refresh then Inr PyNone else cache_get now ''agents_health'' s) of
        Inl e \<Rightarrow> (Inl e, s)
      | Inr cached \<Rightarrow>
          if cached \<noteq> PyNone then (cached_board cached, s)
          else
            (case gather (health E now) reg s of
               (Inl e, s1) \<Rightarrow> (Inl e, s1)
             | (Inr dtos, s1) \<Rightarrow>
                 (Inr dtos, cache_set E now ''agents_health'' (PyList (map health_to_dict dtos)) s1)))"

section \<open>Panels and actions\<close>

definition agg_incidents :: "agg_env \<Rightarrow> secs \<Rightarrow> agent_spec \<Rightarrow> int \<Rightarrow> agg_result agg" where
  "agg_incidents E now spec limit = agg_get E now spec (''/incidents?limit='' @ show_int limit)"

definition agg_findings :: "agg_env \<Rightarrow> secs \<Rightarrow> agent_spec \<Rightarrow> string option \<Rightarrow> agg_result agg" where
  "agg_findings E now spec severity = agg_get E now spec
     (case severity of None \<Rightarrow> ''/findings'' | Some v \<Rightarrow> if v = [] then ''/findings'' else ''/findings?severity='' @ v)"

definition agg_coverage :: "agg_env \<Rightarrow> secs \<Rightarrow> agent_spec \<Rightarrow> agg_result agg" where
  "agg_coverage E now spec = agg_get E now spec ''/coverage''"

definition resolve_finding ::
  "agg_env \<Rightarrow> secs \<Rightarrow> agent_spec \<Rightarrow> string \<Rightarrow> string \<Rightarrow> string \<Rightarrow> string option \<Rightarrow> agg_result agg" where
  "resolve_finding E now spec key status by_whom note =
     agg_post E now spec ''/findings/resolve''
       (Some (PyDict [(''dedup_key'', PyStr key), (''status'', PyStr status), (''by'', PyStr by_whom), (''note'', opt_text note)]))"

text \<open>The report is text: every \<open>HTTPError\<close>, a timeout included, is a connection failure.\<close>

definition report_latest :: "agg_env \<Rightarrow> secs \<Rightarrow> agent_spec \<Rightarrow> (agg_result + string) agg" where
  "report_latest E now spec s =
     (case send E now ''GET'' (sp_base_url spec @ ''/report/latest'') None s of
        (h, s1) \<Rightarrow>
          ((case h of
              UpRaise e \<Rightarrow> Inl e
            | UpTimeout c \<Rightarrow> Inr (Inl (Unavailable (sp_slug spec) (''connect: '' @ c)))
            | UpError c \<Rightarrow> Inr (Inl (Unavailable (sp_slug spec) (''connect: '' @ c)))
            | UpResp sc body \<Rightarrow>
                if 400 \<le> sc then Inr (Inl (Unavailable (sp_slug spec) (''http '' @ show_int sc))) else Inr (Inr body)), s1))"

definition agg_runs :: "agg_env \<Rightarrow> secs \<Rightarrow> agent_spec \<Rightarrow> int \<Rightarrow> agg_result agg" where
  "agg_runs E now spec limit = agg_get E now spec (''/runs?limit='' @ show_int limit)"

definition pm_digests :: "agg_env \<Rightarrow> secs \<Rightarrow> agent_spec \<Rightarrow> agg_result agg" where
  "pm_digests E now spec = agg_get E now spec ''/digests''"

definition pm_action_items :: "agg_env \<Rightarrow> secs \<Rightarrow> agent_spec \<Rightarrow> agg_result agg" where
  "pm_action_items E now spec = agg_get E now spec ''/action-items''"

definition agg_sweep :: "agg_env \<Rightarrow> secs \<Rightarrow> agent_spec \<Rightarrow> agg_result agg" where
  "agg_sweep E now spec = agg_post E now spec ''/sweep'' None"

definition agg_scan :: "agg_env \<Rightarrow> secs \<Rightarrow> agent_spec \<Rightarrow> agg_result agg" where
  "agg_scan E now spec = agg_post E now spec ''/scan'' None"

definition webext_run :: "agg_env \<Rightarrow> secs \<Rightarrow> agent_spec \<Rightarrow> int \<Rightarrow> agg_result agg" where
  "webext_run E now spec limit s =
     (case send E now ''POST'' (sp_base_url spec @ ''/run'') (Some (PyDict [(''limit'', PyInt limit)])) s of
        (h, s1) \<Rightarrow>
          ((case h of
              UpResp sc body \<Rightarrow>
                if sc = 409 then Inr (AlreadyRunning (sp_slug spec))
                else read_response (sp_slug spec) (Unavailable (sp_slug spec) ''bad json'') h
            | _ \<Rightarrow> read_response (sp_slug spec) (Unavailable (sp_slug spec) ''bad json'') h), s1))"

definition normalize_runs :: "agg_result \<Rightarrow> (pyexc, agg_result) result" where
  "normalize_runs res =
     (case res of
        Payload (PyList vs) \<Rightarrow> Inr (Payload (PyDict [(''runs'', PyList vs)]))
      | Payload v \<Rightarrow> rbind (py_get v ''runs'' (PyList [])) (\<lambda>r. Inr (Payload (PyDict [(''runs'', r)])))
      | _ \<Rightarrow> Inr res)"

definition webext_runs :: "agg_env \<Rightarrow> secs \<Rightarrow> agent_spec \<Rightarrow> agg_result agg" where
  "webext_runs E now spec s = (case agg_get E now spec ''/runs'' s of (r, s1) \<Rightarrow> (rbind r normalize_runs, s1))"

section \<open>Cost rollup\<close>

record rollup_acc =
  ra_per_agent :: "usd dict"
  ra_unavailable :: "string list"
  ra_total :: usd

definition rollup_step :: "agent_spec \<times> agg_result \<Rightarrow> rollup_acc \<Rightarrow> (pyexc, rollup_acc) result" where
  "rollup_step sr acc =
     (case sr of
        (spec, res) \<Rightarrow>
          if sp_kind spec = KSelf then Inr acc
          else case res of
            Payload v \<Rightarrow>
              rbind (py_get v ''llm_cost_usd_today'' PyNone) (\<lambda>c. rbind (usd_value c) (\<lambda>usd.
                Inr (acc\<lparr>ra_per_agent := dict_set (sp_slug spec) (py_round 6 usd) (ra_per_agent acc),
                         ra_total := ra_total acc + usd\<rparr>)))
          | _ \<Rightarrow> Inr (acc\<lparr>ra_unavailable := ra_unavailable acc @ [sp_slug spec]\<rparr>))"

definition rollup_dict :: "secs \<Rightarrow> rollup_acc \<Rightarrow> pyval" where
  "rollup_dict now acc = PyDict
     [(''per_agent'', PyDict (map (\<lambda>(k, u). (k, PyFloat (float_of_rat u))) (ra_per_agent acc))),
      (''total_usd_today'', PyFloat (float_of_rat (py_round 6 (ra_total acc)))),
      (''unavailable'', PyList (map PyStr (ra_unavailable acc))), (''computed_at'', PyFloat (float_of_rat now))]"

definition cost_rollup :: "agg_env \<Rightarrow> secs \<Rightarrow> agent_spec list \<Rightarrow> pyval agg" where
  "cost_rollup E now reg s =
     (case cache_get now ''cost_rollup'' s of
        Inl e \<Rightarrow> (Inl e, s)
      | Inr cached \<Rightarrow>
          if cached \<noteq> PyNone then (Inr cached, s)
          else
            (case gather (\<lambda>spec. agg_get E now spec ''/metrics.json'') reg s of
               (Inl e, s1) \<Rightarrow> (Inl e, s1)
             | (Inr results, s1) \<Rightarrow>
                 (case rfold rollup_step (zip reg results) \<lparr>ra_per_agent = [], ra_unavailable = [], ra_total = 0\<rparr> of
                    Inl e \<Rightarrow> (Inl e, s1)
                  | Inr acc \<Rightarrow> (Inr (rollup_dict now acc), cache_set E now ''cost_rollup'' (rollup_dict now acc) s1))))"

end
