(* ===== verification/DashViews.thy ===== *)
theory DashViews
  imports Aggregator
begin

text \<open>
  The view builders (\<open>dashboard/views.py\<close>, \<open>dashboard/graph.py\<close>): what each page fragment is rendered
  with, from the agents' answers and the dashboard's own tables. A context is a dictionary; in it an
  object stands as the dictionary of its attributes, a point in time or a day as its ISO text.

  A view is a step on the dashboard's world: the pool (\<open>None\<close> when it was not opened at start),
  whether statements reach the database, and the aggregator's state.
\<close>

section \<open>The dashboard's world\<close>

record dash_pool =
  dl_db :: dash_db
  dl_audit :: audit_log

record dash_world =
  dw_pool :: "dash_pool option"
  dw_db_up :: bool
  dw_agg :: agg_state

type_synonym 'a dash = "dash_world \<Rightarrow> (pyexc, 'a) result \<times> dash_world"

definition dret :: "'a \<Rightarrow> 'a dash" where
  "dret x w = (Inr x, w)"

definition draise :: "pyexc \<Rightarrow> 'a dash" where
  "draise e w = (Inl e, w)"

definition dbind :: "'a dash \<Rightarrow> ('a \<Rightarrow> 'b dash) \<Rightarrow> 'b dash" where
  "dbind m f w = (case m w of (Inl e, w1) \<Rightarrow> (Inl e, w1) | (Inr x, w1) \<Rightarrow> f x w1)"

definition dlift :: "(pyexc, 'a) result \<Rightarrow> 'a dash" where
  "dlift r w = (r, w)"

definition on_agg :: "'a agg \<Rightarrow> 'a dash" where
  "on_agg m w = (case m (dw_agg w) of (r, s) \<Rightarrow> (r, w\<lparr>dw_agg := s\<rparr>))"

text \<open>\<open>with contextlib.suppress(Exception)\<close> around an assignment: the old value stays.\<close>

definition suppressed :: "'a \<Rightarrow> 'a dash \<Rightarrow> 'a dash" where
  "suppressed old m w = (case m w of (Inl e, w1) \<Rightarrow> (Inr old, w1) | (Inr x, w1) \<Rightarrow> (Inr x, w1))"

text \<open>A query on the open pool: it raises when the database does not answer.\<close>

definition db_error :: pyexc where
  "db_error = Upstream ''OperationalError''"

definition db_read :: "(dash_pool \<Rightarrow> 'a) \<Rightarrow> 'a dash" where
  "db_read f w =
     (case dw_pool w of
        None \<Rightarrow> (Inl AttributeError, w)
      | Some p \<Rightarrow> if dw_db_up w then (Inr (f p), w) else (Inl db_error, w))"

definition has_pool :: "dash_world \<Rightarrow> bool" where
  "has_pool w \<longleftrightarrow> dw_pool w \<noteq> None"

section \<open>Python values in a context\<close>

text \<open>Iterating over a value, its length, and adding it to a number.\<close>

fun py_iter :: "pyval \<Rightarrow> (pyexc, pyval list) result" where
  "py_iter (PyList vs) = Inr vs"
| "py_iter (PyDict d) = Inr (map (\<lambda>p. PyStr (fst p)) d)"
| "py_iter (PyStr s) = Inr (map (\<lambda>c. PyStr [c]) s)"
| "py_iter _ = Inl TypeError"

fun py_len :: "pyval \<Rightarrow> (pyexc, nat) result" where
  "py_len (PyList vs) = Inr (length vs)"
| "py_len (PyDict d) = Inr (length d)"
| "py_len (PyStr s) = Inr (length s)"
| "py_len _ = Inl TypeError"

definition num_or_zero :: "pyval \<Rightarrow> (pyexc, usd) result" where
  "num_or_zero v =
     (if \<not> truthy v then Inr 0
      else case v of
          PyBool b \<Rightarrow> Inr 1
        | PyInt k \<Rightarrow> Inr (of_int k)
        | PyFloat (Dec m e) \<Rightarrow> Inr (dec_val m e)
        | PyFloat _ \<Rightarrow> Inl Unrepresentable
        | _ \<Rightarrow> Inl TypeError)"

definition py_num :: "rat \<Rightarrow> pyval" where
  "py_num x = PyFloat (float_of_rat x)"

section \<open>Tiles and charts\<close>

definition status_count :: "string \<Rightarrow> health_dto list \<Rightarrow> (pyexc, nat) result" where
  "status_count c agents = rbind (rmap health_status agents) (\<lambda>ss. Inr (length (filter (\<lambda>s. s = c) ss)))"

definition summarize_agents :: "health_dto list \<Rightarrow> (pyexc, pyval dict) result" where
  "summarize_agents agents =
     rbind (status_count ''green'' agents) (\<lambda>h. rbind (status_count ''amber'' agents) (\<lambda>d.
     rbind (status_count ''red'' agents) (\<lambda>r.
       Inr [(''healthy'', PyInt (int h)), (''degraded'', PyInt (int d)), (''down'', PyInt (int r))])))"

definition chart_colors :: nat where
  "chart_colors = 6"

text \<open>\<open>d[k] = d.get(k, 0.0) + x\<close>, and the pivot of the rows: per day its series, and the series totals.\<close>

definition add_usd :: "string \<Rightarrow> usd \<Rightarrow> usd dict \<Rightarrow> usd dict" where
  "add_usd k x d = dict_set k ((case map_of d k of None \<Rightarrow> 0 | Some y \<Rightarrow> y) + x) d"

definition segs_of :: "(int \<times> usd dict) list \<Rightarrow> int \<Rightarrow> usd dict" where
  "segs_of dm d = (case map_of dm d of None \<Rightarrow> [] | Some s \<Rightarrow> s)"

definition pivot_row :: "int \<times> string \<times> usd \<Rightarrow> (int \<times> usd dict) list \<times> usd dict \<Rightarrow> (int \<times> usd dict) list \<times> usd dict" where
  "pivot_row r acc =
     (case r of (day, model, usd) \<Rightarrow>
        (case acc of (dm, mt) \<Rightarrow> (AList.update day (add_usd model usd (segs_of dm day)) dm, add_usd model usd mt)))"

definition pivot :: "(int \<times> string \<times> usd) list \<Rightarrow> (int \<times> usd dict) list \<times> usd dict" where
  "pivot rows = fold pivot_row rows ([], [])"

definition total_usd :: "usd dict \<Rightarrow> usd" where
  "total_usd d = (\<Sum>p\<leftarrow>d. snd p)"

text \<open>\<open>sorted(d, key=lambda m: (-d[m], m))\<close>.\<close>

definition by_spend :: "usd dict \<Rightarrow> string list" where
  "by_spend d = map fst (sort_key (\<lambda>p. - snd p) (sort_key fst d))"

definition usd_of :: "usd dict \<Rightarrow> string \<Rightarrow> usd" where
  "usd_of d m = (case map_of d m of None \<Rightarrow> 0 | Some x \<Rightarrow> x)"

fun index_of :: "'a \<Rightarrow> 'a list \<Rightarrow> nat" where
  "index_of x [] = 0"
| "index_of x (y # ys) = (if x = y then 0 else Suc (index_of x ys))"

definition color_of :: "string list \<Rightarrow> string \<Rightarrow> nat" where
  "color_of models m = index_of m models mod chart_colors"

record chart_segment =
  sg_model :: string
  sg_usd :: usd
  sg_color :: nat
  sg_pct :: rat

record chart_day =
  cd_label :: string
  cd_total :: usd
  cd_height :: rat
  cd_segments :: "chart_segment list"

record cost_chart =
  ch_days :: "chart_day list"
  ch_legend :: "(string \<times> nat \<times> usd) list"
  ch_total :: usd

text \<open>\<open>strftime('%m-%d')\<close> of a day.\<close>

definition day_label :: "int \<Rightarrow> string" where
  "day_label d = (case civil d of (y, m, dd) \<Rightarrow> pad 2 m @ ''-'' @ pad 2 dd)"

definition chart_day_of :: "string list \<Rightarrow> usd \<Rightarrow> int \<Rightarrow> usd dict \<Rightarrow> chart_day" where
  "chart_day_of models max_total day segs =
     (let t = total_usd segs in
      \<lparr>cd_label = day_label day, cd_total = py_round 6 t,
       cd_height = (if max_total \<noteq> 0 then py_round 1 (t / max_total * 100) else 0),
       cd_segments = map (\<lambda>m. \<lparr>sg_model = m, sg_usd = py_round 6 (usd_of segs m), sg_color = color_of models m,
           sg_pct = (if t \<noteq> 0 then py_round 2 (usd_of segs m / t * 100) else 0)\<rparr>) (by_spend segs)\<rparr>)"

definition build_cost_chart :: "(int \<times> string \<times> usd) list \<Rightarrow> cost_chart" where
  "build_cost_chart rows =
     (case pivot rows of (dm, mt) \<Rightarrow>
        let models = by_spend mt;
            max_total = (if dm = [] then 0 else Max (set (map (\<lambda>p. total_usd (snd p)) dm)))
        in \<lparr>ch_days = map (\<lambda>day. chart_day_of models max_total day (segs_of dm day)) (sort (map fst dm)),
            ch_legend = map (\<lambda>m. (m, color_of models m, py_round 6 (usd_of mt m))) models,
            ch_total = py_round 6 (total_usd mt)\<rparr>)"

text \<open>
  The copy in \<open>graph.py\<close>: the series of a row is its field \<open>dim\<close> (here \<open>sfield\<close>), else its field \<open>model\<close>, else \<open>str(None)\<close>.
  A row is its day, its text fields and its figure.
\<close>

definition graph_series :: "string \<Rightarrow> string dict \<Rightarrow> string" where
  "graph_series sfield cols =
     (case map_of cols sfield of
        Some s \<Rightarrow> s
      | None \<Rightarrow> (case map_of cols ''model'' of Some s \<Rightarrow> s | None \<Rightarrow> ''None''))"

definition graph_cost_chart :: "string \<Rightarrow> (int \<times> string dict \<times> usd) list \<Rightarrow> cost_chart" where
  "graph_cost_chart sfield rows = build_cost_chart (map (\<lambda>(d, cols, u). (d, graph_series sfield cols, u)) rows)"

definition empty_chart :: cost_chart where
  "empty_chart = \<lparr>ch_days = [], ch_legend = [], ch_total = 0\<rparr>"

definition segment_json :: "chart_segment \<Rightarrow> pyval" where
  "segment_json s = PyDict
     [(''model'', PyStr (sg_model s)), (''usd'', py_num (sg_usd s)), (''color_idx'', PyInt (int (sg_color s))),
      (''pct'', py_num (sg_pct s))]"

definition day_json :: "chart_day \<Rightarrow> pyval" where
  "day_json d = PyDict
     [(''label'', PyStr (cd_label d)), (''total'', py_num (cd_total d)), (''height_pct'', py_num (cd_height d)),
      (''segments'', PyList (map segment_json (cd_segments d)))]"

definition chart_json :: "cost_chart \<Rightarrow> pyval" where
  "chart_json c = PyDict
     [(''days'', PyList (map day_json (ch_days c))),
      (''legend'', PyList (map (\<lambda>(m, i, t). PyDict
          [(''model'', PyStr m), (''color_idx'', PyInt (int i)), (''total'', py_num t)]) (ch_legend c))),
      (''total'', py_num (ch_total c))]"

section \<open>Views over the agents\<close>

definition tile_json :: "health_dto \<Rightarrow> pyval" where
  "tile_json = health_to_dict"

text \<open>\<open>res.get(key, default)\<close> of an answer that is not \<open>Unavailable\<close>.\<close>

definition answer_get :: "pyval \<Rightarrow> string \<Rightarrow> pyval \<Rightarrow> pyval dash" where
  "answer_get v k dflt = dlift (py_get v k dflt)"

definition open_incidents :: "pyval \<Rightarrow> (pyexc, nat) result" where
  "open_incidents v =
     rbind (py_get v ''incidents'' (PyList [])) (\<lambda>is. rbind (py_iter is) (\<lambda>xs.
     rbind (rmap (\<lambda>i. py_get i ''status'' PyNone) xs) (\<lambda>ss. Inr (length (filter (\<lambda>s. s = PyStr ''open'') ss)))))"

definition count_open :: "agg_result \<Rightarrow> (pyexc, nat) result" where
  "count_open res = (case res of Payload v \<Rightarrow> open_incidents v | _ \<Rightarrow> Inr 0)"

definition count_findings :: "agg_result \<Rightarrow> (pyexc, nat) result" where
  "count_findings res =
     (case res of Payload v \<Rightarrow> rbind (py_get v ''findings'' (PyList [])) py_len | _ \<Rightarrow> Inr 0)"

definition with_agent :: "agent_spec option \<Rightarrow> 'a \<Rightarrow> (agent_spec \<Rightarrow> 'a dash) \<Rightarrow> 'a dash" where
  "with_agent spec dflt f = (case spec of None \<Rightarrow> dret dflt | Some s \<Rightarrow> f s)"

definition overview_charts :: "secs \<Rightarrow> (cost_chart \<times> cost_chart) dash" where
  "overview_charts now w =
     (if \<not> has_pool w then (Inr (empty_chart, empty_chart), w)
      else dbind (suppressed empty_chart (db_read (\<lambda>p. build_cost_chart (cost_model_daily 14 now (dl_db p))))) (\<lambda>c1.
           dbind (suppressed empty_chart (db_read (\<lambda>p. build_cost_chart (cost_agent_daily 14 now (dl_db p))))) (\<lambda>c2.
             dret (c1, c2))) w)"

definition overview_context :: "agg_env \<Rightarrow> secs \<Rightarrow> agent_spec list \<Rightarrow> pyval dict dash" where
  "overview_context E now reg =
     dbind (on_agg (agents_health E now reg False)) (\<lambda>agents.
     dbind (dlift (summarize_agents agents)) (\<lambda>summary.
     dbind (overview_charts now) (\<lambda>(c1, c2).
     dbind (with_agent (with_feature reg ''incidents'') 0 (\<lambda>mon.
         dbind (on_agg (agg_incidents E now mon 50)) (\<lambda>res. dlift (count_open res)))) (\<lambda>open_n.
     dbind (with_agent (with_feature reg ''findings'') 0 (\<lambda>sec.
         dbind (on_agg (agg_findings E now sec (Some ''high''))) (\<lambda>res. dlift (count_findings res)))) (\<lambda>high.
     dbind (dlift (rmap (\<lambda>a. num_or_zero (hd_cost a)) agents)) (\<lambda>spends.
       dret
         [(''agents'', PyList (map tile_json agents)),
          (''summary'', PyDict (summary @ [(''open_incidents'', PyInt (int open_n)), (''high_findings'', PyInt (int high)),
             (''llm_spend_today'', py_num (py_round 4 (sum_list spends)))])),
          (''cost_chart'', chart_json c1), (''cost_chart_agent'', chart_json c2)]))))))"

definition triage_json :: "triage_row \<Rightarrow> pyval" where
  "triage_json r = PyDict
     [(''status'', PyStr (ti_status r)), (''note'', opt_text (ti_note r)), (''actor'', PyStr (ti_actor r)),
      (''updated_at'', PyStr (isoformat (ti_updated_at r)))]"

definition triage_overlay :: "string \<Rightarrow> pyval dash" where
  "triage_overlay tenant w =
     (if \<not> has_pool w then (Inr (PyDict []), w)
      else db_read (\<lambda>p. PyDict (map (\<lambda>(k, r). (k, triage_json r)) (incident_triage_map tenant (Some (dl_db p))))) w)"

definition incidents_context :: "agg_env \<Rightarrow> secs \<Rightarrow> agent_spec list \<Rightarrow> int \<Rightarrow> string \<Rightarrow> pyval dict dash" where
  "incidents_context E now reg limit tenant =
     (case with_feature reg ''incidents'' of
        None \<Rightarrow> dret [(''unavailable'', PyStr ''no incidents-capable agent in registry''), (''incidents'', PyList []),
                  (''triage'', PyDict [])]
      | Some mon \<Rightarrow>
          dbind (on_agg (agg_incidents E now mon limit)) (\<lambda>res.
            case res of
              Payload v \<Rightarrow>
                dbind (triage_overlay tenant) (\<lambda>triage.
                dbind (answer_get v ''incidents'' (PyList [])) (\<lambda>is.
                  dret [(''unavailable'', PyNone), (''incidents'', is), (''triage'', triage)]))
            | Unavailable _ reason \<Rightarrow>
                dret [(''unavailable'', PyStr reason), (''incidents'', PyList []), (''triage'', PyDict [])]
            | AlreadyRunning _ \<Rightarrow> draise AttributeError))"


definition findings_context :: "agg_env \<Rightarrow> secs \<Rightarrow> agent_spec list \<Rightarrow> string option \<Rightarrow> pyval dict dash" where
  "findings_context E now reg severity =
     (case with_feature reg ''findings'' of
        None \<Rightarrow> dret [(''unavailable'', PyStr ''no findings-capable agent in registry''), (''findings'', PyList [])]
      | Some sec \<Rightarrow>
          dbind (on_agg (agg_findings E now sec severity)) (\<lambda>res.
            case res of
              Payload v \<Rightarrow>
                dbind (answer_get v ''findings'' (PyList [])) (\<lambda>fs.
                  dret [(''unavailable'', PyNone), (''findings'', fs)])
            | Unavailable _ reason \<Rightarrow> dret [(''unavailable'', PyStr reason), (''findings'', PyList [])]
            | AlreadyRunning _ \<Rightarrow> draise AttributeError))"

definition qa_context :: "agg_env \<Rightarrow> secs \<Rightarrow> agent_spec list \<Rightarrow> string option \<Rightarrow> pyval dict dash" where
  "qa_context E now reg severity =
     (case with_feature reg ''coverage'' of
        None \<Rightarrow> dret [(''unavailable'', PyStr ''no coverage-capable agent in registry''), (''findings'', PyList []),
                  (''coverage'', PyNone)]
      | Some spec \<Rightarrow>
          dbind (on_agg (agg_findings E now spec severity)) (\<lambda>res.
            case res of
              Payload v \<Rightarrow>
                dbind (on_agg (agg_coverage E now spec)) (\<lambda>cov.
                dbind (dlift (if is_dict v then py_get v ''counts'' (PyDict []) else Inr (PyDict []))) (\<lambda>counts.
                dbind (answer_get v ''findings'' (PyList [])) (\<lambda>fs.
                dbind (answer_get counts ''dismissed'' (PyInt 0)) (\<lambda>closed.
                  dret [(''unavailable'', PyNone), (''findings'', fs),
                        (''coverage'', case cov of Payload c \<Rightarrow> c | _ \<Rightarrow> PyNone), (''counts'', counts),
                        (''auto_closed'', closed)]))))
            | Unavailable _ reason \<Rightarrow>
                dret [(''unavailable'', PyStr reason), (''findings'', PyList []), (''coverage'', PyNone), (''counts'', PyDict [])]
            | AlreadyRunning _ \<Rightarrow> draise AttributeError))"

definition pipeline_context :: "agg_env \<Rightarrow> secs \<Rightarrow> agent_spec list \<Rightarrow> pyval dict dash" where
  "pipeline_context E now reg =
     (case with_feature reg ''runs'' of
        None \<Rightarrow> dret [(''unavailable'', PyStr ''no runs-capable agent in registry''), (''runs'', PyList [])]
      | Some wx \<Rightarrow>
          dbind (on_agg (webext_runs E now wx)) (\<lambda>res.
            case res of
              Payload v \<Rightarrow>
                dbind (answer_get v ''runs'' (PyList [])) (\<lambda>rs. dret [(''unavailable'', PyNone), (''runs'', rs)])
            | Unavailable _ reason \<Rightarrow> dret [(''unavailable'', PyStr reason), (''runs'', PyList [])]
            | AlreadyRunning _ \<Rightarrow> draise AttributeError))"

definition pm_context :: "agg_env \<Rightarrow> secs \<Rightarrow> agent_spec list \<Rightarrow> pyval dict dash" where
  "pm_context E now reg =
     (case with_feature reg ''pm'' of
        None \<Rightarrow> dret [(''unavailable'', PyStr ''no pm-capable agent in registry''), (''digests'', PyList []),
                  (''action_items'', PyList [])]
      | Some pm \<Rightarrow>
          dbind (on_agg (pm_digests E now pm)) (\<lambda>digests.
            case digests of
              Payload v \<Rightarrow>
                dbind (on_agg (pm_action_items E now pm)) (\<lambda>items.
                dbind (case items of Payload i \<Rightarrow> answer_get i ''action_items'' (PyList []) | _ \<Rightarrow> dret (PyList [])) (\<lambda>il.
                dbind (answer_get v ''digests'' (PyList [])) (\<lambda>ds.
                  dret [(''unavailable'', PyNone), (''digests'', ds), (''action_items'', il)])))
            | Unavailable _ reason \<Rightarrow>
                dret [(''unavailable'', PyStr reason), (''digests'', PyList []), (''action_items'', PyList [])]
            | AlreadyRunning _ \<Rightarrow> draise AttributeError))"

definition window_json :: "cost_window \<Rightarrow> pyval" where
  "window_json w = PyDict
     [(''agent'', PyStr (cw_agent w)), (''week'', py_num (cw_week w)), (''month'', py_num (cw_month w)),
      (''all_time'', py_num (cw_all_time w)), (''last_active'', PyStr (show_date (cw_last_active w)))]"

definition cost_context :: "agg_env \<Rightarrow> secs \<Rightarrow> agent_spec list \<Rightarrow> pyval dict dash" where
  "cost_context E now reg =
     dbind (on_agg (cost_rollup E now reg)) (\<lambda>rollup.
     dbind (\<lambda>w. if has_pool w then suppressed [] (db_read (\<lambda>p. cost_windows 7 30 now (dl_db p))) w else (Inr [], w)) (\<lambda>ws.
       dret [(''rollup'', rollup), (''windows'', PyList (map window_json ws)),
             (''totals'', PyDict
               [(''week'', py_num (py_round 6 (sum_list (map cw_week ws)))),
                (''month'', py_num (py_round 6 (sum_list (map cw_month ws)))),
                (''all_time'', py_num (py_round 6 (sum_list (map cw_all_time ws))))])]))"

section \<open>One agent, the workspace, privacy\<close>

definition feature_labels :: "(string \<times> string) list" where
  "feature_labels = [(''incidents'', ''incidents''), (''findings'', ''findings''), (''runs'', ''pipeline runs''), (''pm'', ''PM digests'')]"

definition agent_capabilities :: "agent_spec \<Rightarrow> string list" where
  "agent_capabilities spec = map snd (filter (\<lambda>(f, l). has_attr spec f) feature_labels)"

definition opt_bool :: "bool option \<Rightarrow> pyval" where
  "opt_bool b = (case b of None \<Rightarrow> PyNone | Some x \<Rightarrow> PyBool x)"

definition heartbeat_strip :: "heartbeat_row \<Rightarrow> pyval" where
  "heartbeat_strip r = PyDict
     [(''ts'', PyStr (isoformat (hr_ts r))), (''up'', PyBool (hr_up r)), (''ready'', opt_bool (hr_ready r)),
      (''error_rate_5m'', case hr_error_rate r of None \<Rightarrow> PyNone | Some x \<Rightarrow> py_num x)]"

definition agent_detail_context :: "agg_env \<Rightarrow> secs \<Rightarrow> agent_spec list \<Rightarrow> string \<Rightarrow> pyval dict dash" where
  "agent_detail_context E now reg slug =
     (case by_slug reg slug of
        None \<Rightarrow> dret [(''unavailable'', PyStr (''no agent '' @ [CHR 0x27] @ slug @ [CHR 0x27] @ '' in the agents registry'')),
                  (''slug'', PyStr slug), (''health'', PyNone)]
      | Some spec \<Rightarrow>
          dbind (on_agg (health E now spec)) (\<lambda>h.
          dbind (\<lambda>w. if has_pool w then db_read (\<lambda>p. recent_heartbeats slug 24 48 now (dl_db p)) w else (Inr [], w)) (\<lambda>hbs.
            dret [(''unavailable'', PyNone), (''slug'', PyStr slug), (''health'', tile_json h),
                  (''capabilities'', PyList (map PyStr (agent_capabilities spec))),
                  (''heartbeats'', PyList (map heartbeat_strip hbs))])))"

definition role_capabilities :: "string list dict" where
  "role_capabilities =
     [(''admin'', [''view all agents data'', ''run sweeps & scans'', ''mint/revoke tokens'', ''export audit log'']),
      (''manager'', [''view all agents data'', ''run sweeps & scans'']),
      (''viewer'', [''view agents data'', ''read activity log'']),
      (''service'', [''expose declared capabilities to the dashboard''])]"

text \<open>The em dash of a member without capabilities is outside the model's characters: a constant names it.\<close>

definition no_capabilities :: "string list" where
  "no_capabilities = [''-'']"

definition member_json :: "string \<Rightarrow> string \<Rightarrow> string \<Rightarrow> string \<Rightarrow> string list \<Rightarrow> pyval" where
  "member_json name kind role status caps = PyDict
     [(''name'', PyStr name), (''kind'', PyStr kind), (''role'', PyStr role), (''status'', PyStr status),
      (''capabilities'', PyList (map PyStr caps))]"

definition agent_member :: "agent_spec \<Rightarrow> pyval" where
  "agent_member spec =
     (let caps = agent_capabilities spec in
      member_json (sp_slug spec) (if sp_kind spec = KSelf then ''self'' else ''service'') ''service''
        (kind_name (sp_kind spec)) (if caps = [] then no_capabilities else caps))"

definition workspace_context :: "agent_spec list \<Rightarrow> principal \<Rightarrow> pyval dict" where
  "workspace_context reg p =
     [(''tenant'', PyStr (p_tenant p)),
      (''members'', PyList (member_json (p_sub p) ''human'' (p_role p) ''active''
          (case map_of role_capabilities (p_role p) of None \<Rightarrow> [] | Some caps \<Rightarrow> caps) # map agent_member reg)),
      (''capabilities'', PyList (map (\<lambda>(role, caps). PyDict [(''role'', PyStr role), (''can'', PyList (map PyStr caps))])
          (filter (\<lambda>(role, _). role \<noteq> ''service'') role_capabilities))),
      (''unavailable'', if reg = [] then PyStr ''no agents registered in the agents'' else PyNone)]"

definition privacy_source :: "string \<times> string \<Rightarrow> pyval list \<Rightarrow> (pyexc, pyval list) result" where
  "privacy_source nu acc =
     (case nu of (name, u) \<Rightarrow>
        rbind (split_hostport u) (\<lambda>(host, port).
          case (host, port) of
            (Some h, Some k) \<Rightarrow> Inr (acc @ [PyDict [(''name'', PyStr name), (''host'', PyStr h), (''port'', PyInt k)]])
          | _ \<Rightarrow> Inr acc))"

definition privacy_context :: "('a) agent_settings_scheme \<Rightarrow> (pyexc, pyval dict) result" where
  "privacy_context s =
     rbind (rfold privacy_source
       [(''LLM gateway'', cfg_llm_base_url s), (''Postgres'', database_url s), (''Redis'', redis_url s),
        (''RabbitMQ'', cfg_rabbitmq_url s)] []) (\<lambda>allowed.
       Inr [(''private_mode'', PyBool (cfg_private_mode s)), (''otel_enabled'', PyBool (effective_otel_enabled s)),
            (''allowed'', PyList allowed)])"

section \<open>The activity stream\<close>

definition haystack :: "audit_row \<Rightarrow> string" where
  "haystack r = lower (ar_actor r @ '' '' @ ar_action r @ '' ''
     @ (case ar_resource r of None \<Rightarrow> [] | Some x \<Rightarrow> x))"

definition free_text :: "string option \<Rightarrow> audit_row list \<Rightarrow> audit_row list" where
  "free_text q rows =
     (case q of
        None \<Rightarrow> rows
      | Some t \<Rightarrow> if t = [] then rows else filter (\<lambda>r. contains (haystack r) (lower (strip t))) rows)"

definition next_cursor :: "nat \<Rightarrow> audit_row list \<Rightarrow> secs option" where
  "next_cursor limit raw = (if limit \<le> length raw \<and> raw \<noteq> [] then Some (ar_ts (last raw)) else None)"

definition event_json :: "audit_row \<Rightarrow> pyval" where
  "event_json r = PyDict
     [(''id'', PyInt (int (ar_id r))), (''tenant_id'', PyStr (ar_tenant r)), (''ts'', PyStr (isoformat (ar_ts r))), (''actor'', PyStr (ar_actor r)),
      (''action'', PyStr (ar_action r)), (''resource'', opt_text (ar_resource r)), (''metadata'', ar_metadata r)]"

definition activity_dict :: "pyval \<Rightarrow> audit_row list \<Rightarrow> string list \<Rightarrow> string option \<Rightarrow> string option \<Rightarrow> string option
    \<Rightarrow> secs option \<Rightarrow> pyval dict" where
  "activity_dict unavailable events actions action actor q cursor =
     [(''unavailable'', unavailable), (''events'', PyList (map event_json events)), (''actions'', PyList (map PyStr actions)),
      (''filter'', PyDict [(''action'', opt_text action), (''actor'', opt_text actor), (''q'', opt_text q)]),
      (''next_before'', case cursor of None \<Rightarrow> PyNone | Some t \<Rightarrow> PyStr (isoformat t))]"

definition activity_context ::
  "string \<Rightarrow> string option \<Rightarrow> string option \<Rightarrow> string option \<Rightarrow> secs option \<Rightarrow> nat \<Rightarrow> pyval dict dash" where
  "activity_context tenant action actor q before limit w =
     (if \<not> has_pool w then
        (Inr (activity_dict (PyStr ''database is unavailable'') [] [] action actor q None), w)
      else
        dbind (db_read (\<lambda>p. audit_query tenant action actor None limit before (Some (dl_audit p)))) (\<lambda>raw.
        dbind (db_read (\<lambda>p. distinct_actions tenant (Some (dl_audit p)))) (\<lambda>actions.
          dret (activity_dict PyNone (free_text q raw) actions action actor q (next_cursor limit raw)))) w)"

end
