(* ===== verification/Metrics.thy ===== *)
theory Metrics
  imports Llm
begin

text \<open>
  The in-process metrics of an agent (\<open>agentkit/metrics.py\<close>): rolling counters over a trailing
  window, the registry, and the snapshot behind \<open>/metrics.json\<close>. \<open>time.monotonic()\<close> is the argument
  \<open>now\<close>. A provider is a function of the time; its result may be an exception.
\<close>

section \<open>Rolling counters\<close>

record rolling =
  rc_window_s :: secs
  rc_events :: "secs list"

definition rolling_new :: "secs \<Rightarrow> rolling" where
  "rolling_new w = \<lparr>rc_window_s = w, rc_events = []\<rparr>"

definition evict :: "secs \<Rightarrow> rolling \<Rightarrow> rolling" where
  "evict now c = c\<lparr>rc_events := dropWhile (\<lambda>e. e < now - rc_window_s c) (rc_events c)\<rparr>"

definition rc_incr :: "secs \<Rightarrow> int \<Rightarrow> rolling \<Rightarrow> rolling" where
  "rc_incr now n c = (let c1 = evict now c in c1\<lparr>rc_events := rc_events c1 @ replicate (nat (max 0 n)) now\<rparr>)"

definition rc_count :: "secs \<Rightarrow> rolling \<Rightarrow> nat \<times> rolling" where
  "rc_count now c = (let c1 = evict now c in (length (rc_events c1), c1))"

section \<open>The registry\<close>

type_synonym provider = "secs \<Rightarrow> (pyexc, pyval) result"

record registry =
  mr_agent_name :: string
  mr_started_monotonic :: secs
  mr_started_at :: secs
  mr_requests :: rolling
  mr_errors :: rolling
  mr_custom :: "provider dict"
  mr_last_run :: "provider option"
  mr_llm_usage :: "usage option"

definition registry_new :: "string \<Rightarrow> secs \<Rightarrow> secs \<Rightarrow> secs \<Rightarrow> registry" where
  "registry_new agent now wall w =
     \<lparr>mr_agent_name = agent, mr_started_monotonic = now, mr_started_at = wall,
      mr_requests = rolling_new w, mr_errors = rolling_new w, mr_custom = [], mr_last_run = None,
      mr_llm_usage = None\<rparr>"

definition record_request :: "secs \<Rightarrow> int \<Rightarrow> registry \<Rightarrow> registry" where
  "record_request now n m = m\<lparr>mr_requests := rc_incr now n (mr_requests m)\<rparr>"

definition record_error :: "secs \<Rightarrow> int \<Rightarrow> registry \<Rightarrow> registry" where
  "record_error now n m = m\<lparr>mr_errors := rc_incr now n (mr_errors m)\<rparr>"

definition requests_5m :: "secs \<Rightarrow> registry \<Rightarrow> nat \<times> registry" where
  "requests_5m now m = (case rc_count now (mr_requests m) of (k, c) \<Rightarrow> (k, m\<lparr>mr_requests := c\<rparr>))"

definition errors_5m :: "secs \<Rightarrow> registry \<Rightarrow> nat \<times> registry" where
  "errors_5m now m = (case rc_count now (mr_errors m) of (k, c) \<Rightarrow> (k, m\<lparr>mr_errors := c\<rparr>))"

text \<open>The two counts read the clock one after the other.\<close>

definition error_rate_5m :: "secs \<Rightarrow> secs \<Rightarrow> registry \<Rightarrow> rat \<times> registry" where
  "error_rate_5m now1 now2 m =
     (case requests_5m now1 m of
        (reqs, m1) \<Rightarrow>
          if reqs = 0 then (0, m1)
          else case errors_5m now2 m1 of (errs, m2) \<Rightarrow> (of_nat errs / of_nat reqs, m2))"

definition uptime_s :: "secs \<Rightarrow> registry \<Rightarrow> secs" where
  "uptime_s now m = now - mr_started_monotonic m"

definition register :: "string \<Rightarrow> provider \<Rightarrow> registry \<Rightarrow> registry" where
  "register name p m = m\<lparr>mr_custom := dict_set name p (mr_custom m)\<rparr>"

definition set_last_run_provider :: "provider \<Rightarrow> registry \<Rightarrow> registry" where
  "set_last_run_provider p m = m\<lparr>mr_last_run := Some p\<rparr>"

definition set_llm_usage :: "usage \<Rightarrow> registry \<Rightarrow> registry" where
  "set_llm_usage u m = m\<lparr>mr_llm_usage := Some u\<rparr>"

definition llm_cost_usd_today :: "registry \<Rightarrow> usd" where
  "llm_cost_usd_today m = (case mr_llm_usage m of None \<Rightarrow> 0 | Some u \<Rightarrow> u_cost_usd u)"

definition cost_by_model_today :: "registry \<Rightarrow> usd dict" where
  "cost_by_model_today m =
     (case mr_llm_usage m of None \<Rightarrow> [] | Some u \<Rightarrow> map (\<lambda>(k, v). (k, py_round 6 v)) (u_by_model u))"

record snapshot =
  sn_agent :: string
  sn_uptime_s :: rat
  sn_error_rate_5m :: rat
  sn_requests_5m :: nat
  sn_errors_5m :: nat
  sn_last_run :: pyval
  sn_llm_cost_usd_today :: usd
  sn_cost_by_model_today :: "usd dict"
  sn_started_at :: secs
  sn_custom :: "pyval dict"

definition resolve :: "secs \<Rightarrow> provider option \<Rightarrow> (pyexc, pyval) result" where
  "resolve now p = (case p of None \<Rightarrow> Inr PyNone | Some f \<Rightarrow> f now)"

text \<open>All clock reads of one snapshot give the same \<open>now\<close>. A provider that raises fails the snapshot.\<close>

definition metrics_snapshot :: "secs \<Rightarrow> registry \<Rightarrow> (pyexc, snapshot) result \<times> registry" where
  "metrics_snapshot now m =
     (case rbind (rmap (\<lambda>(k, p). rbind (resolve now (Some p)) (\<lambda>v. Inr (k, v))) (mr_custom m)) (\<lambda>custom.
           rbind (resolve now (mr_last_run m)) (\<lambda>last_run. Inr (custom, last_run))) of
        Inl e \<Rightarrow> (Inl e, m)
      | Inr (custom, last_run) \<Rightarrow>
          case error_rate_5m now now m of (rate, m1) \<Rightarrow>
          case requests_5m now m1 of (reqs, m2) \<Rightarrow>
          case errors_5m now m2 of (errs, m3) \<Rightarrow>
            (Inr \<lparr>sn_agent = mr_agent_name m, sn_uptime_s = py_round 3 (uptime_s now m),
                  sn_error_rate_5m = py_round 6 rate, sn_requests_5m = reqs, sn_errors_5m = errs,
                  sn_last_run = last_run, sn_llm_cost_usd_today = py_round 6 (llm_cost_usd_today m),
                  sn_cost_by_model_today = cost_by_model_today m, sn_started_at = mr_started_at m,
                  sn_custom = custom\<rparr>, m3))"

section \<open>The window as a specification\<close>

text \<open>The events of a history that fall into the window that ends at \<open>now\<close>.\<close>

definition in_window :: "secs \<Rightarrow> secs \<Rightarrow> secs list \<Rightarrow> secs list" where
  "in_window w now evs = filter (\<lambda>e. now - w \<le> e) evs"

lemma dropWhile_sorted_filter:
  "sorted xs \<Longrightarrow> dropWhile (\<lambda>x. x < (a::'a::linorder)) xs = filter (\<lambda>x. a \<le> x) xs"
proof (induction xs)
  case (Cons x xs)
  then have "a \<le> x \<Longrightarrow> filter (\<lambda>y. a \<le> y) xs = xs"
    by (force intro!: filter_True)
  with Cons show ?case by auto
qed simp

text \<open>A counter holds every event still in the window, and only recorded ones.\<close>

definition rc_rep :: "secs \<Rightarrow> secs list \<Rightarrow> rolling \<Rightarrow> bool" where
  "rc_rep t hist c \<longleftrightarrow> sorted hist \<and> (\<forall>e \<in> set hist. e \<le> t) \<and>
     (\<exists>s \<le> t. rc_events c = in_window (rc_window_s c) s hist)"

lemma in_window_in_window: "s \<le> t \<Longrightarrow> in_window w t (in_window w s hist) = in_window w t hist"
  by (auto simp: in_window_def intro!: filter_cong)

lemma evict_rep:
  assumes "rc_rep t hist c" and "t \<le> now"
  shows "rc_events (evict now c) = in_window (rc_window_s c) now hist" and "rc_rep now hist (evict now c)"
proof -
  obtain s where s: "s \<le> t" "rc_events c = in_window (rc_window_s c) s hist" and so: "sorted hist"
    using assms(1) by (auto simp: rc_rep_def)
  have "sorted (rc_events c)" using s so by (simp add: in_window_def sorted_filter [of id, simplified])
  then have "rc_events (evict now c) = in_window (rc_window_s c) now (rc_events c)"
    by (simp add: evict_def dropWhile_sorted_filter in_window_def)
  then show e: "rc_events (evict now c) = in_window (rc_window_s c) now hist"
    using s assms(2) by (simp add: in_window_in_window)
  show "rc_rep now hist (evict now c)"
    using assms e by (auto simp: rc_rep_def evict_def intro!: exI [of _ now] dest: order_trans)
qed

lemma incr_rep:
  assumes "rc_rep t hist c" and "t \<le> now" and "0 \<le> rc_window_s c"
  shows "rc_rep now (hist @ replicate (nat (max 0 n)) now) (rc_incr now n c)"
proof -
  note e = evict_rep [OF assms(1,2)]
  have "in_window (rc_window_s c) now (replicate k now) = replicate k now" for k
    using assms(3) by (simp add: in_window_def)
  then show ?thesis using e assms
    by (auto simp: rc_rep_def rc_incr_def Let_def in_window_def sorted_append evict_def intro!: exI [of _ now])
qed

lemma rc_window [simp]: "rc_window_s (evict now c) = rc_window_s c" "rc_window_s (rc_incr now n c) = rc_window_s c"
  by (simp_all add: evict_def rc_incr_def Let_def)

section \<open>Runs of a counter\<close>

datatype rc_op = Incr secs int | Count secs

definition op_time :: "rc_op \<Rightarrow> secs" where
  "op_time x = (case x of Incr t n \<Rightarrow> t | Count t \<Rightarrow> t)"

definition op_events :: "rc_op \<Rightarrow> secs list" where
  "op_events x = (case x of Incr t n \<Rightarrow> replicate (nat (max 0 n)) t | Count t \<Rightarrow> [])"

definition rc_step :: "rc_op \<Rightarrow> rolling \<Rightarrow> rolling" where
  "rc_step x c = (case x of Incr t n \<Rightarrow> rc_incr t n c | Count t \<Rightarrow> snd (rc_count t c))"

lemma rc_step_rep:
  assumes "rc_rep t hist c" and "t \<le> op_time x" and "0 \<le> rc_window_s c"
  shows "rc_rep (op_time x) (hist @ op_events x) (rc_step x c) \<and> rc_window_s (rc_step x c) = rc_window_s c"
proof (cases x)
  case (Incr s n)
  with assms incr_rep [OF assms(1), of s n] show ?thesis
    by (simp add: op_time_def op_events_def rc_step_def)
next
  case (Count s)
  with assms evict_rep(2) [OF assms(1), of s] show ?thesis
    by (simp add: op_time_def op_events_def rc_step_def rc_count_def Let_def)
qed

lemma rc_run_rep:
  assumes "rc_rep t hist c" and "sorted (t # map op_time ops)" and "0 \<le> rc_window_s c"
  shows "rc_rep (last (t # map op_time ops)) (hist @ concat (map op_events ops)) (fold rc_step ops c)
    \<and> rc_window_s (fold rc_step ops c) = rc_window_s c"
  using assms
proof (induction ops arbitrary: t hist c)
  case (Cons x ops)
  have t: "t \<le> op_time x" using Cons.prems(2) by simp
  note st = rc_step_rep [OF Cons.prems(1) t Cons.prems(3)]
  have "rc_rep (last (op_time x # map op_time ops)) ((hist @ op_events x) @ concat (map op_events ops))
      (fold rc_step ops (rc_step x c)) \<and> rc_window_s (fold rc_step ops (rc_step x c)) = rc_window_s (rc_step x c)"
    by (rule Cons.IH) (use st Cons.prems in auto)
  with st show ?case by simp
qed simp

text \<open>
  C10: a rolling counter counts exactly the events of the trailing window: after any increments and
  counts at non-decreasing times, its count is the number of recorded events not older than the
  window, however often earlier calls evicted.
\<close>

theorem rolling_count_exact:
  assumes "0 \<le> w" and "sorted (start # map op_time ops @ [now])"
  shows "fst (rc_count now (fold rc_step ops (rolling_new w))) =
    length (filter (\<lambda>e. now - w \<le> e) (concat (map op_events ops)))"
proof -
  have r0: "rc_rep start [] (rolling_new w)" by (auto simp: rc_rep_def rolling_new_def in_window_def)
  have so: "sorted (start # map op_time ops)" "last (start # map op_time ops) \<le> now"
    using assms(2) by (auto simp: sorted_append last_map)
  note rep = rc_run_rep [OF r0 so(1), unfolded rolling_new_def rolling.simps, OF assms(1)]
  have "rc_rep (last (start # map op_time ops)) (concat (map op_events ops)) (fold rc_step ops (rolling_new w))"
    and w: "rc_window_s (fold rc_step ops (rolling_new w)) = w"
    using rep by (simp_all add: rolling_new_def)
  from evict_rep(1) [OF this(1) so(2)] w show ?thesis
    by (simp add: rc_count_def Let_def in_window_def)
qed

theorem rolling_count_exact_witness:
  "fst (rc_count 400 (fold rc_step [Incr 10 2, Count 50, Incr 150 1, Incr 350 3] (rolling_new 300))) = 4"
  by (subst rolling_count_exact [where start = 0]) (simp_all add: op_time_def op_events_def numeral_eq_Suc)

end
