(* ===== verification/RateLimit.thy ===== *)
theory RateLimit
  imports PyText
begin

text \<open>
  The per-client token bucket of \<open>agentkit/server.py\<close> (\<open>_TokenBucketLimiter\<close>): the process-local
  dictionary, the Redis script with its key expiry, and the fallback from one to the other.

  \<open>time.monotonic()\<close> is the argument \<open>now\<close>. The Redis server's own clock, which expires keys, is
  \<open>now + off\<close>: both clocks run at the same pace. What Redis does for a request (unreachable when the
  client is first made, an error before or after the script ran) is an argument, its \<open>fate\<close>.
\<close>

section \<open>Buckets\<close>

definition limiter_rate :: "int \<Rightarrow> int" where
  "limiter_rate rate_limit_per_minute = max 0 rate_limit_per_minute"

definition refill_per_s :: "int \<Rightarrow> rat" where
  "refill_per_s rate = of_int rate / 60"

type_synonym local_buckets = "(rat \<times> secs) dict"

definition allow_local :: "int \<Rightarrow> string \<Rightarrow> secs \<Rightarrow> local_buckets \<Rightarrow> bool \<times> local_buckets" where
  "allow_local rate ip now st =
     (case (case map_of st ip of None \<Rightarrow> (of_int rate, now) | Some b \<Rightarrow> b) of
        (tokens0, ts) \<Rightarrow>
          let tokens = min (of_int rate) (tokens0 + (now - ts) * refill_per_s rate) in
          if 1 \<le> tokens then (True, dict_set ip (tokens - 1, now) st)
          else (False, dict_set ip (tokens, now) st))"

text \<open>A Redis hash: tokens, timestamp, and the server time at which the key expires.\<close>

type_synonym redis_buckets = "(rat \<times> secs \<times> secs) dict"

definition redis_hget :: "secs \<Rightarrow> string \<Rightarrow> redis_buckets \<Rightarrow> (rat \<times> secs) option" where
  "redis_hget server_now key st =
     (case map_of st key of
        None \<Rightarrow> None
      | Some (tokens, ts, ex) \<Rightarrow> if server_now < ex then Some (tokens, ts) else None)"

definition rl_key :: "string \<Rightarrow> string \<Rightarrow> string" where
  "rl_key agent ip = ''agentkit:rl:'' @ agent @ '':'' @ ip"

definition allow_redis ::
  "int \<Rightarrow> secs \<Rightarrow> string \<Rightarrow> secs \<Rightarrow> redis_buckets \<Rightarrow> bool \<times> redis_buckets" where
  "allow_redis rate off key now st =
     (case (case redis_hget (now + off) key st of None \<Rightarrow> (of_int rate, now) | Some b \<Rightarrow> b) of
        (tokens0, ts) \<Rightarrow>
          let tokens = min (of_int rate) (tokens0 + (now - ts) * refill_per_s rate);
              allowed = (1 \<le> tokens);
              tokens' = (if allowed then tokens - 1 else tokens)
          in (allowed, dict_set key (tokens', now, now + off + 120) st))"

section \<open>The limiter\<close>

record limiter =
  lm_rate :: int
  lm_agent :: string
  lm_local :: local_buckets
  lm_redis :: bool
  lm_redis_failed :: bool

datatype fate = RedisDown | ErrBefore | ErrAfter | RedisOk

text \<open>\<open>_redis_client\<close>: one connection attempt in the limiter's life.\<close>

definition redis_client :: "fate \<Rightarrow> limiter \<Rightarrow> bool \<times> limiter" where
  "redis_client f lm =
     (if lm_redis lm \<or> lm_redis_failed lm then (lm_redis lm, lm)
      else if f = RedisDown then (False, lm\<lparr>lm_redis_failed := True\<rparr>)
      else (True, lm\<lparr>lm_redis := True\<rparr>))"

definition allow ::
  "secs \<Rightarrow> fate \<Rightarrow> string \<Rightarrow> secs \<Rightarrow> limiter \<times> redis_buckets \<Rightarrow> bool \<times> limiter \<times> redis_buckets" where
  "allow off f ip now st =
     (case st of (lm, rs) \<Rightarrow>
        if lm_rate lm \<le> 0 then (True, lm, rs)
        else
          case redis_client f lm of
            (have_client, lm1) \<Rightarrow>
              let redis = allow_redis (lm_rate lm) off (rl_key (lm_agent lm) ip) now rs;
                  local = allow_local (lm_rate lm) ip now (lm_local lm);
                  fall = (\<lambda>rs'. (fst local, lm1\<lparr>lm_local := snd local\<rparr>, rs'))
              in if \<not> have_client then fall rs
                 else (case f of
                         RedisOk \<Rightarrow> (fst redis, lm1, snd redis)
                       | ErrAfter \<Rightarrow> fall (snd redis)
                       | _ \<Rightarrow> fall rs))"

section \<open>The contract of a keyed token bucket\<close>

text \<open>
  \<open>level k t st\<close> is what key \<open>k\<close> could spend at time \<open>t\<close>; it refills linearly up to the burst, a
  request passes exactly when one token is there and spends it, and keys do not touch each other.
\<close>

locale token_bucket =
  fixes inv :: "secs \<Rightarrow> 'st \<Rightarrow> bool"
    and level :: "'k \<Rightarrow> secs \<Rightarrow> 'st \<Rightarrow> rat"
    and take :: "'k \<Rightarrow> secs \<Rightarrow> 'st \<Rightarrow> bool \<times> 'st"
    and burst :: rat
    and refill :: rat
  assumes inv_later: "inv t st \<Longrightarrow> t \<le> t' \<Longrightarrow> inv t' st"
    and inv_take: "inv t st \<Longrightarrow> inv t (snd (take k t st))"
    and level_nonneg: "inv t st \<Longrightarrow> 0 \<le> level k t st"
    and level_burst: "level k t st \<le> burst"
    and level_refill: "inv t st \<Longrightarrow> t \<le> t' \<Longrightarrow> level k t' st = min burst (level k t st + (t' - t) * refill)"
    and take_iff: "inv t st \<Longrightarrow> fst (take k t st) \<longleftrightarrow> 1 \<le> level k t st"
    and take_level: "inv t st \<Longrightarrow> level k t (snd (take k t st)) = level k t st - (if fst (take k t st) then 1 else 0)"
    and take_other: "inv t st \<Longrightarrow> k' \<noteq> k \<Longrightarrow> level k' t (snd (take k t st)) = level k' t st"
    and refill_nonneg: "0 \<le> refill"
begin

fun run :: "('k \<times> secs) list \<Rightarrow> 'st \<Rightarrow> 'st" where
  "run [] st = st"
| "run ((k, t) # evs) st = run evs (snd (take k t st))"

fun passed :: "'k \<Rightarrow> ('k \<times> secs) list \<Rightarrow> 'st \<Rightarrow> nat" where
  "passed k [] st = 0"
| "passed k ((k', t) # evs) st =
     (if k' = k \<and> fst (take k' t st) then 1 else 0) + passed k evs (snd (take k' t st))"

lemma level_after:
  assumes "inv t st"
  shows "level k t (snd (take k' t st)) = level k t st - (if k' = k \<and> fst (take k' t st) then 1 else 0)"
  using assms take_level take_other by (cases "k' = k") auto

lemma level_grows: "inv t st \<Longrightarrow> t \<le> t' \<Longrightarrow> level k t' st \<le> level k t st + (t' - t) * refill"
  using level_refill [of t st t' k] by simp

lemma passed_bound:
  assumes "inv t0 st" and "sorted (t0 # map snd evs)" and "\<forall>ev \<in> set evs. snd ev \<le> t1" and "t0 \<le> t1"
  shows "of_nat (passed k evs st) \<le> level k t0 st + (t1 - t0) * refill"
  using assms
proof (induction evs arbitrary: t0 st)
  case Nil
  have "0 \<le> (t1 - t0) * refill" using Nil.prems(4) refill_nonneg by simp
  with level_nonneg [OF Nil.prems(1)] show ?case by (simp add: add_nonneg_nonneg)
next
  case (Cons ev evs)
  obtain k' t where ev: "ev = (k', t)" by (cases ev)
  let ?st = "snd (take k' t st)"
  have t: "t0 \<le> t" "t \<le> t1" using Cons.prems ev by auto
  have it: "inv t st" by (rule inv_later [OF Cons.prems(1) t(1)])
  have "of_nat (passed k evs ?st) \<le> level k t ?st + (t1 - t) * refill"
    by (rule Cons.IH) (use Cons.prems ev t inv_take [OF it] in auto)
  moreover have "level k t st \<le> level k t0 st + (t - t0) * refill"
    by (rule level_grows [OF Cons.prems(1) t(1)])
  moreover have "(t1 - t0) * refill = (t1 - t) * refill + (t - t0) * refill"
    by (simp add: algebra_simps)
  ultimately show ?case using level_after [OF it, of k k'] by (auto simp: ev split: if_splits)
qed

lemma passes_after_wait:
  assumes "inv t st" and "t \<le> t'" and "1 \<le> (t' - t) * refill" and "1 \<le> burst"
  shows "fst (take k t' st)"
  using assms take_iff [OF inv_later [OF assms(1,2)]] level_refill [OF assms(1,2), of k]
    level_nonneg [OF assms(1), of k] by auto

end

section \<open>The local buckets are token buckets\<close>

definition local_level :: "int \<Rightarrow> string \<Rightarrow> secs \<Rightarrow> local_buckets \<Rightarrow> rat" where
  "local_level rate ip now st =
     (case map_of st ip of None \<Rightarrow> of_int rate
      | Some (tokens, ts) \<Rightarrow> min (of_int rate) (tokens + (now - ts) * refill_per_s rate))"

definition local_inv :: "secs \<Rightarrow> local_buckets \<Rightarrow> bool" where
  "local_inv now st \<longleftrightarrow> (\<forall>ip tokens ts. map_of st ip = Some (tokens, ts) \<longrightarrow> 0 \<le> tokens \<and> ts \<le> now)"

lemma refill_nonneg [simp]: "0 \<le> r \<Longrightarrow> 0 \<le> refill_per_s r"
  by (simp add: refill_per_s_def)

lemma fst_allow_local: "fst (allow_local r ip t st) \<longleftrightarrow> 1 \<le> local_level r ip t st"
  by (auto simp: allow_local_def local_level_def Let_def split: option.splits)

lemma map_of_allow_local:
  "map_of (snd (allow_local r ip t st)) =
     (map_of st)(ip \<mapsto> (local_level r ip t st - (if 1 \<le> local_level r ip t st then 1 else 0), t))"
  by (auto simp: allow_local_def local_level_def Let_def split: option.splits)

lemma min_refill:
  fixes r x :: rat
  assumes "0 \<le> d"
  shows "min r (x + (c + d)) = min r (min r (x + c) + d)"
  using assms by (auto simp: min_def)

lemma local_level_later:
  assumes "0 \<le> r" and "t \<le> t'"
  shows "local_level r ip t' st = min (of_int r) (local_level r ip t st + (t' - t) * refill_per_s r)"
proof (cases "map_of st ip")
  case None
  have "0 \<le> (t' - t) * refill_per_s r" using assms by simp
  with None show ?thesis by (simp add: local_level_def)
next
  case (Some b)
  obtain tok ts where b: "b = (tok, ts)" by (cases b)
  have d: "0 \<le> (t' - t) * refill_per_s r" using assms by simp
  have "(t' - ts) * refill_per_s r = (t - ts) * refill_per_s r + (t' - t) * refill_per_s r"
    by (simp add: algebra_simps)
  then show ?thesis using Some b min_refill [OF d] by (simp add: local_level_def)
qed

lemma local_level_nonneg:
  assumes "0 \<le> r" and "local_inv t st"
  shows "0 \<le> local_level r ip t st"
  using assms by (auto simp: local_level_def local_inv_def split: option.split intro!: add_nonneg_nonneg mult_nonneg_nonneg)

lemma local_level_self: "local_level r ip t ((ip, x, t) # st) = min (of_int r) x"
  by (simp add: local_level_def)

lemma local_level_map: "map_of st = map_of st' \<Longrightarrow> local_level r ip t st = local_level r ip t st'"
  by (simp add: local_level_def)

lemma local_level_burst: "local_level r ip t st \<le> of_int r"
  by (auto simp: local_level_def split: option.splits prod.splits)

interpretation lb: token_bucket local_inv "local_level (limiter_rate r)" "allow_local (limiter_rate r)"
  "of_int (limiter_rate r)" "refill_per_s (limiter_rate r)" for r
proof (unfold_locales, goal_cases)
  case (2 t st k)
  have "0 \<le> local_level (limiter_rate r) k t st" by (rule local_level_nonneg [OF _ 2]) (simp add: limiter_rate_def)
  with 2 show ?case by (auto simp: local_inv_def map_of_allow_local split: if_splits)
next
  case (7 t st k)
  then show ?case using local_level_burst [of "limiter_rate r" k t st]
    by (auto simp: local_level_def [of _ _ _ "snd _"] map_of_allow_local fst_allow_local)
qed (auto simp: local_inv_def local_level_later limiter_rate_def local_level_nonneg local_level_burst fst_allow_local
    local_level_def [of _ _ _ "snd _"] map_of_allow_local local_level_def [symmetric] dest: order_trans)

section \<open>The Redis buckets are token buckets\<close>

text \<open>
  A key lives for 120 seconds after its last use, in which an empty bucket refills twice over: an
  expired key is a full bucket.
\<close>

definition redis_level :: "int \<Rightarrow> secs \<Rightarrow> string \<Rightarrow> secs \<Rightarrow> redis_buckets \<Rightarrow> rat" where
  "redis_level rate off key now st =
     (case redis_hget (now + off) key st of None \<Rightarrow> of_int rate
      | Some (tokens, ts) \<Rightarrow> min (of_int rate) (tokens + (now - ts) * refill_per_s rate))"

definition redis_inv :: "secs \<Rightarrow> secs \<Rightarrow> redis_buckets \<Rightarrow> bool" where
  "redis_inv off now st \<longleftrightarrow>
     (\<forall>key tokens ts ex. map_of st key = Some (tokens, ts, ex) \<longrightarrow> 0 \<le> tokens \<and> ts \<le> now \<and> ex = ts + off + 120)"

text \<open>Under the invariant the level is that of a bucket without expiry.\<close>

lemma redis_level_unexpired:
  assumes "0 \<le> r" and "redis_inv off t st" and "t \<le> t'"
  shows "redis_level r off key t' st =
    (case map_of st key of None \<Rightarrow> of_int r
     | Some (tokens, ts, ex) \<Rightarrow> min (of_int r) (tokens + (t' - ts) * refill_per_s r))"
proof (cases "map_of st key")
  case None
  then show ?thesis by (simp add: redis_level_def redis_hget_def)
next
  case (Some b)
  obtain tok ts ex where b: "b = (tok, ts, ex)" by (cases b)
  with Some assms(2) have inv: "0 \<le> tok" "ex = ts + off + 120" by (auto simp: redis_inv_def)
  show ?thesis
  proof (cases "t' + off < ex")
    case True
    with Some b show ?thesis by (simp add: redis_level_def redis_hget_def)
  next
    case False
    then have "120 * refill_per_s r \<le> (t' - ts) * refill_per_s r"
      using inv assms(1) by (intro mult_right_mono) simp_all
    moreover have "of_int r \<le> 120 * refill_per_s r"
      using assms(1) by (simp add: refill_per_s_def)
    ultimately have "of_int r \<le> tok + (t' - ts) * refill_per_s r" using inv(1) by linarith
    with Some b False show ?thesis by (simp add: redis_level_def redis_hget_def)
  qed
qed

lemma redis_level_later:
  assumes "0 \<le> r" and "redis_inv off t st" and "t \<le> t'"
  shows "redis_level r off key t' st = min (of_int r) (redis_level r off key t st + (t' - t) * refill_per_s r)"
proof -
  have d: "0 \<le> (t' - t) * refill_per_s r" using assms by simp
  note eq = redis_level_unexpired [OF assms] redis_level_unexpired [OF assms(1,2) order_refl]
  show ?thesis
  proof (cases "map_of st key")
    case None
    with d show ?thesis unfolding eq by simp
  next
    case (Some b)
    obtain tok ts ex where b: "b = (tok, ts, ex)" by (cases b)
    have "(t' - ts) * refill_per_s r = (t - ts) * refill_per_s r + (t' - t) * refill_per_s r"
      by (simp add: algebra_simps)
    then show ?thesis unfolding eq using Some b min_refill [OF d] by simp
  qed
qed

lemma redis_level_nonneg:
  assumes "0 \<le> r" and "redis_inv off t st"
  shows "0 \<le> redis_level r off key t st"
  unfolding redis_level_unexpired [OF assms order_refl] using assms
  by (auto simp: redis_inv_def split: option.split intro!: add_nonneg_nonneg mult_nonneg_nonneg)

lemma redis_level_burst: "redis_level r off key t st \<le> of_int r"
  by (auto simp: redis_level_def split: option.splits prod.splits)

lemma fst_allow_redis: "fst (allow_redis r off key t st) \<longleftrightarrow> 1 \<le> redis_level r off key t st"
  by (auto simp: allow_redis_def redis_level_def Let_def split: option.splits)

lemma map_of_allow_redis:
  "map_of (snd (allow_redis r off key t st)) =
     (map_of st)(key \<mapsto> (redis_level r off key t st - (if 1 \<le> redis_level r off key t st then 1 else 0),
        t, t + off + 120))"
  by (auto simp: allow_redis_def redis_level_def Let_def split: option.splits)

interpretation rb: token_bucket "redis_inv off" "redis_level (limiter_rate r) off" "allow_redis (limiter_rate r) off"
  "of_int (limiter_rate r)" "refill_per_s (limiter_rate r)" for r off
proof (unfold_locales, goal_cases)
  case (1 t st t')
  then show ?case by (fastforce simp: redis_inv_def dest: order_trans)
next
  case (2 t st k)
  have "0 \<le> redis_level (limiter_rate r) off k t st" by (rule redis_level_nonneg [OF _ 2]) (simp add: limiter_rate_def)
  with 2 show ?case by (auto simp: redis_inv_def map_of_allow_redis split: if_splits)
next
  case (7 t st k)
  then show ?case using redis_level_burst [of "limiter_rate r" off k t st]
    by (auto simp: redis_level_def [of _ _ _ _ "snd _"] redis_hget_def map_of_allow_redis fst_allow_redis)
next
  case (8 t st k' k)
  then show ?case by (simp add: redis_level_def [of _ _ k'] redis_hget_def map_of_allow_redis)
qed (auto simp: redis_inv_def redis_level_later limiter_rate_def redis_level_nonneg redis_level_burst fst_allow_redis
    dest: order_trans)

end
