(* ===== verification/Server.thy ===== *)
theory Server
  imports Metrics RateLimit Egress
begin

text \<open>
  The application factory (\<open>agentkit/server.py\<close>) and the readiness probe it calls (\<open>agentkit/db.py\<close>,
  \<open>ping\<close>): client addresses, the stack of middlewares a request runs through, the metrics guard and
  the health routes.

  The routed handler is the parameter \<open>call_next\<close>: the response that Starlette's routing gives the
  metrics middleware, \<open>Inl e\<close> when an exception nobody handles escapes it. Request ids drawn by
  \<open>uuid4\<close>, the clock and the fates of the Redis calls are arguments.
\<close>

section \<open>Requests and responses\<close>

record request_in =
  ri_path :: string
  ri_headers :: "string dict"
  ri_peer :: "string option"

record response_out =
  ro_status :: int
  ro_headers :: "string dict"
  ro_body :: pyval

definition uncounted_paths :: "string list" where
  "uncounted_paths = [''/healthz'', ''/readyz'', ''/metrics.json'']"

text \<open>Header names are looked up in lower case.\<close>

definition header :: "request_in \<Rightarrow> string \<Rightarrow> string option" where
  "header r k = map_of (ri_headers r) (lower k)"

text \<open>\<open>_client_ip\<close>: the rightmost \<open>X-Forwarded-For\<close> entry behind a trusted proxy, else the peer.\<close>

definition client_ip :: "bool \<Rightarrow> request_in \<Rightarrow> string" where
  "client_ip trust_proxy r =
     (let peer = (case ri_peer r of Some h \<Rightarrow> h | None \<Rightarrow> ''unknown'') in
      if trust_proxy then
        (case header r ''X-Forwarded-For'' of
           None \<Rightarrow> peer
         | Some xff \<Rightarrow>
             if xff = [] then peer
             else let lst = strip (snd (snd (rpartition_at (CHR '','') xff))) in
               if lst \<noteq> [] \<and> is_ip lst then lst else peer)
      else peer)"

section \<open>Middlewares\<close>

record app_state =
  as_metrics :: registry
  as_limiter :: limiter
  as_llm_limiter :: limiter
  as_redis :: redis_buckets
  as_accepting :: bool

definition setdefault :: "string \<Rightarrow> string \<Rightarrow> string dict \<Rightarrow> string dict" where
  "setdefault k v d = (if map_of d k = None then dict_set k v d else d)"

definition security_headers :: "string dict" where
  "security_headers =
     [(''strict-transport-security'', ''max-age=63072000; includeSubDomains; preload''),
      (''content-security-policy'',
        ''default-src 'self'; script-src 'self'; style-src 'self' 'unsafe-inline'; '' @
        ''img-src 'self'; frame-ancestors 'none'; base-uri 'self'; form-action '' @ [CHR 0x27] @ ''self'' @ [CHR 0x27]),
      (''x-frame-options'', ''DENY''), (''x-content-type-options'', ''nosniff''),
      (''referrer-policy'', ''strict-origin-when-cross-origin''),
      (''permissions-policy'', ''camera=(), microphone=(), geolocation=()'')]"

definition add_security_headers :: "response_out \<Rightarrow> response_out" where
  "add_security_headers r = r\<lparr>ro_headers := fold (\<lambda>(k, v). setdefault k v) security_headers (ro_headers r)\<rparr>"

definition metrics_dispatch ::
  "secs \<Rightarrow> string \<Rightarrow> (request_in \<Rightarrow> (pyexc, response_out) result) \<Rightarrow> request_in \<Rightarrow> app_state
    \<Rightarrow> (pyexc, response_out) result \<times> app_state" where
  "metrics_dispatch now fresh_id call_next r st =
     (let request_id = str_or (header r ''X-Request-ID'') fresh_id;
          counted = (ri_path r \<notin> set uncounted_paths);
          st1 = (if counted then st\<lparr>as_metrics := record_request now 1 (as_metrics st)\<rparr> else st);
          err = (\<lambda>s. s\<lparr>as_metrics := record_error now 1 (as_metrics s)\<rparr>)
      in case call_next r of
           Inl e \<Rightarrow> (Inl e, if counted then err st1 else st1)
         | Inr resp \<Rightarrow>
             (Inr (resp\<lparr>ro_headers := dict_set ''x-request-id'' request_id (ro_headers resp)\<rparr>),
              if counted \<and> 500 \<le> ro_status resp then err st1 else st1))"

definition security_dispatch ::
  "env \<Rightarrow> (request_in \<Rightarrow> app_state \<Rightarrow> (pyexc, response_out) result \<times> app_state)
    \<Rightarrow> request_in \<Rightarrow> app_state \<Rightarrow> (pyexc, response_out) result \<times> app_state" where
  "security_dispatch e next r st =
     (case next r st of
        (Inl x, st1) \<Rightarrow> (Inl x, st1)
      | (Inr resp, st1) \<Rightarrow> (Inr (if e \<in> {Staging, Prod} then add_security_headers resp else resp), st1))"

definition too_many :: "string \<Rightarrow> string \<Rightarrow> response_out" where
  "too_many detail retry =
     \<lparr>ro_status = 429, ro_headers = [(''retry-after'', retry)], ro_body = PyDict [(''detail'', PyStr detail)]\<rparr>"

definition rate_limit_dispatch ::
  "secs \<Rightarrow> fate \<Rightarrow> secs \<Rightarrow> bool \<Rightarrow> (request_in \<Rightarrow> app_state \<Rightarrow> (pyexc, response_out) result \<times> app_state)
    \<Rightarrow> request_in \<Rightarrow> app_state \<Rightarrow> (pyexc, response_out) result \<times> app_state" where
  "rate_limit_dispatch off f now trust next r st =
     (if ri_path r \<in> set uncounted_paths then next r st
      else case allow off f (client_ip trust r) now (as_limiter st, as_redis st) of
        (ok, lm, rs) \<Rightarrow>
          let st1 = st\<lparr>as_limiter := lm, as_redis := rs\<rparr> in
          if \<not> ok then (Inr (too_many ''rate limit exceeded'' ''60''), st1) else next r st1)"

definition llm_rate_limit_dispatch ::
  "secs \<Rightarrow> fate \<Rightarrow> secs \<Rightarrow> bool \<Rightarrow> (request_in \<Rightarrow> app_state \<Rightarrow> (pyexc, response_out) result \<times> app_state)
    \<Rightarrow> request_in \<Rightarrow> app_state \<Rightarrow> (pyexc, response_out) result \<times> app_state" where
  "llm_rate_limit_dispatch off f now trust next r st =
     (if \<not> prefix ''/llm/'' (ri_path r) then next r st
      else case allow off f (client_ip trust r) now (as_llm_limiter st, as_redis st) of
        (ok, lm, rs) \<Rightarrow>
          let st1 = st\<lparr>as_llm_limiter := lm, as_redis := rs\<rparr> in
          if \<not> ok then (Inr (too_many ''LLM inference rate limit exceeded'' ''10''), st1) else next r st1)"

text \<open>The last middleware added is the outermost; an unhandled exception ends as the 500 reply.\<close>

definition serve ::
  "agent_settings \<Rightarrow> secs \<Rightarrow> fate \<Rightarrow> fate \<Rightarrow> secs \<Rightarrow> string \<Rightarrow> (request_in \<Rightarrow> (pyexc, response_out) result)
    \<Rightarrow> request_in \<Rightarrow> app_state \<Rightarrow> response_out \<times> app_state" where
  "serve cfg off f_llm f now fresh_id call_next r st =
     (let inner = security_dispatch (cfg_env cfg) (metrics_dispatch now fresh_id call_next);
          limited = (if 0 < cfg_rate_limit_per_minute cfg
             then llm_rate_limit_dispatch off f_llm now (cfg_trust_proxy cfg)
                    (rate_limit_dispatch off f now (cfg_trust_proxy cfg) inner)
             else inner)
      in case limited r st of
           (Inr resp, st1) \<Rightarrow> (resp, st1)
         | (Inl e, st1) \<Rightarrow>
             (\<lparr>ro_status = 500, ro_headers = [], ro_body = PyDict [(''detail'', PyStr ''internal error'')]\<rparr>, st1))"

section \<open>Routes\<close>

definition create_app_gate :: "agent_settings \<Rightarrow> bool \<Rightarrow> (pyexc, unit) result" where
  "create_app_gate cfg metrics_public =
     (if cfg_env cfg \<noteq> Dev \<and> jwt_secret cfg = [] \<and> \<not> metrics_public
      then Inl (RuntimeError
        (''JWT_SECRET is empty but ENV is not 'dev': refusing to start with '' @
         ''open /metrics.json and unauthenticated upstream calls. Set JWT_SECRET '' @
         ''(or ENV=dev for local use).''))
      else validate_egress_boot_gate cfg)"

definition new_limiter :: "agent_settings \<Rightarrow> limiter" where
  "new_limiter cfg = \<lparr>lm_rate = limiter_rate (cfg_rate_limit_per_minute cfg), lm_agent = cfg_agent_name cfg,
     lm_local = [], lm_redis = False, lm_redis_failed = False\<rparr>"

definition create_app :: "agent_settings \<Rightarrow> bool \<Rightarrow> secs \<Rightarrow> secs \<Rightarrow> redis_buckets \<Rightarrow> (pyexc, app_state) result" where
  "create_app cfg metrics_public now wall redis =
     rbind (create_app_gate cfg metrics_public) (\<lambda>_.
       Inr \<lparr>as_metrics = registry_new (cfg_agent_name cfg) now wall 300, as_limiter = new_limiter cfg,
            as_llm_limiter = new_limiter cfg, as_redis = redis, as_accepting = True\<rparr>)"

text \<open>The exit of the lifespan.\<close>

definition shutdown :: "app_state \<Rightarrow> app_state" where
  "shutdown st = st\<lparr>as_accepting := False\<rparr>"

definition metrics_guard :: "jwtlib \<Rightarrow> secs \<Rightarrow> agent_settings \<Rightarrow> bool \<Rightarrow> string \<Rightarrow> (pyexc, unit) result" where
  "metrics_guard lib now cfg metrics_public authorization =
     (if metrics_public \<or> jwt_secret cfg = [] then Inr ()
      else case partition_at (CHR '' '') authorization of
        (scheme, _, token) \<Rightarrow>
          if lower scheme \<noteq> ''bearer'' \<or> token = [] then Inl (AuthError ''missing bearer token'')
          else rbind (verify_token lib now token (jwt_secret cfg) (jwt_algorithms cfg) (jwt_audience cfg))
            (\<lambda>p. if \<not> is_admin p then Inl (HttpError 403 ''admin required'') else Inr ()))"

definition metrics_json ::
  "jwtlib \<Rightarrow> secs \<Rightarrow> secs \<Rightarrow> agent_settings \<Rightarrow> bool \<Rightarrow> string \<Rightarrow> app_state \<Rightarrow> (pyexc, snapshot) result \<times> app_state" where
  "metrics_json lib wall now cfg metrics_public authorization st =
     (case metrics_guard lib wall cfg metrics_public authorization of
        Inl e \<Rightarrow> (Inl e, st)
      | Inr _ \<Rightarrow> (case metrics_snapshot now (as_metrics st) of (r, m) \<Rightarrow> (r, st\<lparr>as_metrics := m\<rparr>)))"

definition healthz :: "agent_settings \<Rightarrow> response_out" where
  "healthz cfg = \<lparr>ro_status = 200, ro_headers = [],
     ro_body = PyDict [(''status'', PyStr ''ok''), (''agent'', PyStr (cfg_agent_name cfg))]\<rparr>"

text \<open>
  \<open>db.ping\<close>: each check ends with its outcome, an exception or the timeout of two seconds; the
  arguments are what each check does, and after how long.
\<close>

definition ping_timeout_s :: secs where
  "ping_timeout_s = 2"

definition wait_for :: "secs \<Rightarrow> (pyexc, unit) result \<times> secs \<Rightarrow> (pyexc, unit) result \<times> secs" where
  "wait_for limit r = (if snd r < limit then r else (Inl (Upstream ''TimeoutError''), limit))"

definition ping ::
  "(pyexc, unit) result \<times> secs \<Rightarrow> (pyexc, unit) result \<times> secs \<Rightarrow> bool dict \<times> secs" where
  "ping pg_check redis_check =
     (let a = wait_for ping_timeout_s pg_check; b = wait_for ping_timeout_s redis_check in
      ([(''postgres'', fst a = Inr ()), (''redis'', fst b = Inr ())], snd a + snd b))"

definition readyz ::
  "(pyexc, unit) result \<times> secs \<Rightarrow> (pyexc, unit) result \<times> secs \<Rightarrow> app_state \<Rightarrow> response_out" where
  "readyz pg_check redis_check st =
     (if \<not> as_accepting st then
        \<lparr>ro_status = 503, ro_headers = [],
         ro_body = PyDict [(''ready'', PyBool False), (''checks'', PyDict []), (''draining'', PyBool True)]\<rparr>
      else
        let checks = fst (ping pg_check redis_check); ready = list_all snd checks in
        \<lparr>ro_status = (if ready then 200 else 503), ro_headers = [],
         ro_body = PyDict [(''ready'', PyBool ready),
                           (''checks'', PyDict (map (\<lambda>(k, b). (k, PyBool b)) checks))]\<rparr>)"

end
