(* ===== verification/Csrf.thy ===== *)
theory Csrf
  imports DashAuth Server JsonBytes
begin

text \<open>
  The dashboard's requests and responses, and its cross-site request forgery defence
  (\<open>dashboard/api.py\<close>): the signed double-submit token, the origin check, the middleware around every
  route. HMAC-SHA256 (its hex digest) and SHA-256 (its digest) are arguments, and so is every drawn
  nonce.
\<close>

section \<open>Requests and responses\<close>

record dash_request = request_in +
  dr_method :: string
  dr_cookies :: "string dict"
  dr_body :: string

datatype cookie_op =
    SetCookie string string bool bool
  | DeleteCookie string

text \<open>
  A response: its status, where it redirects, the template and the values it is rendered with, the
  cookies it sets (name, value, \<open>HttpOnly\<close>, \<open>Secure\<close>; all are \<open>SameSite=Strict\<close>).
\<close>

record dash_response =
  dp_status :: int
  dp_location :: "string option"
  dp_template :: string
  dp_context :: "pyval dict"
  dp_cookies :: "cookie_op list"

definition page_response :: "string \<Rightarrow> pyval dict \<Rightarrow> dash_response" where
  "page_response tpl ctx = \<lparr>dp_status = 200, dp_location = None, dp_template = tpl, dp_context = ctx, dp_cookies = []\<rparr>"

definition redirect_response :: "string \<Rightarrow> dash_response" where
  "redirect_response loc = \<lparr>dp_status = 303, dp_location = Some loc, dp_template = [], dp_context = [], dp_cookies = []\<rparr>"

text \<open>What a browser holds of a cookie after a response.\<close>

fun cookie_after :: "string \<Rightarrow> cookie_op list \<Rightarrow> string option \<Rightarrow> string option" where
  "cookie_after k [] v = v"
| "cookie_after k (SetCookie n x h s # ops) v = cookie_after k ops (if n = k then Some x else v)"
| "cookie_after k (DeleteCookie n # ops) v = cookie_after k ops (if n = k then None else v)"

section \<open>Tokens\<close>

definition csrf_form_field :: string where
  "csrf_form_field = ''csrf_token''"

definition csrf_header :: string where
  "csrf_header = ''X-CSRF-Token''"

definition csrf_protected_methods :: "string list" where
  "csrf_protected_methods = [''POST'', ''PUT'', ''PATCH'', ''DELETE'']"

definition csrf_exempt_paths :: "string list" where
  "csrf_exempt_paths = [''/healthz'', ''/readyz'', ''/metrics.json'']"

definition csrf_exempt :: "string \<Rightarrow> bool" where
  "csrf_exempt path \<longleftrightarrow> path \<in> set csrf_exempt_paths"

definition csrf_key :: "(string \<Rightarrow> string) \<Rightarrow> dash_settings \<Rightarrow> string" where
  "csrf_key sha256 st =
     sha256 (''dashboard-csrf-v1:'' @ (if jwt_secret st \<noteq> [] then jwt_secret st else ''dashboard-csrf-unconfigured''))"

text \<open>The signer: HMAC under the derived key.\<close>

record csrf_env =
  ce_hmac :: "string \<Rightarrow> string \<Rightarrow> string"
  ce_sha :: "string \<Rightarrow> string"
  ce_settings :: dash_settings

definition csrf_sign :: "csrf_env \<Rightarrow> string \<Rightarrow> string" where
  "csrf_sign c nonce = ce_hmac c (csrf_key (ce_sha c) (ce_settings c)) nonce"

definition issue_csrf_token :: "csrf_env \<Rightarrow> string \<Rightarrow> string" where
  "issue_csrf_token c nonce = nonce @ ''.'' @ csrf_sign c nonce"

definition csrf_valid :: "csrf_env \<Rightarrow> string option \<Rightarrow> (pyexc, bool) result" where
  "csrf_valid c token =
     (case token of
        None \<Rightarrow> Inr False
      | Some t \<Rightarrow>
          if t = [] \<or> CHR ''.'' \<notin> set t then Inr False
          else case rpartition_at CHR ''.'' t of
            (nonce, _, sig) \<Rightarrow>
              if nonce = [] \<or> sig = [] then Inr False
              else compare_digest sig (csrf_sign c nonce))"

section \<open>Checking a request\<close>

definition origin_header_ok :: "string option \<Rightarrow> string option \<Rightarrow> (pyexc, bool) result" where
  "origin_header_ok host value =
     (case value of
        None \<Rightarrow> Inr True
      | Some v \<Rightarrow>
          if v = [] then Inr True
          else rbind (urlparse v) (\<lambda>u.
            Inr (\<not> (url_netloc u \<noteq> [] \<and> (case host of None \<Rightarrow> False | Some h \<Rightarrow> h \<noteq> [] \<and> url_netloc u \<noteq> h)))))"

definition origin_ok :: "dash_request \<Rightarrow> (pyexc, bool) result" where
  "origin_ok r =
     (let host = map_of (ri_headers r) ''host'' in
      rbind (origin_header_ok host (map_of (ri_headers r) ''origin'')) (\<lambda>a.
        if \<not> a then Inr False else origin_header_ok host (map_of (ri_headers r) ''referer'')))"

text \<open>
  \<open>parse_qs\<close> of a urlencoded body: fields between ampersands, blank values dropped, plus signs and
  percent escapes decoded as UTF-8. Text outside the modelled code points, which the source replaces
  by U+FFFD or keeps, is \<open>Unrepresentable\<close>.
\<close>

definition hex_byte :: "char \<Rightarrow> char \<Rightarrow> char option" where
  "hex_byte a b =
     (case (hex_val a, hex_val b) of (Some i, Some j) \<Rightarrow> Some (char_of (i * 16 + j)) | _ \<Rightarrow> None)"

fun percent_bytes :: "string \<Rightarrow> string" where
  "percent_bytes (c # a # b # s) =
     (if c = CHR ''%'' then
        (case hex_byte a b of Some x \<Rightarrow> x # percent_bytes s | None \<Rightarrow> c # percent_bytes (a # b # s))
      else c # percent_bytes (a # b # s))"
| "percent_bytes s = s"

function unquote_runs :: "string \<Rightarrow> (pyexc, string) result" where
  "unquote_runs s =
     (if s = [] then Inr []
      else
        let a = takeWhile is_ascii s; r = dropWhile is_ascii s;
            b = takeWhile (\<lambda>c. \<not> is_ascii c) r
        in rbind (utf8_decode (percent_bytes a)) (\<lambda>x.
           rbind (unquote_runs (dropWhile (\<lambda>c. \<not> is_ascii c) r)) (\<lambda>y. Inr (x @ b @ y))))"
  by pat_completeness auto
termination
proof (relation "measure length")
  fix s :: string and a r
  assume "s \<noteq> []" and r: "r = dropWhile is_ascii s"
  have "length (dropWhile (\<lambda>c. \<not> is_ascii c) (dropWhile is_ascii s)) < length s"
  proof (cases s)
    case (Cons c cs)
    then show ?thesis
      using length_dropWhile_le [of "\<lambda>c. \<not> is_ascii c" "dropWhile is_ascii cs"] length_dropWhile_le [of is_ascii cs]
        length_dropWhile_le [of "\<lambda>c. \<not> is_ascii c" cs] by auto
  qed (use \<open>s \<noteq> []\<close> in simp)
  then show "\<And>b x. b = takeWhile (\<lambda>c. \<not> is_ascii c) r \<Longrightarrow>
      (dropWhile (\<lambda>c. \<not> is_ascii c) r, s) \<in> measure length" by (simp add: r)
qed simp

declare unquote_runs.simps [simp del]

definition unquote_plus :: "string \<Rightarrow> (pyexc, string) result" where
  "unquote_plus s =
     (case unquote_runs (map (\<lambda>c. if c = CHR ''+'' then CHR '' '' else c) s) of
        Inl _ \<Rightarrow> Inl Unrepresentable
      | r \<Rightarrow> r)"

text \<open>The first value of a field, or \<open>None\<close>.\<close>

fun first_field :: "string \<Rightarrow> string list \<Rightarrow> (pyexc, string option) result" where
  "first_field k [] = Inr None"
| "first_field k (p # ps) =
     (case partition_at CHR ''='' p of
        (n, found, v) \<Rightarrow>
          if \<not> found \<or> v = [] then first_field k ps
          else rbind (unquote_plus n) (\<lambda>name. rbind (unquote_plus v) (\<lambda>value.
            rbind (first_field k ps) (\<lambda>later. Inr (if name = k then Some value else later)))))"

definition form_field :: "string \<Rightarrow> string \<Rightarrow> (pyexc, string option) result" where
  "form_field k body =
     (case utf8_decode body of
        Inl _ \<Rightarrow> Inl Unrepresentable
      | Inr t \<Rightarrow> first_field k (split_on CHR ''&'' t))"

definition submitted_csrf :: "dash_request \<Rightarrow> (pyexc, string option) result" where
  "submitted_csrf r =
     (case map_of (ri_headers r) (lower csrf_header) of
        Some (c # cs) \<Rightarrow> Inr (Some (c # cs))
      | _ \<Rightarrow>
          let ctype = (case map_of (ri_headers r) ''content-type'' of None \<Rightarrow> [] | Some t \<Rightarrow> t) in
          if prefix ''application/x-www-form-urlencoded'' ctype then form_field csrf_form_field (dr_body r)
          else Inr None)"

definition opt_or_empty :: "string option \<Rightarrow> string" where
  "opt_or_empty v = (case v of None \<Rightarrow> [] | Some s \<Rightarrow> s)"

text \<open>The reason of a rejection, or \<open>None\<close> when the request passes.\<close>

definition csrf_check :: "csrf_env \<Rightarrow> dash_request \<Rightarrow> (pyexc, string option) result" where
  "csrf_check c r =
     (if dr_method r \<notin> set csrf_protected_methods then Inr None
      else if csrf_exempt (ri_path r) then Inr None
      else rbind (origin_ok r) (\<lambda>ok.
        if \<not> ok then Inr (Some ''bad origin'')
        else
          let cookie = map_of (dr_cookies r) (ds_csrf_cookie_name (ce_settings c)) in
          rbind (submitted_csrf r) (\<lambda>submitted.
          rbind (csrf_valid c cookie) (\<lambda>v1.
          rbind (if v1 then csrf_valid c submitted else Inr False) (\<lambda>v2.
            if \<not> v1 \<or> \<not> v2 then Inr (Some ''missing CSRF token'')
            else rbind (compare_digest (opt_or_empty cookie) (opt_or_empty submitted)) (\<lambda>eq.
              Inr (if eq then None else Some ''CSRF token mismatch'')))))))"

definition set_csrf_cookie :: "csrf_env \<Rightarrow> string \<Rightarrow> dash_response \<Rightarrow> dash_response" where
  "set_csrf_cookie c token resp =
     resp\<lparr>dp_cookies := dp_cookies resp @
       [SetCookie (ds_csrf_cookie_name (ce_settings c)) token False (effective_session_cookie_secure (ce_settings c))]\<rparr>"

text \<open>
  The token a page embeds: the cookie's when it is valid, else a fresh one, which is also left for
  the middleware in \<open>request.state\<close>.
\<close>

definition csrf_token :: "csrf_env \<Rightarrow> string \<Rightarrow> dash_request \<Rightarrow> (pyexc, string \<times> string option) result" where
  "csrf_token c nonce r =
     (let existing = map_of (dr_cookies r) (ds_csrf_cookie_name (ce_settings c)) in
      rbind (csrf_valid c existing) (\<lambda>ok.
        if ok then Inr (opt_or_empty existing, None)
        else let t = issue_csrf_token c nonce in Inr (t, Some t)))"

text \<open>A handler: its response, the token it left in \<open>request.state\<close>, and the state it leaves.\<close>

type_synonym 's dash_handler = "dash_request \<Rightarrow> 's \<Rightarrow> (pyexc, dash_response \<times> string option) result \<times> 's"

definition csrf_middleware ::
  "csrf_env \<Rightarrow> string \<Rightarrow> 's dash_handler \<Rightarrow> dash_request \<Rightarrow> 's \<Rightarrow> (pyexc, dash_response) result \<times> 's" where
  "csrf_middleware c nonce call_next r s =
     (case csrf_check c r of
        Inl e \<Rightarrow> (Inl e, s)
      | Inr (Some reason) \<Rightarrow> (Inr ((page_response reason [])\<lparr>dp_status := 403\<rparr>), s)
      | Inr None \<Rightarrow>
          (case call_next r s of
             (Inl e, s1) \<Rightarrow> (Inl e, s1)
           | (Inr (resp, issued), s1) \<Rightarrow>
               (rbind (csrf_valid c (map_of (dr_cookies r) (ds_csrf_cookie_name (ce_settings c)))) (\<lambda>ok.
                  Inr (if ok then resp
                       else set_csrf_cookie c (case issued of Some t \<Rightarrow> t | None \<Rightarrow> issue_csrf_token c nonce) resp)),
                s1)))"

end
