(* ===== verification/DashApi.thy ===== *)
theory DashApi
  imports DashViews Csrf
begin

text \<open>
  The dashboard's routes (\<open>dashboard/api.py\<close>, \<open>dashboard/panel_routes.py\<close>): login and logout, the
  pages, the fragments, the audit export, the actions that proxy to the agents, and the background
  loops. A route is given its query and form values as FastAPI hands them over; what it renders is
  the template and its context. A cross-site request forgery token is drawn from the nonce \<open>dn_nonce\<close>.
\<close>

record dash_env =
  dn_agg :: agg_env
  dn_csrf :: csrf_env
  dn_registry :: "agent_spec list"
  dn_now :: secs
  dn_nonce :: string
  dn_exc_text :: "pyexc \<Rightarrow> string"

abbreviation dn_settings :: "dash_env \<Rightarrow> dash_settings" where
  "dn_settings D \<equiv> ce_settings (dn_csrf D)"

text \<open>
  What a route leaves: a response and the token it issued. \<open>HTTPException\<close>s are answered by the
  framework below the middleware (\<open>http_answer\<close>); any other exception goes through it.
\<close>

type_synonym route_out = "dash_response \<times> string option"

definition plain :: "dash_response dash \<Rightarrow> route_out dash" where
  "plain m = dbind m (\<lambda>r. dret (r, None))"

definition error_response :: "int \<Rightarrow> string \<Rightarrow> dash_response" where
  "error_response sc detail =
     \<lparr>dp_status = sc, dp_location = None, dp_template = [], dp_context = [(''detail'', PyStr detail)], dp_cookies = []\<rparr>"

definition http_answer :: "route_out dash \<Rightarrow> route_out dash" where
  "http_answer m w =
     (case m w of
        (Inl (HttpError sc detail), w1) \<Rightarrow> (Inr (error_response sc detail, None), w1)
      | r \<Rightarrow> r)"

section \<open>Sessions\<close>

definition session_dep :: "dash_env \<Rightarrow> dash_request \<Rightarrow> (pyexc, principal) result" where
  "session_dep D r = require_session (ae_lib (dn_agg D)) (dn_now D) (dn_settings D) (dr_cookies r)"

datatype page_exc = Redirect string | Raised pyexc

definition page_principal :: "dash_env \<Rightarrow> dash_request \<Rightarrow> page_exc + principal" where
  "page_principal D r =
     (case session_dep D r of
        Inr p \<Rightarrow> Inr p
      | Inl (HttpError sc detail) \<Rightarrow>
          if sc = 401 \<or> sc = 403 then Inl (Redirect ''/login'') else Inl (Raised (HttpError sc detail))
      | Inl e \<Rightarrow> Inl (Raised e))"

definition on_redirect :: "string \<Rightarrow> dash_response" where
  "on_redirect loc = redirect_response loc"

definition with_page :: "dash_env \<Rightarrow> dash_request \<Rightarrow> (principal \<Rightarrow> route_out dash) \<Rightarrow> route_out dash" where
  "with_page D r f =
     (case page_principal D r of
        Inl (Redirect loc) \<Rightarrow> dret (on_redirect loc, None)
      | Inl (Raised e) \<Rightarrow> draise e
      | Inr p \<Rightarrow> f p)"

definition with_session :: "dash_env \<Rightarrow> dash_request \<Rightarrow> (principal \<Rightarrow> route_out dash) \<Rightarrow> route_out dash" where
  "with_session D r f = dbind (dlift (session_dep D r)) f"

section \<open>The audit trail\<close>

text \<open>Best effort: a failing statement is swallowed, and without a pool nothing is written.\<close>

definition put_audit :: "dash_env \<Rightarrow> string \<Rightarrow> string \<Rightarrow> string \<Rightarrow> string option \<Rightarrow> pyval \<Rightarrow> dash_world \<Rightarrow> dash_world" where
  "put_audit D tenant actor action resource meta w =
     (case dw_pool w of
        None \<Rightarrow> w
      | Some p \<Rightarrow>
          (case audit_append (dw_db_up w) (dn_now D) tenant actor action resource meta None (Some (dl_audit p)) of
             None \<Rightarrow> w
           | Some rows \<Rightarrow> w\<lparr>dw_pool := Some (p\<lparr>dl_audit := rows\<rparr>)\<rparr>))"

definition dash_audit :: "dash_env \<Rightarrow> principal \<Rightarrow> string \<Rightarrow> string option \<Rightarrow> pyval dict \<Rightarrow> unit dash" where
  "dash_audit D p action resource meta w =
     (Inr (), put_audit D (p_tenant p) (p_sub p) action resource (if meta = [] then PyNone else PyDict meta) w)"

text \<open>A statement on the open pool.\<close>

definition db_write :: "(dash_db \<Rightarrow> (pyexc, 'a) result \<times> dash_db) \<Rightarrow> 'a dash" where
  "db_write f w =
     (case dw_pool w of
        None \<Rightarrow> (Inl AttributeError, w)
      | Some p \<Rightarrow>
          if \<not> dw_db_up w then (Inl db_error, w)
          else case f (dl_db p) of (r, db) \<Rightarrow> (r, w\<lparr>dw_pool := Some (p\<lparr>dl_db := db\<rparr>)\<rparr>))"

section \<open>Login and logout\<close>

definition render_token :: "dash_env \<Rightarrow> dash_request \<Rightarrow> (string \<Rightarrow> dash_response) \<Rightarrow> route_out dash" where
  "render_token D r f = dbind (dlift (csrf_token (dn_csrf D) (dn_nonce D) r)) (\<lambda>(tok, issued). dret (f tok, issued))"

definition login_form :: "dash_env \<Rightarrow> dash_request \<Rightarrow> route_out dash" where
  "login_form D r = render_token D r (\<lambda>tok. page_response ''login.html'' [(''error'', PyNone), (''csrf_token'', PyStr tok)])"

definition login_submit :: "dash_env \<Rightarrow> dash_request \<Rightarrow> string \<Rightarrow> route_out dash" where
  "login_submit D r token =
     (case verify_admin_token (ae_lib (dn_agg D)) (dn_now D) token (dn_settings D) of
        Inl _ \<Rightarrow> render_token D r (\<lambda>tok.
          (page_response ''login.html'' [(''error'', PyStr ''invalid or non-admin token''), (''csrf_token'', PyStr tok)])
            \<lparr>dp_status := 401\<rparr>)
      | Inr p \<Rightarrow>
          dbind (dash_audit D p ''login'' (Some (p_sub p)) []) (\<lambda>_.
            dret (set_csrf_cookie (dn_csrf D) (issue_csrf_token (dn_csrf D) (dn_nonce D))
              ((redirect_response ''/'')\<lparr>dp_cookies := [SetCookie (ds_session_cookie_name (dn_settings D)) token True
                  (effective_session_cookie_secure (dn_settings D))]\<rparr>), None)))"

definition logout :: "dash_env \<Rightarrow> route_out dash" where
  "logout D = dret
     ((redirect_response ''/login'')\<lparr>dp_cookies :=
        [DeleteCookie (ds_session_cookie_name (dn_settings D)), DeleteCookie (ds_csrf_cookie_name (dn_settings D))]\<rparr>, None)"

section \<open>Pages\<close>

definition principal_json :: "principal \<Rightarrow> pyval" where
  "principal_json p = PyDict
     [(''sub'', PyStr (p_sub p)), (''tenant'', PyStr (p_tenant p)), (''role'', PyStr (p_role p)), (''name'', p_name p)]"

definition workspace_json :: "principal \<Rightarrow> pyval" where
  "workspace_json p = PyDict
     [(''tenant_id'', PyStr (p_tenant p)), (''display_name'', PyStr (p_tenant p)), (''is_current'', PyBool True)]"

definition page_ctx :: "dash_env \<Rightarrow> principal \<Rightarrow> string \<Rightarrow> pyval dict" where
  "page_ctx D p tok =
     [(''principal'', principal_json p), (''env'', PyStr (env_name (cfg_env (dn_settings D)))), (''csrf_token'', PyStr tok),
      (''workspaces'', PyList [workspace_json p]), (''current_tenant_id'', PyStr (p_tenant p))]"

definition page :: "dash_env \<Rightarrow> dash_request \<Rightarrow> string \<Rightarrow> string \<Rightarrow> route_out dash" where
  "page D r name active = with_page D r (\<lambda>p.
     render_token D r (\<lambda>tok. page_response name (page_ctx D p tok @ [(''active'', PyStr active)])))"

text \<open>The shells: path, template and active tab.\<close>

definition pages :: "(string \<times> string \<times> string) list" where
  "pages =
     [(''/'', ''overview.html'', ''overview''), (''/incidents'', ''incidents.html'', ''incidents''),
      (''/findings'', ''findings.html'', ''findings''), (''/pipeline'', ''pipeline.html'', ''pipeline''),
      (''/pm'', ''pm.html'', ''pm''), (''/cost'', ''cost.html'', ''cost''), (''/qa'', ''qa.html'', ''qa''),
      (''/agents'', ''agents.html'', ''agents''), (''/workspace'', ''workspace.html'', ''workspace''),
      (''/activity'', ''activity.html'', ''activity''), (''/tokens'', ''tokens.html'', ''tokens''),
      (''/privacy'', ''privacy.html'', ''privacy'')]"

definition agent_detail_page :: "dash_env \<Rightarrow> dash_request \<Rightarrow> string \<Rightarrow> route_out dash" where
  "agent_detail_page D r slug = with_page D r (\<lambda>p.
     render_token D r (\<lambda>tok. page_response ''agent_detail.html''
       (page_ctx D p tok @ [(''active'', PyStr ''agents''), (''slug'', PyStr slug)])))"

section \<open>Fragments\<close>

definition fragment :: "string \<Rightarrow> pyval dict dash \<Rightarrow> route_out dash" where
  "fragment tpl ctx = plain (dbind ctx (\<lambda>c. dret (page_response tpl c)))"

definition partial_overview :: "dash_env \<Rightarrow> dash_request \<Rightarrow> route_out dash" where
  "partial_overview D r = with_session D r (\<lambda>_. fragment ''partials/overview.html''
     (dbind (overview_context (dn_agg D) (dn_now D) (dn_registry D)) (\<lambda>c.
        dret (c @ [(''env'', PyStr (env_name (cfg_env (dn_settings D))))]))))"

definition partial_incidents :: "dash_env \<Rightarrow> dash_request \<Rightarrow> route_out dash" where
  "partial_incidents D r = with_session D r (\<lambda>p. fragment ''partials/incidents.html''
     (incidents_context (dn_agg D) (dn_now D) (dn_registry D) 50 (p_tenant p)))"

definition partial_findings :: "dash_env \<Rightarrow> dash_request \<Rightarrow> string option \<Rightarrow> route_out dash" where
  "partial_findings D r severity = with_session D r (\<lambda>_. fragment ''partials/findings.html''
     (findings_context (dn_agg D) (dn_now D) (dn_registry D) severity))"

definition partial_qa :: "dash_env \<Rightarrow> dash_request \<Rightarrow> string option \<Rightarrow> route_out dash" where
  "partial_qa D r severity = with_session D r (\<lambda>_. fragment ''partials/qa.html''
     (qa_context (dn_agg D) (dn_now D) (dn_registry D) severity))"

definition partial_pipeline :: "dash_env \<Rightarrow> dash_request \<Rightarrow> route_out dash" where
  "partial_pipeline D r = with_session D r (\<lambda>_. fragment ''partials/pipeline.html''
     (pipeline_context (dn_agg D) (dn_now D) (dn_registry D)))"

definition partial_pm :: "dash_env \<Rightarrow> dash_request \<Rightarrow> route_out dash" where
  "partial_pm D r = with_session D r (\<lambda>_. fragment ''partials/pm.html''
     (pm_context (dn_agg D) (dn_now D) (dn_registry D)))"

definition partial_cost :: "dash_env \<Rightarrow> dash_request \<Rightarrow> route_out dash" where
  "partial_cost D r = with_session D r (\<lambda>_. fragment ''partials/cost.html''
     (cost_context (dn_agg D) (dn_now D) (dn_registry D)))"

text \<open>
  \<open>parse_ts\<close> is \<open>datetime.fromisoformat\<close>, \<open>None\<close> on its \<open>ValueError\<close>; the cursor is then left out.
\<close>

definition partial_activity ::
  "dash_env \<Rightarrow> (string \<Rightarrow> secs option) \<Rightarrow> dash_request \<Rightarrow> string option \<Rightarrow> string option \<Rightarrow> string option \<Rightarrow> string option
    \<Rightarrow> route_out dash" where
  "partial_activity D parse_ts r action actor q before = with_session D r (\<lambda>p. fragment ''partials/activity.html''
     (activity_context (p_tenant p) action actor q
       (case before of None \<Rightarrow> None | Some b \<Rightarrow> if b = [] then None else parse_ts b) 100))"

definition partial_workspace :: "dash_env \<Rightarrow> dash_request \<Rightarrow> route_out dash" where
  "partial_workspace D r = with_session D r (\<lambda>p. fragment ''partials/workspace.html''
     (dret (workspace_context (dn_registry D) p)))"

definition partial_privacy :: "dash_env \<Rightarrow> dash_request \<Rightarrow> route_out dash" where
  "partial_privacy D r = with_session D r (\<lambda>_. fragment ''partials/privacy.html''
     (dlift (privacy_context (dn_settings D))))"

definition partial_agent :: "dash_env \<Rightarrow> dash_request \<Rightarrow> string \<Rightarrow> route_out dash" where
  "partial_agent D r slug = with_session D r (\<lambda>_. fragment ''partials/agent_detail.html''
     (agent_detail_context (dn_agg D) (dn_now D) (dn_registry D) slug))"

section \<open>Panels\<close>

definition list_workspaces :: "dash_env \<Rightarrow> dash_request \<Rightarrow> route_out dash" where
  "list_workspaces D r = with_page D r (\<lambda>p.
     dret (page_response [] [(''workspaces'', PyList [workspace_json p]), (''principal_tenant'', PyStr (p_tenant p))], None))"

definition node_json :: "health_dto \<Rightarrow> (pyexc, pyval) result" where
  "node_json h = rbind (health_status h) (\<lambda>st. Inr (PyDict
     [(''name'', hd_slug h), (''status'', PyStr st), (''uptime_s'', hd_uptime h), (''error'', hd_error h)]))"

definition node_health_partial :: "dash_env \<Rightarrow> dash_request \<Rightarrow> route_out dash" where
  "node_health_partial D r = with_session D r (\<lambda>_ w.
     case on_agg (agents_health (dn_agg D) (dn_now D) (dn_registry D) False) w of
       (Inl e, w1) \<Rightarrow> (Inr (page_response ''_node_health.html''
          [(''nodes'', PyList []), (''unavailable'', PyStr (dn_exc_text D e))], None), w1)
     | (Inr agents, w1) \<Rightarrow>
         (rbind (rmap node_json (filter (\<lambda>h. hd_kind h \<noteq> PyStr ''self'') agents)) (\<lambda>nodes.
            Inr (page_response ''_node_health.html'' [(''nodes'', PyList nodes), (''unavailable'', PyNone)], None)), w1))"

end
