(* ===== verification/DashActions.thy ===== *)
theory DashActions
  imports DashApi
begin

text \<open>
  The routes of \<open>dashboard/api.py\<close> that change something or leave the console: the audit export, the
  actions proxied to the agents, the triage overlay; the personal access token routes
  (\<open>dashboard/pat_routes.py\<close>); the background loops, one round at a time, and the start of the
  process.
\<close>

section \<open>Audit export\<close>

definition audit_columns :: "string list" where
  "audit_columns = [''id'', ''ts'', ''actor'', ''action'', ''resource'', ''metadata'']"

definition export_row :: "audit_row \<Rightarrow> pyval" where
  "export_row r = PyDict
     [(''id'', PyInt (int (ar_id r))), (''ts'', PyStr (isoformat (ar_ts r))), (''actor'', PyStr (ar_actor r)),
      (''action'', PyStr (ar_action r)), (''resource'', opt_text (ar_resource r)), (''metadata'', ar_metadata r)]"

definition json_text :: "pyval \<Rightarrow> string" where
  "json_text = json_dumps '', '' '': ''"

text \<open>The chunks of the stream: the bracket, each row behind a comma but the first, the bracket.\<close>

fun json_chunks :: "bool \<Rightarrow> audit_row list \<Rightarrow> string" where
  "json_chunks first [] = '']''"
| "json_chunks first (r # rs) = (if first then [] else '','') @ json_text (export_row r) @ json_chunks False rs"

definition json_export :: "audit_row list \<Rightarrow> string" where
  "json_export rows = ''['' @ json_chunks True rows"

text \<open>\<open>csv.writer\<close> with its defaults: a field with a comma, a quote or a line break is quoted.\<close>

definition csv_special :: "char \<Rightarrow> bool" where
  "csv_special c \<longleftrightarrow> c \<in> {CHR '','', CHR 0x22, CHR 0x0A, CHR 0x0D}"

definition csv_field :: "string \<Rightarrow> string" where
  "csv_field s =
     (if list_ex csv_special s
      then CHR 0x22 # concat (map (\<lambda>c. if c = CHR 0x22 then [CHR 0x22, CHR 0x22] else [c]) s) @ [CHR 0x22]
      else s)"

definition csv_row :: "string list \<Rightarrow> string" where
  "csv_row fs = join '','' (map csv_field fs) @ [CHR 0x0D, CHR 0x0A]"

definition csv_cells :: "audit_row \<Rightarrow> string list" where
  "csv_cells r =
     [show_int (int (ar_id r)), isoformat (ar_ts r), ar_actor r, ar_action r,
      (case ar_resource r of None \<Rightarrow> [] | Some x \<Rightarrow> x), json_text (ar_metadata r)]"

definition csv_export :: "audit_row list \<Rightarrow> string" where
  "csv_export rows = concat (map csv_row (audit_columns # map csv_cells rows))"

text \<open>\<open>strftime('%Y%m%dT%H%M%SZ')\<close>.\<close>

definition compact_stamp :: "secs \<Rightarrow> string" where
  "compact_stamp t =
     (let d = day_of t; s = \<lfloor>t - of_int d * 86400\<rfloor> in
      case civil d of (y, m, dd) \<Rightarrow>
        pad 4 y @ pad 2 m @ pad 2 dd @ ''T'' @ pad 2 (s div 3600) @ pad 2 (s div 60 mod 60) @ pad 2 (s mod 60) @ ''Z'')"

text \<open>
  The response of an export that ends. The source has sent its status 200 before it reads the first row,
  so a database that fails by then breaks the stream off, which is the error here.
\<close>

definition audit_export :: "dash_env \<Rightarrow> dash_request \<Rightarrow> string \<Rightarrow> route_out dash" where
  "audit_export D r fmt = with_session D r (\<lambda>p w.
     if fmt \<noteq> ''json'' \<and> fmt \<noteq> ''csv'' then (Inl (HttpError 400 ''format must be json or csv''), w)
     else if \<not> has_pool w then (Inl (HttpError 503 ''audit log database is unavailable''), w)
     else plain (dbind (db_read (\<lambda>q. iter_audit_log (p_tenant p) 50000 (dl_audit q))) (\<lambda>rows.
       dret (page_response []
         [(''body'', PyStr (if fmt = ''json'' then json_export rows else csv_export rows)),
          (''media_type'', PyStr (if fmt = ''json'' then ''application/json'' else ''text/csv'')),
          (''filename'', PyStr (''audit-'' @ p_tenant p @ ''-'' @ compact_stamp (dn_now D) @ ''.'' @ fmt))]))) w)"

section \<open>Actions on the agents\<close>

definition is_ok :: "agg_result \<Rightarrow> bool" where
  "is_ok res = (case res of Unavailable _ _ \<Rightarrow> False | _ \<Rightarrow> True)"

definition action_result :: "string \<Rightarrow> agg_result \<Rightarrow> dash_response" where
  "action_result action res = page_response ''partials/action_result.html''
     (case res of
        Unavailable _ reason \<Rightarrow> [(''ok'', PyBool False), (''action'', PyStr action), (''reason'', PyStr reason)]
      | _ \<Rightarrow> [(''ok'', PyBool True), (''action'', PyStr action), (''reason'', PyNone)])"

text \<open>An action: call the agent with the capability, if there is one, write it down, report.\<close>

definition call_agent :: "string \<Rightarrow> agent_spec option \<Rightarrow> (agent_spec \<Rightarrow> agg_result agg) \<Rightarrow> agg_result dash" where
  "call_agent label spec f = (case spec of None \<Rightarrow> dret (Unavailable label ''no agent'') | Some s \<Rightarrow> on_agg (f s))"

definition run_action ::
  "dash_env \<Rightarrow> principal \<Rightarrow> string \<Rightarrow> string \<Rightarrow> string \<Rightarrow> string \<Rightarrow> (agent_spec \<Rightarrow> agg_result agg) \<Rightarrow> route_out dash" where
  "run_action D p feature label name shown f = plain
     (dbind (call_agent label (with_feature (dn_registry D) feature) f) (\<lambda>res.
      dbind (dash_audit D p name (Some label) [(''ok'', PyBool (is_ok res))]) (\<lambda>_.
        dret (action_result shown res))))"

definition action_sweep :: "dash_env \<Rightarrow> dash_request \<Rightarrow> route_out dash" where
  "action_sweep D r = with_session D r (\<lambda>p.
     run_action D p ''incidents'' ''incidents'' ''sweep'' ''sweep'' (agg_sweep (dn_agg D) (dn_now D)))"

definition action_scan :: "dash_env \<Rightarrow> dash_request \<Rightarrow> route_out dash" where
  "action_scan D r = with_session D r (\<lambda>p.
     run_action D p ''findings'' ''findings'' ''scan'' ''scan'' (agg_scan (dn_agg D) (dn_now D)))"

definition action_qa_scan :: "dash_env \<Rightarrow> dash_request \<Rightarrow> route_out dash" where
  "action_qa_scan D r = with_session D r (\<lambda>p.
     run_action D p ''coverage'' ''qa'' ''qa-scan'' ''QA scan'' (agg_scan (dn_agg D) (dn_now D)))"

definition action_webext_run :: "dash_env \<Rightarrow> dash_request \<Rightarrow> route_out dash" where
  "action_webext_run D r = with_session D r (\<lambda>p. plain
     (dbind (call_agent ''runs'' (with_feature (dn_registry D) ''runs'') (\<lambda>s. webext_run (dn_agg D) (dn_now D) s 1)) (\<lambda>res.
      dbind (dash_audit D p ''webext-run'' (Some ''runs'') []) (\<lambda>_.
      dbind (case res of
               AlreadyRunning _ \<Rightarrow> dret (''running'', PyNone, PyNone)
             | Unavailable _ reason \<Rightarrow> dret (''offline'', PyNone, PyStr reason)
             | Payload v \<Rightarrow> dbind (answer_get v ''run_id'' PyNone) (\<lambda>i. dret (''started'', i, PyNone)))
        (\<lambda>(state, run_id, reason).
          dret (page_response ''partials/webext_run_result.html''
            [(''state'', PyStr state), (''run_id'', run_id), (''reason'', reason)]))))))"

section \<open>Triage\<close>

definition finding_resolve_statuses :: "string list" where
  "finding_resolve_statuses = [''fixed'', ''dismissed'', ''wontfix'', ''confirmed'', ''needs_human'']"

definition clean_note :: "string option \<Rightarrow> string option" where
  "clean_note note =
     (let t = take 2000 (strip (opt_or_empty note)) in if t = [] then None else Some t)"

definition triage_key :: "string list \<Rightarrow> string \<Rightarrow> string \<Rightarrow> string \<Rightarrow> (pyexc, string) result" where
  "triage_key statuses kind status key =
     (if status \<notin> set statuses then Inl (HttpError 400 (''invalid '' @ kind @ '' status''))
      else let k = strip key in if k = [] then Inl (HttpError 400 ''dedup_key required'') else Inr k)"

definition action_finding_resolve ::
  "dash_env \<Rightarrow> dash_request \<Rightarrow> string \<Rightarrow> string \<Rightarrow> string \<Rightarrow> string option \<Rightarrow> route_out dash" where
  "action_finding_resolve D r key status source note = with_session D r (\<lambda>p.
     dbind (dlift (triage_key finding_resolve_statuses ''finding'' status key)) (\<lambda>k.
     dbind (call_agent source (with_feature (dn_registry D) (if source = ''qa'' then ''coverage'' else ''findings''))
        (\<lambda>s. resolve_finding (dn_agg D) (dn_now D) s k status (p_sub p) (clean_note note))) (\<lambda>res.
     dbind (dash_audit D p ''finding-resolve'' (Some k)
        [(''status'', PyStr status), (''source'', PyStr source), (''ok'', PyBool (is_ok res))]) (\<lambda>_.
       if source = ''qa''
       then fragment ''partials/qa.html'' (qa_context (dn_agg D) (dn_now D) (dn_registry D) None)
       else fragment ''partials/findings.html'' (findings_context (dn_agg D) (dn_now D) (dn_registry D) None)))))"

text \<open>Without a pool the decision is dropped (\<open>set_incident_triage\<close> does nothing).\<close>

definition store_triage :: "dash_env \<Rightarrow> principal \<Rightarrow> string \<Rightarrow> string \<Rightarrow> string option \<Rightarrow> unit dash" where
  "store_triage D p k status note w =
     (if \<not> has_pool w then (Inr (), w)
      else db_write (\<lambda>db.
        (Inr (), case set_incident_triage (p_tenant p) k status (p_sub p) note (dn_now D) (Some db) of
           None \<Rightarrow> db | Some db1 \<Rightarrow> db1)) w)"

definition action_incident_triage ::
  "dash_env \<Rightarrow> dash_request \<Rightarrow> string \<Rightarrow> string \<Rightarrow> string option \<Rightarrow> route_out dash" where
  "action_incident_triage D r key status note = with_session D r (\<lambda>p.
     dbind (dlift (triage_key incident_triage_statuses ''incident'' status key)) (\<lambda>k.
     dbind (store_triage D p k status (clean_note note)) (\<lambda>_.
     dbind (dash_audit D p ''incident-triage'' (Some k) [(''status'', PyStr status)]) (\<lambda>_.
       fragment ''partials/incidents.html''
         (incidents_context (dn_agg D) (dn_now D) (dn_registry D) 50 (p_tenant p))))))"

section \<open>Personal access tokens\<close>

definition role_rank :: "nat dict" where
  "role_rank = [(''viewer'', 0), (''manager'', 1), (''admin'', 2)]"

definition default_role :: string where
  "default_role = ''viewer''"

definition rank_of :: "string \<Rightarrow> nat" where
  "rank_of role = (case map_of role_rank role of None \<Rightarrow> 0 | Some n \<Rightarrow> n)"

definition clamp_role :: "string \<Rightarrow> string \<Rightarrow> string" where
  "clamp_role requested minter_role =
     (let role = (if map_of role_rank requested \<noteq> None then requested else default_role)
      in if rank_of requested \<le> rank_of minter_role then role else minter_role)"

definition with_admin :: "dash_env \<Rightarrow> dash_request \<Rightarrow> (principal \<Rightarrow> route_out dash) \<Rightarrow> route_out dash" where
  "with_admin D r f = with_session D r (\<lambda>p.
     if \<not> is_admin p then draise (HttpError 403 ''admin required'') else f p)"

text \<open>Nothing sets the column \<open>last_used_at\<close>: it is null in every row.\<close>

definition pat_json :: "pat_view \<Rightarrow> pyval" where
  "pat_json v = PyDict
     [(''id'', PyInt (pv_id v)), (''prefix'', PyStr (pv_prefix v)), (''name'', PyStr (pv_name v)), (''scope'', PyStr (pv_scope v)),
      (''role'', PyStr (pv_role v)), (''created_by'', PyStr (pv_created_by v)),
      (''created_at'', PyStr (isoformat (pv_created_at v))), (''expires_at'', PyStr (isoformat (pv_expires_at v))),
      (''last_used_at'', PyNone), (''revoked_at'', case pv_revoked_at v of None \<Rightarrow> PyNone | Some t \<Rightarrow> PyStr (isoformat t))]"

definition tokens_page :: "pyval \<Rightarrow> pat_view list \<Rightarrow> dash_response" where
  "tokens_page unavailable ts = page_response ''partials/tokens.html''
     [(''unavailable'', unavailable), (''tokens'', PyList (map pat_json ts))]"

definition partial_tokens :: "dash_env \<Rightarrow> dash_request \<Rightarrow> route_out dash" where
  "partial_tokens D r = with_admin D r (\<lambda>p w.
     if \<not> has_pool w then (Inr (tokens_page (PyStr ''database is unavailable'') [], None), w)
     else plain (dbind (db_read (\<lambda>q. list_pats (p_tenant p) (dl_db q))) (\<lambda>ts. dret (tokens_page PyNone ts))) w)"

text \<open>
  The loop over \<open>n\<close> more draws, the next of them \<open>draws i\<close>: a taken prefix is drawn again, any other
  error ends it. The value is the secret that was stored, or \<open>None\<close> when every draw was taken.
\<close>

fun mint_attempts ::
  "(string \<Rightarrow> string) \<Rightarrow> (nat \<Rightarrow> string) \<Rightarrow> nat \<Rightarrow> nat \<Rightarrow> (string \<Rightarrow> string \<Rightarrow> dash_db \<Rightarrow> (pyexc, int) result \<times> dash_db)
    \<Rightarrow> dash_db \<Rightarrow> (pyexc, string option) result \<times> dash_db" where
  "mint_attempts sha draws i 0 create db = (Inr None, db)"
| "mint_attempts sha draws i (Suc n) create db =
     (case mint_pat sha (draws i) of
        (secret, pfx, hash) \<Rightarrow>
          (case create pfx hash db of
             (Inr _, db1) \<Rightarrow> (Inr (Some secret), db1)
           | (Inl e, db1) \<Rightarrow>
               if e = Upstream ''UniqueViolation'' then mint_attempts sha draws (Suc i) n create db1 else (Inl e, db1)))"

definition expiry_days :: "int \<Rightarrow> int" where
  "expiry_days d = max 1 (min (if d = 0 then 30 else d) 365)"

definition token_scope :: "string \<Rightarrow> string" where
  "token_scope scope = strip (if scope = [] then ''read:agents'' else scope)"

definition mint_pat_route ::
  "dash_env \<Rightarrow> (string \<Rightarrow> string) \<Rightarrow> (nat \<Rightarrow> string) \<Rightarrow> dash_request \<Rightarrow> string \<Rightarrow> string \<Rightarrow> string \<Rightarrow> int \<Rightarrow> route_out dash" where
  "mint_pat_route D sha draws r name scope role days = with_admin D r (\<lambda>p w.
     if \<not> has_pool w then (Inl (HttpError 503 ''token store is unavailable''), w)
     else if strip name = [] then (Inl (HttpError 400 ''name is required''), w)
     else
       let label = strip name; expires_at = dn_now D + of_int (expiry_days days) * 86400;
           effective = clamp_role role (p_role p); scope_label = token_scope scope
       in dbind (db_write (mint_attempts sha draws 0 5 (\<lambda>pfx hash.
              create_pat (p_tenant p) pfx hash label scope_label effective (p_sub p) expires_at (dn_now D)))) (\<lambda>minted.
          case minted of
            None \<Rightarrow> draise (HttpError 500 ''could not allocate a unique token prefix'')
          | Some secret \<Rightarrow>
              dbind (dash_audit D p ''token-mint'' (Some label)
                 [(''scope'', PyStr scope_label), (''role'', PyStr effective)]) (\<lambda>_.
                dret (page_response ''partials/token_reveal.html''
                  [(''secret'', PyStr secret), (''name'', PyStr label), (''role'', PyStr effective),
                   (''expires_at'', PyStr (isoformat expires_at))], None))) w)"

definition revoke_pat_route :: "dash_env \<Rightarrow> dash_request \<Rightarrow> int \<Rightarrow> route_out dash" where
  "revoke_pat_route D r i = with_admin D r (\<lambda>p w.
     if \<not> has_pool w then (Inl (HttpError 503 ''token store is unavailable''), w)
     else dbind (db_write (\<lambda>db. case revoke_pat (p_tenant p) i (dn_now D) db of (b, db1) \<Rightarrow> (Inr b, db1))) (\<lambda>revoked.
          dbind (if revoked then dash_audit D p ''token-revoke'' (Some (show_int i)) [] else dret ()) (\<lambda>_.
            plain (dbind (db_read (\<lambda>q. list_pats (p_tenant p) (dl_db q))) (\<lambda>ts. dret (tokens_page PyNone ts))))) w)"

section \<open>Background loops\<close>

text \<open>
  A figure of a tile as a column takes it: null, or a number that fits the column's type. What
  Postgres makes of anything else is outside the model.
\<close>

definition num_column :: "pyval \<Rightarrow> (pyexc, rat option) result" where
  "num_column v =
     (case v of
        PyNone \<Rightarrow> Inr None
      | PyInt k \<Rightarrow> Inr (Some (of_int k))
      | PyFloat (Dec m e) \<Rightarrow> Inr (Some (dec_val m e))
      | _ \<Rightarrow> Inl Unrepresentable)"

definition int_column :: "pyval \<Rightarrow> (pyexc, int option) result" where
  "int_column v =
     (case v of
        PyNone \<Rightarrow> Inr None
      | PyInt k \<Rightarrow> if \<bar>k\<bar> < 2 ^ 31 then Inr (Some k) else Inl (Upstream ''NumericValueOutOfRange'')
      | _ \<Rightarrow> Inl Unrepresentable)"

text \<open>
  A text or boolean column takes a text or a boolean. The loop below only sees a board it has just
  refreshed, whose slugs, liveness and readiness are of these types (AggProps, \<open>fresh_columns\<close>).
\<close>

definition as_str :: "pyval \<Rightarrow> (pyexc, string) result" where
  "as_str v = (case v of PyStr s \<Rightarrow> Inr s | _ \<Rightarrow> Inl Unrepresentable)"

definition as_bool :: "pyval \<Rightarrow> (pyexc, bool) result" where
  "as_bool v = (case v of PyBool b \<Rightarrow> Inr b | _ \<Rightarrow> Inl Unrepresentable)"

definition as_opt :: "(pyval \<Rightarrow> (pyexc, 'a) result) \<Rightarrow> pyval \<Rightarrow> (pyexc, 'a option) result" where
  "as_opt f v = (if v = PyNone then Inr None else rbind (f v) (\<lambda>x. Inr (Some x)))"

definition tile_heartbeat :: "secs \<Rightarrow> health_dto \<Rightarrow> (pyexc, heartbeat_row) result" where
  "tile_heartbeat now h =
     rbind (as_str (hd_slug h)) (\<lambda>agent. rbind (as_bool (hd_live h)) (\<lambda>up. rbind (as_opt as_bool (hd_ready h)) (\<lambda>rd.
     rbind (num_column (hd_uptime h)) (\<lambda>ut. rbind (num_column (hd_error_rate h)) (\<lambda>er.
     rbind (int_column (hd_requests h)) (\<lambda>rq.
       Inr \<lparr>hr_agent = agent, hr_ts = now, hr_up = up, hr_ready = rd, hr_uptime = ut,
            hr_error_rate = er, hr_requests = rq\<rparr>))))))"

definition snapshot_tile :: "secs \<Rightarrow> health_dto \<Rightarrow> unit dash" where
  "snapshot_tile now h =
     (if hd_kind h = PyStr ''self'' then dret ()
      else
        dbind (db_write (\<lambda>db. case tile_heartbeat now h of Inl e \<Rightarrow> (Inl e, db) | Inr row \<Rightarrow> (Inr (), record_heartbeat row db))) (\<lambda>_.
        dbind (dlift (as_str (hd_slug h))) (\<lambda>agent.
        dbind (if hd_cost h = PyNone then dret () else db_write (record_cost agent (hd_cost h) now)) (\<lambda>_.
          if truthy (hd_cost_by_model h) then db_write (record_cost_by_model agent (hd_cost_by_model h) now)
          else dret ()))))"

fun snapshot_tiles :: "secs \<Rightarrow> health_dto list \<Rightarrow> unit dash" where
  "snapshot_tiles now [] = dret ()"
| "snapshot_tiles now (h # hs) = dbind (snapshot_tile now h) (\<lambda>_. snapshot_tiles now hs)"

text \<open>One round of each loop; its exceptions are logged and swallowed.\<close>

definition snapshot_round :: "dash_env \<Rightarrow> dash_world \<Rightarrow> dash_world" where
  "snapshot_round D w =
     snd (dbind (on_agg (agents_health (dn_agg D) (dn_now D) (dn_registry D) True)) (snapshot_tiles (dn_now D)) w)"

definition retention_days :: int where
  "retention_days = 90"

definition prune_round :: "dash_env \<Rightarrow> int \<Rightarrow> dash_world \<Rightarrow> dash_world" where
  "prune_round D days w =
     snd (dbind (db_write (\<lambda>db. (Inr (), rollup_cost_daily db))) (\<lambda>_.
       db_write (\<lambda>db. case prune_old_data days (dn_now D) (Some db) of
         (_, Some db1) \<Rightarrow> (Inr (), db1) | (_, None) \<Rightarrow> (Inr (), db))) w)"

text \<open>
  The start: the pool is opened within its timeout or never; the loops run only when both schemas
  could be made sure of.
\<close>

definition open_pool :: "bool \<Rightarrow> dash_pool \<Rightarrow> dash_pool option" where
  "open_pool opens stored = (if opens then Some stored else None)"

definition lifespan_start :: "bool \<Rightarrow> bool \<Rightarrow> dash_pool \<Rightarrow> bool \<Rightarrow> (string \<times> secs) dict option \<Rightarrow> dash_world \<times> bool" where
  "lifespan_start opens schema_ok stored redis_up cache =
     (let pool = open_pool opens stored in
      (\<lparr>dw_pool = pool, dw_db_up = opens,
        dw_agg = \<lparr>ag_token = upstream_new, ag_cache = cache, ag_redis_up = redis_up\<rparr>\<rparr>, pool \<noteq> None \<and> schema_ok))"


section \<open>The route table\<close>

text \<open>A matched route with the parameters FastAPI parsed for it.\<close>

datatype dash_route =
    LoginForm | LoginSubmit string | Logout
  | Shell string string | AgentPage string | Workspaces
  | Overview | Incidents | Findings "string option" | Qa "string option" | Pipeline | Pm | Cost
  | Activity "string option" "string option" "string option" "string option"
  | Workspace | Privacy | AgentPartial string | NodeHealth | AuditExport string | Tokens
  | Sweep | Scan | QaScan | WebextRun
  | FindingResolve string string string "string option"
  | IncidentTriage string string "string option"
  | TokenMint string string string int | TokenRevoke int

definition route_method :: "dash_route \<Rightarrow> string" where
  "route_method t =
     (case t of
        LoginSubmit _ \<Rightarrow> ''POST'' | Logout \<Rightarrow> ''POST'' | Sweep \<Rightarrow> ''POST'' | Scan \<Rightarrow> ''POST'' | QaScan \<Rightarrow> ''POST''
      | WebextRun \<Rightarrow> ''POST'' | FindingResolve _ _ _ _ \<Rightarrow> ''POST'' | IncidentTriage _ _ _ \<Rightarrow> ''POST''
      | TokenMint _ _ _ _ \<Rightarrow> ''POST'' | TokenRevoke _ \<Rightarrow> ''POST'' | _ \<Rightarrow> ''GET'')"

text \<open>What the routes draw or leave to the library: SHA-256 in hex, the secrets, reading a time.\<close>

record dash_libs =
  lb_sha :: "string \<Rightarrow> string"
  lb_draws :: "nat \<Rightarrow> string"
  lb_parse_ts :: "string \<Rightarrow> secs option"

definition route_body :: "dash_env \<Rightarrow> dash_libs \<Rightarrow> dash_route \<Rightarrow> dash_request \<Rightarrow> route_out dash" where
  "route_body D L t r =
     (case t of
        LoginForm \<Rightarrow> login_form D r | LoginSubmit token \<Rightarrow> login_submit D r token | Logout \<Rightarrow> logout D
      | Shell name active \<Rightarrow> page D r name active | AgentPage slug \<Rightarrow> agent_detail_page D r slug
      | Workspaces \<Rightarrow> list_workspaces D r | Overview \<Rightarrow> partial_overview D r | Incidents \<Rightarrow> partial_incidents D r
      | Findings sev \<Rightarrow> partial_findings D r sev | Qa sev \<Rightarrow> partial_qa D r sev | Pipeline \<Rightarrow> partial_pipeline D r
      | Pm \<Rightarrow> partial_pm D r | Cost \<Rightarrow> partial_cost D r
      | Activity action actor q before \<Rightarrow> partial_activity D (lb_parse_ts L) r action actor q before
      | Workspace \<Rightarrow> partial_workspace D r | Privacy \<Rightarrow> partial_privacy D r | AgentPartial slug \<Rightarrow> partial_agent D r slug
      | NodeHealth \<Rightarrow> node_health_partial D r | AuditExport fmt \<Rightarrow> audit_export D r fmt | Tokens \<Rightarrow> partial_tokens D r
      | Sweep \<Rightarrow> action_sweep D r | Scan \<Rightarrow> action_scan D r | QaScan \<Rightarrow> action_qa_scan D r
      | WebextRun \<Rightarrow> action_webext_run D r
      | FindingResolve key status source note \<Rightarrow> action_finding_resolve D r key status source note
      | IncidentTriage key status note \<Rightarrow> action_incident_triage D r key status note
      | TokenMint name scope role days \<Rightarrow> mint_pat_route D (lb_sha L) (lb_draws L) r name scope role days
      | TokenRevoke i \<Rightarrow> revoke_pat_route D r i)"

definition route_handler :: "dash_env \<Rightarrow> dash_libs \<Rightarrow> dash_route \<Rightarrow> dash_world dash_handler" where
  "route_handler D L t r = http_answer (route_body D L t r)"

text \<open>A request through the middleware to its route.\<close>

definition dash_serve ::
  "dash_env \<Rightarrow> dash_libs \<Rightarrow> string \<Rightarrow> dash_route \<Rightarrow> dash_request \<Rightarrow> dash_world \<Rightarrow> (pyexc, dash_response) result \<times> dash_world" where
  "dash_serve D L nonce t r w = csrf_middleware (dn_csrf D) nonce (route_handler D L t) r w"

end
