(* ===== verification/RateTheorems.thy ===== *)
theory RateTheorems
  imports RateLimit
begin

text \<open>The rate limiter's bound and its liveness, over any pattern of Redis failures.\<close>

section \<open>One request\<close>

definition lm_level :: "secs \<Rightarrow> string \<Rightarrow> secs \<Rightarrow> limiter \<times> redis_buckets \<Rightarrow> rat" where
  "lm_level off ip t st = local_level (lm_rate (fst st)) ip t (lm_local (fst st)) +
     redis_level (lm_rate (fst st)) off (rl_key (lm_agent (fst st)) ip) t (snd st)"

definition lm_inv :: "secs \<Rightarrow> int \<Rightarrow> string \<Rightarrow> secs \<Rightarrow> limiter \<times> redis_buckets \<Rightarrow> bool" where
  "lm_inv off rate agent t st \<longleftrightarrow> lm_rate (fst st) = rate \<and> lm_agent (fst st) = agent
     \<and> local_inv t (lm_local (fst st)) \<and> redis_inv off t (snd st)"

lemma redis_client_frame:
  "redis_client f lm = (b, lm1) \<Longrightarrow> lm_rate lm1 = lm_rate lm \<and> lm_agent lm1 = lm_agent lm \<and> lm_local lm1 = lm_local lm"
  by (auto simp: redis_client_def split: if_splits)

lemma allow_step:
  assumes r: "0 < rate" and inv: "lm_inv off rate agent t st"
    and a: "allow off f ip' t st = (b, st')"
  shows "lm_inv off rate agent t st'"
    and "lm_level off ip t st' \<le> lm_level off ip t st - (if ip' = ip \<and> b then 1 else 0)"
proof -
  obtain lm rs where st: "st = (lm, rs)" by (cases st)
  have lr: "limiter_rate rate = rate" using r by (simp add: limiter_rate_def)
  have p: "lm_rate lm = rate" "lm_agent lm = agent" and il: "local_inv t (lm_local lm)" and ir: "redis_inv off t rs"
    using inv st by (simp_all add: lm_inv_def)
  obtain c lm1 where c: "redis_client f lm = (c, lm1)" by fastforce
  note f1 = redis_client_frame [OF c]
  let ?l = "allow_local rate ip' t (lm_local lm)" and ?r = "allow_redis rate off (rl_key agent ip') t rs"
  have li: "local_inv t (snd ?l)" and ri: "redis_inv off t (snd ?r)"
    using lb.inv_take [OF il, of rate ip'] rb.inv_take [OF ir, of rate] lr by simp_all
  have ll: "local_level rate ip t (snd ?l) = local_level rate ip t (lm_local lm) - (if ip' = ip \<and> fst ?l then 1 else 0)"
    using lb.level_after [OF il, of rate ip ip'] lr by simp
  have k: "rl_key agent ip' = rl_key agent ip \<longleftrightarrow> ip' = ip" by (simp add: rl_key_def)
  have rl: "redis_level rate off (rl_key agent ip) t (snd ?r) =
      redis_level rate off (rl_key agent ip) t rs - (if ip' = ip \<and> fst ?r then 1 else 0)"
    using rb.level_after [OF ir, of rate "rl_key agent ip" "rl_key agent ip'"] lr k by simp
  have cases: "(b, st') = (fst ?r, lm1, snd ?r) \<or>
      (b, st') = (fst ?l, lm1\<lparr>lm_local := snd ?l\<rparr>, snd ?r) \<or>
      (b, st') = (fst ?l, lm1\<lparr>lm_local := snd ?l\<rparr>, rs)"
    using a c r p by (auto simp: allow_def st Let_def split: if_splits fate.splits)
  show "lm_inv off rate agent t st'" using cases f1 p il ir li ri by (auto simp: lm_inv_def)
  show "lm_level off ip t st' \<le> lm_level off ip t st - (if ip' = ip \<and> b then 1 else 0)"
    using cases f1 p ll rl by (auto simp: lm_level_def st)
qed

section \<open>Runs\<close>

type_synonym rl_event = "fate \<times> string \<times> secs"

fun allowed :: "secs \<Rightarrow> string \<Rightarrow> rl_event list \<Rightarrow> limiter \<times> redis_buckets \<Rightarrow> nat" where
  "allowed off ip [] st = 0"
| "allowed off ip ((f, ip', t) # evs) st =
     (case allow off f ip' t st of
        (b, st') \<Rightarrow> (if ip' = ip \<and> b then 1 else 0) + allowed off ip evs st')"

lemma lm_inv_later:
  assumes "lm_inv off rate agent t st" and "t \<le> t'"
  shows "lm_inv off rate agent t' st"
  using assms lb.inv_later rb.inv_later by (fastforce simp: lm_inv_def)

lemma lm_level_grows:
  assumes "0 < rate" and "lm_inv off rate agent t st" and "t \<le> t'"
  shows "lm_level off ip t' st \<le> lm_level off ip t st + 2 * ((t' - t) * refill_per_s rate)"
proof -
  have lr: "limiter_rate rate = rate" using assms(1) by (simp add: limiter_rate_def)
  have i: "local_inv t (lm_local (fst st))" "redis_inv off t (snd st)" using assms(2) by (simp_all add: lm_inv_def)
  from lb.level_grows [OF i(1) assms(3), of rate ip] rb.level_grows [OF i(2) assms(3), of rate "rl_key agent ip"] lr
  show ?thesis using assms(2) by (simp add: lm_inv_def lm_level_def)
qed

lemma lm_level_nonneg:
  assumes "0 < rate" and "lm_inv off rate agent t st"
  shows "0 \<le> lm_level off ip t st"
  using assms local_level_nonneg [of rate t "lm_local (fst st)" ip]
    redis_level_nonneg [of rate off t "snd st" "rl_key agent ip"]
  by (auto simp: lm_inv_def lm_level_def)

lemma allowed_bound:
  assumes "0 < rate" and "lm_inv off rate agent t0 st"
    and "sorted (t0 # map (\<lambda>ev. snd (snd ev)) evs)" and "\<forall>ev \<in> set evs. snd (snd ev) \<le> t1" and "t0 \<le> t1"
  shows "of_nat (allowed off ip evs st) \<le> lm_level off ip t0 st + 2 * ((t1 - t0) * refill_per_s rate)"
  using assms(2-)
proof (induction evs arbitrary: t0 st)
  case Nil
  have "0 \<le> (t1 - t0) * refill_per_s rate" using Nil.prems(4) assms(1) by simp
  with lm_level_nonneg [OF assms(1) Nil.prems(1), of ip] show ?case by simp
next
  case (Cons ev evs)
  obtain f ip' t where ev: "ev = (f, ip', t)" by (cases ev)
  obtain b st' where a: "allow off f ip' t st = (b, st')" by (cases "allow off f ip' t st")
  have t: "t0 \<le> t" "t \<le> t1" using Cons.prems ev by auto
  note it = lm_inv_later [OF Cons.prems(1) t(1)]
  note stp = allow_step [OF assms(1) it a]
  have "of_nat (allowed off ip evs st') \<le> lm_level off ip t st' + 2 * ((t1 - t) * refill_per_s rate)"
    by (rule Cons.IH) (use Cons.prems ev t stp(1) in auto)
  moreover note stp(2) [of ip] and lm_level_grows [OF assms(1) Cons.prems(1) t(1), of ip]
  moreover have "(t1 - t0) * refill_per_s rate = (t1 - t) * refill_per_s rate + (t - t0) * refill_per_s rate"
    by (simp add: algebra_simps)
  ultimately show ?case using ev a by (auto split: if_splits)
qed

section \<open>Properties\<close>

text \<open>
  C8: over any stretch of time a client gets at most the burst plus the refill, from each of the two
  stores: starting empty-handed, the requests of one address that pass between \<open>t0\<close> and \<open>t1\<close>, whatever
  the other addresses do and however Redis comes and goes, are at most twice \<open>rate\<close> plus \<open>rate\<close> per
  minute; and the expiry of Redis keys gives nobody a token.
\<close>

theorem rate_limit_bound:
  assumes "0 < lm_rate lm" and "lm_local lm = []"
    and "sorted (t0 # map (\<lambda>ev. snd (snd ev)) evs)" and "\<forall>ev \<in> set evs. snd (snd ev) \<le> t1" and "t0 \<le> t1"
  shows "of_nat (allowed off ip evs (lm, [])) \<le> 2 * (of_int (lm_rate lm) + (t1 - t0) * of_int (lm_rate lm) / 60)"
proof -
  have i: "lm_inv off (lm_rate lm) (lm_agent lm) t0 (lm, [])"
    using assms(2) by (simp add: lm_inv_def local_inv_def redis_inv_def)
  have "lm_level off ip t0 (lm, []) = 2 * of_int (lm_rate lm)"
    using assms(2) by (simp add: lm_level_def local_level_def redis_level_def redis_hget_def)
  with allowed_bound [OF assms(1) i assms(3-5), of ip] show ?thesis
    by (simp add: refill_per_s_def)
qed

definition demo_limiter :: limiter where
  "demo_limiter = \<lparr>lm_rate = 1, lm_agent = ''a'', lm_local = [], lm_redis = False, lm_redis_failed = False\<rparr>"

theorem rate_limit_bound_witness:
  "(of_nat (allowed 0 ''x'' [(RedisOk, ''x'', 1), (ErrBefore, ''x'', 2), (RedisOk, ''x'', 3), (ErrAfter, ''x'', 31)]
     (demo_limiter, [])) :: rat) \<le> 3"
  using rate_limit_bound [of demo_limiter 1 "[(RedisOk, ''x'', 1), (ErrBefore, ''x'', 2), (RedisOk, ''x'', 3), (ErrAfter, ''x'', 31)]"
      31 0 "''x''"]
  by (simp add: demo_limiter_def)

text \<open>
  Nobody is starved: a client whose buckets were last touched at \<open>t\<close> and who then waits
  \<open>60 / rate\<close> seconds is let through, by Redis and by the local fallback alike.
\<close>

theorem rate_limit_no_starvation:
  assumes "0 < lm_rate lm" and "local_inv t (lm_local lm)" and "redis_inv off t rs"
    and "t + 60 / of_int (lm_rate lm) \<le> t'"
  shows "fst (allow off f ip t' (lm, rs))"
proof -
  let ?r = "lm_rate lm"
  have lr: "limiter_rate ?r = ?r" using assms(1) by (simp add: limiter_rate_def)
  have pos: "(0::rat) < of_int ?r" using assms(1) by simp
  have tt: "t \<le> t'" and w: "1 \<le> (t' - t) * refill_per_s (limiter_rate ?r)" and b: "(1::rat) \<le> of_int (limiter_rate ?r)"
  proof -
    have "0 < 60 / (of_int ?r :: rat)" using pos by simp
    with assms(4) show "t \<le> t'" by linarith
    have "60 / of_int ?r \<le> t' - t" using assms(4) by simp
    then have "60 / of_int ?r * (of_int ?r / 60) \<le> (t' - t) * (of_int ?r / 60)"
      using pos by (intro mult_right_mono) simp_all
    then show "1 \<le> (t' - t) * refill_per_s (limiter_rate ?r)" using pos by (simp add: refill_per_s_def lr)
    show "(1::rat) \<le> of_int (limiter_rate ?r)" using assms(1) lr by simp
  qed
  have l: "fst (allow_local ?r ip t' (lm_local lm))"
    using lb.passes_after_wait [OF assms(2) tt w b, of ip] lr by simp
  have r: "fst (allow_redis ?r off (rl_key (lm_agent lm) ip) t' rs)"
    using rb.passes_after_wait [OF assms(3) tt w b, of "rl_key (lm_agent lm) ip"] lr by simp
  obtain c lm1 where c: "redis_client f lm = (c, lm1)" by fastforce
  from l r c assms(1) show ?thesis by (auto simp: allow_def Let_def split: fate.split)
qed

theorem rate_limit_no_starvation_witness:
  "fst (allow 5 RedisOk ''x'' 61 (demo_limiter\<lparr>lm_local := [(''x'', 0, 1)]\<rparr>, [(''agentkit:rl:a:x'', 0, 1, 126)]))"
  by (rule rate_limit_no_starvation [of _ 1])
    (simp_all add: demo_limiter_def local_inv_def redis_inv_def split: if_splits)

end
