(* ===== verification/ServerTheorems.thy ===== *)
theory ServerTheorems
  imports Server RateTheorems EgressTheorems
begin

text \<open>The properties of the request path every agent shares.\<close>

section \<open>Lemmas\<close>

lemma partition_at_first: "c \<notin> set h \<Longrightarrow> partition_at c (h @ c # t) = (h, True, t)"
  by (induction h) auto

lemma rpartition_at_last: "c \<notin> set t \<Longrightarrow> rpartition_at c (h @ c # t) = (h, True, t)"
  using partition_at_first [of c "rev t" "rev h"] by (simp add: rpartition_at_def)

lemma partition_at_none: "c \<notin> set s \<Longrightarrow> partition_at c s = (s, False, [])"
  by (induction s) auto

lemma rpartition_at_none: "c \<notin> set s \<Longrightarrow> rpartition_at c s = ([], False, s)"
  using partition_at_none [of c "rev s"] by (simp add: rpartition_at_def)

lemma setdefault_get: "map_of (setdefault k v d) k' =
    (if k' = k \<and> map_of d k = None then Some v else map_of d k')"
  by (simp add: setdefault_def)

lemma fold_setdefault_get:
  assumes "distinct (map fst kvs)"
  shows "map_of (fold (\<lambda>(k, v). setdefault k v) kvs d) k' =
    (case map_of d k' of Some w \<Rightarrow> Some w | None \<Rightarrow> map_of kvs k')"
  using assms
proof (induction kvs arbitrary: d)
  case Nil
  then show ?case by (simp split: option.split)
next
  case (Cons kv kvs)
  obtain k v where kv: "kv = (k, v)" by (cases kv)
  have "map_of kvs k = None" using Cons.prems kv by (simp add: map_of_eq_None_iff)
  then show ?case using Cons by (auto simp: kv setdefault_get split: option.split)
qed

section \<open>Properties\<close>

definition demo_app :: app_state where
  "demo_app = \<lparr>as_metrics = registry_new ''mon'' 0 0 300, as_limiter = demo_limiter\<lparr>lm_redis := True\<rparr>,
     as_llm_limiter = demo_limiter\<lparr>lm_redis := True\<rparr>, as_redis = [], as_accepting = True\<rparr>"

text \<open>
  The address the limiter keys on cannot be chosen by the client. Without a trusted proxy it is
  the socket peer whatever the headers say; behind one it is decided by the last
  \<open>X-Forwarded-For\<close> entry, the one the proxy appended, and everything before its comma is ignored.
\<close>

theorem client_ip_unforgeable:
  assumes "CHR '','' \<notin> set hop" and "header r ''X-Forwarded-For'' = Some (forged @ CHR '','' # hop)"
  shows "client_ip False r = (case ri_peer r of Some h \<Rightarrow> h | None \<Rightarrow> ''unknown'')
    \<and> client_ip True r = (if strip hop \<noteq> [] \<and> is_ip (strip hop) then strip hop
         else case ri_peer r of Some h \<Rightarrow> h | None \<Rightarrow> ''unknown'')"
  using assms by (simp add: client_ip_def rpartition_at_last Let_def)

theorem client_ip_unforgeable_witness:
  "client_ip True \<lparr>ri_path = ''/x'', ri_headers = [(''x-forwarded-for'', ''6.6.6.6, 1.2.3.4'')], ri_peer = Some ''10.0.0.1''\<rparr>
    = ''1.2.3.4''"
proof -
  let ?r = "\<lparr>ri_path = ''/x'', ri_headers = [(''x-forwarded-for'', ''6.6.6.6, 1.2.3.4'')], ri_peer = Some ''10.0.0.1''\<rparr>"
  have h: "header ?r ''X-Forwarded-For'' = Some (''6.6.6.6'' @ CHR '','' # '' 1.2.3.4'')"
    by code_simp
  have "strip '' 1.2.3.4'' = ''1.2.3.4''" by (simp add: strip_def rdrop_while_def is_space_def)
  moreover have "is_ip ''1.2.3.4''" by (simp add: is_ip_def is_ipv4_def ipv4_octet_def is_digit_def nat_of_digits_def digit_val_def)
  ultimately show ?thesis using client_ip_unforgeable [OF _ h] by simp
qed

text \<open>
  The ops paths are never throttled and never counted: for \<open>/healthz\<close>, \<open>/readyz\<close> and
  \<open>/metrics.json\<close> the reply has the handler's status (500 if it raised) and neither the counters nor
  any bucket change, in every environment and whatever the buckets hold.
\<close>

theorem ops_paths_untouched:
  assumes "ri_path r \<in> set uncounted_paths"
  shows "case serve cfg off f1 f2 now rid call_next r st of
     (resp, st') \<Rightarrow> st' = st \<and>
       ro_status resp = (case call_next r of Inl e \<Rightarrow> 500 | Inr h \<Rightarrow> ro_status h)"
proof -
  have np: "\<not> prefix ''/llm/'' (ri_path r)" using assms by (auto simp: uncounted_paths_def)
  have m: "metrics_dispatch now rid call_next r st =
     (case call_next r of Inl e \<Rightarrow> (Inl e, st)
      | Inr h \<Rightarrow> (Inr (h\<lparr>ro_headers := dict_set ''x-request-id'' (str_or (header r ''X-Request-ID'') rid) (ro_headers h)\<rparr>), st))"
    using assms by (simp add: metrics_dispatch_def Let_def split: sum.split)
  show ?thesis using assms np
    by (simp add: serve_def rate_limit_dispatch_def llm_rate_limit_dispatch_def security_dispatch_def m
        add_security_headers_def Let_def split: sum.split)
qed

theorem ops_paths_untouched_witness:
  "ro_status (fst (serve (demo_settings ''u'') 0 RedisDown RedisDown 0 ''id'' (\<lambda>r. Inl ValueError)
     \<lparr>ri_path = ''/healthz'', ri_headers = [], ri_peer = None\<rparr> demo_app)) = 500"
  using ops_paths_untouched [of "\<lparr>ri_path = ''/healthz'', ri_headers = [], ri_peer = None\<rparr>", where cfg = "demo_settings ''u''"
      and off = 0 and ?f1.0 = RedisDown and ?f2.0 = RedisDown and now = 0 and rid = "''id''" and st = demo_app
      and call_next = "\<lambda>r. Inl ValueError"]
  by (auto simp: uncounted_paths_def split: prod.splits)

text \<open>
  In staging and production every reply of a handler leaves with all six security headers; a
  value the handler had set itself is kept.
\<close>

theorem security_headers_present:
  assumes "cfg_env cfg \<in> {Staging, Prod}" and "cfg_rate_limit_per_minute cfg \<le> 0"
    and "call_next r = Inr h" and "(k, v) \<in> set security_headers" and "k \<noteq> ''x-request-id''"
  shows "map_of (ro_headers (fst (serve cfg off f1 f2 now rid call_next r st))) k =
    Some (case map_of (ro_headers h) k of Some w \<Rightarrow> w | None \<Rightarrow> v)"
proof -
  have d: "distinct (map fst security_headers)" by (simp add: security_headers_def)
  with assms(4) have kv: "map_of security_headers k = Some v" by simp
  let ?h = "dict_set ''x-request-id'' (str_or (header r ''X-Request-ID'') rid) (ro_headers h)"
  have "ro_headers (fst (serve cfg off f1 f2 now rid call_next r st)) =
      fold (\<lambda>(k, v). setdefault k v) security_headers ?h"
    using assms(1-3)
    by (simp add: serve_def security_dispatch_def metrics_dispatch_def add_security_headers_def Let_def)
  then show ?thesis using fold_setdefault_get [OF d, of ?h k] kv assms(5) by (simp split: option.split)
qed

theorem security_headers_present_witness:
  "map_of (ro_headers (fst (serve (demo_settings ''u''\<lparr>cfg_rate_limit_per_minute := 0\<rparr>) 0 RedisOk RedisOk 0 ''id''
      (\<lambda>r. Inr \<lparr>ro_status = 200, ro_headers = [(''x-frame-options'', ''SAMEORIGIN'')], ro_body = PyNone\<rparr>)
      \<lparr>ri_path = ''/x'', ri_headers = [], ri_peer = None\<rparr> demo_app))) ''x-frame-options'' = Some ''SAMEORIGIN''"
  by (subst security_headers_present [where v = "''DENY''"
        and h = "\<lparr>ro_status = 200, ro_headers = [(''x-frame-options'', ''SAMEORIGIN'')], ro_body = PyNone\<rparr>"])
    (simp_all add: demo_settings_def security_headers_def)

text \<open>
  The limiter for inference paths is neither separate nor stricter. With Redis up, both limiters
  use one bucket: a request under \<open>/llm/\<close> that passes spends two of the address's tokens, so such
  requests are refused, the second limiter's token spent in vain, as soon as one token is left.
\<close>

theorem llm_request_charged_twice:
  assumes "lm_rate (as_limiter st) = rate" and "lm_rate (as_llm_limiter st) = rate" and "0 < rate"
    and "lm_agent (as_limiter st) = agent" and "lm_agent (as_llm_limiter st) = agent"
    and "lm_redis (as_limiter st)" and "lm_redis (as_llm_limiter st)"
    and "redis_inv off now (as_redis st)" and "prefix ''/llm/'' (ri_path r)"
    and "1 \<le> redis_level rate off (rl_key agent (client_ip trust r)) now (as_redis st)"
  defines "lvl \<equiv> (\<lambda>s. redis_level rate off (rl_key agent (client_ip trust r)) now (as_redis s))"
  shows "case llm_rate_limit_dispatch off RedisOk now trust
       (rate_limit_dispatch off RedisOk now trust (\<lambda>r s. (Inr ok, s))) r st of
     (resp, st') \<Rightarrow>
       (if 2 \<le> lvl st then resp = Inr ok \<and> lvl st' = lvl st - 2
        else resp = Inr (too_many ''rate limit exceeded'' ''60'') \<and> lvl st' = lvl st - 1)"
proof -
  let ?k = "rl_key agent (client_ip trust r)" and ?rs = "as_redis st"
  have lr: "limiter_rate rate = rate" using assms(3) by (simp add: limiter_rate_def)
  obtain b1 rs1 where a1: "allow_redis rate off ?k now ?rs = (b1, rs1)" by fastforce
  obtain b2 rs2 where a2: "allow_redis rate off ?k now rs1 = (b2, rs2)" by fastforce
  have i1: "redis_inv off now rs1" using rb.inv_take [OF assms(8), of rate ?k] lr a1 by simp
  have b1: "b1" using rb.take_iff [OF assms(8), of rate ?k] lr a1 assms(10) by simp
  have l1: "redis_level rate off ?k now rs1 = redis_level rate off ?k now ?rs - 1"
    using rb.take_level [OF assms(8), of rate ?k] lr a1 b1 by simp
  have b2: "b2 \<longleftrightarrow> 1 \<le> redis_level rate off ?k now rs1" using rb.take_iff [OF i1, of rate ?k] lr a2 by simp
  have l2: "redis_level rate off ?k now rs2 = redis_level rate off ?k now rs1 - (if b2 then 1 else 0)"
    using rb.take_level [OF i1, of rate ?k] lr a2 by simp
  have np: "ri_path r \<notin> set uncounted_paths" using assms(9) by (auto simp: uncounted_paths_def)
  show ?thesis
    using assms(1-7,9) a1 a2 b1 b2 l1 l2 np
    by (simp add: llm_rate_limit_dispatch_def rate_limit_dispatch_def allow_def redis_client_def Let_def lvl_def)
qed


theorem llm_request_charged_twice_witness:
  "fst (llm_rate_limit_dispatch 0 RedisOk 5 False
       (rate_limit_dispatch 0 RedisOk 5 False (\<lambda>r s. (Inr (healthz (demo_settings ''u'')), s)))
       \<lparr>ri_path = ''/llm/chat'', ri_headers = [], ri_peer = Some ''10.0.0.1''\<rparr> demo_app)
   = Inr (too_many ''rate limit exceeded'' ''60'')"
proof -
  let ?r = "\<lparr>ri_path = ''/llm/chat'', ri_headers = [], ri_peer = Some ''10.0.0.1''\<rparr>"
  have l: "redis_level 1 0 (rl_key ''a'' (client_ip False ?r)) 5 (as_redis demo_app) = 1"
    by (simp add: redis_level_def redis_hget_def demo_app_def)
  have "case llm_rate_limit_dispatch 0 RedisOk 5 False
       (rate_limit_dispatch 0 RedisOk 5 False (\<lambda>r s. (Inr (healthz (demo_settings ''u'')), s))) ?r demo_app of
     (resp, st') \<Rightarrow> resp = Inr (too_many ''rate limit exceeded'' ''60'')"
    using llm_request_charged_twice [of demo_app 1 "''a''" 0 5 ?r False "healthz (demo_settings ''u'')"] l
    by (auto simp: demo_app_def demo_limiter_def redis_inv_def split: prod.splits)
  then show ?thesis by (auto split: prod.splits)
qed

end
