(* ===== verification/CsrfProps.thy ===== *)
theory CsrfProps
  imports Csrf ServerTheorems
begin

text \<open>
  What the request forgery defence guarantees: no protected request has an effect or an answer of a
  handler without the double-submitted signed token, a browser always gets a token that works, with
  the one exception of a cookie whose signature is not ASCII.
\<close>

abbreviation csrf_cookie :: "csrf_env \<Rightarrow> dash_request \<Rightarrow> string option" where
  "csrf_cookie c r \<equiv> map_of (dr_cookies r) (ds_csrf_cookie_name (ce_settings c))"

lemma rpartition_at_found: "rpartition_at c s = (h, f, t) \<Longrightarrow> c \<in> set s \<Longrightarrow> s = h @ c # t"
proof -
  assume r: "rpartition_at c s = (h, f, t)" and "c \<in> set s"
  then obtain a b where s: "s = a @ c # b" "c \<notin> set b" by (auto dest: split_list_last)
  then show ?thesis using r rpartition_at_last [OF s(2), of a] by simp
qed

text \<open>A token is accepted exactly when it is one the dashboard would issue for some nonce.\<close>

lemma csrf_valid_issued:
  assumes "csrf_valid c (Some t) = Inr True"
  shows "\<exists>n. n \<noteq> [] \<and> t = issue_csrf_token c n"
proof -
  obtain n f sig where r: "rpartition_at CHR ''.'' t = (n, f, sig)" by (metis prod_cases3)
  have dot: "CHR ''.'' \<in> set t" using assms by (auto simp: csrf_valid_def split: if_splits)
  then have "n \<noteq> []" "compare_digest sig (csrf_sign c n) = Inr True"
    using assms r by (auto simp: csrf_valid_def split: if_splits)
  then have "n \<noteq> [] \<and> t = issue_csrf_token c n"
    using rpartition_at_found [OF r dot] by (auto simp: compare_digest_def issue_csrf_token_def split: if_splits)
  then show ?thesis by blast
qed

lemma csrf_valid_None [simp]: "csrf_valid c None = Inr False"
  by (simp add: csrf_valid_def)

lemma csrf_check_passes:
  assumes "csrf_check c r = Inr None" and "dr_method r \<in> set csrf_protected_methods" and "\<not> csrf_exempt (ri_path r)"
  shows "\<exists>n. n \<noteq> [] \<and> csrf_cookie c r = Some (issue_csrf_token c n)
    \<and> submitted_csrf r = Inr (Some (issue_csrf_token c n)) \<and> origin_ok r = Inr True"
proof -
  obtain sub where o: "origin_ok r = Inr True" and sub: "submitted_csrf r = Inr sub"
    and v1: "csrf_valid c (csrf_cookie c r) = Inr True" and v2: "csrf_valid c sub = Inr True"
    and eq: "compare_digest (opt_or_empty (csrf_cookie c r)) (opt_or_empty sub) = Inr True"
    using assms by (auto simp: csrf_check_def Let_def rbind_eq_Inr_iff split: if_splits)
  obtain t where t: "csrf_cookie c r = Some t" using v1 by (cases "csrf_cookie c r") auto
  obtain u where u: "sub = Some u" using v2 by (cases sub) auto
  have "t = u" using eq t u by (auto simp: compare_digest_def opt_or_empty_def split: if_splits)
  then show ?thesis using csrf_valid_issued v1 t u sub o by auto
qed

text \<open>No forged request has an effect. Around any handler, a state-changing request to a path that is
  not an ops endpoint changes the state, or gets any answer but 403, only if the browser's cookie and
  the value it submits are one and the same token signed by this dashboard, and no \<open>Origin\<close> or
  \<open>Referer\<close> names another host.\<close>

theorem csrf_effect_needs_token:
  assumes "csrf_middleware c nonce h r s = (res, s')"
    and "dr_method r \<in> set csrf_protected_methods" and "\<not> csrf_exempt (ri_path r)"
    and "s' \<noteq> s \<or> (\<exists>resp. res = Inr resp \<and> dp_status resp \<noteq> 403)"
  shows "\<exists>n. n \<noteq> [] \<and> csrf_cookie c r = Some (issue_csrf_token c n)
    \<and> submitted_csrf r = Inr (Some (issue_csrf_token c n)) \<and> origin_ok r = Inr True"
proof (rule csrf_check_passes [OF _ assms(2,3)])
  show "csrf_check c r = Inr None"
    using assms(1,4) by (auto simp: csrf_middleware_def split: sum.splits option.splits)
qed

text \<open>A dashboard whose digest is the text itself: a post with its token, through a handler that counts.\<close>

definition demo_csrf :: csrf_env where
  "demo_csrf = \<lparr>ce_hmac = (\<lambda>k m. ''f''), ce_sha = (\<lambda>m. m), ce_settings = demo_dash\<rparr>"

definition demo_post :: "string option \<Rightarrow> string \<Rightarrow> dash_request" where
  "demo_post cookie tok =
     \<lparr>ri_path = ''/actions/sweep'', ri_headers = [(''host'', ''dash''), (''x-csrf-token'', tok)], ri_peer = None,
      dr_method = ''POST'', dr_cookies = (case cookie of None \<Rightarrow> [] | Some v \<Rightarrow> [(''agents_csrf'', v)]), dr_body = []\<rparr>"

definition demo_handler :: "nat dash_handler" where
  "demo_handler r n = (Inr (page_response ''ok'' [], None), n + 1)"

theorem csrf_effect_needs_token_witness:
  "csrf_middleware demo_csrf ''m'' demo_handler (demo_post (Some ''n.f'') ''n.f'') 0 = (Inr (page_response ''ok'' []), 1)
   \<and> (\<exists>n. n \<noteq> [] \<and> csrf_cookie demo_csrf (demo_post (Some ''n.f'') ''n.f'') = Some (issue_csrf_token demo_csrf n))"
proof -
  have m: "csrf_middleware demo_csrf ''m'' demo_handler (demo_post (Some ''n.f'') ''n.f'') 0 = (Inr (page_response ''ok'' []), 1)"
    by code_simp
  have "dr_method (demo_post (Some ''n.f'') ''n.f'') \<in> set csrf_protected_methods"
    "\<not> csrf_exempt (ri_path (demo_post (Some ''n.f'') ''n.f''))" by code_simp+
  then show ?thesis using m csrf_effect_needs_token [OF m] by auto
qed

section \<open>Recovery\<close>

lemma compare_digest_hex:
  "list_all is_ascii a \<Longrightarrow> compare_digest b a = (if list_all is_ascii b then Inr (b = a) else Inl TypeError)"
  by (simp add: compare_digest_def)

lemma csrf_valid_issue:
  assumes "n \<noteq> []" and "csrf_sign c n \<noteq> []" and "list_all is_ascii (csrf_sign c n)" and "CHR ''.'' \<notin> set (csrf_sign c n)"
  shows "csrf_valid c (Some (issue_csrf_token c n)) = Inr True"
  using assms rpartition_at_last [OF assms(4), of n]
  by (simp add: csrf_valid_def issue_csrf_token_def compare_digest_hex)

lemma cookie_after_append: "cookie_after k (xs @ ys) v = cookie_after k ys (cookie_after k xs v)"
  by (induction k xs v rule: cookie_after.induct) simp_all

fun cookie_op_name :: "cookie_op \<Rightarrow> string" where
  "cookie_op_name (SetCookie n x h s) = n"
| "cookie_op_name (DeleteCookie n) = n"

lemma cookie_after_other: "k \<notin> cookie_op_name ` set ops \<Longrightarrow> cookie_after k ops v = v"
  by (induction k ops v rule: cookie_after.induct) auto


lemma csrf_valid_ascii:
  assumes "list_all is_ascii (opt_or_empty v)" and "list_all is_ascii (csrf_sign c (fst (rpartition_at CHR ''.'' (opt_or_empty v))))"
  shows "\<exists>b. csrf_valid c v = Inr b"
proof (cases v)
  case (Some t)
  obtain n f sig where r: "rpartition_at CHR ''.'' t = (n, f, sig)" by (metis prod_cases3)
  show ?thesis
  proof (cases "CHR ''.'' \<in> set t")
    case True
    then have "list_all is_ascii sig" using rpartition_at_found [OF r] assms(1) Some by (simp add: opt_or_empty_def)
    then show ?thesis using Some r assms(2) by (auto simp: csrf_valid_def opt_or_empty_def compare_digest_def)
  qed (auto simp: csrf_valid_def Some)
qed auto

text \<open>What the middleware leaves in the browser is the token the page was rendered with.\<close>

lemma csrf_cookie_matches_page:
  assumes "csrf_token c nonce r = Inr (tok, issued)"
    and "ds_csrf_cookie_name (ce_settings c) \<notin> cookie_op_name ` set (dp_cookies resp0)"
    and "h r s = (Inr (resp0, issued), s')" and "csrf_check c r = Inr None"
  shows "\<exists>resp. csrf_middleware c nonce2 h r s = (Inr resp, s')
    \<and> cookie_after (ds_csrf_cookie_name (ce_settings c)) (dp_cookies resp) (csrf_cookie c r) = Some tok
    \<and> dp_context resp = dp_context resp0"
proof (cases "csrf_valid c (csrf_cookie c r)")
  case (Inr ok)
  show ?thesis
  proof (cases ok)
    case True
    then obtain t where "csrf_cookie c r = Some t" using Inr by (cases "csrf_cookie c r") auto
    then show ?thesis using assms Inr True
      by (auto simp: csrf_middleware_def csrf_token_def opt_or_empty_def cookie_after_other)
  next
    case False
    then show ?thesis using assms Inr
      by (auto simp: csrf_middleware_def csrf_token_def Let_def set_csrf_cookie_def cookie_after_append)
  qed
qed (use assms(1) in \<open>simp add: csrf_token_def\<close>)

text \<open>C35: A browser can always get a working token. Whatever ASCII cookie it presents, stale, corrupted or
  missing, a page answers with a form token and leaves a cookie such that the next post, with that
  cookie and that token from the dashboard's own pages, passes the check. The nonce is any non-empty
  ASCII text and a signature is non-empty ASCII without a dot, as a hex digest is.\<close>

theorem csrf_form_recovers:
  assumes "\<forall>n. csrf_sign c n \<noteq> [] \<and> list_all is_ascii (csrf_sign c n) \<and> CHR ''.'' \<notin> set (csrf_sign c n)"
    and "nonce \<noteq> []" and "list_all is_ascii nonce" and "list_all is_ascii (opt_or_empty (csrf_cookie c r))"
    and "dr_method r \<notin> set csrf_protected_methods"
    and "h r s = (rbind (csrf_token c nonce r) (\<lambda>(tok, issued). Inr (page_response tpl (ctx tok), issued)), s')"
  shows "\<exists>tok resp. csrf_middleware c nonce2 h r s = (Inr resp, s') \<and> dp_context resp = ctx tok
    \<and> (\<forall>r'. csrf_cookie c r' = cookie_after (ds_csrf_cookie_name (ce_settings c)) (dp_cookies resp) (csrf_cookie c r)
          \<longrightarrow> submitted_csrf r' = Inr (Some tok) \<longrightarrow> origin_ok r' = Inr True \<longrightarrow> csrf_check c r' = Inr None)"
proof -
  obtain b where b: "csrf_valid c (csrf_cookie c r) = Inr b" using csrf_valid_ascii [OF assms(4)] assms(1) by blast
  define tok where "tok = (if b then opt_or_empty (csrf_cookie c r) else issue_csrf_token c nonce)"
  have t: "csrf_token c nonce r = Inr (tok, if b then None else Some tok)"
    using b by (simp add: csrf_token_def Let_def tok_def)
  have "csrf_valid c (Some tok) = Inr True"
  proof (cases b)
    case True
    then show ?thesis using b by (cases "csrf_cookie c r") (auto simp: tok_def opt_or_empty_def)
  qed (use csrf_valid_issue assms(1,2) in \<open>simp add: tok_def\<close>)
  moreover have "list_all is_ascii tok"
    using assms(1,3,4) by (auto simp: tok_def issue_csrf_token_def is_ascii_def)
  ultimately have "csrf_check c r' = Inr None"
    if "csrf_cookie c r' = Some tok" "submitted_csrf r' = Inr (Some tok)" "origin_ok r' = Inr True" for r'
    using that by (simp add: csrf_check_def Let_def opt_or_empty_def compare_digest_def)
  note pass = this
  have h: "h r s = (Inr (page_response tpl (ctx tok), if b then None else Some tok), s')"
    using assms(6) t by simp
  have "\<exists>resp. csrf_middleware c nonce2 h r s = (Inr resp, s')
      \<and> cookie_after (ds_csrf_cookie_name (ce_settings c)) (dp_cookies resp) (csrf_cookie c r) = Some tok
      \<and> dp_context resp = dp_context (page_response tpl (ctx tok))"
    by (rule csrf_cookie_matches_page [OF t]) (use assms(5) h in \<open>simp_all add: page_response_def csrf_check_def\<close>)
  then show ?thesis using pass by (intro exI [of _ tok]) (auto simp: page_response_def)
qed

theorem csrf_form_recovers_witness:
  "\<exists>tok resp. csrf_middleware demo_csrf ''m''
      (\<lambda>r s. (rbind (csrf_token demo_csrf ''n'' r) (\<lambda>(tok, issued). Inr (page_response ''login'' [(''csrf_token'', PyStr tok)], issued)), s))
      ((demo_post (Some ''stale.e'') [])\<lparr>dr_method := ''GET''\<rparr>) () = (Inr resp, ())
    \<and> dp_context resp = [(''csrf_token'', PyStr tok)]"
proof -
  let ?r = "(demo_post (Some ''stale.e'') [])\<lparr>dr_method := ''GET''\<rparr>"
  have a: "list_all is_ascii (opt_or_empty (csrf_cookie demo_csrf ?r))" "dr_method ?r \<notin> set csrf_protected_methods"
    by code_simp+
  have s: "\<forall>n. csrf_sign demo_csrf n \<noteq> [] \<and> list_all is_ascii (csrf_sign demo_csrf n) \<and> CHR ''.'' \<notin> set (csrf_sign demo_csrf n)"
    by (simp add: csrf_sign_def demo_csrf_def is_ascii_def)
  let ?h = "\<lambda>r s. (rbind (csrf_token demo_csrf ''n'' r)
    (\<lambda>(tok, issued). Inr (page_response ''login'' [(''csrf_token'', PyStr tok)], issued)), s)"
  have "list_all is_ascii ''n''" by code_simp
  from csrf_form_recovers [OF s _ this a, where h = ?h and ctx = "\<lambda>tok. [(''csrf_token'', PyStr tok)]" and s = "()"]
  show ?thesis by blast
qed

text \<open>One cookie locks a browser out for good. While it presents a CSRF cookie whose signature part is
  not ASCII, no request of any kind gets an answer but an internal error or a 403, and none replaces the
  cookie; the handler of a page still runs.\<close>

theorem csrf_nonascii_locks_out:
  assumes "csrf_cookie c r = Some (n @ CHR ''.'' # sig)" and "n \<noteq> []" and "CHR ''.'' \<notin> set sig"
    and "\<not> list_all is_ascii sig"
  shows "(\<forall>resp. fst (csrf_middleware c nonce h r s) = Inr resp \<longrightarrow> dp_status resp = 403 \<and> dp_cookies resp = [])
    \<and> (dr_method r \<notin> set csrf_protected_methods \<longrightarrow> snd (csrf_middleware c nonce h r s) = snd (h r s))"
proof -
  have "csrf_valid c (csrf_cookie c r) = Inl TypeError"
    using assms rpartition_at_last [OF assms(3), of n] by (auto simp: csrf_valid_def compare_digest_def)
  then show ?thesis
    by (auto simp: csrf_middleware_def csrf_check_def page_response_def split: sum.splits option.splits prod.splits)
qed


theorem csrf_nonascii_locks_out_witness:
  "fst (csrf_middleware demo_csrf ''m'' demo_handler ((demo_post (Some (''n.'' @ [CHR 0xE9])) [])\<lparr>dr_method := ''GET''\<rparr>) 0) = Inl TypeError
   \<and> snd (csrf_middleware demo_csrf ''m'' demo_handler ((demo_post (Some (''n.'' @ [CHR 0xE9])) [])\<lparr>dr_method := ''GET''\<rparr>) 0) = 1"
proof -
  let ?r = "(demo_post (Some (''n.'' @ [CHR 0xE9])) [])\<lparr>dr_method := ''GET''\<rparr>"
  have "csrf_cookie demo_csrf ?r = Some (''n'' @ CHR ''.'' # [CHR 0xE9])" "CHR ''.'' \<notin> set [CHR 0xE9]"
    "\<not> list_all is_ascii [CHR 0xE9]" "dr_method ?r \<notin> set csrf_protected_methods"
    "fst (csrf_middleware demo_csrf ''m'' demo_handler ?r 0) = Inl TypeError" "snd (demo_handler ?r 0) = 1" by code_simp+
  then show ?thesis using csrf_nonascii_locks_out [where c = demo_csrf and r = ?r and n = "''n''" and sig = "[CHR 0xE9]" and h = demo_handler and s = 0 and nonce = "''m''"] by simp
qed

end
