(* ===== verification/DashRouteProps.thy ===== *)
theory DashRouteProps
  imports DashActions CsrfProps
begin

text \<open>
  What the dashboard's routes may change, and on whose behalf: a step that keeps a part of the world
  (\<open>keeps\<close>), the parts the views keep, a tenant's rows, and what it takes to change anything.
\<close>

section \<open>Steps that keep a part of the world\<close>

definition keeps :: "(dash_world \<Rightarrow> 'b) \<Rightarrow> 'a dash \<Rightarrow> bool" where
  "keeps f m \<longleftrightarrow> (\<forall>w. f (snd (m w)) = f w)"

named_theorems keeps_intros "steps that keep a part of the world"

lemma keepsD: "keeps f m \<Longrightarrow> m w = (x, w') \<Longrightarrow> f w' = f w"
  unfolding keeps_def by (metis snd_conv)

lemma keeps_basic [keeps_intros]:
  "keeps f (dret x)" "keeps f (draise e)" "keeps f (dlift y)" "keeps f (db_read g)" "keeps f (answer_get v k d)"
  by (simp_all add: keeps_def dret_def draise_def dlift_def db_read_def answer_get_def split: option.split)

lemma keeps_dbind [keeps_intros]:
  assumes "keeps f m" and "\<And>x. keeps f (g x)"
  shows "keeps f (dbind m g)"
  using assms by (auto simp: keeps_def dbind_def split: prod.split sum.split) (metis snd_conv)+

lemma keeps_suppressed [keeps_intros]: "keeps f m \<Longrightarrow> keeps f (suppressed x m)"
  by (auto simp: keeps_def suppressed_def split: prod.split sum.split) (metis snd_conv)+

lemma keeps_plain [keeps_intros]: "keeps f m \<Longrightarrow> keeps f (plain m)"
  by (simp add: plain_def keeps_intros)

lemma keeps_http_answer [keeps_intros]: "keeps f m \<Longrightarrow> keeps f (http_answer m)"
  unfolding keeps_def http_answer_def by (auto split: prod.split sum.split pyexc.split) (metis snd_conv)+

lemma keeps_with_agent [keeps_intros]: "(\<And>s. keeps f (g s)) \<Longrightarrow> keeps f (with_agent spec d g)"
  by (cases spec) (simp_all add: with_agent_def keeps_intros)

lemma keeps_with_session [keeps_intros]: "(\<And>p. session_dep D r = Inr p \<Longrightarrow> keeps f (g p)) \<Longrightarrow> keeps f (with_session D r g)"
  by (cases "session_dep D r") (auto simp: with_session_def keeps_def dbind_def dlift_def)

lemma keeps_with_admin [keeps_intros]: "(\<And>p. session_dep D r = Inr p \<Longrightarrow> keeps f (g p)) \<Longrightarrow> keeps f (with_admin D r g)"
  by (simp add: with_admin_def keeps_intros)

lemma keeps_with_page [keeps_intros]: "(\<And>p. keeps f (g p)) \<Longrightarrow> keeps f (with_page D r g)"
  by (auto simp: with_page_def keeps_intros split: sum.split page_exc.split)

lemma keeps_render_token [keeps_intros]: "keeps f (render_token D r g)"
  by (auto simp: render_token_def keeps_intros split: prod.split)

lemma keeps_fragment [keeps_intros]: "keeps f m \<Longrightarrow> keeps f (fragment tpl m)"
  by (simp add: fragment_def keeps_intros)

text \<open>Parts of the world that do not include the aggregator's state.\<close>

definition off_agg :: "(dash_world \<Rightarrow> 'b) \<Rightarrow> bool" where
  "off_agg f \<longleftrightarrow> (\<forall>w s. f (w\<lparr>dw_agg := s\<rparr>) = f w)"

lemma off_agg_pool: "off_agg dw_pool"
  by (simp add: off_agg_def)

lemma keeps_on_agg: "off_agg f \<Longrightarrow> keeps f (on_agg m)"
  by (simp add: keeps_def on_agg_def off_agg_def split: prod.split)

lemma keeps_call_agent: "off_agg f \<Longrightarrow> keeps f (call_agent label spec g)"
  by (cases spec) (simp_all add: call_agent_def keeps_intros keeps_on_agg)

lemma keeps_if [keeps_intros]:
  "keeps f m1 \<Longrightarrow> keeps f m2 \<Longrightarrow> keeps f (\<lambda>w. if P w then m1 w else m2 w)"
  by (simp add: keeps_def)

lemma keeps_if_pair [keeps_intros]:
  "keeps f m1 \<Longrightarrow> keeps f (\<lambda>w. if P w then m1 w else (y, w))"
  "keeps f m1 \<Longrightarrow> keeps f (\<lambda>w. if P w then (y, w) else m1 w)"
  by (simp_all add: keeps_def)

text \<open>The views only read.\<close>

lemma keeps_findings: "off_agg f \<Longrightarrow> keeps f (findings_context E now reg sev)"
  unfolding findings_context_def
  by (auto intro!: keeps_intros keeps_on_agg split: option.split agg_result.split)


lemma keeps_incidents: "off_agg f \<Longrightarrow> keeps f (incidents_context E now reg limit tenant)"
  unfolding incidents_context_def triage_overlay_def
  by (auto intro!: keeps_intros keeps_on_agg split: option.split agg_result.split)

lemma keeps_qa: "off_agg f \<Longrightarrow> keeps f (qa_context E now reg sev)"
  unfolding qa_context_def
  by (auto intro!: keeps_intros keeps_on_agg split: option.split agg_result.split)

lemma keeps_pipeline: "off_agg f \<Longrightarrow> keeps f (pipeline_context E now reg)"
  unfolding pipeline_context_def
  by (auto intro!: keeps_intros keeps_on_agg split: option.split agg_result.split)

lemma keeps_pm: "off_agg f \<Longrightarrow> keeps f (pm_context E now reg)"
  unfolding pm_context_def
  by (auto intro!: keeps_intros keeps_on_agg split: option.split agg_result.split)

lemma keeps_cost: "off_agg f \<Longrightarrow> keeps f (cost_context E now reg)"
  unfolding cost_context_def by (intro keeps_intros keeps_on_agg)

lemma keeps_agent_detail: "off_agg f \<Longrightarrow> keeps f (agent_detail_context E now reg slug)"
  unfolding agent_detail_context_def
  by (auto intro!: keeps_intros keeps_on_agg split: option.split)

lemma keeps_activity: "keeps f (activity_context tenant action actor q before limit)"
  unfolding activity_context_def by (intro keeps_intros)

lemma keeps_overview: "off_agg f \<Longrightarrow> keeps f (overview_context E now reg)"
  unfolding overview_context_def overview_charts_def
  by (auto intro!: keeps_intros keeps_on_agg split: prod.split)

lemma keeps_node_health: "off_agg f \<Longrightarrow> keeps f (node_health_partial D r)"
  unfolding node_health_partial_def
  by (intro keeps_intros) (auto simp: keeps_def on_agg_def off_agg_def split: prod.split sum.split)

lemma keeps_audit_export: "keeps f (audit_export D r fmt)"
  unfolding audit_export_def by (intro keeps_intros)

lemma keeps_partial_tokens: "keeps f (partial_tokens D r)"
  unfolding partial_tokens_def by (intro keeps_intros)

lemmas keeps_views = keeps_findings keeps_incidents keeps_qa keeps_pipeline keeps_pm keeps_cost keeps_agent_detail
  keeps_activity keeps_overview keeps_node_health keeps_audit_export keeps_partial_tokens

text \<open>Reading the console changes nothing but the aggregator's token and cache.\<close>

lemma get_routes_keep:
  assumes "route_method t = ''GET''" and "off_agg f"
  shows "keeps f (route_body D L t r)"
  using assms(1)
  by (cases t)
    (simp_all add: route_body_def route_method_def login_form_def page_def agent_detail_page_def list_workspaces_def
      partial_overview_def partial_incidents_def partial_findings_def partial_qa_def partial_pipeline_def partial_pm_def
      partial_cost_def partial_activity_def partial_workspace_def partial_privacy_def partial_agent_def
      keeps_intros keeps_views assms(2))


section \<open>What a tenant owns\<close>

text \<open>The rows of a tenant: its audit trail, its tokens, its triage decisions.\<close>

definition tenant_rows :: "string \<Rightarrow> dash_pool \<Rightarrow> audit_log \<times> pat_row list \<times> ((string \<times> string) \<times> triage_row) list" where
  "tenant_rows t p =
     (filter (\<lambda>r. ar_tenant r = t) (dl_audit p), filter (\<lambda>r. pt_tenant r = t) (db_pats (dl_db p)),
      filter (\<lambda>e. fst (fst e) = t) (db_triage (dl_db p)))"

lemma filter_update_other: "\<not> P k \<Longrightarrow> filter (\<lambda>e. P (fst e)) (AList.update k v al) = filter (\<lambda>e. P (fst e)) al"
  by (induction al) auto

lemma create_pat_frame:
  assumes "create_pat tenant pfx hash name scope role by_whom expires now db = (res, db')"
  shows "db_triage db' = db_triage db"
    and "tenant \<noteq> t \<Longrightarrow> filter (\<lambda>r. pt_tenant r = t) (db_pats db') = filter (\<lambda>r. pt_tenant r = t) (db_pats db)"
  using assms by (auto simp: create_pat_def Let_def split: if_splits)

section \<open>Whole requests\<close>

lemma serve_keeps:
  assumes "dash_serve D L nonce rt r w = (res, w')" and "keeps f (route_body D L rt r)"
  shows "f w' = f w"
proof -
  obtain x w1 where h: "route_handler D L rt r w = (x, w1)" by fastforce
  have "f w1 = f w" using keepsD [OF keeps_http_answer [OF assms(2)]] h by (simp add: route_handler_def)
  then show ?thesis using assms(1) h
    by (auto simp: dash_serve_def csrf_middleware_def split: sum.splits option.splits prod.splits)
qed

lemma no_session_keeps:
  assumes "session_dep D r = Inl e" and "route_method rt = ''POST''" and "\<nexists>tok. rt = LoginSubmit tok"
  shows "keeps f (route_body D L rt r)"
proof -
  have w: "with_session D r g w = (Inl e, w)" for g w
    using assms(1) by (simp add: with_session_def dbind_def dlift_def)
  show ?thesis using assms(2,3)
    by (cases rt) (simp_all add: route_body_def route_method_def keeps_def logout_def dret_def action_sweep_def action_scan_def
      action_qa_scan_def action_webext_run_def action_finding_resolve_def action_incident_triage_def mint_pat_route_def
      revoke_pat_route_def with_admin_def w)
qed

lemma session_is_admin: "session_dep D r = Inr p \<Longrightarrow> is_admin p"
  by (auto simp: session_dep_def require_session_def verify_admin_token_def rbind_eq_Inr_iff split: option.splits if_splits)

text \<open>A header that names a host names the host of the request; one that names none passes.\<close>

definition names_no_other_host :: "dash_request \<Rightarrow> string \<Rightarrow> bool" where
  "names_no_other_host r name =
     (case map_of (ri_headers r) name of
        None \<Rightarrow> True
      | Some v \<Rightarrow> v = [] \<or> (case urlparse v of
          Inl _ \<Rightarrow> False
        | Inr u \<Rightarrow> url_netloc u = [] \<or> (case map_of (ri_headers r) ''host'' of None \<Rightarrow> True | Some h \<Rightarrow> h = [] \<or> url_netloc u = h)))"

lemma origin_ok_iff: "origin_ok r = Inr True \<longleftrightarrow> names_no_other_host r ''origin'' \<and> names_no_other_host r ''referer''"
  by (auto simp: origin_ok_def origin_header_ok_def names_no_other_host_def Let_def rbind_eq_Inr_iff
      split: option.splits sum.splits if_splits)

text \<open>
  What the docstring of the check excludes: the opaque origin of a sandboxed page, \<open>Origin: null\<close>, is
  present, matches no host and passes.
\<close>

lemma null_origin_passes:
  "origin_ok \<lparr>ri_path = ''/actions/sweep'', ri_headers = [(''host'', ''ops.example''), (''origin'', ''null'')], ri_peer = None,
     dr_method = ''POST'', dr_cookies = [], dr_body = []\<rparr> = Inr True"
  by code_simp

text \<open>C28: No request changes the dashboard's database without an administrator and a token. (The snapshot and
  retention loops also write; they are no requests, see DashActions.) A request that changes it is a
  state-changing one whose browser holds and submits one and the same token signed by this dashboard;
  its Origin and Referer headers, where they are present and name a host, name the host of the request,
  while one that names none, such as Origin: null, passes, against the docstring of the check, which is
  recorded; and the request carries a valid session of an administrator or logs one in.\<close>

theorem dash_change_needs_admin_and_token:
  assumes "dash_serve D L nonce rt r w = (res, w')" and "dr_method r = route_method rt" and "\<not> csrf_exempt (ri_path r)"
    and "dw_pool w' \<noteq> dw_pool w"
  shows "(\<exists>n. n \<noteq> [] \<and> csrf_cookie (dn_csrf D) r = Some (issue_csrf_token (dn_csrf D) n)
      \<and> submitted_csrf r = Inr (Some (issue_csrf_token (dn_csrf D) n)) \<and> origin_ok r = Inr True)
    \<and> names_no_other_host r ''origin'' \<and> names_no_other_host r ''referer''
    \<and> (\<exists>p. is_admin p \<and> (session_dep D r = Inr p \<or>
        (\<exists>tok. rt = LoginSubmit tok \<and> verify_admin_token (ae_lib (dn_agg D)) (dn_now D) tok (dn_settings D) = Inr p)))"
proof -
  have nk: "\<not> keeps dw_pool (route_body D L rt r)" using serve_keeps [OF assms(1), of dw_pool] assms(4) by blast
  have "route_method rt \<noteq> ''GET''" using get_routes_keep [OF _ off_agg_pool] nk by blast
  then have post: "route_method rt = ''POST''" by (cases rt) (simp_all add: route_method_def)
  have "csrf_check (dn_csrf D) r = Inr None"
    using assms(1,4) by (auto simp: dash_serve_def csrf_middleware_def split: sum.splits option.splits)
  then have "\<exists>n. n \<noteq> [] \<and> csrf_cookie (dn_csrf D) r = Some (issue_csrf_token (dn_csrf D) n)
      \<and> submitted_csrf r = Inr (Some (issue_csrf_token (dn_csrf D) n)) \<and> origin_ok r = Inr True"
    by (rule csrf_check_passes) (simp_all add: assms(2,3) post csrf_protected_methods_def)
  moreover have "\<exists>p. is_admin p \<and> (session_dep D r = Inr p \<or>
        (\<exists>tok. rt = LoginSubmit tok \<and> verify_admin_token (ae_lib (dn_agg D)) (dn_now D) tok (dn_settings D) = Inr p))"
  proof (cases "\<exists>tok. rt = LoginSubmit tok")
    case True
    then obtain tok where tok: "rt = LoginSubmit tok" by blast
    show ?thesis
    proof (cases "verify_admin_token (ae_lib (dn_agg D)) (dn_now D) tok (dn_settings D)")
      case (Inl e)
      then have "keeps dw_pool (route_body D L rt r)" by (simp add: tok route_body_def login_submit_def keeps_intros)
      then show ?thesis using nk by blast
    next
      case (Inr p)
      then have "is_admin p" by (auto simp: verify_admin_token_def rbind_eq_Inr_iff split: if_splits)
      then show ?thesis using Inr tok by blast
    qed
  next
    case False
    then have "session_dep D r \<noteq> Inl e" for e using no_session_keeps [OF _ post] nk by blast
    then obtain p where "session_dep D r = Inr p" by (cases "session_dep D r") auto
    then show ?thesis using session_is_admin by blast
  qed
  ultimately show ?thesis using origin_ok_iff by blast
qed


section \<open>A console with one operator\<close>

text \<open>A JWT library that knows one token of an administrator of \<open>acme\<close>; a request that carries it.\<close>

definition demo_lib :: jwtlib where
  "demo_lib = \<lparr>jwt_encode = (\<lambda>c sec alg. ''t''),
     jwt_decode = (\<lambda>now tok sec algs aud req.
       if tok = ''tok'' then Inr [(''sub'', PyStr ''op''), (''tenant'', PyStr ''acme''), (''role'', PyStr ''admin'')]
       else Inl PyJWTError)\<rparr>"

definition demo_console :: dash_env where
  "demo_console = \<lparr>dn_agg = \<lparr>ae_lib = demo_lib, ae_settings = demo_dash, ae_net = (\<lambda>rq. UpError ''ConnectError'')\<rparr>,
     dn_csrf = demo_csrf, dn_registry = [], dn_now = 0, dn_nonce = ''n'', dn_exc_text = (\<lambda>e. [])\<rparr>"

definition demo_libs :: dash_libs where
  "demo_libs = \<lparr>lb_sha = (\<lambda>s. s), lb_draws = (\<lambda>i. ''secret''), lb_parse_ts = (\<lambda>s. None)\<rparr>"

definition demo_request :: "string \<Rightarrow> dash_request" where
  "demo_request path = (demo_post (Some ''n.f'') ''n.f'')\<lparr>ri_path := path,
     dr_cookies := [(''agents_csrf'', ''n.f''), (''agents_dash'', ''tok'')]\<rparr>"

definition demo_world :: dash_world where
  "demo_world = \<lparr>dw_pool = Some \<lparr>dl_db = create_schema, dl_audit = []\<rparr>, dw_db_up = True,
     dw_agg = \<lparr>ag_token = upstream_new, ag_cache = None, ag_redis_up = True\<rparr>\<rparr>"

definition demo_principal :: principal where
  "demo_principal = \<lparr>p_sub = ''op'', p_tenant = ''acme'', p_role = ''admin'', p_name = PyNone\<rparr>"

lemma demo_session: "session_dep demo_console (demo_request path) = Inr demo_principal"
  by (simp add: demo_principal_def session_dep_def demo_console_def demo_request_def demo_post_def require_session_def verify_admin_token_def
      verify_token_def demo_csrf_def demo_lib_def claim_def is_admin_def demo_dash_def dash_defaults_def agent_settings.defs
      demo_settings_def)

theorem dash_change_needs_admin_and_token_witness:
  "dw_pool (snd (dash_serve demo_console demo_libs ''m'' Sweep (demo_request ''/actions/sweep'') demo_world)) \<noteq> dw_pool demo_world
   \<and> (\<exists>p. is_admin p \<and> session_dep demo_console (demo_request ''/actions/sweep'') = Inr p)"
proof -
  let ?out = "dash_serve demo_console demo_libs ''m'' Sweep (demo_request ''/actions/sweep'') demo_world"
  have c: "map_option (\<lambda>q. length (dl_audit q)) (dw_pool (snd ?out)) = Some 1" by code_simp
  have "map_option (\<lambda>q. length (dl_audit q)) (dw_pool demo_world) = Some 0" by code_simp
  then have n: "dw_pool (snd ?out) \<noteq> dw_pool demo_world" using c by auto
  have "dr_method (demo_request ''/actions/sweep'') = route_method Sweep" "\<not> csrf_exempt (ri_path (demo_request ''/actions/sweep''))"
    by code_simp+
  then show ?thesis
    using dash_change_needs_admin_and_token [of demo_console demo_libs "''m''" Sweep "demo_request ''/actions/sweep''" demo_world
        "fst ?out" "snd ?out"] n by auto
qed

end
