(* ===== verification/DashReads.thy ===== *)
theory DashReads
  imports DashRouteProps
begin

text \<open>
  What a tenant can see of the others: nothing. A view of the world (\<open>console_view\<close>) is what a
  session of one tenant may depend on; a step \<open>sees\<close> a view when worlds with equal views give equal
  results and equal views again. The two views are the tenant's own rows with the shared tables, with
  and without its audit trail (a trail's row numbers count the rows of all tenants, so they are no
  function of the tenant's rows once a route has written to the trail).
\<close>

section \<open>Steps that depend on a view only\<close>

definition sees :: "(dash_world \<Rightarrow> 'v) \<Rightarrow> 'a dash \<Rightarrow> bool" where
  "sees v m \<longleftrightarrow> (\<forall>w1 w2. v w1 = v w2 \<longrightarrow> fst (m w1) = fst (m w2) \<and> v (snd (m w1)) = v (snd (m w2)))"

named_theorems sees_intros "steps that depend on a view only"

lemma seesI: "(\<And>w1 w2. v w1 = v w2 \<Longrightarrow> fst (m w1) = fst (m w2) \<and> v (snd (m w1)) = v (snd (m w2))) \<Longrightarrow> sees v m"
  unfolding sees_def by blast

lemma seesD:
  assumes "sees v m" and "v w1 = v w2"
  shows "\<exists>x y1 y2. m w1 = (x, y1) \<and> m w2 = (x, y2) \<and> v y1 = v y2"
proof -
  have "fst (m w1) = fst (m w2)" "v (snd (m w1)) = v (snd (m w2))" using assms unfolding sees_def by blast+
  then show ?thesis by (intro exI [of _ "fst (m w1)"] exI [of _ "snd (m w1)"] exI [of _ "snd (m w2)"]) (simp add: prod_eq_iff)
qed

lemma sees_basic [sees_intros]:
  "sees v (dret x)" "sees v (draise e)" "sees v (dlift y)" "sees v (answer_get j k d)"
  by (simp_all add: sees_def dret_def draise_def dlift_def answer_get_def)

lemma sees_dbind [sees_intros]:
  assumes "sees v m" and "\<And>x. sees v (g x)"
  shows "sees v (dbind m g)"
proof (rule seesI)
  fix w1 w2 assume "v w1 = v w2"
  then obtain x y1 y2 where m: "m w1 = (x, y1)" "m w2 = (x, y2)" "v y1 = v y2" using seesD [OF assms(1)] by blast
  show "fst (dbind m g w1) = fst (dbind m g w2) \<and> v (snd (dbind m g w1)) = v (snd (dbind m g w2))"
  proof (cases x)
    case (Inr y)
    from m(3) obtain z u1 u2 where "g y y1 = (z, u1)" "g y y2 = (z, u2)" "v u1 = v u2" using seesD [OF assms(2)] by blast
    then show ?thesis using m Inr by (simp add: dbind_def)
  qed (use m in \<open>simp add: dbind_def\<close>)
qed

text \<open>A step whose outcome is mapped, the exception as the value.\<close>

lemma sees_outcome [sees_intros]:
  assumes "sees v m"
  shows "sees v (\<lambda>w. case m w of (Inl e, w1) \<Rightarrow> (F e, w1) | (Inr x, w1) \<Rightarrow> (G x, w1))"
proof (rule seesI)
  fix w1 w2 assume "v w1 = v w2"
  then obtain r y1 y2 where "m w1 = (r, y1)" "m w2 = (r, y2)" "v y1 = v y2" using seesD [OF assms] by blast
  then show "fst (case m w1 of (Inl e, w1) \<Rightarrow> (F e, w1) | (Inr x, w1) \<Rightarrow> (G x, w1))
      = fst (case m w2 of (Inl e, w1) \<Rightarrow> (F e, w1) | (Inr x, w1) \<Rightarrow> (G x, w1))
    \<and> v (snd (case m w1 of (Inl e, w1) \<Rightarrow> (F e, w1) | (Inr x, w1) \<Rightarrow> (G x, w1)))
      = v (snd (case m w2 of (Inl e, w1) \<Rightarrow> (F e, w1) | (Inr x, w1) \<Rightarrow> (G x, w1)))"
    by (cases r) simp_all
qed

lemma sees_suppressed [sees_intros]: "sees v m \<Longrightarrow> sees v (suppressed x m)"
  unfolding suppressed_def by (rule sees_outcome)

lemma sees_http_answer [sees_intros]:
  assumes "sees v m"
  shows "sees v (http_answer m)"
proof (rule seesI)
  fix w1 w2 assume "v w1 = v w2"
  then obtain x y1 y2 where "m w1 = (x, y1)" "m w2 = (x, y2)" "v y1 = v y2" using seesD [OF assms] by blast
  then show "fst (http_answer m w1) = fst (http_answer m w2) \<and> v (snd (http_answer m w1)) = v (snd (http_answer m w2))"
    by (auto simp: http_answer_def split: sum.split pyexc.split)
qed

lemma sees_plain [sees_intros]: "sees v m \<Longrightarrow> sees v (plain m)"
  by (simp add: plain_def sees_intros)

lemma sees_with_agent [sees_intros]: "(\<And>s. sees v (g s)) \<Longrightarrow> sees v (with_agent spec d g)"
  by (cases spec) (simp_all add: with_agent_def sees_intros)

lemma with_session_cases:
  "with_session D r g = (case session_dep D r of Inl e \<Rightarrow> draise e | Inr p \<Rightarrow> g p)"
  by (rule ext) (simp add: with_session_def dbind_def dlift_def draise_def split: sum.split)

lemma sees_with_session [sees_intros]:
  "(\<And>p. session_dep D r = Inr p \<Longrightarrow> sees v (g p)) \<Longrightarrow> sees v (with_session D r g)"
  by (simp add: with_session_cases sees_intros split: sum.split)

lemma sees_with_admin [sees_intros]:
  "(\<And>p. session_dep D r = Inr p \<Longrightarrow> sees v (g p)) \<Longrightarrow> sees v (with_admin D r g)"
  by (simp add: with_admin_def sees_intros)

lemma sees_with_page [sees_intros]: "(\<And>p. sees v (g p)) \<Longrightarrow> sees v (with_page D r g)"
  by (auto simp: with_page_def sees_intros split: sum.split page_exc.split)

lemma sees_render_token [sees_intros]: "sees v (render_token D r g)"
  by (auto simp: render_token_def sees_intros split: prod.split)

lemma sees_fragment [sees_intros]: "sees v m \<Longrightarrow> sees v (fragment tpl m)"
  by (simp add: fragment_def sees_intros)

section \<open>Views of the console\<close>

text \<open>The tables every tenant sees (health and spend are the platform's), and the rows of one tenant.\<close>

definition shared_tables :: "dash_pool \<Rightarrow> heartbeat_row list \<times> cost_table" where
  "shared_tables p = (db_heartbeats (dl_db p), db_cost_daily (dl_db p))"

definition own_rows :: "string \<Rightarrow> dash_pool \<Rightarrow> pat_row list \<times> ((string \<times> string) \<times> triage_row) list" where
  "own_rows t p = (filter (\<lambda>r. pt_tenant r = t) (db_pats (dl_db p)), filter (\<lambda>e. fst (fst e) = t) (db_triage (dl_db p)))"

text \<open>What a view has to show: the aggregator, whether the database is there, the shared tables, the tenant's rows.\<close>

locale console_view =
  fixes t :: string and v :: "dash_world \<Rightarrow> 'v"
  assumes same_agg: "v w1 = v w2 \<Longrightarrow> dw_agg w1 = dw_agg w2"
    and agg_update: "v w1 = v w2 \<Longrightarrow> v (w1\<lparr>dw_agg := s\<rparr>) = v (w2\<lparr>dw_agg := s\<rparr>)"
    and same_up: "v w1 = v w2 \<Longrightarrow> dw_db_up w1 = dw_db_up w2"
    and same_pool: "v w1 = v w2 \<Longrightarrow> has_pool w1 = has_pool w2"
    and same_rows: "v w1 = v w2 \<Longrightarrow> dw_pool w1 = Some p \<Longrightarrow> dw_pool w2 = Some q
      \<Longrightarrow> shared_tables p = shared_tables q \<and> own_rows t p = own_rows t q"
begin

lemma sees_on_agg: "sees v (on_agg m)"
proof (rule seesI)
  fix w1 w2 assume e: "v w1 = v w2"
  obtain x s where "m (dw_agg w1) = (x, s)" by fastforce
  then show "fst (on_agg m w1) = fst (on_agg m w2) \<and> v (snd (on_agg m w1)) = v (snd (on_agg m w2))"
    using same_agg [OF e] agg_update [OF e] by (simp add: on_agg_def)
qed

lemma sees_if_pool:
  assumes "sees v m1" and "sees v m2"
  shows "sees v (\<lambda>w. if has_pool w then m1 w else m2 w)"
proof (rule seesI)
  fix w1 w2 assume e: "v w1 = v w2"
  show "fst (if has_pool w1 then m1 w1 else m2 w1) = fst (if has_pool w2 then m1 w2 else m2 w2)
    \<and> v (snd (if has_pool w1 then m1 w1 else m2 w1)) = v (snd (if has_pool w2 then m1 w2 else m2 w2))"
    using seesD [OF assms(1) e] seesD [OF assms(2) e] same_pool [OF e] by (cases "has_pool w2") force+
qed

lemma sees_pool_guards:
  assumes "sees v m"
  shows "sees v (\<lambda>w. if has_pool w then m w else (y, w))" "sees v (\<lambda>w. if \<not> has_pool w then (y, w) else m w)"
proof -
  have c: "sees v (\<lambda>w. (y, w))" by (rule seesI) simp
  show "sees v (\<lambda>w. if has_pool w then m w else (y, w))" by (rule sees_if_pool [OF assms c])
  have "(\<lambda>w. if \<not> has_pool w then (y, w) else m w) = (\<lambda>w. if has_pool w then m w else (y, w))" by auto
  then show "sees v (\<lambda>w. if \<not> has_pool w then (y, w) else m w)" using sees_if_pool [OF assms c] by simp
qed

lemma sees_db_read:
  assumes "\<And>w1 w2 p q. v w1 = v w2 \<Longrightarrow> dw_pool w1 = Some p \<Longrightarrow> dw_pool w2 = Some q \<Longrightarrow> f p = f q"
  shows "sees v (db_read f)"
proof (rule seesI)
  fix w1 w2 assume e: "v w1 = v w2"
  show "fst (db_read f w1) = fst (db_read f w2) \<and> v (snd (db_read f w1)) = v (snd (db_read f w2))"
  proof (cases "dw_pool w1")
    case None
    then have "dw_pool w2 = None" using same_pool [OF e] by (simp add: has_pool_def)
    then show ?thesis using None by (simp add: db_read_def e)
  next
    case (Some p)
    then obtain q where q: "dw_pool w2 = Some q" using same_pool [OF e] by (auto simp: has_pool_def)
    have "f p = f q" by (rule assms [OF e Some q])
    then show ?thesis using Some q same_up [OF e] by (simp add: db_read_def e)
  qed
qed

lemma sees_shared: "(\<And>p q. shared_tables p = shared_tables q \<Longrightarrow> f p = f q) \<Longrightarrow> sees v (db_read f)"
  by (rule sees_db_read) (blast dest: same_rows)

lemma sees_own: "(\<And>p q. own_rows t p = own_rows t q \<Longrightarrow> f p = f q) \<Longrightarrow> sees v (db_read f)"
  by (rule sees_db_read) (blast dest: same_rows)

lemma sees_call_agent: "sees v (call_agent label spec g)"
  by (cases spec) (simp_all add: call_agent_def sees_intros sees_on_agg)

lemma sees_findings: "sees v (findings_context E now reg sev)"
  unfolding findings_context_def by (auto intro!: sees_intros sees_on_agg split: option.split agg_result.split)

lemma sees_qa: "sees v (qa_context E now reg sev)"
  unfolding qa_context_def by (auto intro!: sees_intros sees_on_agg split: option.split agg_result.split)

lemma sees_pipeline: "sees v (pipeline_context E now reg)"
  unfolding pipeline_context_def by (auto intro!: sees_intros sees_on_agg split: option.split agg_result.split)

lemma sees_pm: "sees v (pm_context E now reg)"
  unfolding pm_context_def by (auto intro!: sees_intros sees_on_agg split: option.split agg_result.split)

lemma sees_triage_overlay: "sees v (triage_overlay t)"
  unfolding triage_overlay_def
  by (intro sees_pool_guards sees_own) (simp add: own_rows_def incident_triage_map_def)

lemma sees_incidents: "sees v (incidents_context E now reg limit t)"
  unfolding incidents_context_def
  by (auto intro!: sees_intros sees_on_agg sees_triage_overlay split: option.split agg_result.split)

lemma sees_cost: "sees v (cost_context E now reg)"
  unfolding cost_context_def
  by (intro sees_intros sees_on_agg sees_pool_guards sees_shared) (simp add: shared_tables_def cost_windows_def)

lemma sees_charts: "sees v (overview_charts now)"
  unfolding overview_charts_def
  by (intro sees_intros sees_pool_guards sees_shared)
    (simp_all add: shared_tables_def cost_model_daily_def cost_agent_daily_def)

lemma sees_overview: "sees v (overview_context E now reg)"
  unfolding overview_context_def by (auto intro!: sees_intros sees_on_agg sees_charts split: prod.split)

lemma sees_agent_detail: "sees v (agent_detail_context E now reg slug)"
  unfolding agent_detail_context_def
  by (auto intro!: sees_intros sees_on_agg sees_pool_guards sees_shared split: option.split
    simp: shared_tables_def recent_heartbeats_def)

lemma sees_tokens: "sees v (db_read (\<lambda>q. list_pats t (dl_db q)))"
  by (rule sees_own) (simp add: own_rows_def list_pats_def)

lemma sees_node_health: "sees v (node_health_partial D r)"
  unfolding node_health_partial_def by (intro sees_intros sees_on_agg)

end

definition quiet_view :: "string \<Rightarrow> dash_world
    \<Rightarrow> ((heartbeat_row list \<times> cost_table) \<times> pat_row list \<times> ((string \<times> string) \<times> triage_row) list) option \<times> bool \<times> agg_state" where
  "quiet_view t w = (map_option (\<lambda>p. (shared_tables p, own_rows t p)) (dw_pool w), dw_db_up w, dw_agg w)"

definition own_trail :: "string \<Rightarrow> dash_world \<Rightarrow> audit_log option" where
  "own_trail t w = map_option (\<lambda>p. filter (\<lambda>r. ar_tenant r = t) (dl_audit p)) (dw_pool w)"

definition tenant_view :: "string \<Rightarrow> dash_world
    \<Rightarrow> (((heartbeat_row list \<times> cost_table) \<times> pat_row list \<times> ((string \<times> string) \<times> triage_row) list) option \<times> bool \<times> agg_state)
      \<times> audit_log option" where
  "tenant_view t w = (quiet_view t w, own_trail t w)"

lemma Some_eq_map_option: "Some x = map_option f y \<longleftrightarrow> (\<exists>z. y = Some z \<and> x = f z)"
  by (cases y) auto

lemma quiet_view_laws: "console_view t (quiet_view t)"
  by unfold_locales (auto simp: quiet_view_def has_pool_def Some_eq_map_option)

interpretation quiet: console_view t "quiet_view t" for t
  by (rule quiet_view_laws)

interpretation full: console_view t "tenant_view t" for t
  by unfold_locales (auto simp: tenant_view_def own_trail_def quiet_view_def has_pool_def Some_eq_map_option)

section \<open>The audit trail of the tenant\<close>

lemma sees_trail:
  assumes "\<And>p q. filter (\<lambda>r. ar_tenant r = t) (dl_audit p) = filter (\<lambda>r. ar_tenant r = t) (dl_audit q) \<Longrightarrow> f p = f q"
  shows "sees (tenant_view t) (db_read f)"
proof (rule full.sees_db_read)
  fix w1 w2 p q assume "tenant_view t w1 = tenant_view t w2" "dw_pool w1 = Some p" "dw_pool w2 = Some q"
  then show "f p = f q" by (intro assms) (simp add: tenant_view_def own_trail_def)
qed

lemma audit_where_filter:
  "filter (audit_where t ac an rs b) rows = filter (audit_where t ac an rs b) (filter (\<lambda>r. ar_tenant r = t) rows)"
  by (auto simp: audit_where_def intro: filter_cong)

lemma sees_activity: "sees (tenant_view t) (activity_context t action actor q before limit)"
  unfolding activity_context_def
proof (intro full.sees_pool_guards sees_intros sees_trail)
  fix p q :: dash_pool
  assume e: "filter (\<lambda>r. ar_tenant r = t) (dl_audit p) = filter (\<lambda>r. ar_tenant r = t) (dl_audit q)"
  show "audit_query t action actor None limit before (Some (dl_audit p)) = audit_query t action actor None limit before (Some (dl_audit q))"
    by (simp add: audit_query_def audit_where_filter [of t action actor None before "dl_audit p"]
      audit_where_filter [of t action actor None before "dl_audit q"] e del: filter_filter)
  show "distinct_actions t (Some (dl_audit p)) = distinct_actions t (Some (dl_audit q))"
    by (simp add: distinct_actions_def e)
qed

lemma sees_export:
  assumes "\<And>p. session_dep D r = Inr p \<Longrightarrow> p_tenant p = t"
  shows "sees (tenant_view t) (audit_export D r fmt)"
  unfolding audit_export_def
proof (rule sees_with_session)
  fix p assume p: "session_dep D r = Inr p"
  have "sees (tenant_view t) (db_read (\<lambda>q. iter_audit_log (p_tenant p) 50000 (dl_audit q)))"
    by (rule sees_trail) (simp add: iter_audit_log_def assms [OF p])
  then show "sees (tenant_view t) (\<lambda>w. if fmt \<noteq> ''json'' \<and> fmt \<noteq> ''csv'' then (Inl (HttpError 400 ''format must be json or csv''), w)
     else if \<not> has_pool w then (Inl (HttpError 503 ''audit log database is unavailable''), w)
     else plain (dbind (db_read (\<lambda>q. iter_audit_log (p_tenant p) 50000 (dl_audit q))) (\<lambda>rows.
       dret (page_response []
         [(''body'', PyStr (if fmt = ''json'' then json_export rows else csv_export rows)),
          (''media_type'', PyStr (if fmt = ''json'' then ''application/json'' else ''text/csv'')),
          (''filename'', PyStr (''audit-'' @ p_tenant p @ ''-'' @ compact_stamp (dn_now D) @ ''.'' @ fmt))]))) w)"
    by (cases "fmt \<noteq> ''json'' \<and> fmt \<noteq> ''csv''") (simp_all only: if_True if_False, auto intro!: sees_intros full.sees_pool_guards simp: seesI)
qed

section \<open>Writes of the tenant\<close>

text \<open>A step whose value is fixed and that keeps the view.\<close>

lemma keeps_sees: "keeps v m \<Longrightarrow> (\<And>w. fst (m w) = x) \<Longrightarrow> sees v m"
  unfolding keeps_def sees_def by simp

lemma sees_audit: "sees (quiet_view t) (dash_audit D p action res meta)"
  by (rule keeps_sees [where x = "Inr ()"])
    (auto simp: keeps_def dash_audit_def put_audit_def audit_append_def quiet_view_def shared_tables_def own_rows_def
      split: option.split)

lemma sees_db_write:
  assumes "\<And>p q. shared_tables p = shared_tables q \<Longrightarrow> own_rows t p = own_rows t q \<Longrightarrow>
      fst (g (dl_db p)) = fst (g (dl_db q))
      \<and> shared_tables (p\<lparr>dl_db := snd (g (dl_db p))\<rparr>) = shared_tables (q\<lparr>dl_db := snd (g (dl_db q))\<rparr>)
      \<and> own_rows t (p\<lparr>dl_db := snd (g (dl_db p))\<rparr>) = own_rows t (q\<lparr>dl_db := snd (g (dl_db q))\<rparr>)"
  shows "sees (quiet_view t) (db_write g)"
proof (rule seesI)
  fix w1 w2 assume e: "quiet_view t w1 = quiet_view t w2"
  show "fst (db_write g w1) = fst (db_write g w2) \<and> quiet_view t (snd (db_write g w1)) = quiet_view t (snd (db_write g w2))"
  proof (cases "dw_pool w1")
    case None
    then have "dw_pool w2 = None" using quiet.same_pool [OF e] by (simp add: has_pool_def)
    then show ?thesis using None by (simp add: db_write_def e)
  next
    case (Some p)
    then obtain q where q: "dw_pool w2 = Some q" using quiet.same_pool [OF e] by (auto simp: has_pool_def)
    from quiet.same_rows [OF e Some q] have
      "fst (g (dl_db p)) = fst (g (dl_db q))
      \<and> shared_tables (p\<lparr>dl_db := snd (g (dl_db p))\<rparr>) = shared_tables (q\<lparr>dl_db := snd (g (dl_db q))\<rparr>)
      \<and> own_rows t (p\<lparr>dl_db := snd (g (dl_db p))\<rparr>) = own_rows t (q\<lparr>dl_db := snd (g (dl_db q))\<rparr>)"
      using assms by blast
    then show ?thesis using Some q e
      by (cases "g (dl_db p)"; cases "g (dl_db q)") (simp add: db_write_def quiet_view_def)
  qed
qed

lemma filter_update_own: "filter (\<lambda>e. fst (fst e) = t) (AList.update (t, k) x al) = AList.update (t, k) x (filter (\<lambda>e. fst (fst e) = t) al)"
  by (induction al) auto

lemma sees_store_triage: "p_tenant p = t \<Longrightarrow> sees (quiet_view t) (store_triage D p k status note)"
  unfolding store_triage_def
  by (intro quiet.sees_pool_guards sees_db_write)
    (simp add: set_incident_triage_def upsert_row_def triage_merge_def shared_tables_def own_rows_def filter_update_own)

lemma filter_revocable: "filter (revocable t i) rs = filter (revocable t i) (filter (\<lambda>r. pt_tenant r = t) rs)"
  by (auto simp: revocable_def intro: filter_cong)

lemma filter_revoke: "filter (\<lambda>r. pt_tenant r = t) (map (\<lambda>r. if revocable u i r then r\<lparr>pt_revoked_at := Some now\<rparr> else r) rs)
    = map (\<lambda>r. if revocable u i r then r\<lparr>pt_revoked_at := Some now\<rparr> else r) (filter (\<lambda>r. pt_tenant r = t) rs)"
  by (induction rs) auto

lemma sees_revoke: "sees (quiet_view t) (db_write (\<lambda>db. case revoke_pat t i now db of (b, db1) \<Rightarrow> (Inr b, db1)))"
proof (rule sees_db_write)
  fix p q assume s: "shared_tables p = shared_tables q" and own: "own_rows t p = own_rows t q"
  have "filter (\<lambda>r. pt_tenant r = t) (db_pats (dl_db p)) = filter (\<lambda>r. pt_tenant r = t) (db_pats (dl_db q))"
    using own by (simp add: own_rows_def)
  then show "fst (case revoke_pat t i now (dl_db p) of (b, db1) \<Rightarrow> (Inr b, db1)) = fst (case revoke_pat t i now (dl_db q) of (b, db1) \<Rightarrow> (Inr b, db1))
      \<and> shared_tables (p\<lparr>dl_db := snd (case revoke_pat t i now (dl_db p) of (b, db1) \<Rightarrow> (Inr b, db1))\<rparr>)
        = shared_tables (q\<lparr>dl_db := snd (case revoke_pat t i now (dl_db q) of (b, db1) \<Rightarrow> (Inr b, db1))\<rparr>)
      \<and> own_rows t (p\<lparr>dl_db := snd (case revoke_pat t i now (dl_db p) of (b, db1) \<Rightarrow> (Inr b, db1))\<rparr>)
        = own_rows t (q\<lparr>dl_db := snd (case revoke_pat t i now (dl_db q) of (b, db1) \<Rightarrow> (Inr b, db1))\<rparr>)"
    using s own filter_revocable [of t i "db_pats (dl_db p)"] filter_revocable [of t i "db_pats (dl_db q)"]
    by (simp add: revoke_pat_def shared_tables_def own_rows_def filter_revoke)
qed

section \<open>Requests\<close>

lemma read_routes_see:
  assumes "\<And>p. session_dep D r = Inr p \<Longrightarrow> p_tenant p = t" and "route_method rt = ''GET''"
  shows "sees (tenant_view t) (route_body D L rt r)"
  using assms(2)
proof (cases rt)
  case Incidents
  show ?thesis unfolding Incidents route_body_def dash_route.case partial_incidents_def
    by (intro sees_intros) (simp add: assms(1) full.sees_incidents)
next
  case (Activity ac actor q b)
  show ?thesis unfolding Activity route_body_def dash_route.case partial_activity_def
    by (intro sees_intros) (simp add: assms(1) sees_activity)
next
  case (AuditExport fmt)
  show ?thesis unfolding AuditExport route_body_def dash_route.case by (rule sees_export) (rule assms(1))
next
  case Tokens
  show ?thesis unfolding Tokens route_body_def dash_route.case partial_tokens_def
    by (intro sees_intros full.sees_pool_guards) (simp add: assms(1) full.sees_tokens)
qed (auto simp: route_body_def route_method_def login_form_def page_def agent_detail_page_def list_workspaces_def partial_overview_def
    partial_findings_def partial_qa_def partial_pipeline_def partial_pm_def partial_cost_def partial_workspace_def
    partial_privacy_def partial_agent_def
    intro!: sees_intros full.sees_overview full.sees_findings full.sees_qa full.sees_pipeline full.sees_pm full.sees_cost
      full.sees_agent_detail full.sees_node_health)

lemma write_routes_see:
  assumes "\<And>p. session_dep D r = Inr p \<Longrightarrow> p_tenant p = t" and "route_method rt = ''POST''"
    and "\<nexists>name scope role days. rt = TokenMint name scope role days"
  shows "sees (quiet_view t) (route_body D L rt r)"
  using assms(2,3)
proof (cases rt)
  case (LoginSubmit tok)
  show ?thesis unfolding LoginSubmit route_body_def dash_route.case login_submit_def
    by (auto intro!: sees_intros sees_audit split: sum.split)
next
  case WebextRun
  show ?thesis unfolding WebextRun route_body_def dash_route.case action_webext_run_def
    by (auto intro!: sees_intros quiet.sees_call_agent sees_audit split: agg_result.split)
next
  case (IncidentTriage key status why)
  show ?thesis unfolding IncidentTriage route_body_def dash_route.case action_incident_triage_def
    by (intro sees_intros) (simp_all add: assms(1) sees_store_triage sees_audit quiet.sees_incidents)
next
  case (TokenRevoke i)
  show ?thesis unfolding TokenRevoke route_body_def dash_route.case revoke_pat_route_def
    by (intro sees_intros quiet.sees_pool_guards) (simp_all add: assms(1) sees_revoke sees_audit sees_intros quiet.sees_tokens)
qed (auto simp: route_body_def route_method_def logout_def action_sweep_def action_scan_def action_qa_scan_def run_action_def
    action_finding_resolve_def
    intro!: sees_intros quiet.sees_call_agent sees_audit quiet.sees_findings quiet.sees_qa)

lemma sees_serve:
  assumes "sees v (route_body D L rt r)"
  shows "sees v (dash_serve D L nonce rt r)"
proof (rule seesI)
  fix w1 w2 assume e: "v w1 = v w2"
  have "sees v (route_handler D L rt r)" using assms by (simp add: route_handler_def [abs_def] sees_http_answer)
  from seesD [OF this e] obtain x y1 y2
    where "route_handler D L rt r w1 = (x, y1)" "route_handler D L rt r w2 = (x, y2)" "v y1 = v y2" by blast
  then show "fst (dash_serve D L nonce rt r w1) = fst (dash_serve D L nonce rt r w2)
      \<and> v (snd (dash_serve D L nonce rt r w1)) = v (snd (dash_serve D L nonce rt r w2))"
    by (auto simp: dash_serve_def csrf_middleware_def e split: sum.split option.split prod.split)
qed

text \<open>C32: Tenants cannot see each other. The answer to a request of a session of tenant \<open>t\<close>, of any route
  but the minting of a token, is decided by the rows of \<open>t\<close>, the tables every tenant sees and the
  aggregator: two databases that differ in other tenants' audit trails, access tokens and triage
  decisions give the same answer, and still agree afterwards on the tokens and triage decisions of
  \<open>t\<close>, the shared tables and the aggregator. (A mint may have to draw again because another
  tenant's token has the prefix.)\<close>

theorem tenant_reads_isolated:
  assumes "tenant_view t w1 = tenant_view t w2"
    and "\<forall>p. session_dep D r = Inr p \<longrightarrow> p_tenant p = t"
    and "\<nexists>name scope role days. rt = TokenMint name scope role days"
  shows "fst (dash_serve D L nonce rt r w1) = fst (dash_serve D L nonce rt r w2)
    \<and> quiet_view t (snd (dash_serve D L nonce rt r w1)) = quiet_view t (snd (dash_serve D L nonce rt r w2))"
proof (cases "route_method rt = ''GET''")
  case True
  have h: "sees (tenant_view t) (dash_serve D L nonce rt r)"
    by (intro sees_serve read_routes_see True) (simp add: assms(2))
  show ?thesis using seesD [OF h assms(1)] by (force simp: tenant_view_def)
next
  case False
  then have "route_method rt = ''POST''" by (cases rt) (simp_all add: route_method_def)
  then have h: "sees (quiet_view t) (dash_serve D L nonce rt r)"
    by (intro sees_serve write_routes_see) (simp_all add: assms(2,3))
  have "quiet_view t w1 = quiet_view t w2" using assms(1) by (simp add: tenant_view_def)
  then show ?thesis using seesD [OF h] by force
qed

text \<open>Another tenant's row in the audit trail: the operator of \<open>acme\<close> reads the same.\<close>

definition demo_neighbour :: dash_world where
  "demo_neighbour = demo_world\<lparr>dw_pool := Some \<lparr>dl_db = create_schema, dl_audit =
     [\<lparr>ar_id = 1, ar_tenant = ''other'', ar_ts = 0, ar_actor = ''x'', ar_action = ''login'', ar_resource = None,
       ar_metadata = PyNone\<rparr>]\<rparr>\<rparr>"

theorem tenant_reads_isolated_witness:
  "demo_neighbour \<noteq> demo_world \<and>
    fst (dash_serve demo_console demo_libs ''m'' (AuditExport ''json'') (demo_request ''/audit/export'') demo_neighbour)
    = fst (dash_serve demo_console demo_libs ''m'' (AuditExport ''json'') (demo_request ''/audit/export'') demo_world)"
proof
  have "length (dl_audit (the (dw_pool demo_neighbour))) \<noteq> length (dl_audit (the (dw_pool demo_world)))"
    by (simp add: demo_neighbour_def demo_world_def)
  then show "demo_neighbour \<noteq> demo_world" by metis
  have "tenant_view ''acme'' demo_neighbour = tenant_view ''acme'' demo_world"
    by (simp add: tenant_view_def quiet_view_def own_trail_def shared_tables_def own_rows_def demo_neighbour_def demo_world_def)
  then show "fst (dash_serve demo_console demo_libs ''m'' (AuditExport ''json'') (demo_request ''/audit/export'') demo_neighbour)
    = fst (dash_serve demo_console demo_libs ''m'' (AuditExport ''json'') (demo_request ''/audit/export'') demo_world)"
    by (rule tenant_reads_isolated [THEN conjunct1]) (simp_all add: demo_session demo_principal_def)
qed

end
