(* ===== verification/JsonTyped.thy ===== *)
theory JsonTyped
  imports JsonRoundtrip
begin

text \<open>
  What the decoder returns is well formed: distinct keys, integers of at most 4300 digits, finite
  floats in canonical form. So a decoded value can be encoded and decoded again without change.
\<close>

lemma show_nat_length: "n < 10 ^ k \<Longrightarrow> 0 < k \<Longrightarrow> length (show_nat n) \<le> k"
proof (induction n arbitrary: k rule: show_nat.induct)
  case (1 n)
  show ?case
  proof (cases "n < 10")
    case True
    then show ?thesis using 1(3) by (subst show_nat.simps) simp
  next
    case False
    obtain j where j: "k = Suc j" using 1(3) by (cases k) auto
    with False 1(2) have "0 < j" by (cases j) auto
    moreover have "n div 10 < 10 ^ j" using 1(2) j by (simp add: less_mult_imp_div_less mult.commute)
    ultimately have "length (show_nat (n div 10)) \<le> j" using 1(1) False by blast
    then show ?thesis using False j by (subst show_nat.simps) simp
  qed
qed

lemma nat_of_digits_less: "\<forall>c \<in> set ds. is_digit c \<Longrightarrow> nat_of_digits ds < 10 ^ length ds"
proof (induction ds rule: rev_induct)
  case (snoc c ds)
  then have "48 \<le> code c" "code c \<le> 57" by (simp_all add: is_digit_def)
  then have "digit_val c \<le> 9" unfolding digit_val_def by linarith
  moreover have "nat_of_digits ds + 1 \<le> 10 ^ length ds" using snoc by simp
  ultimately show ?case by (simp add: nat_of_digits_snoc)
qed (simp add: nat_of_digits_def)

lemma dec_norm_canonical: "dec_norm m e = Dec m' e' \<Longrightarrow> canonical m' e'"
proof (induction m e rule: dec_norm.induct)
  case (1 m e)
  show ?case
  proof (cases "m = 0")
    case True
    then show ?thesis using 1(2) by (simp add: dec_norm.simps [of 0] canonical_def)
  next
    case False
    show ?thesis
    proof (cases "m mod 10 = 0")
      case True
      then show ?thesis using 1 False by (simp add: dec_norm.simps [of m e])
    next
      case f: False
      then have "m' = m" "e' = e" using 1(2) False by (simp_all add: dec_norm.simps [of m e])
      then show ?thesis using False f by (simp add: canonical_def dec_norm.simps [of m e])
    qed
  qed
qed

lemma jwf_dec_norm: "jwf (PyFloat (dec_norm m e))"
proof -
  have "\<exists>m' e'. dec_norm m e = Dec m' e'"
    by (induction m e rule: dec_norm.induct) (subst dec_norm.simps, auto)
  then obtain m' e' where d: "dec_norm m e = Dec m' e'" by blast
  then show ?thesis using dec_norm_canonical [OF d] by simp
qed

lemma scan_num_typed: "scan_num neg s = Inr (v, r) \<Longrightarrow> jwf v"
proof -
  assume s: "scan_num neg s = Inr (v, r)"
  define ds where "ds = (if s \<noteq> [] \<and> hd s = CHR ''0'' then ''0'' else takeWhile is_digit s)"
  have dig: "\<forall>c \<in> set ds. is_digit c" by (auto simp: ds_def dest: set_takeWhileD)
  have int: "jwf (PyInt (k * int (nat_of_digits ds)))" if "length ds \<le> 4300" "ds \<noteq> []" "\<bar>k\<bar> = 1" for k
  proof -
    have "length (show_nat (nat_of_digits ds)) \<le> length ds"
      using show_nat_length [OF nat_of_digits_less [OF dig]] that(2) by simp
    moreover have "nat \<bar>k * int (nat_of_digits ds)\<bar> = nat_of_digits ds" using that(3) by (simp add: abs_mult)
    ultimately show ?thesis using that(1) by simp
  qed
  show ?thesis
    using s int [of 1] int [of "- 1"] unfolding scan_num_def Let_def ds_def [symmetric]
    by (auto simp: jwf_dec_norm simp del: jwf.simps split: prod.splits if_splits)
qed

lemma scan_atom_typed: "scan_atom s = Inr (v, r) \<Longrightarrow> jwf v"
  by (auto simp: scan_atom_def split: if_splits dest: scan_num_typed)

lemma foldl_dict_set_typed:
  assumes "distinct (map fst e)" and "list_all (\<lambda>p. jwf (snd p)) e" and "list_all (\<lambda>p. jwf (snd p)) kvs"
  shows "jwf (PyDict (foldl (\<lambda>d (k, v). dict_set k v d) e kvs))"
  using assms
proof (induction kvs arbitrary: e)
  case Nil
  then show ?case by (auto simp: list_all_iff)
next
  case (Cons p kvs)
  obtain k v where p: "p = (k, v)" by (cases p)
  have "list_all (\<lambda>p. jwf (snd p)) (AList.update k v e)"
    using Cons.prems(2,3) p by (induction e) auto
  then show ?case using Cons p by (simp add: distinct_update)
qed

lemma parse_val_typed_step:
  assumes E: "\<And>s vs r. parse_elems n s = Inr (vs, r) \<Longrightarrow> list_all jwf vs"
    and M: "\<And>s kvs r. parse_members n s = Inr (kvs, r) \<Longrightarrow> list_all (\<lambda>p. jwf (snd p)) kvs"
    and "parse_val (Suc n) s = Inr (v, r)"
  shows "jwf v"
proof (cases s)
  case (Cons c cs)
  have D: "jwf (PyDict (foldl (\<lambda>d (k, v). dict_set k v d) [] kvs))" if "parse_members n u = Inr (kvs, t)" for u kvs t
    using foldl_dict_set_typed [of "[]", OF _ _ M [OF that]] by simp
  show ?thesis using assms(3) E scan_atom_typed [of s v r] D unfolding Cons
    by (auto simp: rbind_eq_Inr_iff Let_def simp del: jwf.simps(5) split: if_splits)
qed (use assms(3) in simp)

lemma parse_elems_typed_step:
  assumes V: "\<And>s v r. parse_val n s = Inr (v, r) \<Longrightarrow> jwf v"
    and E: "\<And>s vs r. parse_elems n s = Inr (vs, r) \<Longrightarrow> list_all jwf vs"
    and "parse_elems (Suc n) s = Inr (vs, r)"
  shows "list_all jwf vs"
proof -
  obtain v t where v: "parse_val n s = Inr (v, t)" using assms(3) by (auto simp: rbind_eq_Inr_iff)
  show ?thesis using assms(3) V [OF v] E unfolding parse_elems.simps v
    by (auto simp: rbind_eq_Inr_iff split: list.splits if_splits)
qed

lemma parse_members_typed_step:
  assumes V: "\<And>s v r. parse_val n s = Inr (v, r) \<Longrightarrow> jwf v"
    and M: "\<And>s kvs r. parse_members n s = Inr (kvs, r) \<Longrightarrow> list_all (\<lambda>p. jwf (snd p)) kvs"
    and "parse_members (Suc n) s = Inr (kvs, r)"
  shows "list_all (\<lambda>p. jwf (snd p)) kvs"
proof -
  obtain cs where s: "s = CHR 0x22 # cs" using assms(3) by (cases s) (auto split: if_splits)
  obtain k t where k: "scan_str cs = Inr (k, t)" using assms(3) s by (auto simp: rbind_eq_Inr_iff)
  obtain r1 where r1: "skip_ws t = CHR '':'' # r1"
    using assms(3) s k by (cases "skip_ws t") (auto split: if_splits)
  obtain v r2 where v: "parse_val n (skip_ws r1) = Inr (v, r2)"
    using assms(3) s k r1 by (auto simp: rbind_eq_Inr_iff)
  obtain c r3 where c: "skip_ws r2 = c # r3" using assms(3) s k r1 v by (cases "skip_ws r2") auto
  show ?thesis
  proof (cases "c = CHR ''}''")
    case True
    then show ?thesis using assms(3) s k r1 v c V [OF v] by auto
  next
    case False
    then have "c = CHR '',''" using assms(3) s k r1 v c by (auto split: if_splits)
    then obtain kvs' r4 where "parse_members n (skip_ws r3) = Inr (kvs', r4)" "kvs = (k, v) # kvs'"
      using assms(3) s k r1 v c by (auto simp: rbind_eq_Inr_iff)
    then show ?thesis using M V [OF v] by simp
  qed
qed

lemma parse_typed:
  "(\<forall>s v r. parse_val n s = Inr (v, r) \<longrightarrow> jwf v)
   \<and> (\<forall>s vs r. parse_elems n s = Inr (vs, r) \<longrightarrow> list_all jwf vs)
   \<and> (\<forall>s kvs r. parse_members n s = Inr (kvs, r) \<longrightarrow> list_all (\<lambda>p. jwf (snd p)) kvs)"
proof (induction n)
  case (Suc n)
  have V: "parse_val n s = Inr (v, r) \<Longrightarrow> jwf v" for s v r using Suc by blast
  have E: "parse_elems n s = Inr (vs, r) \<Longrightarrow> list_all jwf vs" for s vs r using Suc by blast
  have M: "parse_members n s = Inr (kvs, r) \<Longrightarrow> list_all (\<lambda>p. jwf (snd p)) kvs" for s kvs r using Suc by blast
  have "jwf v" if "parse_val (Suc n) s = Inr (v, r)" for s v r
    by (rule parse_val_typed_step [OF E M that])
  moreover have "list_all jwf vs" if "parse_elems (Suc n) s = Inr (vs, r)" for s vs r
    by (rule parse_elems_typed_step [OF V E that])
  moreover have "list_all (\<lambda>p. jwf (snd p)) kvs" if "parse_members (Suc n) s = Inr (kvs, r)" for s kvs r
    by (rule parse_members_typed_step [OF V M that])
  ultimately show ?case by blast
qed simp

lemma json_loads_typed:
  assumes "json_loads s = Inr v"
  shows "jwf v"
proof -
  obtain w r where "parse_val (2 * length s + 2) (skip_ws s) = Inr (w, r)" "v = w"
    using assms unfolding json_loads_def by (auto simp: rbind_eq_Inr_iff split: if_splits)
  then show ?thesis using parse_typed by blast
qed

end
