(* ===== verification/Wire.thy ===== *)
theory Wire
  imports MonitorApi DashReads JsonTyped
begin

text \<open>
  The two ends of one wire: the dashboard's incidents page over the monitoring agent's own
  \<open>GET /incidents\<close>, through the dashboard's service token, the agent's admin guard and the JSON body.
  How the agent's framework renders a JSON body is a parameter (\<open>renders_json\<close>: what it renders is
  read back).
\<close>

section \<open>JSON on the wire\<close>

definition renders_json :: "(pyval \<Rightarrow> string) \<Rightarrow> bool" where
  "renders_json render \<longleftrightarrow> (\<forall>v. jwf v \<longrightarrow> json_loads_bytes (render v) = Inr v)"

text \<open>The encoder of the model is such a rendering: its text is printable ASCII, so the bytes are the text.\<close>

definition wire_char :: "char \<Rightarrow> bool" where
  "wire_char c \<longleftrightarrow> 32 \<le> code c \<and> code c < 128"

lemma wire_show_nat: "list_all wire_char (show_nat n)"
  using show_nat_digits [of n] by (auto simp: list_all_iff wire_char_def is_digit_def)

lemma wire_show_int: "list_all wire_char (show_int k)"
  by (simp add: show_int_def wire_show_nat) (simp add: wire_char_def)

lemma wire_take_drop: "list_all wire_char s \<Longrightarrow> list_all wire_char (take n s)" "list_all wire_char s \<Longrightarrow> list_all wire_char (drop n s)"
  by (auto simp: list_all_iff dest: in_set_takeD in_set_dropD)

lemma wire_replicate: "wire_char c \<Longrightarrow> list_all wire_char (replicate n c)"
  by (induction n) auto

lemma wire_punctuation:
  "wire_char CHR ''0''" "wire_char CHR ''.''" "wire_char CHR ''-''" "wire_char CHR ''+''" "wire_char CHR ''e''"
  "wire_char CHR ''[''" "wire_char CHR '']''" "wire_char CHR ''{''" "wire_char CHR ''}''"
  by (simp_all add: wire_char_def)

lemma wire_repr_dec: "list_all wire_char (repr_dec m e)"
proof -
  have "list_all wire_char (let x = p - 1; xs = show_nat (nat \<bar>x\<bar>)
      in (if x < 0 then ''-'' else ''+'') @ (if length xs < 2 then CHR ''0'' # xs else xs))" for p :: int
    by (simp add: Let_def wire_show_nat wire_punctuation)
  then show ?thesis
    unfolding repr_dec_def
    by (simp add: Let_def wire_show_nat wire_take_drop wire_replicate wire_punctuation del: One_nat_def take_Suc drop_Suc)
qed

lemma wire_hex_digit: "n < 16 \<Longrightarrow> wire_char (hex_digit n)"
  by (simp add: wire_char_def hex_digit_def)

lemma wire_json_char: "list_all wire_char (json_char c)"
proof -
  have "code c div 16 < 16" by (simp add: div_less_iff_less_mult)
  then show ?thesis using wire_hex_digit [of "code c div 16"] wire_hex_digit [of "code c mod 16"]
    by (simp add: json_char_def) (simp add: wire_char_def)
qed

lemma wire_json_str: "list_all wire_char (json_str s)"
proof -
  have "list_all wire_char (concat (map json_char s))" by (induction s) (simp_all add: wire_json_char)
  then show ?thesis by (simp add: json_str_def) (simp add: wire_char_def)
qed

lemma wire_join: "list_all wire_char sep \<Longrightarrow> list_all (list_all wire_char) ws \<Longrightarrow> list_all wire_char (join sep ws)"
  by (induction sep ws rule: join.induct) auto

lemma wire_float: "list_all wire_char (json_float f)"
  by (cases f) (simp_all add: wire_repr_dec, simp_all add: wire_char_def)

lemma wire_dumps:
  assumes "list_all wire_char isep" and "list_all wire_char ksep"
  shows "list_all wire_char (json_dumps isep ksep v)"
  using assms
proof (induction isep ksep v rule: json_dumps.induct)
  case (6 isep ksep vs)
  then have "list_all (list_all wire_char) (map (json_dumps isep ksep) vs)" by (simp add: list_all_iff)
  then show ?case using 6 wire_join [of isep "map (json_dumps isep ksep) vs"] by (simp add: wire_punctuation)
next
  case (7 isep ksep d)
  then have "list_all (list_all wire_char) (map (\<lambda>(k, v). json_str k @ ksep @ json_dumps isep ksep v) d)"
    by (auto simp: list_all_iff wire_json_str [unfolded list_all_iff])
  then show ?case using 7 wire_join [of isep] by (simp add: wire_punctuation)
qed (simp_all add: wire_show_int wire_float wire_json_str, simp_all add: wire_char_def)

lemma utf8_ascii: "list_all wire_char s \<Longrightarrow> utf8_decode s = Inr s"
  by (induction s) (simp_all add: wire_char_def)

lemma compact_renders: "renders_json json_compact"
proof -
  have "json_loads_bytes (json_compact v) = Inr v" if "jwf v" for v
  proof -
    let ?s = "json_compact v"
    have w: "list_all wire_char ?s" by (rule wire_dumps) (simp_all add: wire_char_def)
    then have "CHR 0x00 \<notin> set ?s" "CHR 0xEF \<notin> set ?s" "CHR 0xFE \<notin> set ?s" "CHR 0xFF \<notin> set ?s"
      by (auto simp: list_all_iff wire_char_def)
    then have "\<not> prefix [CHR 0xEF, CHR 0xBB, CHR 0xBF] ?s" "\<not> prefix [CHR 0xFE, CHR 0xFF] ?s"
      "\<not> prefix [CHR 0xFF, CHR 0xFE] ?s" "CHR 0x00 \<notin> set (take 4 ?s)"
      by (auto dest: set_mono_prefix in_set_takeD)
    moreover have "json_loads ?s = Inr v" by (rule json_loads_dumps [OF _ _ that]) (simp_all add: sep_ok_def skip_ws_def)
    ultimately show ?thesis using utf8_ascii [OF w] by (simp add: json_loads_bytes_def)
  qed
  then show ?thesis by (simp add: renders_json_def)
qed

section \<open>The agent's end\<close>

text \<open>The response of a route: its JSON body, or the status of what it raised.\<close>

definition http_of :: "(pyval \<Rightarrow> string) \<Rightarrow> (pyexc, pyval) result \<Rightarrow> up_http" where
  "http_of render r =
     (case r of
        Inr v \<Rightarrow> UpResp 200 (render v)
      | Inl (HttpError sc detail) \<Rightarrow> UpResp sc (render (PyDict [(''detail'', PyStr detail)]))
      | Inl e \<Rightarrow> UpResp 500 ''Internal Server Error'')"

text \<open>The monitoring agent at \<open>base\<close> at time \<open>t\<close>, for the one route the incidents page reads.\<close>

definition mon_serves ::
  "(pyval \<Rightarrow> string) \<Rightarrow> jwtlib \<Rightarrow> secs \<Rightarrow> mon_settings \<Rightarrow> string \<Rightarrow> incident_store \<Rightarrow> http_req \<Rightarrow> up_http" where
  "mon_serves render lib t ms base store rq =
     (let path = base @ ''/incidents?limit=''
      in if hq_method rq \<noteq> ''GET'' \<or> \<not> prefix path (hq_url rq) then UpResp 404 ''{}''
         else (case int_of_str (drop (length path) (hq_url rq)) of
                 None \<Rightarrow> UpResp 422 ''{}''
               | Some limit \<Rightarrow>
                   http_of render (list_incidents lib t ms (case hq_auth rq of None \<Rightarrow> [] | Some h \<Rightarrow> h) limit store)))"

definition incidents_answer :: "int \<Rightarrow> incident_store \<Rightarrow> (string \<times> incident_row) list" where
  "incidents_answer limit store = incidents_recent (nat (max 1 (min limit 500))) store"

lemma jwf_incident_json:
  "jwf (incident_json kr) \<longleftrightarrow> length (show_nat (nat \<bar>in_id (snd kr)\<bar>)) \<le> 4300 \<and> length (show_nat (nat \<bar>in_count (snd kr)\<bar>)) \<le> 4300"
  by (simp add: incident_json_def split: prod.split)

lemma answer_jwf:
  assumes "\<forall>kr \<in> set (is_rows store). jwf (incident_json kr)"
  shows "jwf (PyDict [(''count'', PyInt (int (length (incidents_answer limit store)))),
    (''incidents'', PyList (map incident_json (incidents_answer limit store)))])"
proof -
  have "length (incidents_answer limit store) \<le> 500" by (simp add: incidents_answer_def incidents_recent_def)
  then have "length (show_nat (length (incidents_answer limit store))) \<le> 4300"
    using show_nat_length [of "length (incidents_answer limit store)" 3] by simp
  moreover have "list_all (\<lambda>kr. jwf (incident_json kr)) (incidents_answer limit store)"
    using assms by (auto simp: list_all_iff incidents_answer_def incidents_recent_def dest: in_set_takeD)
  ultimately show ?thesis by (simp add: list.pred_map comp_def)
qed

lemma mon_serves_admin:
  assumes "current_principal lib t (auth_settings.truncate ms) h = Inr p" and "require_admin p = Inr p"
  shows "mon_serves render lib t ms base store
      \<lparr>hq_method = ''GET'', hq_url = base @ ''/incidents?limit='' @ show_int limit, hq_auth = Some h, hq_json = j\<rparr>
    = UpResp 200 (render (PyDict [(''count'', PyInt (int (length (incidents_answer limit store)))),
        (''incidents'', PyList (map incident_json (incidents_answer limit store)))]))"
  using assms by (simp add: mon_serves_def int_of_str_show_int http_of_def list_incidents_def admin_principal_def
      incidents_answer_def Let_def)

section \<open>The console's end\<close>

text \<open>The page when the agent answered \<open>v\<close>, and the tenant's overlay of triage decisions.\<close>

definition overlay_of :: "string \<Rightarrow> dash_world \<Rightarrow> pyval" where
  "overlay_of tenant w = (case dw_pool w of
     None \<Rightarrow> PyDict []
   | Some q \<Rightarrow> PyDict (map (\<lambda>(k, r). (k, triage_json r)) (incident_triage_map tenant (Some (dl_db q)))))"

lemma triage_overlay_of: "dw_pool w \<noteq> None \<longrightarrow> dw_db_up w \<Longrightarrow> triage_overlay tenant w = (Inr (overlay_of tenant w), w)"
  by (cases "dw_pool w") (simp_all add: triage_overlay_def overlay_of_def has_pool_def db_read_def)

lemma overlay_of_agg [simp]: "overlay_of tenant (w\<lparr>dw_agg := s\<rparr>) = overlay_of tenant w"
  by (simp add: overlay_of_def)

lemma incidents_context_payload:
  assumes "with_feature reg ''incidents'' = Some mon"
    and "agg_incidents E now mon limit (dw_agg w) = (Inr (Payload v), s)"
    and "py_get v ''incidents'' (PyList []) = Inr x"
    and "dw_pool w \<noteq> None \<longrightarrow> dw_db_up w"
  shows "incidents_context E now reg limit tenant w
    = (Inr [(''unavailable'', PyNone), (''incidents'', x), (''triage'', overlay_of tenant w)], w\<lparr>dw_agg := s\<rparr>)"
  using assms by (simp add: incidents_context_def dbind_def on_agg_def triage_overlay_of answer_get_def dlift_def dret_def)

section \<open>Both ends\<close>

lemma incidents_over_wire:
  assumes "\<forall>rq. ae_net E rq = mon_serves render (ae_lib E) t ms (sp_base_url mon) store rq"
    and "auth_header (ae_lib E) (ae_settings E) now (ag_token s) = (Some h, tok)"
    and "current_principal (ae_lib E) t (auth_settings.truncate ms) h = Inr p" and "require_admin p = Inr p"
    and "renders_json render" and "\<forall>kr \<in> set (is_rows store). jwf (incident_json kr)"
  shows "agg_incidents E now mon limit s = (Inr (Payload (PyDict
      [(''count'', PyInt (int (length (incidents_answer limit store)))),
       (''incidents'', PyList (map incident_json (incidents_answer limit store)))])), s\<lparr>ag_token := tok\<rparr>)"
proof -
  let ?v = "PyDict [(''count'', PyInt (int (length (incidents_answer limit store)))),
       (''incidents'', PyList (map incident_json (incidents_answer limit store)))]"
  have "json_loads_bytes (render ?v) = Inr ?v"
    using assms(5) answer_jwf [OF assms(6)] by (simp add: renders_json_def)
  then have "read_response sl bad (UpResp 200 (render ?v)) = Inr (Payload ?v)" for sl bad
    by (simp add: read_response_def)
  moreover have "ae_net E \<lparr>hq_method = ''GET'', hq_url = sp_base_url mon @ ''/incidents?limit='' @ show_int limit,
      hq_auth = Some h, hq_json = None\<rparr> = UpResp 200 (render ?v)"
    unfolding assms(1) [rule_format] by (rule mon_serves_admin [OF assms(3,4)])
  ultimately show ?thesis by (simp add: agg_incidents_def agg_get_def send_def assms(2))
qed

text \<open>C26: The incidents page shows the monitoring agent's incidents. A dashboard and a monitoring agent
  with the same secret, algorithm and audience, whatever calls came before: the page lists exactly
  the rows the agent's store returns for the limit (clamped to 1 and 500), newest first, with the
  tenant's triage decisions over them; the dashboard's service token passes the agent's admin
  guard, and the rows survive the wire. Assumed: a JWT library that decodes what it encoded, a
  framework whose JSON is read back, a request that arrives within the token's life, and counters
  of at most 4300 digits (beyond that the decoder refuses them).\<close>

theorem console_shows_incidents:
  assumes "auth_settings.truncate ms = auth_settings.truncate st" and "ae_settings E = st"
    and "\<forall>rq. ae_net E rq = mon_serves render (ae_lib E) t ms (sp_base_url mon) store rq"
    and "\<forall>e. jwt_roundtrip (ae_lib E) (upstream_claims st e) (jwt_secret st) ''HS256''"
    and "\<forall>c. jwt_encode (ae_lib E) c (jwt_secret st) ''HS256'' \<noteq> []"
    and "jwt_secret st \<noteq> []" and "''HS256'' \<in> set (jwt_algorithms st)" and "jwt_audience st \<noteq> Some []"
    and "0 \<le> now" and "t < now + 60" and "t < of_int (\<lfloor>now\<rfloor> + ds_upstream_token_ttl_s st)"
    and "renders_json render" and "\<forall>kr \<in> set (is_rows store). jwf (incident_json kr)"
    and "with_feature reg ''incidents'' = Some mon" and "dw_pool w \<noteq> None \<longrightarrow> dw_db_up w"
    and "ag_token (dw_agg w) = upstream_calls (ae_lib E) st ts upstream_new"
  shows "fst (incidents_context E now reg limit tenant w) = Inr
    [(''unavailable'', PyNone),
     (''incidents'', PyList (map incident_json (incidents_recent (nat (max 1 (min limit 500))) store))),
     (''triage'', overlay_of tenant w)]"
proof -
  obtain tok u p where a: "auth_header (ae_lib E) st now (ag_token (dw_agg w)) = (Some (''Bearer '' @ tok), u)"
      "current_principal (ae_lib E) t (auth_settings.truncate ms) (''Bearer '' @ tok) = Inr p" "require_admin p = Inr p"
    using upstream_accepted [OF assms(4,6-8,5,9-11), of ts] unfolding assms(16) assms(1) by blast
  note i = incidents_over_wire [OF assms(3) a(1) [folded assms(2)] a(2,3) assms(12,13)]
  show ?thesis
    unfolding incidents_context_payload [OF assms(14) i _ assms(15), of limit "PyList (map incident_json (incidents_answer limit store))",
        unfolded py_get.simps, simplified]
    by (simp add: incidents_answer_def)
qed

text \<open>Two incidents; the page asks for one and shows the later.\<close>

definition wire_mon :: mon_settings where
  "wire_mon = mon_defaults (demo_settings ''http://llm.internal'')"

definition wire_spec :: agent_spec where
  "wire_spec = spec_from_config \<lparr>ac_slug = ''monitor'', ac_url = ''http://monitor'', ac_kind = KServer, ac_title = [],
     ac_port = 0, ac_features = [''incidents'']\<rparr>"

definition wire_row :: "int \<Rightarrow> secs \<Rightarrow> incident_row" where
  "wire_row i seen = \<lparr>in_id = i, in_source = ''api'', in_severity = ''high'', in_title = ''down'', in_body = ''b'', in_count = 2,
     in_first_seen = 0, in_last_seen = seen, in_status = ''open''\<rparr>"

definition wire_store :: incident_store where
  "wire_store = \<lparr>is_rows = [(''a'', wire_row 1 10), (''b'', wire_row 2 20)], is_next_id = 3\<rparr>"

definition wire_env :: agg_env where
  "wire_env = \<lparr>ae_lib = service_lib demo_dash, ae_settings = demo_dash,
     ae_net = mon_serves json_compact (service_lib demo_dash) 30 wire_mon ''http://monitor'' wire_store\<rparr>"

lemma wire_recent: "incidents_recent 1 wire_store = [(''b'', wire_row 2 20)]"
  by (simp add: incidents_recent_def wire_store_def wire_row_def)

lemma wire_auth: "auth_settings.truncate wire_mon = auth_settings.truncate demo_dash"
  by (simp add: wire_mon_def mon_defaults_def demo_dash_def dash_defaults_def agent_settings.defs auth_settings.defs)

lemma wire_jwf: "\<forall>kr \<in> set (is_rows wire_store). jwf (incident_json kr)"
  using show_nat_length [of 1 1] show_nat_length [of 2 1] by (simp add: jwf_incident_json wire_store_def wire_row_def)

lemma wire_spec_simps: "with_feature [wire_spec] ''incidents'' = Some wire_spec" "sp_base_url wire_spec = ''http://monitor''"
  by code_simp+

theorem console_shows_incidents_witness:
  "fst (incidents_context wire_env 20 [wire_spec] 1 ''acme'' demo_world) = Inr
    [(''unavailable'', PyNone), (''incidents'', PyList [incident_json (''b'', wire_row 2 20)]), (''triage'', PyDict [])]"
proof -
  have "fst (incidents_context wire_env 20 [wire_spec] 1 ''acme'' demo_world) = Inr
    [(''unavailable'', PyNone),
     (''incidents'', PyList (map incident_json (incidents_recent (nat (max 1 (min 1 500))) wire_store))),
     (''triage'', overlay_of ''acme'' demo_world)]"
    by (rule console_shows_incidents [OF wire_auth, of wire_env json_compact 30 wire_spec wire_store 20 "[wire_spec]" demo_world "[]"])
      (simp_all add: wire_env_def wire_spec_simps service_lib_roundtrip service_lib_ne compact_renders wire_jwf demo_world_def)
  then show ?thesis by (simp add: wire_recent [unfolded One_nat_def] overlay_of_def demo_world_def incident_triage_map_def create_schema_def)
qed

end
