(* ===== verification/AggProps.thy ===== *)
theory AggProps
  imports Aggregator JsonTyped
begin

text \<open>
  The overview board. What agents answer is a function of the URL here, so the tile of an agent is
  a function of its three replies (\<open>tile\<close>) and the board is the tiles in the order of the registry;
  the values in a tile are decoded JSON, so a cached board is read back as it was written.
\<close>

section \<open>The board as a function of the replies\<close>

definition reply :: "(string \<Rightarrow> up_http) \<Rightarrow> agent_spec \<Rightarrow> string \<Rightarrow> (pyexc, agg_result) result" where
  "reply answers spec path =
     read_response (sp_slug spec) (Unavailable (sp_slug spec) ''bad json'') (answers (sp_base_url spec @ path))"

definition answers_by_url :: "agg_env \<Rightarrow> (string \<Rightarrow> up_http) \<Rightarrow> bool" where
  "answers_by_url E answers \<longleftrightarrow> (\<forall>rq. ae_net E rq = answers (hq_url rq))"

definition tile :: "(string \<Rightarrow> up_http) \<Rightarrow> agent_spec \<Rightarrow> (pyexc, health_dto) result" where
  "tile answers spec =
     (if sp_kind spec = KBatch then
        rbind (reply answers spec ''/metrics.json'') (\<lambda>metrics. fold_metrics metrics (blank_health spec))
      else
        rbind (reply answers spec ''/healthz'') (\<lambda>live. rbind (reply answers spec ''/readyz'') (\<lambda>readyz.
        rbind (reply answers spec ''/metrics.json'') (\<lambda>metrics.
          compose_health (blank_health spec) live readyz metrics))))"

lemma agg_get_reply:
  "answers_by_url E answers \<Longrightarrow> fst (agg_get E now spec path s) = reply answers spec path"
  by (simp add: agg_get_def send_def reply_def answers_by_url_def split: prod.split)

lemma agg_get_frame [frame]:
  "agg_get E now spec path s = (r, s') \<Longrightarrow> ag_cache s' = ag_cache s \<and> ag_redis_up s' = ag_redis_up s"
  by (auto simp: agg_get_def send_def split: prod.splits)

lemma agg_get_replyD:
  "agg_get E now spec path s = (r, s') \<Longrightarrow> answers_by_url E answers \<Longrightarrow> r = reply answers spec path"
  using agg_get_reply [of E answers now spec path s] by simp

lemma health_tile:
  assumes "answers_by_url E answers"
  shows "fst (health E now spec s) = tile answers spec"
  by (auto simp: health_def tile_def split: prod.splits dest!: agg_get_replyD [OF _ assms])

lemma health_frame [frame]:
  "health E now spec s = (r, s') \<Longrightarrow> ag_cache s' = ag_cache s \<and> ag_redis_up s' = ag_redis_up s"
  by (auto simp: health_def split: prod.splits if_splits dest!: agg_get_frame)

text \<open>A gather over calls whose result does not depend on the state is a map.\<close>

lemma gather_rmap:
  assumes "\<And>x s. fst (f x s) = g x"
  shows "fst (gather f xs s) = rmap g xs"
proof (induction xs arbitrary: s)
  case (Cons x xs)
  obtain r s1 where "f x s = (r, s1)" by fastforce
  moreover from this have "r = g x" using assms by (metis fst_conv)
  moreover obtain rs s2 where "gather f xs s1 = (rs, s2)" by fastforce
  ultimately show ?case using Cons [of s1] by simp
qed simp

lemma gather_frame:
  assumes "\<And>x s r s'. x \<in> set xs \<Longrightarrow> f x s = (r, s') \<Longrightarrow> P s \<Longrightarrow> P s'"
    and "gather f xs s = (rs, s')" and "P s"
  shows "P s'"
  using assms
proof (induction xs arbitrary: s rs)
  case (Cons x xs)
  obtain r s1 where f: "f x s = (r, s1)" by fastforce
  obtain rs2 s2 where g: "gather f xs s1 = (rs2, s2)" by fastforce
  have "P s1" using Cons.prems(1,3) f by auto
  moreover have "s' = s2" using Cons.prems(2) f g by simp
  ultimately show ?case using Cons.IH [of s1 rs2] Cons.prems(1) g by auto
qed simp

lemma agents_health_tiles:
  assumes "answers_by_url E answers"
  shows "fst (agents_health E now reg True s) = rmap (tile answers) reg"
  using gather_rmap [of "health E now" "tile answers", OF health_tile [OF assms], of reg s]
  by (auto simp: agents_health_def split: prod.split sum.split)

lemma rmap_returns_iff: "(\<exists>ys. rmap f xs = Inr ys) \<longleftrightarrow> (\<forall>x \<in> set xs. \<exists>y. f x = Inr y)"
  by (induction xs) (auto simp: rbind_eq_Inr_iff)

section \<open>When the board is available\<close>

text \<open>A reply the tile can read: none at all, or an object.\<close>

definition readable :: "agg_result \<Rightarrow> bool" where
  "readable r \<longleftrightarrow> (case r of Payload v \<Rightarrow> is_dict v | _ \<Rightarrow> True)"

definition is_unavailable :: "agg_result \<Rightarrow> bool" where
  "is_unavailable r = (case r of Unavailable _ _ \<Rightarrow> True | _ \<Rightarrow> False)"

definition tile_readable :: "(string \<Rightarrow> up_http) \<Rightarrow> agent_spec \<Rightarrow> bool" where
  "tile_readable answers spec \<longleftrightarrow>
     (if sp_kind spec = KBatch then (case reply answers spec ''/metrics.json'' of Inr m \<Rightarrow> readable m | _ \<Rightarrow> False)
      else (case (reply answers spec ''/healthz'', reply answers spec ''/readyz'', reply answers spec ''/metrics.json'') of
              (Inr l, Inr r, Inr m) \<Rightarrow> is_unavailable l \<or> readable r \<and> readable m
            | _ \<Rightarrow> False))"

lemma fold_metrics_ok: "(\<exists>d. fold_metrics m dto = Inr d) \<longleftrightarrow> readable m"
  by (auto simp: fold_metrics_def readable_def apply_metrics_def is_dict_iff split: agg_result.split pyval.split)

lemma fold_ready_ok: "(\<exists>d. fold_ready r dto = Inr d) \<longleftrightarrow> readable r"
proof (cases r)
  case (Payload v)
  then show ?thesis by (cases v) (simp_all add: fold_ready_def readable_def)
qed (simp_all add: fold_ready_def readable_def)

lemma reply_not_running: "reply answers spec path \<noteq> Inr (AlreadyRunning sl)"
  by (auto simp: reply_def read_response_def split: up_http.splits sum.splits pyexc.splits if_splits)

lemma compose_health_ok:
  "(\<exists>d. compose_health dto l r m = Inr d) \<longleftrightarrow> is_unavailable l \<or> readable r \<and> readable m"
proof (cases "is_unavailable l")
  case False
  then have "compose_health dto l r m = rbind (fold_ready r (dto\<lparr>hd_live := PyBool True\<rparr>)) (fold_metrics m)"
    by (cases l) (simp_all add: compose_health_def is_unavailable_def)
  then show ?thesis
    using False fold_ready_ok [of r "dto\<lparr>hd_live := PyBool True\<rparr>"] fold_metrics_ok [of m]
    by (auto simp: rbind_eq_Inr_iff)
qed (auto simp: compose_health_def is_unavailable_def split: agg_result.splits)

lemma tile_ok: "(\<exists>d. tile answers spec = Inr d) \<longleftrightarrow> tile_readable answers spec"
proof (cases "sp_kind spec = KBatch")
  case True
  then show ?thesis using fold_metrics_ok [of _ "blank_health spec"]
    by (simp add: tile_def tile_readable_def split: sum.split)
next
  case False
  then show ?thesis using compose_health_ok [of "blank_health spec"]
    by (simp add: tile_def tile_readable_def split: sum.split)
qed

lemma agents_health_list:
  assumes "answers_by_url E answers" and "agents_health E now reg True s = (Inr dtos, s')"
  shows "list_all2 (\<lambda>spec d. tile answers spec = Inr d) reg dtos"
proof -
  have "rmap (tile answers) reg = Inr dtos"
    using agents_health_tiles [OF assms(1), of now reg s] assms(2) by simp
  then show ?thesis by (auto simp: list_all2_conv_all_nth rmap_length dest: rmap_nth)
qed

text \<open>C36: The overview is all or nothing. A forced refresh of the board returns exactly when every
  agent's replies can be read, and then holds one tile per agent, each composed of that agent's own
  replies; a single agent whose \<open>/metrics.json\<close> or \<open>/readyz\<close> answers JSON that is no object, or a
  request that raises, takes the whole board down. An agent that is unreachable does not.\<close>

theorem board_all_or_nothing:
  assumes "answers_by_url E answers"
  shows "((\<exists>dtos s'. agents_health E now reg True s = (Inr dtos, s')) \<longleftrightarrow> (\<forall>spec \<in> set reg. tile_readable answers spec))
    \<and> (\<forall>dtos s'. agents_health E now reg True s = (Inr dtos, s') \<longrightarrow> list_all2 (\<lambda>spec d. tile answers spec = Inr d) reg dtos)"
proof -
  have "(\<exists>dtos s'. agents_health E now reg True s = (Inr dtos, s')) \<longleftrightarrow> (\<exists>dtos. rmap (tile answers) reg = Inr dtos)"
    unfolding agents_health_tiles [OF assms, of now reg s, symmetric] by (metis eq_fst_iff)
  then show ?thesis using agents_health_list [OF assms] by (simp add: rmap_returns_iff tile_ok)
qed

text \<open>Two agents; the second is unreachable, or answers \<open>[]\<close> for its metrics.\<close>

definition demo_spec :: "string \<Rightarrow> agent_spec" where
  "demo_spec slug = spec_from_config \<lparr>ac_slug = slug, ac_url = ''http://'' @ slug, ac_kind = KServer, ac_title = [],
     ac_port = 8000, ac_features = []\<rparr>"

definition demo_answers :: "bool \<Rightarrow> string \<Rightarrow> up_http" where
  "demo_answers up u =
     (if prefix ''http://b'' u \<and> \<not> up then UpError ''ConnectError''
      else if u = ''http://b/metrics.json'' then UpResp 200 ''[]''
      else UpResp 200 ''{}'')"

definition demo_env :: "(string \<Rightarrow> up_http) \<Rightarrow> agg_env" where
  "demo_env answers = \<lparr>ae_lib = service_lib demo_dash, ae_settings = demo_dash, ae_net = (\<lambda>rq. answers (hq_url rq))\<rparr>"

lemma demo_env_by_url: "answers_by_url (demo_env answers) answers"
  by (simp add: answers_by_url_def demo_env_def)


theorem board_all_or_nothing_witness:
  "(\<nexists>dtos s'. agents_health (demo_env (demo_answers True)) 0 [demo_spec ''a'', demo_spec ''b''] True
      \<lparr>ag_token = upstream_new, ag_cache = None, ag_redis_up = True\<rparr> = (Inr dtos, s'))
   \<and> (\<exists>dtos s'. agents_health (demo_env (demo_answers False)) 0 [demo_spec ''a'', demo_spec ''b''] True
      \<lparr>ag_token = upstream_new, ag_cache = None, ag_redis_up = True\<rparr> = (Inr dtos, s'))"
proof -
  have "\<not> tile_readable (demo_answers True) (demo_spec ''b'')" by code_simp
  moreover have "tile_readable (demo_answers False) (demo_spec ''a'')" by code_simp
  moreover have "tile_readable (demo_answers False) (demo_spec ''b'')" by code_simp
  ultimately show ?thesis
    using board_all_or_nothing [OF demo_env_by_url [of "demo_answers True"], of 0 "[demo_spec ''a'', demo_spec ''b'']"]
      board_all_or_nothing [OF demo_env_by_url [of "demo_answers False"], of 0 "[demo_spec ''a'', demo_spec ''b'']"]
    by simp
qed


section \<open>The colour of a tile\<close>

lemma kind_name_batch: "kind_name k = ''batch'' \<longleftrightarrow> k = KBatch"
  by (cases k) (simp_all add: kind_name_def)

text \<open>What a live agent's other two replies say: whether it calls itself not ready, and its error rate.\<close>

definition not_ready :: "agg_result \<Rightarrow> bool" where
  "not_ready r \<longleftrightarrow>
     (case r of
        Unavailable _ why \<Rightarrow> why = ''http 503''
      | Payload (PyDict d) \<Rightarrow> \<not> truthy (dget d ''ready'')
      | _ \<Rightarrow> False)"

definition error_rate :: "agg_result \<Rightarrow> pyval" where
  "error_rate m = (case m of Payload (PyDict d) \<Rightarrow> dget d ''error_rate_5m'' | _ \<Rightarrow> PyNone)"

lemma fold_ready_Inr:
  assumes "fold_ready r dto = Inr d" and "hd_ready dto = PyNone"
  shows "(hd_ready d = PyBool False) = not_ready r \<and> hd_kind d = hd_kind dto \<and> hd_live d = hd_live dto
    \<and> hd_error_rate d = hd_error_rate dto"
proof (cases r)
  case (Payload v)
  then obtain m where "v = PyDict m" using assms by (cases v) (simp_all add: fold_ready_def)
  then show ?thesis using assms Payload
    by (auto simp: fold_ready_def not_ready_def dget_def)
qed (use assms in \<open>auto simp: fold_ready_def not_ready_def split: if_splits\<close>)

lemma fold_metrics_Inr:
  assumes "fold_metrics m dto = Inr d" and "hd_error_rate dto = PyNone"
  shows "hd_error_rate d = error_rate m \<and> hd_ready d = hd_ready dto \<and> hd_kind d = hd_kind dto \<and> hd_live d = hd_live dto"
proof (cases m)
  case (Payload v)
  then show ?thesis using assms by (cases v) (auto simp: fold_metrics_def apply_metrics_def error_rate_def)
qed (use assms in \<open>auto simp: fold_metrics_def error_rate_def\<close>)

lemma compose_health_Inr:
  assumes "compose_health (blank_health spec) l r m = Inr d"
  shows "hd_kind d = PyStr (kind_name (sp_kind spec)) \<and> hd_live d = PyBool (\<not> is_unavailable l)
    \<and> (\<not> is_unavailable l \<longrightarrow> (hd_ready d = PyBool False) = not_ready r \<and> hd_error_rate d = error_rate m)"
proof (cases "is_unavailable l")
  case True
  then show ?thesis using assms
    by (auto simp: compose_health_def is_unavailable_def blank_health_def split: agg_result.splits)
next
  case False
  then have "rbind (fold_ready r ((blank_health spec)\<lparr>hd_live := PyBool True\<rparr>)) (fold_metrics m) = Inr d"
    using assms by (cases l) (simp_all add: compose_health_def is_unavailable_def)
  then obtain d1 where d1: "fold_ready r ((blank_health spec)\<lparr>hd_live := PyBool True\<rparr>) = Inr d1" "fold_metrics m d1 = Inr d"
    by (auto simp: rbind_eq_Inr_iff)
  have b: "hd_ready (blank_health spec) = PyNone" "hd_error_rate (blank_health spec) = PyNone"
    "hd_kind (blank_health spec) = PyStr (kind_name (sp_kind spec))" by (simp_all add: blank_health_def)
  show ?thesis using fold_ready_Inr [OF d1(1)] fold_metrics_Inr [OF d1(2)] b False by simp
qed

text \<open>The colour of a tile says what its legend says. A tile is grey exactly for a batch agent; of
  the others it is red exactly when \<open>/healthz\<close> got no answer, and green exactly when it did and the
  agent neither calls itself not ready nor reports an error rate above a tenth. Silence is taken for
  health there: an agent whose \<open>/readyz\<close> and \<open>/metrics.json\<close> do not answer is green.\<close>

theorem tile_status_exact:
  assumes "answers_by_url E answers" and "health E now spec s = (Inr d, s')"
  shows "(health_status d = Inr ''grey'' \<longleftrightarrow> sp_kind spec = KBatch)
    \<and> (sp_kind spec \<noteq> KBatch \<longrightarrow> (\<exists>l r m. reply answers spec ''/healthz'' = Inr l \<and> reply answers spec ''/readyz'' = Inr r
        \<and> reply answers spec ''/metrics.json'' = Inr m
        \<and> (health_status d = Inr ''red'' \<longleftrightarrow> is_unavailable l)
        \<and> (health_status d = Inr ''green'' \<longleftrightarrow>
             \<not> is_unavailable l \<and> \<not> not_ready r \<and> above_tenth (error_rate m) = Inr False)))"
proof (cases "sp_kind spec = KBatch")
  case True
  have "tile answers spec = Inr d" using health_tile [OF assms(1), of now spec s] assms(2) by simp
  then obtain m where "fold_metrics m (blank_health spec) = Inr d"
    using True by (auto simp: tile_def rbind_eq_Inr_iff)
  then have "hd_kind d = PyStr ''batch''" using fold_metrics_Inr [of m "blank_health spec" d] True
    by (simp add: blank_health_def kind_name_def)
  then show ?thesis using True by (simp add: health_status_def)
next
  case False
  have "tile answers spec = Inr d" using health_tile [OF assms(1), of now spec s] assms(2) by simp
  then obtain l r m where *: "reply answers spec ''/healthz'' = Inr l" "reply answers spec ''/readyz'' = Inr r"
      "reply answers spec ''/metrics.json'' = Inr m" "compose_health (blank_health spec) l r m = Inr d"
    using False by (auto simp: tile_def rbind_eq_Inr_iff)
  have "hd_kind d \<noteq> PyStr ''batch''" using compose_health_Inr [OF *(4)] False by (simp add: kind_name_batch)
  then have "health_status d \<noteq> Inr ''grey''" "health_status d = Inr ''red'' \<longleftrightarrow> is_unavailable l"
    "health_status d = Inr ''green'' \<longleftrightarrow> \<not> is_unavailable l \<and> \<not> not_ready r \<and> above_tenth (error_rate m) = Inr False"
    using compose_health_Inr [OF *(4)] by (auto simp: health_status_def rbind_eq_Inr_iff)
  then show ?thesis using False * by blast
qed

definition demo_mute :: "string \<Rightarrow> up_http" where
  "demo_mute u = (if u = ''http://a/healthz'' then UpResp 200 ''{}'' else UpTimeout ''ReadTimeout'')"

theorem tile_status_exact_witness:
  "\<exists>d s'. health (demo_env demo_mute) 0 (demo_spec ''a'') \<lparr>ag_token = upstream_new, ag_cache = None, ag_redis_up = True\<rparr> = (Inr d, s')
    \<and> health_status d = Inr ''green''"
proof -
  let ?s = "\<lparr>ag_token = upstream_new, ag_cache = None, ag_redis_up = True\<rparr>"
  have m: "tile_readable demo_mute (demo_spec ''a'')" by code_simp
  obtain d where t: "tile demo_mute (demo_spec ''a'') = Inr d"
    using tile_ok [of demo_mute "demo_spec ''a''"] m by blast
  obtain s' where h: "health (demo_env demo_mute) 0 (demo_spec ''a'') ?s = (Inr d, s')"
    using health_tile [OF demo_env_by_url, of demo_mute 0 "demo_spec ''a''" ?s] t by (metis prod.collapse)
  have r: "reply demo_mute (demo_spec ''a'') ''/healthz'' = Inr (Payload (PyDict []))"
    "reply demo_mute (demo_spec ''a'') ''/readyz'' = Inr (Unavailable ''a'' ''timeout'')"
    "reply demo_mute (demo_spec ''a'') ''/metrics.json'' = Inr (Unavailable ''a'' ''timeout'')"
    "sp_kind (demo_spec ''a'') \<noteq> KBatch" by code_simp+
  show ?thesis
    using tile_status_exact [OF demo_env_by_url h] r h
    by (auto simp: is_unavailable_def not_ready_def error_rate_def above_tenth_def)
qed


section \<open>The cache\<close>

text \<open>The values of a tile are decoded JSON, so encoding loses nothing.\<close>

definition tile_typed :: "health_dto \<Rightarrow> bool" where
  "tile_typed d \<longleftrightarrow> jwf (health_to_dict d)"

lemma tile_typed_iff:
  "tile_typed d \<longleftrightarrow> list_all jwf [hd_slug d, hd_title d, hd_port d, hd_kind d, hd_incidents d, hd_findings d, hd_runs d, hd_pm d,
     hd_live d, hd_ready d, hd_checks d, hd_uptime d, hd_error_rate d, hd_requests d, hd_cost d, hd_cost_by_model d,
     hd_last_run d, hd_error d]"
  by (simp add: tile_typed_def health_to_dict_def)

lemma json_loads_bytes_typed: "json_loads_bytes raw = Inr v \<Longrightarrow> jwf v"
  by (auto simp: json_loads_bytes_def rbind_eq_Inr_iff split: if_splits dest: json_loads_typed)

lemma read_response_typed: "read_response slug bad h = Inr (Payload v) \<Longrightarrow> bad \<noteq> Payload v \<Longrightarrow> jwf v"
  by (auto simp: read_response_def split: up_http.splits sum.splits pyexc.splits if_splits dest: json_loads_bytes_typed)

lemma agg_get_typed: "agg_get E now spec path s = (Inr (Payload v), s') \<Longrightarrow> jwf v"
  by (auto simp: agg_get_def split: prod.splits dest: read_response_typed)

lemma jwf_map_of: "jwf (PyDict d) \<Longrightarrow> map_of d k = Some v \<Longrightarrow> jwf v"
  by (auto simp: list_all_iff dest!: map_of_SomeD)

lemma jwf_dget: "jwf (PyDict d) \<Longrightarrow> jwf (dget d k)"
  by (auto simp: dget_def jwf_map_of simp del: jwf.simps(4) split: option.split)

lemma jwf_py_get: "py_get v k dflt = Inr x \<Longrightarrow> jwf v \<Longrightarrow> jwf dflt \<Longrightarrow> jwf x"
  by (cases v) (auto simp: jwf_map_of simp del: jwf.simps(4) split: option.splits)

lemma fold_metrics_typed:
  "fold_metrics m dto = Inr d \<Longrightarrow> tile_typed dto \<Longrightarrow> (\<And>v. m = Payload v \<Longrightarrow> jwf v) \<Longrightarrow> tile_typed d"
  by (auto simp: fold_metrics_def apply_metrics_def tile_typed_iff jwf_dget simp del: jwf.simps(4)
      split: agg_result.splits pyval.splits)

lemma fold_ready_typed:
  "fold_ready r dto = Inr d \<Longrightarrow> tile_typed dto \<Longrightarrow> (\<And>v. r = Payload v \<Longrightarrow> jwf v) \<Longrightarrow> tile_typed d"
  by (auto simp: fold_ready_def tile_typed_iff rbind_eq_Inr_iff py_or_def split: agg_result.splits
      dest: jwf_py_get [of _ "''checks''" "PyDict []"])

lemma blank_health_typed: "tile_typed (blank_health spec) = jwf (PyInt (sp_port spec))"
  by (simp add: tile_typed_iff blank_health_def)

lemma health_typed:
  assumes "health E now spec s = (Inr d, s')" and "jwf (PyInt (sp_port spec))"
  shows "tile_typed d"
proof (cases "sp_kind spec = KBatch")
  case True
  then obtain m where "agg_get E now spec ''/metrics.json'' s = (Inr m, s')" "fold_metrics m (blank_health spec) = Inr d"
    using assms(1) by (auto simp: health_def rbind_eq_Inr_iff split: prod.splits)
  then show ?thesis
    using assms(2) agg_get_typed [of E now spec "''/metrics.json''" s _ s']
    by (intro fold_metrics_typed [of m "blank_health spec" d]) (simp_all add: blank_health_typed)
next
  case False
  then obtain s1 s2 l r m where g: "agg_get E now spec ''/readyz'' s1 = (Inr r, s2)"
    "agg_get E now spec ''/metrics.json'' s2 = (Inr m, s')" and c: "compose_health (blank_health spec) l r m = Inr d"
    using assms(1) by (auto simp: health_def rbind_eq_Inr_iff split: prod.splits)
  have b: "tile_typed ((blank_health spec)\<lparr>hd_live := PyBool x, hd_error := PyStr y\<rparr>)" for x y
    using blank_health_typed [of spec] assms(2) by (simp add: tile_typed_iff)
  have "tile_typed ((blank_health spec)\<lparr>hd_live := PyBool True\<rparr>)"
    using blank_health_typed [of spec] assms(2) by (simp add: tile_typed_iff)
  then have "tile_typed d1" if "fold_ready r ((blank_health spec)\<lparr>hd_live := PyBool True\<rparr>) = Inr d1" for d1
    by (rule fold_ready_typed [OF that]) (use g agg_get_typed in blast)
  moreover have "tile_typed d" if "fold_metrics m d1 = Inr d" "tile_typed d1" for d1
    by (rule fold_metrics_typed [OF that]) (use g agg_get_typed in blast)
  ultimately have "rbind (fold_ready r ((blank_health spec)\<lparr>hd_live := PyBool True\<rparr>)) (fold_metrics m) = Inr d \<Longrightarrow> tile_typed d"
    unfolding rbind_eq_Inr_iff by blast
  then show ?thesis using c b by (auto simp: compose_health_def split: agg_result.splits)
qed

lemma gather_all:
  assumes "\<And>x s y s'. x \<in> set xs \<Longrightarrow> f x s = (Inr y, s') \<Longrightarrow> P y" and "gather f xs s = (Inr ys, s')"
  shows "list_all P ys"
  using assms
proof (induction xs arbitrary: s ys)
  case (Cons x xs)
  obtain r s1 where f: "f x s = (r, s1)" by fastforce
  obtain rs s2 where g: "gather f xs s1 = (rs, s2)" by fastforce
  obtain y ys' where "r = Inr y" "rs = Inr ys'" "ys = y # ys'"
    using Cons.prems(2) f g by (auto simp: rbind_eq_Inr_iff)
  moreover have "s' = s2" using Cons.prems(2) f g by simp
  ultimately show ?case using Cons.IH [of s1 ys'] Cons.prems(1) f g by auto
qed simp

lemma health_from_to_dict: "health_from_dict (health_to_dict d) = Inr d"
  by (cases d) (simp add: health_from_dict_def health_to_dict_def health_fields_def health_of_dict_def dget_def field_or_def)


text \<open>C37: The cache is transparent while it lives. A refresh that returned a board stored it; from then until
  the lifetime of the entry has passed, reading the board sends no request, leaves the state alone
  and returns the very tiles, whatever the agents would answer by then. After that it is a fresh
  fan-out again.\<close>

theorem board_cache_roundtrip:
  assumes "agents_health E now reg True s = (Inr dtos, s1)" and "ag_cache s = Some c" and "ag_redis_up s"
    and "\<forall>spec \<in> set reg. jwf (PyInt (sp_port spec))"
  shows "agents_health E' t reg' False s1 =
    (if t < now + of_int (ds_cache_ttl_s (ae_settings E)) then (Inr dtos, s1) else agents_health E' t reg' True s1)"
proof -
  let ?b = "PyList (map health_to_dict dtos)"
  obtain s0 where g: "gather (health E now) reg s = (Inr dtos, s0)"
    and s1: "s1 = cache_set E now ''agents_health'' ?b s0"
    using assms(1) by (auto simp: agents_health_def split: prod.splits sum.splits)
  have "ag_cache s0 = Some c \<and> ag_redis_up s0"
    by (rule gather_frame [where P = "\<lambda>s. ag_cache s = Some c \<and> ag_redis_up s", OF _ g])
      (use assms(2,3) health_frame in auto)
  then have c: "cache_get t ''agents_health'' s1 =
      (if t < now + of_int (ds_cache_ttl_s (ae_settings E)) then json_loads (json_dumps '', '' '': '' ?b) else Inr PyNone)"
    by (auto simp: s1 cache_set_def cache_get_def cache_key_def update_conv json_loads_def)
  have "list_all tile_typed dtos" using gather_all [OF _ g, of tile_typed] health_typed assms(4) by blast
  then have "jwf ?b" by (simp add: list_all_iff tile_typed_def)
  then have "json_loads (json_dumps '', '' '': '' ?b) = Inr ?b" by (intro json_loads_dumps) (simp_all add: sep_ok_def is_jws_def)
  moreover have "rmap health_from_dict (map health_to_dict dtos) = Inr dtos"
    by (induction dtos) (simp_all add: health_from_to_dict)
  ultimately show ?thesis using c by (simp add: agents_health_def cached_board_def)
qed

theorem board_cache_roundtrip_witness:
  "\<exists>dtos s1. agents_health (demo_env demo_mute) 0 [demo_spec ''a''] True \<lparr>ag_token = upstream_new, ag_cache = Some [], ag_redis_up = True\<rparr>
      = (Inr dtos, s1)
    \<and> agents_health (demo_env (\<lambda>_. UpError ''ConnectError'')) 7 [demo_spec ''a''] False s1 = (Inr dtos, s1)"
proof -
  let ?s = "\<lparr>ag_token = upstream_new, ag_cache = Some [], ag_redis_up = True\<rparr>"
  have "tile_readable demo_mute (demo_spec ''a'')" by code_simp
  then have "\<exists>dtos. rmap (tile demo_mute) [demo_spec ''a''] = Inr dtos"
    unfolding rmap_returns_iff by (simp add: tile_ok)
  then obtain dtos s1 where h: "agents_health (demo_env demo_mute) 0 [demo_spec ''a''] True ?s = (Inr dtos, s1)"
    using agents_health_tiles [OF demo_env_by_url, of demo_mute 0 "[demo_spec ''a'']" ?s] by (metis prod.collapse)
  have "ds_cache_ttl_s (ae_settings (demo_env demo_mute)) = 8"
    by (simp add: demo_env_def demo_dash_def dash_defaults_def agent_settings.defs)
  moreover have "sp_port (demo_spec ''a'') = 8000" by code_simp
  ultimately show ?thesis
    using board_cache_roundtrip [OF h, of "[]" "demo_env (\<lambda>_. UpError ''ConnectError'')" 7 "[demo_spec ''a'']"] h
    by (simp add: show_nat.simps)
qed

section \<open>The columns of a fresh board\<close>

text \<open>What the snapshot loop stores in typed columns is of their types, whatever the agents answered.\<close>

definition column_types :: "health_dto \<Rightarrow> bool" where
  "column_types d \<longleftrightarrow> (\<exists>slug live. hd_slug d = PyStr slug \<and> hd_live d = PyBool live) \<and> hd_ready d \<in> {PyNone, PyBool False, PyBool True}"

lemma fold_metrics_columns: "fold_metrics m dto = Inr d \<Longrightarrow> column_types dto \<Longrightarrow> column_types d"
  by (auto simp: fold_metrics_def apply_metrics_def column_types_def split: agg_result.splits pyval.splits)

lemma fold_ready_columns: "fold_ready r dto = Inr d \<Longrightarrow> column_types dto \<Longrightarrow> column_types d"
  by (auto simp: fold_ready_def column_types_def rbind_eq_Inr_iff split: agg_result.splits if_splits)

lemma compose_health_columns:
  assumes "compose_health dto l r m = Inr d" and c: "column_types dto"
  shows "column_types d"
proof (cases "is_unavailable l")
  case True
  then show ?thesis using assms by (auto simp: compose_health_def is_unavailable_def column_types_def split: agg_result.splits)
next
  case False
  then have "rbind (fold_ready r (dto\<lparr>hd_live := PyBool True\<rparr>)) (fold_metrics m) = Inr d"
    using assms(1) by (cases l) (simp_all add: compose_health_def is_unavailable_def)
  moreover have "column_types (dto\<lparr>hd_live := PyBool True\<rparr>)" using c by (auto simp: column_types_def)
  ultimately show ?thesis using fold_ready_columns fold_metrics_columns by (auto simp: rbind_eq_Inr_iff)
qed

lemma fresh_columns:
  assumes "agents_health E now reg True s = (Inr dtos, s')"
  shows "list_all column_types dtos"
proof -
  have b: "column_types (blank_health spec)" for spec by (auto simp: column_types_def blank_health_def)
  have h: "column_types d" if "health E now spec s = (Inr d, s')" for spec s d s'
    using that b [of spec]
    by (auto simp: health_def rbind_eq_Inr_iff split: prod.splits if_splits dest: fold_metrics_columns compose_health_columns)
  obtain s0 where "gather (health E now) reg s = (Inr dtos, s0)"
    using assms by (auto simp: agents_health_def split: prod.splits sum.splits)
  then show ?thesis by (rule gather_all [rotated]) (rule h)
qed

end
