(* ===== verification/BoardWire.thy ===== *)
theory BoardWire
  imports Wire AggProps Server
begin

text \<open>
  The two ends of the overview: the dashboard's tile of an agent over the agent's own \<open>/healthz\<close>,
  \<open>/readyz\<close> and \<open>/metrics.json\<close>, through the service token, the guard of the metrics and the JSON
  bodies. How the framework renders a JSON body is a parameter (\<open>renders_finite\<close>: what it renders of
  finite values is read back).
\<close>

section \<open>Rendering\<close>

text \<open>Values without the three special floats, which the framework's encoder refuses.\<close>

fun all_finite :: "pyval \<Rightarrow> bool" where
  "all_finite (PyFloat (Dec m e)) = True"
| "all_finite (PyFloat f) = False"
| "all_finite (PyList vs) = list_all all_finite vs"
| "all_finite (PyDict d) = list_all (\<lambda>(k, v). all_finite v) d"
| "all_finite v = True"

definition renders_finite :: "(pyval \<Rightarrow> string) \<Rightarrow> bool" where
  "renders_finite render \<longleftrightarrow> (\<forall>v. jwf v \<and> all_finite v \<longrightarrow> json_loads_bytes (render v) = Inr v)"

lemma compact_renders_finite: "renders_finite json_compact"
  using compact_renders by (simp add: renders_finite_def renders_json_def)

text \<open>The float of a number with at most 17 decimals is that number.\<close>

lemma dec_norm_Dec: "\<exists>m' e'. dec_norm m e = Dec m' e' \<and> dec_val m' e' = dec_val m e"
proof -
  have "\<exists>m' e'. dec_norm m e = Dec m' e'" by (induction m e rule: dec_norm.induct) (subst dec_norm.simps, auto)
  then show ?thesis using dec_norm_val by blast
qed

lemma dec_val_scaled: "frac (x * 10 ^ n) = 0 \<Longrightarrow> dec_val \<lfloor>x * 10 ^ n\<rfloor> (- int n) = x"
  by (simp add: dec_val_def frac_def field_simps)

lemma float_of_rat_exact:
  assumes "frac (x * 10 ^ n) = 0" and "n < 18"
  shows "\<exists>m e. float_of_rat x = Dec m e \<and> dec_val m e = x"
proof -
  obtain k where k: "List.find (\<lambda>n. frac (x * 10 ^ n) = 0) [0..<18] = Some k"
    using assms by (cases "List.find (\<lambda>n. frac (x * 10 ^ n) = 0) [0..<18]") (auto simp: find_None_iff)
  then have "frac (x * 10 ^ k) = 0" by (auto simp: find_Some_iff)
  then show ?thesis using k dec_norm_Dec [of "\<lfloor>x * 10 ^ k\<rfloor>" "- int k"] dec_val_scaled [of x k] by (simp add: float_of_rat_def)
qed

lemma py_round_float: "n < 18 \<Longrightarrow> \<exists>m e. float_of_rat (py_round n x) = Dec m e \<and> dec_val m e = py_round n x"
  by (rule float_of_rat_exact [of _ n]) (simp_all add: py_round_def)

lemma float_of_rat_Dec: "\<exists>m e. float_of_rat x = Dec m e"
  using dec_norm_Dec by (simp add: float_of_rat_def split: option.split) blast

section \<open>An agent\<close>

text \<open>
  An agent built by \<open>create_app\<close>: its settings, whether its metrics are public, its state, what the two
  readiness checks do, and its monotonic clock.
\<close>

record agent_node =
  nd_cfg :: agent_settings
  nd_public :: bool
  nd_app :: app_state
  nd_pg :: "(pyexc, unit) result \<times> secs"
  nd_redis :: "(pyexc, unit) result \<times> secs"
  nd_clock :: secs

definition usd_by_model :: "usd dict \<Rightarrow> pyval" where
  "usd_by_model d = PyDict (map (\<lambda>(k, u). (k, py_num u)) d)"

definition snapshot_json :: "snapshot \<Rightarrow> pyval" where
  "snapshot_json sn = PyDict
     [(''agent'', PyStr (sn_agent sn)), (''uptime_s'', py_num (sn_uptime_s sn)),
      (''error_rate_5m'', py_num (sn_error_rate_5m sn)), (''requests_5m'', PyInt (int (sn_requests_5m sn))),
      (''errors_5m'', PyInt (int (sn_errors_5m sn))), (''last_run'', sn_last_run sn),
      (''llm_cost_usd_today'', py_num (sn_llm_cost_usd_today sn)),
      (''cost_by_model_today'', usd_by_model (sn_cost_by_model_today sn)),
      (''started_at'', py_num (sn_started_at sn)), (''custom'', PyDict (sn_custom sn))]"

text \<open>What its metrics are at the moment of the probe: a provider that raises fails them.\<close>

definition node_metrics :: "agent_node \<Rightarrow> (pyexc, snapshot) result" where
  "node_metrics n = fst (metrics_snapshot (nd_clock n) (as_metrics (nd_app n)))"

text \<open>
  The three operational routes, which the limiter and the counters leave alone. The snapshot evicts
  expired events from the counters, which no later figure shows.
\<close>

definition agent_serves ::
  "(pyval \<Rightarrow> string) \<Rightarrow> jwtlib \<Rightarrow> secs \<Rightarrow> string \<Rightarrow> agent_node \<Rightarrow> http_req \<Rightarrow> up_http" where
  "agent_serves render lib t base n rq =
     (if hq_method rq \<noteq> ''GET'' then UpResp 405 ''{}''
      else if hq_url rq = base @ ''/healthz'' then UpResp 200 (render (ro_body (healthz (nd_cfg n))))
      else if hq_url rq = base @ ''/readyz'' then
        (let r = readyz (nd_pg n) (nd_redis n) (nd_app n) in UpResp (ro_status r) (render (ro_body r)))
      else if hq_url rq = base @ ''/metrics.json'' then
        http_of render (map_sum id snapshot_json (fst (metrics_json lib t (nd_clock n) (nd_cfg n) (nd_public n)
          (case hq_auth rq of None \<Rightarrow> [] | Some h \<Rightarrow> h) (nd_app n))))
      else UpResp 404 ''{}'')"

text \<open>Both readiness checks passed in time, and the agent is not draining.\<close>

definition node_ready :: "agent_node \<Rightarrow> bool" where
  "node_ready n \<longleftrightarrow> as_accepting (nd_app n) \<and> fst (wait_for ping_timeout_s (nd_pg n)) = Inr ()
     \<and> fst (wait_for ping_timeout_s (nd_redis n)) = Inr ()"

lemma guard_admin:
  assumes "current_principal lib t (auth_settings.truncate cfg) h = Inr p" and "require_admin p = Inr p"
  shows "metrics_guard lib t cfg pub h = Inr ()"
  using assms by (auto simp: metrics_guard_def current_principal_def require_admin_def auth_settings.defs
      split: prod.splits if_splits)

section \<open>The three replies\<close>

lemma read_render:
  assumes "renders_finite render" and "jwf v" and "all_finite v"
  shows "read_response slug bad (UpResp 200 (render v)) = Inr (Payload v)"
  using assms by (simp add: read_response_def renders_finite_def)

definition good_checks :: pyval where
  "good_checks = PyDict [(''postgres'', PyBool True), (''redis'', PyBool True)]"

definition ready_reply :: "agent_node \<Rightarrow> string \<Rightarrow> agg_result" where
  "ready_reply n slug =
     (if node_ready n then Payload (PyDict [(''ready'', PyBool True), (''checks'', good_checks)])
      else Unavailable slug ''http 503'')"

lemma readyz_reply:
  assumes "renders_finite render"
  shows "(let r = readyz (nd_pg n) (nd_redis n) (nd_app n) in read_response slug bad (UpResp (ro_status r) (render (ro_body r))))
    = Inr (ready_reply n slug)"
proof -
  let ?a = "fst (wait_for ping_timeout_s (nd_pg n)) = Inr ()" and ?b = "fst (wait_for ping_timeout_s (nd_redis n)) = Inr ()"
  have s: "show_int 503 = ''503''" by code_simp
  show ?thesis
  proof (cases "node_ready n")
    case True
    then show ?thesis using read_render [OF assms, of "PyDict [(''ready'', PyBool True), (''checks'', good_checks)]"]
      by (simp add: readyz_def ping_def node_ready_def ready_reply_def good_checks_def Let_def)
  next
    case False
    then show ?thesis by (auto simp: readyz_def ping_def node_ready_def ready_reply_def read_response_def Let_def s)
  qed
qed

text \<open>The figures a tile takes from the metrics; none when the metrics failed.\<close>

definition with_figures :: "agent_node \<Rightarrow> health_dto \<Rightarrow> health_dto" where
  "with_figures n d =
     (case node_metrics n of
        Inl _ \<Rightarrow> d
      | Inr sn \<Rightarrow> d\<lparr>hd_uptime := py_num (sn_uptime_s sn), hd_error_rate := py_num (sn_error_rate_5m sn),
          hd_requests := PyInt (int (sn_requests_5m sn)), hd_cost := py_num (sn_llm_cost_usd_today sn),
          hd_cost_by_model := usd_by_model (sn_cost_by_model_today sn), hd_last_run := sn_last_run sn\<rparr>)"

definition no_figures :: "health_dto \<Rightarrow> bool" where
  "no_figures d \<longleftrightarrow> hd_uptime d = PyNone \<and> hd_error_rate d = PyNone \<and> hd_requests d = PyNone \<and> hd_cost d = PyNone
     \<and> hd_cost_by_model d = PyNone \<and> hd_last_run d = PyNone"

definition node_ok :: "agent_node \<Rightarrow> bool" where
  "node_ok n \<longleftrightarrow> (\<forall>sn. node_metrics n = Inr sn \<longrightarrow> jwf (snapshot_json sn) \<and> all_finite (snapshot_json sn))"

lemma metrics_json_admin:
  assumes "current_principal lib t (auth_settings.truncate (nd_cfg n)) h = Inr p" and "require_admin p = Inr p"
  shows "fst (metrics_json lib t (nd_clock n) (nd_cfg n) (nd_public n) h (nd_app n)) = node_metrics n"
  using guard_admin [OF assms, of "nd_public n"] by (simp add: metrics_json_def node_metrics_def split: prod.split)

lemma fold_no_dict: "no_figures d \<Longrightarrow> fold_metrics (Payload (PyDict [(''detail'', v)])) d = Inr d"
  by (cases d) (simp add: fold_metrics_def apply_metrics_def dget_def no_figures_def)

lemma metrics_folded:
  assumes "renders_finite render" and "node_ok n" and "no_figures d"
  shows "\<exists>m. read_response slug (Unavailable slug ''bad json'') (http_of render (map_sum id snapshot_json (node_metrics n))) = Inr m
    \<and> fold_metrics m d = Inr (with_figures n d)"
proof (cases "node_metrics n")
  case (Inr sn)
  then have "read_response slug (Unavailable slug ''bad json'') (http_of render (map_sum id snapshot_json (node_metrics n)))
      = Inr (Payload (snapshot_json sn))"
    using read_render [OF assms(1)] assms(2) by (simp add: http_of_def node_ok_def)
  then show ?thesis using Inr
    by (simp add: fold_metrics_def snapshot_json_def apply_metrics_def dget_def with_figures_def)
next
  case (Inl e)
  have "\<exists>m. read_response slug (Unavailable slug ''bad json'') (http_of render (Inl e)) = Inr m \<and> fold_metrics m d = Inr d"
  proof (cases "\<exists>sc detail. e = HttpError sc detail \<and> sc < 400")
    case True
    then obtain sc detail where e: "e = HttpError sc detail" "sc < 400" by blast
    have "json_loads_bytes (render (PyDict [(''detail'', PyStr detail)])) = Inr (PyDict [(''detail'', PyStr detail)])"
      using assms(1) by (simp add: renders_finite_def)
    then show ?thesis using e fold_no_dict [OF assms(3)] by (simp add: http_of_def read_response_def)
  next
    case False
    then show ?thesis by (auto simp: http_of_def read_response_def fold_metrics_def split: pyexc.split)
  qed
  then show ?thesis using Inl by (simp add: with_figures_def)
qed

section \<open>The tile\<close>

definition agent_tile :: "agent_spec \<Rightarrow> agent_node \<Rightarrow> health_dto" where
  "agent_tile spec n = with_figures n
     \<lparr>hd_slug = PyStr (sp_slug spec), hd_title = PyStr (sp_title spec), hd_port = PyInt (sp_port spec),
      hd_kind = PyStr (kind_name (sp_kind spec)), hd_incidents = PyBool (sp_incidents spec),
      hd_findings = PyBool (sp_findings spec), hd_runs = PyBool (sp_runs spec), hd_pm = PyBool (sp_pm spec),
      hd_live = PyBool (sp_kind spec \<noteq> KBatch),
      hd_ready = (if sp_kind spec = KBatch then PyNone else PyBool (node_ready n)),
      hd_checks = (if sp_kind spec \<noteq> KBatch \<and> node_ready n then good_checks else PyDict []),
      hd_uptime = PyNone, hd_error_rate = PyNone, hd_requests = PyNone, hd_cost = PyNone, hd_cost_by_model = PyNone,
      hd_last_run = PyNone, hd_error = PyNone\<rparr>"

text \<open>The dashboard's requests reach the node, and its token is an administrator's there.\<close>

definition reaches :: "(pyval \<Rightarrow> string) \<Rightarrow> secs \<Rightarrow> agg_env \<Rightarrow> agent_spec \<Rightarrow> agent_node \<Rightarrow> bool" where
  "reaches render t E spec n \<longleftrightarrow> (\<forall>rq. hq_url rq \<in> (@) (sp_base_url spec) ` {''/healthz'', ''/readyz'', ''/metrics.json''}
     \<longrightarrow> ae_net E rq = agent_serves render (ae_lib E) t (sp_base_url spec) n rq)"

definition admitted :: "agg_env \<Rightarrow> secs \<Rightarrow> secs \<Rightarrow> agent_node \<Rightarrow> agg_state \<Rightarrow> bool" where
  "admitted E now t n s \<longleftrightarrow> (\<exists>tok u p. auth_header (ae_lib E) (ae_settings E) now (ag_token s) = (Some (''Bearer '' @ tok), u)
     \<and> current_principal (ae_lib E) t (auth_settings.truncate (nd_cfg n)) (''Bearer '' @ tok) = Inr p \<and> require_admin p = Inr p)"

lemma agg_get_node:
  assumes "reaches render t E spec n" and "admitted E now t n s" and "renders_finite render" and "agg_get E now spec path s = (r, s')"
  shows "path = ''/healthz'' \<Longrightarrow> r = Inr (Payload (ro_body (healthz (nd_cfg n))))"
    and "path = ''/readyz'' \<Longrightarrow> r = Inr (ready_reply n (sp_slug spec))"
    and "path = ''/metrics.json'' \<Longrightarrow> r = read_response (sp_slug spec) (Unavailable (sp_slug spec) ''bad json'')
      (http_of render (map_sum id snapshot_json (node_metrics n)))"
proof -
  obtain tok u p where a: "auth_header (ae_lib E) (ae_settings E) now (ag_token s) = (Some (''Bearer '' @ tok), u)"
    "current_principal (ae_lib E) t (auth_settings.truncate (nd_cfg n)) (''Bearer '' @ tok) = Inr p" "require_admin p = Inr p"
    using assms(2) by (auto simp: admitted_def)
  have r: "r = read_response (sp_slug spec) (Unavailable (sp_slug spec) ''bad json'')
      (agent_serves render (ae_lib E) t (sp_base_url spec) n
        \<lparr>hq_method = ''GET'', hq_url = sp_base_url spec @ path, hq_auth = Some (''Bearer '' @ tok), hq_json = None\<rparr>)"
    if "path \<in> {''/healthz'', ''/readyz'', ''/metrics.json''}"
    using assms(1,4) that by (auto simp: agg_get_def send_def a(1) reaches_def)
  show "path = ''/healthz'' \<Longrightarrow> r = Inr (Payload (ro_body (healthz (nd_cfg n))))"
    using read_render [OF assms(3), of "ro_body (healthz (nd_cfg n))"] by (simp add: r agent_serves_def) (simp add: healthz_def)
  show "path = ''/readyz'' \<Longrightarrow> r = Inr (ready_reply n (sp_slug spec))"
    using readyz_reply [OF assms(3), of n "sp_slug spec" "Unavailable (sp_slug spec) ''bad json''"]
    by (simp add: r agent_serves_def Let_def)
  show "path = ''/metrics.json'' \<Longrightarrow> r = read_response (sp_slug spec) (Unavailable (sp_slug spec) ''bad json'')
      (http_of render (map_sum id snapshot_json (node_metrics n)))"
    using metrics_json_admin [OF a(2,3)] by (simp add: r agent_serves_def)
qed

text \<open>The dashboard's token after any calls of the client.\<close>

definition sent_before :: "agg_env \<Rightarrow> agg_state \<Rightarrow> bool" where
  "sent_before E s \<longleftrightarrow> (\<exists>ts. ag_token s = upstream_calls (ae_lib E) (ae_settings E) ts upstream_new)"

lemma upstream_calls_snoc: "upstream_calls lib st (ts @ [t]) u = snd (upstream_get lib st t (upstream_calls lib st ts u))"
  by (induction ts arbitrary: u) simp_all

lemma agg_get_sent: "agg_get E now spec path s = (r, s') \<Longrightarrow> sent_before E s \<Longrightarrow> sent_before E s'"
  by (auto simp: agg_get_def send_def auth_header_def sent_before_def split: prod.splits if_splits)
    (metis upstream_calls_snoc snd_conv)

lemma compose_node:
  assumes "renders_finite render" and "node_ok n" and "sp_kind spec \<noteq> KBatch"
  shows "rbind (read_response (sp_slug spec) (Unavailable (sp_slug spec) ''bad json'')
      (http_of render (map_sum id snapshot_json (node_metrics n))))
      (\<lambda>m. compose_health (blank_health spec) (Payload v) (ready_reply n (sp_slug spec)) m) = Inr (agent_tile spec n)"
proof -
  let ?d = "(blank_health spec)\<lparr>hd_live := PyBool True, hd_ready := PyBool (node_ready n),
    hd_checks := (if node_ready n then good_checks else PyDict [])\<rparr>"
  have f: "fold_ready (ready_reply n (sp_slug spec)) ((blank_health spec)\<lparr>hd_live := PyBool True\<rparr>) = Inr ?d"
    by (simp add: fold_ready_def ready_reply_def good_checks_def py_or_def blank_health_def)
  have "no_figures ?d" by (simp add: no_figures_def blank_health_def)
  from metrics_folded [OF assms(1,2) this] obtain m where
    m: "read_response (sp_slug spec) (Unavailable (sp_slug spec) ''bad json'') (http_of render (map_sum id snapshot_json (node_metrics n))) = Inr m"
    "fold_metrics m ?d = Inr (with_figures n ?d)" by blast
  have "with_figures n ?d = agent_tile spec n" using assms(3) by (simp add: agent_tile_def blank_health_def)
  then show ?thesis using m f by (simp add: compose_health_def)
qed

lemma health_node:
  assumes "reaches render t E spec n" and "node_ok n" and "renders_finite render"
    and "\<And>s. sent_before E s \<Longrightarrow> admitted E now t n s" and "sent_before E s"
  shows "\<exists>s'. health E now spec s = (Inr (agent_tile spec n), s') \<and> sent_before E s'"
proof (cases "sp_kind spec = KBatch")
  case True
  obtain r s1 where g: "agg_get E now spec ''/metrics.json'' s = (r, s1)" by fastforce
  have "no_figures (blank_health spec)" by (simp add: no_figures_def blank_health_def)
  from metrics_folded [OF assms(3,2) this, of "sp_slug spec"] have "rbind r (\<lambda>m. fold_metrics m (blank_health spec)) = Inr (with_figures n (blank_health spec))"
    unfolding agg_get_node(3) [OF assms(1) assms(4) [OF assms(5)] assms(3) g refl, symmetric] by auto
  moreover have "with_figures n (blank_health spec) = agent_tile spec n"
    using True by (simp add: agent_tile_def blank_health_def)
  ultimately show ?thesis using g True agg_get_sent [OF g assms(5)] by (simp add: health_def)
next
  case False
  obtain r1 s1 where g1: "agg_get E now spec ''/healthz'' s = (r1, s1)" by fastforce
  obtain r2 s2 where g2: "agg_get E now spec ''/readyz'' s1 = (r2, s2)" by fastforce
  obtain r3 s3 where g3: "agg_get E now spec ''/metrics.json'' s2 = (r3, s3)" by fastforce
  have b: "sent_before E s1" "sent_before E s2" "sent_before E s3"
    using assms(5) agg_get_sent [OF g1] agg_get_sent [OF g2] agg_get_sent [OF g3] by blast+
  have "r1 = Inr (Payload (ro_body (healthz (nd_cfg n))))" "r2 = Inr (ready_reply n (sp_slug spec))"
    "r3 = read_response (sp_slug spec) (Unavailable (sp_slug spec) ''bad json'') (http_of render (map_sum id snapshot_json (node_metrics n)))"
    using agg_get_node(1) [OF assms(1) assms(4) [OF assms(5)] assms(3) g1] agg_get_node(2) [OF assms(1) assms(4) [OF b(1)] assms(3) g2]
      agg_get_node(3) [OF assms(1) assms(4) [OF b(2)] assms(3) g3] by simp_all
  then show ?thesis using False b(3) g1 g2 g3 compose_node [OF assms(3,2) False] by (simp add: health_def)
qed

lemma gather_nodes:
  assumes "\<And>spec s. spec \<in> set reg \<Longrightarrow> sent_before E s \<Longrightarrow> \<exists>s'. health E now spec s = (Inr (f spec), s') \<and> sent_before E s'"
    and "sent_before E s"
  shows "\<exists>s'. gather (health E now) reg s = (Inr (map f reg), s') \<and> sent_before E s'"
  using assms
proof (induction reg arbitrary: s)
  case (Cons spec reg)
  obtain s1 where h: "health E now spec s = (Inr (f spec), s1)" "sent_before E s1" using Cons.prems by fastforce
  obtain s2 where "gather (health E now) reg s1 = (Inr (map f reg), s2)" "sent_before E s2"
    using Cons.IH [OF _ h(2)] Cons.prems(1) by (metis list.set_intros(2))
  then show ?case using h(1) by simp
qed simp

section \<open>Types and colours\<close>

text \<open>The types that \<open>HealthDTO\<close> declares for the tile; a number may be an integer where a float is declared.\<close>

fun is_number :: "pyval \<Rightarrow> bool" where
  "is_number (PyInt k) = True"
| "is_number (PyFloat f) = True"
| "is_number v = False"

definition optional :: "(pyval \<Rightarrow> bool) \<Rightarrow> pyval \<Rightarrow> bool" where
  "optional P v \<longleftrightarrow> v = PyNone \<or> P v"

definition dict_of :: "(pyval \<Rightarrow> bool) \<Rightarrow> pyval \<Rightarrow> bool" where
  "dict_of P v \<longleftrightarrow> (\<exists>d. v = PyDict d \<and> (\<forall>(k, x) \<in> set d. P x))"

definition is_str :: "pyval \<Rightarrow> bool" where "is_str v \<longleftrightarrow> (\<exists>s. v = PyStr s)"
definition is_bool :: "pyval \<Rightarrow> bool" where "is_bool v \<longleftrightarrow> (\<exists>b. v = PyBool b)"
definition is_int :: "pyval \<Rightarrow> bool" where "is_int v \<longleftrightarrow> (\<exists>k. v = PyInt k)"

definition declared_types :: "health_dto \<Rightarrow> bool" where
  "declared_types d \<longleftrightarrow> is_str (hd_slug d) \<and> is_str (hd_title d) \<and> is_int (hd_port d) \<and> is_str (hd_kind d)
     \<and> is_bool (hd_incidents d) \<and> is_bool (hd_findings d) \<and> is_bool (hd_runs d) \<and> is_bool (hd_pm d) \<and> is_bool (hd_live d)
     \<and> optional is_bool (hd_ready d) \<and> dict_of is_bool (hd_checks d) \<and> optional is_number (hd_uptime d)
     \<and> optional is_number (hd_error_rate d) \<and> optional is_int (hd_requests d) \<and> optional is_number (hd_cost d)
     \<and> optional (dict_of is_number) (hd_cost_by_model d) \<and> optional is_dict (hd_last_run d) \<and> optional is_str (hd_error d)"

lemmas declared_type_defs = declared_types_def optional_def dict_of_def is_str_def is_bool_def is_int_def

lemma py_num_number: "is_number (py_num x)"
  by (simp add: py_num_def)

lemma agent_tile_types:
  "declared_types (agent_tile spec n) \<longleftrightarrow> (\<forall>sn. node_metrics n = Inr sn \<longrightarrow> optional is_dict (sn_last_run sn))"
  by (cases "node_metrics n")
    (auto simp: declared_type_defs agent_tile_def with_figures_def good_checks_def usd_by_model_def py_num_number)

lemma above_tenth_round: "above_tenth (py_num (py_round 6 x)) = Inr (1 / 10 < py_round 6 x)"
proof -
  obtain m e where f: "float_of_rat (py_round 6 x) = Dec m e" "dec_val m e = py_round 6 x" using py_round_float [of 6 x] by auto
  then show ?thesis by (cases "m = 0") (simp_all add: above_tenth_def py_num_def dec_val_def [of 0])
qed

lemma node_rate_rounded: "node_metrics n = Inr sn \<Longrightarrow> \<exists>x. sn_error_rate_5m sn = py_round 6 x"
  by (auto simp: node_metrics_def metrics_snapshot_def split: sum.splits prod.splits)

definition node_healthy :: "agent_node \<Rightarrow> bool" where
  "node_healthy n \<longleftrightarrow> node_ready n \<and> (case node_metrics n of Inl _ \<Rightarrow> True | Inr sn \<Rightarrow> sn_error_rate_5m sn \<le> 1 / 10)"

lemma agent_tile_status:
  "health_status (agent_tile spec n) =
    Inr (if sp_kind spec = KBatch then ''grey'' else if node_healthy n then ''green'' else ''amber'')"
proof (cases "node_metrics n")
  case (Inl e)
  then show ?thesis using kind_name_batch [of "sp_kind spec"]
    by (simp add: health_status_def agent_tile_def with_figures_def node_healthy_def above_tenth_def)
next
  case (Inr sn)
  obtain x where "sn_error_rate_5m sn = py_round 6 x" using node_rate_rounded [OF Inr] by blast
  then show ?thesis using Inr kind_name_batch [of "sp_kind spec"] above_tenth_round [of x]
    by (auto simp: health_status_def agent_tile_def with_figures_def node_healthy_def)
qed

text \<open>
  A readiness that fails names its checks in the body of its 503, and the tile shows none of them.
\<close>

lemma failed_checks_hidden:
  assumes "as_accepting (nd_app n)" and "fst (wait_for ping_timeout_s (nd_pg n)) \<noteq> Inr ()" and "sp_kind spec \<noteq> KBatch"
  shows "\<exists>redis_ok. ro_body (readyz (nd_pg n) (nd_redis n) (nd_app n)) = PyDict [(''ready'', PyBool False),
      (''checks'', PyDict [(''postgres'', PyBool False), (''redis'', PyBool redis_ok)])]"
    and "hd_checks (agent_tile spec n) = PyDict []"
  using assms
  by (auto simp: readyz_def ping_def Let_def agent_tile_def with_figures_def node_ready_def split: sum.split)

section \<open>Both ends\<close>

text \<open>C38: The overview shows the agents' own figures. A dashboard and agents with the same secret, algorithm and
  audience, whatever calls came before: a refresh of the board returns one tile for each agent, in the
  order of the registry, with its identity and capabilities from the registry, that it is live and whether
  it is ready (a batch agent is asked for neither), and the uptime, error rate, request count, costs and
  last run its own metrics compute, each under its own name; no figure when a provider of the metrics
  raises. Its colour is grey for a batch agent, else green exactly when the agent is not draining, both
  dependency checks passed in time and the rounded error rate, if it is known, is at most a tenth, else
  amber. Every field then has the type the dataclass declares, which nothing checks, exactly when the
  agent's last-run provider keeps to its own (a dictionary or nothing). The sub-checks are shown only when
  all of them passed, since a failing readiness answers 503 and the client drops its body (recorded as a
  defect). Assumed: a JWT library that decodes what it encoded, a framework whose JSON of finite values
  is read back, probes that reach the agents within the token's life, and provider values that are finite
  JSON.\<close>

theorem board_shows_agents:
  assumes "ae_settings E = st"
    and "\<forall>spec \<in> set reg. reaches render t E spec (node spec) \<and> node_ok (node spec)
      \<and> auth_settings.truncate (nd_cfg (node spec)) = auth_settings.truncate st"
    and "\<forall>e. jwt_roundtrip (ae_lib E) (upstream_claims st e) (jwt_secret st) ''HS256''"
    and "\<forall>c. jwt_encode (ae_lib E) c (jwt_secret st) ''HS256'' \<noteq> []"
    and "jwt_secret st \<noteq> []" and "''HS256'' \<in> set (jwt_algorithms st)" and "jwt_audience st \<noteq> Some []"
    and "0 \<le> now" and "t < now + 60" and "t < of_int (\<lfloor>now\<rfloor> + ds_upstream_token_ttl_s st)"
    and "renders_finite render" and "ag_token s = upstream_calls (ae_lib E) st ts upstream_new"
  shows "(\<exists>s'. agents_health E now reg True s = (Inr (map (\<lambda>spec. agent_tile spec (node spec)) reg), s'))
    \<and> (\<forall>spec \<in> set reg. health_status (agent_tile spec (node spec)) =
          Inr (if sp_kind spec = KBatch then ''grey'' else if node_healthy (node spec) then ''green'' else ''amber'')
        \<and> (declared_types (agent_tile spec (node spec)) \<longleftrightarrow>
            (\<forall>sn. node_metrics (node spec) = Inr sn \<longrightarrow> optional is_dict (sn_last_run sn))))"
proof -
  have adm: "admitted E now t (node spec) s" if "spec \<in> set reg" "sent_before E s" for spec s
    using that assms(1,2) upstream_accepted [OF assms(3,5-7,4,8-10)] unfolding admitted_def sent_before_def by metis
  have "sent_before E s" using assms(1,12) by (auto simp: sent_before_def)
  moreover have "\<exists>s'. health E now spec s = (Inr (agent_tile spec (node spec)), s') \<and> sent_before E s'"
    if "spec \<in> set reg" "sent_before E s" for spec s
    using that assms(2,11) adm by (intro health_node) auto
  ultimately obtain s' where "gather (health E now) reg s = (Inr (map (\<lambda>spec. agent_tile spec (node spec)) reg), s')"
    using gather_nodes [of reg E now "\<lambda>spec. agent_tile spec (node spec)" s] by blast
  then show ?thesis by (simp add: agents_health_def agent_tile_status agent_tile_types)
qed

text \<open>One agent, up for 20 seconds, that served two requests and failed one: its tile is amber.\<close>

definition busy_app :: app_state where
  "busy_app = \<lparr>as_metrics = record_error 9 1 (record_request 8 1 (record_request 5 1 (registry_new ''monitor'' 0 0 300))),
     as_limiter = new_limiter (demo_settings ''http://llm.internal''), as_llm_limiter = new_limiter (demo_settings ''http://llm.internal''),
     as_redis = [], as_accepting = True\<rparr>"

definition busy_node :: agent_node where
  "busy_node = \<lparr>nd_cfg = demo_settings ''http://llm.internal'', nd_public = False, nd_app = busy_app,
     nd_pg = (Inr (), 0), nd_redis = (Inr (), 1), nd_clock = 20\<rparr>"

definition busy_env :: agg_env where
  "busy_env = \<lparr>ae_lib = service_lib demo_dash, ae_settings = demo_dash,
     ae_net = agent_serves json_compact (service_lib demo_dash) 30 ''http://monitor'' busy_node\<rparr>"

lemma busy_metrics:
  "node_metrics busy_node = Inr \<lparr>sn_agent = ''monitor'', sn_uptime_s = 20, sn_error_rate_5m = 1/2, sn_requests_5m = 2, sn_errors_5m = 1,
     sn_last_run = PyNone, sn_llm_cost_usd_today = 0, sn_cost_by_model_today = [], sn_started_at = 0, sn_custom = []\<rparr>"
  by code_simp

lemma jwf_py_num: "jwf (py_num x)"
  by (simp add: py_num_def float_of_rat_def jwf_dec_norm split: option.split)

lemma finite_py_num: "all_finite (py_num x)"
  using float_of_rat_Dec [of x] by (auto simp: py_num_def)

lemma busy_ok: "node_ok busy_node"
  using show_nat_length [of 1 1] show_nat_length [of 2 1]
  by (simp add: node_ok_def busy_metrics snapshot_json_def usd_by_model_def jwf_py_num finite_py_num)

lemma busy_served: "reaches json_compact 30 busy_env wire_spec busy_node"
  by (simp add: reaches_def busy_env_def wire_spec_simps)

theorem board_shows_agents_witness:
  "\<exists>d s'. agents_health busy_env 20 [wire_spec] True \<lparr>ag_token = upstream_new, ag_cache = None, ag_redis_up = False\<rparr> = (Inr [d], s')
    \<and> hd_requests d = PyInt 2 \<and> hd_error_rate d = py_num (1/2) \<and> health_status d = Inr ''amber'' \<and> declared_types d"
proof -
  let ?s = "\<lparr>ag_token = upstream_new, ag_cache = None, ag_redis_up = False\<rparr>"
  have a: "auth_settings.truncate (nd_cfg busy_node) = auth_settings.truncate demo_dash"
    by (simp add: busy_node_def demo_dash_def dash_defaults_def agent_settings.defs auth_settings.defs)
  have d: "jwt_secret demo_dash \<noteq> []" "''HS256'' \<in> set (jwt_algorithms demo_dash)" "jwt_audience demo_dash \<noteq> Some []"
    "ds_upstream_token_ttl_s demo_dash = 600"
    by (simp_all add: demo_dash_def dash_defaults_def agent_settings.defs demo_settings_def)
  have "(\<exists>s'. agents_health busy_env 20 [wire_spec] True ?s = (Inr (map (\<lambda>spec. agent_tile spec busy_node) [wire_spec]), s'))
    \<and> (\<forall>spec \<in> set [wire_spec]. health_status (agent_tile spec busy_node) =
          Inr (if sp_kind spec = KBatch then ''grey'' else if node_healthy busy_node then ''green'' else ''amber'')
        \<and> (declared_types (agent_tile spec busy_node) \<longleftrightarrow>
            (\<forall>sn. node_metrics busy_node = Inr sn \<longrightarrow> optional is_dict (sn_last_run sn))))"
    by (rule board_shows_agents [where t = 30 and render = json_compact and ts = "[]" and st = demo_dash])
      (use a d in \<open>simp_all add: busy_env_def busy_ok busy_served [unfolded busy_env_def] service_lib_roundtrip service_lib_ne
        compact_renders_finite\<close>)
  moreover have "hd_requests (agent_tile wire_spec busy_node) = PyInt 2" "hd_error_rate (agent_tile wire_spec busy_node) = py_num (1/2)"
    by (simp_all add: agent_tile_def with_figures_def busy_metrics)
  moreover have "\<not> node_healthy busy_node" "sp_kind wire_spec \<noteq> KBatch"
    by (simp add: node_healthy_def busy_metrics) code_simp
  ultimately show ?thesis by (auto simp: busy_metrics optional_def)
qed

end
