(* ===== verification/LlmProps.thy ===== *)
theory LlmProps
  imports Llm
begin

text \<open>
  What the LLM client promises: no call above the ceiling, nothing sent when it refuses, usage that
  adds up, a breaker that is a function of the recent outcomes, bounded retries.
\<close>

section \<open>Frames\<close>

text \<open>The parts of a client that no call changes.\<close>

definition same_config :: "llm \<Rightarrow> llm \<Rightarrow> bool" where
  "same_config s t \<longleftrightarrow> llm_prices t = llm_prices s \<and> llm_model t = llm_model s \<and>
     llm_embed_model t = llm_embed_model s \<and> llm_max_tokens t = llm_max_tokens s \<and>
     max_cost_usd t = max_cost_usd s \<and> job_cost_cap_usd t = job_cost_cap_usd s \<and>
     llm_allow_unpriced t = llm_allow_unpriced s"

lemma same_config_refl [simp]: "same_config s s"
  by (simp add: same_config_def)

lemma same_config_trans: "same_config r s \<Longrightarrow> same_config s t \<Longrightarrow> same_config r t"
  by (simp add: same_config_def)

lemma check_breaker_frame:
  "check_breaker clk s = (b, t) \<Longrightarrow>
     same_config s t \<and> llm_usage t = llm_usage s \<and> llm_sent t = llm_sent s \<and> llm_brk t = llm_brk s"
  by (auto simp: check_breaker_def same_config_def split: if_splits)

lemma settle_frame [simp]:
  "same_config s (settle clk r s)" "llm_usage (settle clk r s) = llm_usage s"
  "llm_sent (settle clk r s) = llm_sent s"
  by (auto simp: settle_def note_failure_def same_config_def Let_def split: sum.splits)

lemma call_gateway_frame:
  assumes "call_gateway gw clk req s = (r, t)"
  shows "same_config s t" and "llm_usage t = llm_usage s"
    and "llm_sent t = llm_sent s \<or> llm_sent t = llm_sent s @ [req] \<and> r = gw (llm_sent s) req"
proof -
  obtain b s1 where b: "check_breaker clk s = (b, s1)" by fastforce
  note f = check_breaker_frame [OF b]
  let ?s2 = "s1\<lparr>llm_sent := llm_sent s1 @ [req]\<rparr>"
  have c: "same_config s (settle clk (gw (llm_sent s1) req) ?s2)"
    using f settle_frame(1) [of ?s2] by (simp add: same_config_def)
  show "same_config s t" "llm_usage t = llm_usage s"
    "llm_sent t = llm_sent s \<or> llm_sent t = llm_sent s @ [req] \<and> r = gw (llm_sent s) req"
    using assms b f c by (auto simp: call_gateway_def Let_def split: bool.splits if_splits)
qed

lemma call_gateway_ok:
  assumes "call_gateway gw clk req s = (Inr resp, t)"
  shows "llm_sent t = llm_sent s @ [req]" and "gw (llm_sent s) req = Inr resp"
    and "job_cost_cap_usd s \<le> 0 \<or> u_cost_usd (llm_usage s) < job_cost_cap_usd s"
proof -
  obtain b s1 where b: "check_breaker clk s = (b, s1)" by fastforce
  note f = check_breaker_frame [OF b]
  show "llm_sent t = llm_sent s @ [req]" "gw (llm_sent s) req = Inr resp"
    "job_cost_cap_usd s \<le> 0 \<or> u_cost_usd (llm_usage s) < job_cost_cap_usd s"
    using assms b f
    by (auto simp: call_gateway_def Let_def same_config_def not_less split: bool.splits if_splits)
qed

section \<open>The result of a completion\<close>

definition proj_cost :: "message list \<Rightarrow> string option \<Rightarrow> int option \<Rightarrow> llm \<Rightarrow> usd" where
  "proj_cost ms m k s =
     estimate_max_cost (llm_prices s) (llm_allow_unpriced s) (str_or m (llm_model s))
       (estimate_prompt_tokens ms) (int_or k (llm_max_tokens s))"

lemma complete_refused:
  "max_cost_usd s < proj_cost ms m k s \<Longrightarrow> complete gw clk ms m k temp s = (Inl CostLimitExceeded, s)"
  by (simp add: complete_def proj_cost_def Let_def)

lemma complete_sent:
  assumes "\<not> max_cost_usd s < proj_cost ms m k s"
  shows "complete gw clk ms m k temp s =
    (case call_gateway gw clk (ChatReq (str_or m (llm_model s)) ms (int_or k (llm_max_tokens s)) temp) s of
       (Inl e, s1) \<Rightarrow> (Inl e, s1)
     | (Inr resp, s1) \<Rightarrow>
         let u = call_usage s (str_or m (llm_model s)) (r_usage resp) in
         if max_cost_usd s < u_cost_usd u then (Inl CostLimitExceeded, s1)
         else let u1 = u\<lparr>u_by_model := [(str_or m (llm_model s), u_cost_usd u)]\<rparr>;
                  s2 = s1\<lparr>llm_usage := usage_add (llm_usage s) u1\<rparr>
              in case r_choices resp of
                  [] \<Rightarrow> (Inl NoChoice, s2)
                | ch # _ \<Rightarrow> (Inr (str_or (ch_content ch) [], u1), s2))"
proof -
  let ?mdl = "str_or m (llm_model s)" and ?cap = "int_or k (llm_max_tokens s)"
  obtain r t where c: "call_gateway gw clk (ChatReq ?mdl ms ?cap temp) s = (r, t)" by fastforce
  have f: "call_usage t = call_usage s" "max_cost_usd t = max_cost_usd s" "llm_usage t = llm_usage s"
    using call_gateway_frame(1,2) [OF c] by (auto simp: same_config_def call_usage_def fun_eq_iff)
  show ?thesis using assms c f by (simp add: complete_def proj_cost_def Let_def split: sum.splits)
qed

lemma complete_frame:
  assumes "complete gw clk ms m k temp s = (r, t)"
  shows "same_config s t"
    and "llm_sent t = llm_sent s \<or>
      llm_sent t = llm_sent s @ [ChatReq (str_or m (llm_model s)) ms (int_or k (llm_max_tokens s)) temp]"
proof -
  let ?req = "ChatReq (str_or m (llm_model s)) ms (int_or k (llm_max_tokens s)) temp"
  have "same_config s t \<and> (llm_sent t = llm_sent s \<or> llm_sent t = llm_sent s @ [?req])"
  proof (cases "max_cost_usd s < proj_cost ms m k s")
    case True
    with assms complete_refused [OF True, of gw clk temp] show ?thesis by simp
  next
    case False
    obtain r1 t1 where c: "call_gateway gw clk ?req s = (r1, t1)" by fastforce
    note f = call_gateway_frame [OF c]
    show ?thesis
      using assms c f unfolding complete_sent [OF False]
      by (auto simp: same_config_def Let_def split: sum.splits if_splits list.splits)
  qed
  then show "same_config s t" "llm_sent t = llm_sent s \<or> llm_sent t = llm_sent s @ [?req]" by blast+
qed

lemma complete_Inr:
  assumes "complete gw clk ms m k temp s = (Inr (text, u), t)"
  shows "u_cost_usd u \<le> max_cost_usd s" and "proj_cost ms m k s \<le> max_cost_usd s"
    and "u_cost_usd u = estimate_cost (llm_prices s) (llm_allow_unpriced s) (str_or m (llm_model s))
           (u_prompt_tokens u) (u_completion_tokens u)"
    and "u_by_model u = [(str_or m (llm_model s), u_cost_usd u)]"
    and "llm_usage t = usage_add (llm_usage s) u"
    and "llm_sent t = llm_sent s @ [ChatReq (str_or m (llm_model s)) ms (int_or k (llm_max_tokens s)) temp]"
    and "job_cost_cap_usd s \<le> 0 \<or> u_cost_usd (llm_usage s) < job_cost_cap_usd s"
    and "\<exists>resp ch chs. gw (llm_sent s) (ChatReq (str_or m (llm_model s)) ms (int_or k (llm_max_tokens s)) temp) = Inr resp
           \<and> r_choices resp = ch # chs \<and> text = str_or (ch_content ch) []
           \<and> (u_prompt_tokens u, u_completion_tokens u) = (case r_usage resp of None \<Rightarrow> (0, 0) | Some pc \<Rightarrow> pc)"
proof -
  let ?req = "ChatReq (str_or m (llm_model s)) ms (int_or k (llm_max_tokens s)) temp"
  have p: "\<not> max_cost_usd s < proj_cost ms m k s"
    using assms complete_refused by fastforce
  obtain resp t1 where c: "call_gateway gw clk ?req s = (Inr resp, t1)"
    using assms unfolding complete_sent [OF p]
    by (cases "call_gateway gw clk ?req s") (auto split: sum.splits)
  note f = call_gateway_frame [OF c] and ok = call_gateway_ok [OF c]
  let ?u = "call_usage s (str_or m (llm_model s)) (r_usage resp)"
  obtain ch chs where ch: "r_choices resp = ch # chs" and le: "\<not> max_cost_usd s < u_cost_usd ?u"
    and u: "u = ?u\<lparr>u_by_model := [(str_or m (llm_model s), u_cost_usd ?u)]\<rparr>"
    and t: "t = t1\<lparr>llm_usage := usage_add (llm_usage s) u\<rparr>" and tx: "text = str_or (ch_content ch) []"
    using assms c unfolding complete_sent [OF p] by (auto simp: Let_def split: if_splits list.splits)
  show "u_cost_usd u \<le> max_cost_usd s" "proj_cost ms m k s \<le> max_cost_usd s" using le p u by simp_all
  show "u_cost_usd u = estimate_cost (llm_prices s) (llm_allow_unpriced s) (str_or m (llm_model s))
           (u_prompt_tokens u) (u_completion_tokens u)"
    and "u_by_model u = [(str_or m (llm_model s), u_cost_usd u)]"
    using u by (simp_all add: call_usage_def Let_def)
  show "llm_usage t = usage_add (llm_usage s) u" "llm_sent t = llm_sent s @ [?req]"
    "job_cost_cap_usd s \<le> 0 \<or> u_cost_usd (llm_usage s) < job_cost_cap_usd s"
    using t ok by simp_all
  show "\<exists>resp ch chs. gw (llm_sent s) ?req = Inr resp
           \<and> r_choices resp = ch # chs \<and> text = str_or (ch_content ch) []
           \<and> (u_prompt_tokens u, u_completion_tokens u) = (case r_usage resp of None \<Rightarrow> (0, 0) | Some pc \<Rightarrow> pc)"
    using ok(2) ch tx u by (auto simp: call_usage_def Let_def split: option.splits)
qed

section \<open>Usage\<close>

lemma add_model_keys: "distinct (map fst d) \<Longrightarrow> distinct (map fst (add_model p d))"
  by (cases p) (simp add: add_model_def distinct_update)

lemma add_model_sum:
  assumes "distinct (map fst d)"
  shows "(\<Sum>p\<leftarrow>add_model p d. snd p) = (\<Sum>p\<leftarrow>d. snd p) + snd p"
  using sum_list_map_update [OF assms, of "\<lambda>x. x" "fst p"]
  by (cases p) (simp add: add_model_def split: option.splits)

lemma fold_add_model:
  assumes "distinct (map fst d)"
  shows "distinct (map fst (fold add_model ps d)) \<and>
    (\<Sum>p\<leftarrow>fold add_model ps d. snd p) = (\<Sum>p\<leftarrow>d. snd p) + (\<Sum>p\<leftarrow>ps. snd p)"
  using assms by (induction ps arbitrary: d) (simp_all add: add_model_keys add_model_sum)

text \<open>A usage is consistent when its per-model amounts have distinct keys and add up to the total.\<close>

definition usage_ok :: "usage \<Rightarrow> bool" where
  "usage_ok u \<longleftrightarrow> distinct (map fst (u_by_model u)) \<and> (\<Sum>p\<leftarrow>u_by_model u. snd p) = u_cost_usd u"

lemma usage_ok_0 [preserve]: "usage_ok usage0"
  by (simp add: usage_ok_def usage0_def)

lemma usage_ok_add [preserve]: "usage_ok u \<Longrightarrow> usage_ok v \<Longrightarrow> usage_ok (usage_add u v)"
  using fold_add_model [of "u_by_model u" "u_by_model v"] by (simp add: usage_ok_def usage_add_def)

lemma usage_ok_single: "u_by_model u = [(m, u_cost_usd u)] \<Longrightarrow> usage_ok u"
  by (simp add: usage_ok_def)

lemma complete_usage:
  assumes "complete gw clk ms m k temp s = (r, t)"
  shows "llm_usage t = llm_usage s \<or>
    (\<exists>u. llm_usage t = usage_add (llm_usage s) u \<and> u_cost_usd u \<le> max_cost_usd s \<and>
      u_by_model u = [(str_or m (llm_model s), u_cost_usd u)] \<and>
      (job_cost_cap_usd s \<le> 0 \<or> u_cost_usd (llm_usage s) < job_cost_cap_usd s))"
proof (cases "max_cost_usd s < proj_cost ms m k s")
  case True
  with assms complete_refused [OF True, of gw clk temp] show ?thesis by simp
next
  case False
  obtain r1 t1 where c: "call_gateway gw clk
      (ChatReq (str_or m (llm_model s)) ms (int_or k (llm_max_tokens s)) temp) s = (r1, t1)" by fastforce
  show ?thesis
  proof (cases r1)
    case (Inl e)
    with assms c call_gateway_frame(2) [OF c] show ?thesis unfolding complete_sent [OF False] by simp
  next
    case (Inr resp)
    let ?u = "call_usage s (str_or m (llm_model s)) (r_usage resp)"
    have cap: "job_cost_cap_usd s \<le> 0 \<or> u_cost_usd (llm_usage s) < job_cost_cap_usd s"
      by (rule call_gateway_ok(3) [OF c [unfolded Inr]])
    show ?thesis
    proof (cases "max_cost_usd s < u_cost_usd ?u")
      case True
      with assms c Inr call_gateway_frame(2) [OF c] show ?thesis
        unfolding complete_sent [OF False] by (simp add: Let_def)
    next
      case le: False
      let ?u1 = "?u\<lparr>u_by_model := [(str_or m (llm_model s), u_cost_usd ?u)]\<rparr>"
      have "llm_usage t = usage_add (llm_usage s) ?u1"
        using assms c Inr le unfolding complete_sent [OF False]
        by (auto simp: Let_def split: list.splits)
      with le cap show ?thesis by (intro disjI2 exI [of _ ?u1]) simp
    qed
  qed
qed

lemma complete_usage_ok [preserve]:
  assumes "complete gw clk ms m k temp s = (r, t)" and "usage_ok (llm_usage s)"
  shows "usage_ok (llm_usage t)"
  using complete_usage [OF assms(1)] assms(2) usage_ok_add usage_ok_single by auto

section \<open>The breaker\<close>

text \<open>
  A finished call: when, and its error if it raised. \<open>brk_event\<close> is what the call paths do with it.
\<close>

type_synonym outcome = "secs \<times> llm_exc option"

definition brk_event :: "outcome \<Rightarrow> breaker \<Rightarrow> breaker" where
  "brk_event ev b =
     (case snd ev of
        None \<Rightarrow> record_success b
      | Some e \<Rightarrow> if is_breaker_failure e then record_failure (fst ev) b else b)"

lemma settle_brk:
  "llm_brk (settle clk r s) =
     brk_event (clk (llm_ticks s), case r of Inl e \<Rightarrow> Some e | Inr _ \<Rightarrow> None) (llm_brk s)"
  by (auto simp: settle_def note_failure_def brk_event_def Let_def split: sum.splits)

text \<open>
  The contract a caller relies on: a success unblocks, a failure blocks for at most the cooldown,
  and neither changes the cooldown.
\<close>

locale failure_guard =
  fixes blocks :: "secs \<Rightarrow> 'b \<Rightarrow> bool"
    and ok :: "'b \<Rightarrow> 'b"
    and bad :: "secs \<Rightarrow> 'b \<Rightarrow> 'b"
    and cool :: "'b \<Rightarrow> secs"
  assumes ok_unblocks: "\<not> blocks now (ok b)"
    and bad_blocks: "blocks now (bad t b) \<Longrightarrow> now - t < cool b \<or> blocks now b"
    and cool_ok: "cool (ok b) = cool b"
    and cool_bad: "cool (bad t b) = cool b"
begin

definition guard_event :: "secs \<times> bool option \<Rightarrow> 'b \<Rightarrow> 'b" where
  "guard_event ev b = (case snd ev of None \<Rightarrow> b | Some good \<Rightarrow> if good then ok b else bad (fst ev) b)"

lemma cool_event [simp]: "cool (fold guard_event evs b) = cool b"
  by (induction evs arbitrary: b) (auto simp: guard_event_def cool_ok cool_bad split: option.splits)

lemma recovers:
  assumes "\<not> blocks now b" and "\<forall>ev \<in> set evs. snd ev = Some False \<longrightarrow> fst ev + cool b \<le> now"
  shows "\<not> blocks now (fold guard_event evs b)"
  using assms
proof (induction evs arbitrary: b)
  case (Cons ev evs)
  have c: "cool (guard_event ev b) = cool b" using cool_event [of "[ev]" b] by simp
  have "\<not> blocks now (guard_event ev b)"
    using Cons.prems bad_blocks [of now "fst ev" b]
    by (auto simp: guard_event_def ok_unblocks algebra_simps split: option.splits)
  with Cons c show ?case by simp
qed simp

end

interpretation cb: failure_guard breaker_blocks record_success record_failure brk_cooldown_s
  by unfold_locales
    (auto simp: breaker_blocks_def record_success_def record_failure_def Let_def split: option.splits if_splits)

definition verdict :: "outcome \<Rightarrow> secs \<times> bool option" where
  "verdict ev = (fst ev, case snd ev of None \<Rightarrow> Some True
     | Some e \<Rightarrow> if is_breaker_failure e then Some False else None)"

lemma brk_event_verdict: "brk_event ev b = cb.guard_event (verdict ev) b"
  by (auto simp: brk_event_def cb.guard_event_def verdict_def split: option.splits)

lemma fold_brk_event: "fold brk_event evs b = fold cb.guard_event (map verdict evs) b"
  by (induction evs arbitrary: b) (simp_all add: brk_event_verdict)

text \<open>The abstract state: the breaker-relevant failures since the last success, latest first.\<close>

definition trailing_failures :: "outcome list \<Rightarrow> outcome list" where
  "trailing_failures evs =
     takeWhile (\<lambda>ev. snd ev \<noteq> None)
       (filter (\<lambda>ev. case snd ev of None \<Rightarrow> True | Some e \<Rightarrow> is_breaker_failure e) (rev evs))"

lemma trailing_snoc:
  "trailing_failures (evs @ [ev]) =
     (case snd ev of None \<Rightarrow> []
      | Some e \<Rightarrow> if is_breaker_failure e then ev # trailing_failures evs else trailing_failures evs)"
  by (auto simp: trailing_failures_def split: option.splits)

lemma breaker_abs:
  assumes "0 < brk_threshold b" and "brk_failures b = 0" and "brk_opened_at b = None"
  shows "fold brk_event evs b =
    b\<lparr>brk_failures := int (length (trailing_failures evs)),
      brk_opened_at := (if brk_threshold b \<le> int (length (trailing_failures evs))
                        then Some (fst (hd (trailing_failures evs))) else None)\<rparr>"
proof (induction evs rule: rev_induct)
  case Nil
  then show ?case using assms by (cases b) (simp add: trailing_failures_def)
next
  case (snoc ev evs)
  then show ?case using assms
    by (auto simp: trailing_snoc brk_event_def record_success_def record_failure_def Let_def split: option.splits)
qed

section \<open>Retries\<close>

lemma usage_add_assoc_cost: "u_cost_usd (usage_add (usage_add u v) w) = u_cost_usd (usage_add u (usage_add v w))"
  by (simp add: usage_add_def)

lemma complete_json_step:
  assumes "complete gw clk convo (Some mdl) k temp s = (Inr (tx, u), t)"
  shows "u_cost_usd (llm_usage t) = u_cost_usd (llm_usage s) + u_cost_usd u"
    and "length (llm_sent t) = Suc (length (llm_sent s))"
  using complete_Inr(5,6) [OF assms] by (simp_all add: usage_add_def)

lemma json_attempts_sent:
  "length (llm_sent (snd (json_attempts n gw clk sch mdl k temp convo tot s))) \<le> length (llm_sent s) + n"
proof (induction n arbitrary: convo tot s)
  case (Suc n)
  obtain r t where c: "complete gw clk convo (Some mdl) k temp s = (r, t)" by fastforce
  have l: "length (llm_sent t) \<le> Suc (length (llm_sent s))" using complete_frame(2) [OF c] by auto
  show ?case
  proof (cases r)
    case (Inl e)
    with c l show ?thesis by simp
  next
    case (Inr p)
    then obtain tx u where p: "r = Inr (tx, u)" by (cases p) simp
    show ?thesis
      using Suc [of "retry_convo sch tx convo" "usage_add tot u" t] l
      by (simp add: c p Let_def split: option.splits)
  qed
qed simp

lemma json_attempts_ok:
  assumes "json_attempts n gw clk sch mdl k temp convo tot s = (Inr (obj, tot'), t)"
  shows "u_cost_usd (llm_usage t) - u_cost_usd (llm_usage s) = u_cost_usd tot' - u_cost_usd tot
    \<and> (\<exists>resp ch chs. gw (butlast (llm_sent t)) (last (llm_sent t)) = Inr resp \<and> r_choices resp = ch # chs
          \<and> decode_answer sch (str_or (ch_content ch) []) = Some obj)"
  using assms
proof (induction n arbitrary: convo tot s)
  case (Suc n)
  obtain tx u t1 where c: "complete gw clk convo (Some mdl) k temp s = (Inr (tx, u), t1)"
    using Suc.prems by (auto split: prod.splits sum.splits)
  note st = complete_json_step(1) [OF c]
  show ?case
  proof (cases "decode_answer sch tx")
    case None
    with Suc.prems c have "json_attempts n gw clk sch mdl k temp (retry_convo sch tx convo) (usage_add tot u) t1
      = (Inr (obj, tot'), t)" by (simp add: Let_def)
    from Suc.IH [OF this] st show ?thesis by (simp add: usage_add_def)
  next
    case (Some ob)
    with Suc.prems c have r: "ob = obj" "tot' = usage_add tot u" "t1 = t" by (simp_all add: Let_def)
    from complete_Inr(6,8) [OF c] show ?thesis using r st Some
      by (auto simp: usage_add_def)
  qed
qed simp

section \<open>Runs of calls\<close>

type_synonym call_args = "message list \<times> string option \<times> int option \<times> rat"

definition llm_run :: "response gateway \<Rightarrow> (nat \<Rightarrow> secs) \<Rightarrow> call_args list \<Rightarrow> llm \<Rightarrow> llm" where
  "llm_run gw clk calls s = fold (\<lambda>(ms, m, k, temp) s. snd (complete gw clk ms m k temp s)) calls s"

lemma llm_run_Cons: "llm_run gw clk ((ms, m, k, temp) # cs) s = llm_run gw clk cs (snd (complete gw clk ms m k temp s))"
  by (simp add: llm_run_def)

lemma llm_run_snoc:
  "llm_run gw clk (cs @ [(ms, m, k, temp)]) s = snd (complete gw clk ms m k temp (llm_run gw clk cs s))"
  by (simp add: llm_run_def)

lemma llm_run_config: "same_config s (llm_run gw clk cs s)"
proof (induction cs rule: rev_induct)
  case (snoc c cs)
  obtain ms m k temp where c: "c = (ms, m, k, temp)" by (cases c) auto
  show ?case unfolding c llm_run_snoc
    by (metis snoc complete_frame(1) prod.collapse same_config_trans)
qed (simp add: llm_run_def)

lemma complete_cap_step:
  assumes "0 < job_cost_cap_usd s" "0 \<le> max_cost_usd s"
    and "u_cost_usd (llm_usage s) \<le> job_cost_cap_usd s + max_cost_usd s"
  shows "u_cost_usd (llm_usage (snd (complete gw clk ms m k temp s))) \<le> job_cost_cap_usd s + max_cost_usd s"
proof -
  obtain r t where c: "complete gw clk ms m k temp s = (r, t)" by fastforce
  from complete_usage [OF c] assms show ?thesis by (auto simp: c usage_add_def)
qed

lemma llm_run_cap:
  assumes "0 < job_cost_cap_usd s" "0 \<le> max_cost_usd s"
    and "u_cost_usd (llm_usage s) \<le> job_cost_cap_usd s + max_cost_usd s"
  shows "u_cost_usd (llm_usage (llm_run gw clk cs s)) \<le> job_cost_cap_usd s + max_cost_usd s"
proof (induction cs rule: rev_induct)
  case Nil
  then show ?case using assms by (simp add: llm_run_def)
next
  case (snoc c cs)
  obtain ms m k temp where c: "c = (ms, m, k, temp)" by (cases c) auto
  let ?s = "llm_run gw clk cs s"
  have "job_cost_cap_usd ?s = job_cost_cap_usd s" "max_cost_usd ?s = max_cost_usd s"
    using llm_run_config [of s gw clk cs] by (simp_all add: same_config_def)
  with complete_cap_step [of ?s gw clk ms m k temp] snoc assms show ?case
    unfolding c llm_run_snoc by simp
qed

lemma llm_run_usage_ok: "usage_ok (llm_usage s) \<Longrightarrow> usage_ok (llm_usage (llm_run gw clk cs s))"
proof (induction cs rule: rev_induct)
  case (snoc c cs)
  obtain ms m k temp where c: "c = (ms, m, k, temp)" by (cases c) auto
  show ?case unfolding c llm_run_snoc
    by (rule complete_usage_ok [OF prod.collapse [symmetric]]) (rule snoc.IH [OF snoc.prems])
qed (simp add: llm_run_def)

text \<open>An answer above the ceiling: the request was sent and billed, the meter did not move.\<close>

lemma complete_breach:
  assumes "\<not> max_cost_usd s < proj_cost ms m k s"
    and "brk_opened_at (llm_brk s) = None"
    and "job_cost_cap_usd s \<le> 0 \<or> u_cost_usd (llm_usage s) < job_cost_cap_usd s"
    and "gw (llm_sent s) (ChatReq (str_or m (llm_model s)) ms (int_or k (llm_max_tokens s)) temp) = Inr resp"
    and "max_cost_usd s < u_cost_usd (call_usage s (str_or m (llm_model s)) (r_usage resp))"
  shows "complete gw clk ms m k temp s =
    (Inl CostLimitExceeded,
     s\<lparr>llm_sent := llm_sent s @ [ChatReq (str_or m (llm_model s)) ms (int_or k (llm_max_tokens s)) temp],
       llm_brk := record_success (llm_brk s)\<rparr>)"
  unfolding complete_sent [OF assms(1)]
  using assms by (auto simp: call_gateway_def check_breaker_def settle_def Let_def)

lemma llm_run_breach:
  assumes "\<not> max_cost_usd s < proj_cost ms m k s"
    and "brk_opened_at (llm_brk s) = None"
    and "job_cost_cap_usd s \<le> 0 \<or> u_cost_usd (llm_usage s) < job_cost_cap_usd s"
    and "\<And>h. \<exists>resp. gw h (ChatReq (str_or m (llm_model s)) ms (int_or k (llm_max_tokens s)) temp) = Inr resp \<and>
      max_cost_usd s < u_cost_usd (call_usage s (str_or m (llm_model s)) (r_usage resp))"
  shows "llm_usage (llm_run gw clk (replicate n (ms, m, k, temp)) s) = llm_usage s \<and>
    length (llm_sent (llm_run gw clk (replicate n (ms, m, k, temp)) s)) = length (llm_sent s) + n"
  using assms
proof (induction n arbitrary: s)
  case (Suc n)
  let ?req = "ChatReq (str_or m (llm_model s)) ms (int_or k (llm_max_tokens s)) temp"
  obtain resp where g: "gw (llm_sent s) ?req = Inr resp"
    "max_cost_usd s < u_cost_usd (call_usage s (str_or m (llm_model s)) (r_usage resp))"
    using Suc.prems(4) by blast
  let ?s1 = "s\<lparr>llm_sent := llm_sent s @ [?req], llm_brk := record_success (llm_brk s)\<rparr>"
  have step: "complete gw clk ms m k temp s = (Inl CostLimitExceeded, ?s1)"
    using complete_breach [of s ms m k gw temp resp clk] Suc.prems(1-3) g by blast
  have cu: "call_usage ?s1 = call_usage s" by (simp add: call_usage_def fun_eq_iff)
  have "llm_usage (llm_run gw clk (replicate n (ms, m, k, temp)) ?s1) = llm_usage ?s1 \<and>
    length (llm_sent (llm_run gw clk (replicate n (ms, m, k, temp)) ?s1)) = length (llm_sent ?s1) + n"
    by (rule Suc.IH) (use Suc.prems cu in \<open>auto simp: proj_cost_def record_success_def\<close>)
  then show ?case by (simp add: llm_run_Cons step)
qed (simp add: llm_run_def)

end
