(* ===== verification/LlmConc.thy ===== *)
theory LlmConc
  imports LlmProps
begin

text \<open>
  Several coroutines share one client. A call of \<open>complete\<close> runs without interruption up to its
  \<open>await\<close> on the gateway (\<open>begin_call\<close>) and from the answer to its end (\<open>end_call\<close>); between the two
  any number of other calls may begin and end. \<open>llm_step\<close> is that interleaving, the calls in flight
  in a list.
\<close>

section \<open>The two halves of a call\<close>

definition begin_call ::
  "(nat \<Rightarrow> secs) \<Rightarrow> message list \<Rightarrow> string option \<Rightarrow> int option \<Rightarrow> rat \<Rightarrow> llm \<Rightarrow> (llm_exc + request) \<times> llm" where
  "begin_call clk ms m k temp s =
     (let mdl = str_or m (llm_model s); out_cap = int_or k (llm_max_tokens s);
          projected = estimate_max_cost (llm_prices s) (llm_allow_unpriced s) mdl (estimate_prompt_tokens ms) out_cap
      in if max_cost_usd s < projected then (Inl CostLimitExceeded, s)
         else case check_breaker clk s of
             (True, s1) \<Rightarrow> (Inl CircuitOpenError, s1)
           | (False, s1) \<Rightarrow>
               if 0 < job_cost_cap_usd s1 \<and> job_cost_cap_usd s1 \<le> u_cost_usd (llm_usage s1)
               then (Inl JobCostCapExceeded, s1)
               else (Inr (ChatReq mdl ms out_cap temp),
                     s1\<lparr>llm_sent := llm_sent s1 @ [ChatReq mdl ms out_cap temp]\<rparr>))"

definition end_call ::
  "(nat \<Rightarrow> secs) \<Rightarrow> string \<Rightarrow> llm_exc + response \<Rightarrow> llm \<Rightarrow> (llm_exc + string \<times> usage) \<times> llm" where
  "end_call clk mdl r s =
     (let s1 = settle clk r s in
      case r of
        Inl e \<Rightarrow> (Inl e, s1)
      | Inr resp \<Rightarrow>
          let u = call_usage s1 mdl (r_usage resp) in
          if max_cost_usd s1 < u_cost_usd u then (Inl CostLimitExceeded, s1)
          else let u1 = u\<lparr>u_by_model := [(mdl, u_cost_usd u)]\<rparr>;
                   s2 = s1\<lparr>llm_usage := usage_add (llm_usage s1) u1\<rparr>
               in case r_choices resp of
                   [] \<Rightarrow> (Inl NoChoice, s2)
                 | ch # _ \<Rightarrow> (Inr (str_or (ch_content ch) [], u1), s2))"

text \<open>Run back to back, the halves are the whole call.\<close>

lemma complete_split:
  "complete gw clk ms m k temp s =
     (case begin_call clk ms m k temp s of
        (Inl e, s1) \<Rightarrow> (Inl e, s1)
      | (Inr req, s1) \<Rightarrow> end_call clk (str_or m (llm_model s)) (gw (llm_sent s) req) s1)"
proof -
  obtain b s1 where b: "check_breaker clk s = (b, s1)" by fastforce
  have "llm_sent s1 = llm_sent s" using check_breaker_frame [OF b] by simp
  then show ?thesis
    by (cases b; cases "gw (llm_sent s) (ChatReq (str_or m (llm_model s)) ms (int_or k (llm_max_tokens s)) temp)")
      (simp_all add: complete_def begin_call_def end_call_def call_gateway_def Let_def b)
qed

section \<open>Interleavings\<close>

type_synonym shared = "llm \<times> string list"

text \<open>At most \<open>par\<close> calls are in flight; the list holds the model of each.\<close>

inductive llm_step :: "(nat \<Rightarrow> secs) \<Rightarrow> nat \<Rightarrow> shared \<Rightarrow> shared \<Rightarrow> bool" for clk par where
  Start: "begin_call clk ms m k temp s = (Inr req, t) \<Longrightarrow> length fl < par \<Longrightarrow>
    llm_step clk par (s, fl) (t, fl @ [str_or m (llm_model s)])"
| Refuse: "begin_call clk ms m k temp s = (Inl e, t) \<Longrightarrow> llm_step clk par (s, fl) (t, fl)"
| Finish: "i < length fl \<Longrightarrow> end_call clk (fl ! i) r s = (res, t) \<Longrightarrow>
    llm_step clk par (s, fl) (t, take i fl @ drop (Suc i) fl)"

inductive_cases llm_stepE: "llm_step clk par (s, fl) p"

inductive llm_reach :: "(nat \<Rightarrow> secs) \<Rightarrow> nat \<Rightarrow> shared \<Rightarrow> shared \<Rightarrow> bool" for clk par p0 where
  Init: "llm_reach clk par p0 p0"
| Step: "llm_reach clk par p0 p \<Longrightarrow> llm_step clk par p q \<Longrightarrow> llm_reach clk par p0 q"

lemma begin_call_frame:
  assumes "begin_call clk ms m k temp s = (r, t)"
  shows "same_config s t \<and> llm_usage t = llm_usage s \<and>
    (\<forall>req. r = Inr req \<longrightarrow> job_cost_cap_usd s \<le> 0 \<or> u_cost_usd (llm_usage s) < job_cost_cap_usd s)"
proof -
  obtain b s1 where b: "check_breaker clk s = (b, s1)" by fastforce
  show ?thesis using assms check_breaker_frame [OF b] b
    by (cases b) (auto simp: begin_call_def Let_def same_config_def not_less split: if_splits)
qed

lemma end_call_frame:
  assumes "end_call clk mdl r s = (res, t)"
  shows "same_config s t" and "u_cost_usd (llm_usage t) \<le> u_cost_usd (llm_usage s) + max 0 (max_cost_usd s)"
proof -
  note f = settle_frame [where s = s and clk = clk and r = r]
  have "same_config s t \<and> u_cost_usd (llm_usage t) \<le> u_cost_usd (llm_usage s) + max 0 (max_cost_usd s)"
    using assms f
    by (auto simp: end_call_def Let_def same_config_def usage_add_def split: sum.splits if_splits list.splits)
  then show "same_config s t" "u_cost_usd (llm_usage t) \<le> u_cost_usd (llm_usage s) + max 0 (max_cost_usd s)"
    by blast+
qed

text \<open>What is metered, plus one ceiling for every call in flight, stays within cap plus \<open>par\<close> ceilings.\<close>

definition budget_inv :: "usd \<Rightarrow> usd \<Rightarrow> nat \<Rightarrow> shared \<Rightarrow> bool" where
  "budget_inv cap ceil par p \<longleftrightarrow>
     job_cost_cap_usd (fst p) = cap \<and> max_cost_usd (fst p) = ceil \<and> length (snd p) \<le> par \<and>
     u_cost_usd (llm_usage (fst p)) + ceil * of_nat (length (snd p)) \<le> cap + ceil * of_nat par"

lemma budget_step:
  assumes "llm_step clk par p q" and "budget_inv cap ceil par p" and "0 < cap" and "0 \<le> ceil"
  shows "budget_inv cap ceil par q"
  using assms(1)
proof cases
  case (Start ms m k temp s req t fl)
  note f = begin_call_frame [OF Start(3)]
  have "u_cost_usd (llm_usage s) < cap" using f assms Start by (auto simp: budget_inv_def)
  moreover have "ceil * of_nat (Suc (length fl)) \<le> ceil * of_nat par"
    using Start(4) assms(4) by (intro mult_left_mono) simp_all
  ultimately show ?thesis using f assms Start
    by (auto simp: budget_inv_def same_config_def)
next
  case (Refuse ms m k temp s e t fl)
  then show ?thesis using begin_call_frame [OF Refuse(3)] assms by (auto simp: budget_inv_def same_config_def)
next
  case (Finish i fl r s res t)
  note f = end_call_frame [OF Finish(4)]
  have l: "length (take i fl @ drop (Suc i) fl) = length fl - 1" using Finish(3) by simp
  have "ceil * of_nat (length fl) = ceil * of_nat (length fl - 1) + ceil"
    using Finish(3) by (cases "length fl") (simp_all add: algebra_simps)
  then show ?thesis using f assms Finish(1,2) l by (auto simp: budget_inv_def same_config_def)
qed

lemma budget_reach:
  assumes "llm_reach clk par p0 p" and "budget_inv cap ceil par p0" and "0 < cap" and "0 \<le> ceil"
  shows "budget_inv cap ceil par p"
  using assms by induction (auto intro: budget_step)

end
