(* ===== verification/LlmTheorems.thy ===== *)
theory LlmTheorems
  imports LlmConc
begin

text \<open>The properties of the LLM client, with their instances at a small concrete client.\<close>

section \<open>A concrete client\<close>

definition demo_llm :: llm where
  "demo_llm =
     \<lparr>llm_prices = default_prices, llm_model = ''gpt-5'', llm_embed_model = ''e'', llm_max_tokens = 100,
      max_cost_usd = 1/10, job_cost_cap_usd = 1, llm_usage = usage0, llm_allow_unpriced = False,
      llm_brk = \<lparr>brk_threshold = 2, brk_cooldown_s = 30, brk_failures = 0, brk_opened_at = None\<rparr>,
      llm_sent = [], llm_ticks = 0\<rparr>"

definition demo_msgs :: "message list" where
  "demo_msgs = [[(''role'', ''user''), (''content'', ''hi'')]]"

definition demo_resp :: "int \<Rightarrow> string \<Rightarrow> response" where
  "demo_resp ptoks tx = \<lparr>r_usage = Some (ptoks, 50),
     r_choices = [\<lparr>ch_content = Some tx, ch_tool_calls = None, ch_finish = None\<rparr>]\<rparr>"

definition demo_gw :: "response gateway" where
  "demo_gw h r = Inr (demo_resp 100 ''{}'')"

definition demo_clk :: "nat \<Rightarrow> secs" where
  "demo_clk n = of_nat n"

lemmas demo_defs = demo_llm_def demo_msgs_def demo_resp_def demo_gw_def demo_clk_def

lemmas complete_defs = complete_def call_gateway_def check_breaker_def settle_def note_failure_def
  estimate_max_cost_def estimate_cost_def estimate_prompt_tokens_def call_usage_def str_or_def int_or_def
  default_prices_def zero_price_def unpriced_sentinel_def msg_get_def usage_add_def usage0_def add_model_def
  record_success_def record_failure_def Let_def

section \<open>Properties\<close>

text \<open>
  C1: a completion that returns spent at most the per-call ceiling, priced the tokens the gateway
  reported with the price table, was projected to stay below the ceiling before it was sent, sent
  exactly one request, and added exactly its usage to the meter.
\<close>

theorem complete_within_ceiling:
  assumes "complete gw clk ms m k temp s = (Inr (tx, u), t)"
  shows "u_cost_usd u \<le> max_cost_usd s
    \<and> estimate_max_cost (llm_prices s) (llm_allow_unpriced s) (str_or m (llm_model s))
        (estimate_prompt_tokens ms) (int_or k (llm_max_tokens s)) \<le> max_cost_usd s
    \<and> u_cost_usd u = estimate_cost (llm_prices s) (llm_allow_unpriced s) (str_or m (llm_model s))
        (u_prompt_tokens u) (u_completion_tokens u)
    \<and> llm_usage t = usage_add (llm_usage s) u
    \<and> llm_sent t = llm_sent s @ [ChatReq (str_or m (llm_model s)) ms (int_or k (llm_max_tokens s)) temp]
    \<and> (\<exists>resp ch chs.
         gw (llm_sent s) (ChatReq (str_or m (llm_model s)) ms (int_or k (llm_max_tokens s)) temp) = Inr resp
         \<and> r_choices resp = ch # chs \<and> tx = str_or (ch_content ch) []
         \<and> (u_prompt_tokens u, u_completion_tokens u) = (case r_usage resp of None \<Rightarrow> (0, 0) | Some pc \<Rightarrow> pc))"
  using complete_Inr [OF assms] by (simp add: proj_cost_def)

lemma demo_complete:
  "complete demo_gw demo_clk demo_msgs None None (1/5) demo_llm =
     (Inr (''{}'', \<lparr>u_prompt_tokens = 100, u_completion_tokens = 50, u_cost_usd = 1/1600,
                     u_by_model = [(''gpt-5'', 1/1600)]\<rparr>),
      demo_llm\<lparr>llm_sent := [ChatReq ''gpt-5'' demo_msgs 100 (1/5)],
        llm_usage := \<lparr>u_prompt_tokens = 100, u_completion_tokens = 50, u_cost_usd = 1/1600,
                       u_by_model = [(''gpt-5'', 1/1600)]\<rparr>\<rparr>)"
  by (simp add: complete_defs demo_defs)

theorem complete_within_ceiling_witness: "(1/1600 :: usd) \<le> max_cost_usd demo_llm"
  using complete_within_ceiling [OF demo_complete] by simp

text \<open>
  Whenever a call of \<open>complete\<close> lets a request out, the worst-case projection was within the
  ceiling, the job cap was not reached and the breaker did not block; otherwise the history of
  requests is unchanged and the meter too.
\<close>

theorem sent_only_when_allowed:
  "case complete gw clk ms m k temp s of
     (r, t) \<Rightarrow>
       (if max_cost_usd s < estimate_max_cost (llm_prices s) (llm_allow_unpriced s) (str_or m (llm_model s))
             (estimate_prompt_tokens ms) (int_or k (llm_max_tokens s))
        then r = Inl CostLimitExceeded \<and> t = s
        else if brk_opened_at (llm_brk s) \<noteq> None \<and> breaker_blocks (clk (llm_ticks s)) (llm_brk s)
        then r = Inl CircuitOpenError \<and> llm_sent t = llm_sent s \<and> llm_usage t = llm_usage s \<and> llm_brk t = llm_brk s
        else if 0 < job_cost_cap_usd s \<and> job_cost_cap_usd s \<le> u_cost_usd (llm_usage s)
        then r = Inl JobCostCapExceeded \<and> llm_sent t = llm_sent s \<and> llm_usage t = llm_usage s \<and> llm_brk t = llm_brk s
        else llm_sent t = llm_sent s @ [ChatReq (str_or m (llm_model s)) ms (int_or k (llm_max_tokens s)) temp])"
proof (cases "max_cost_usd s < proj_cost ms m k s")
  case True
  then show ?thesis using complete_refused [OF True] by (simp add: proj_cost_def)
next
  case False
  let ?req = "ChatReq (str_or m (llm_model s)) ms (int_or k (llm_max_tokens s)) temp"
  obtain b s1 where b: "check_breaker clk s = (b, s1)" by fastforce
  note fb = check_breaker_frame [OF b]
  have bb: "b \<longleftrightarrow> brk_opened_at (llm_brk s) \<noteq> None \<and> breaker_blocks (clk (llm_ticks s)) (llm_brk s)"
    using b by (auto simp: check_breaker_def breaker_blocks_def split: if_splits)
  have sx: "call_gateway gw clk ?req s =
     (if b then (Inl CircuitOpenError, s1)
      else if 0 < job_cost_cap_usd s \<and> job_cost_cap_usd s \<le> u_cost_usd (llm_usage s) then (Inl JobCostCapExceeded, s1)
      else (gw (llm_sent s) ?req, settle clk (gw (llm_sent s) ?req) (s1\<lparr>llm_sent := llm_sent s @ [?req]\<rparr>)))"
    using fb by (simp add: call_gateway_def b same_config_def Let_def split: bool.split)
  show ?thesis
    using False fb bb unfolding complete_sent [OF False] sx
    by (auto simp: proj_cost_def Let_def split: sum.splits list.splits)
qed

text \<open>
  C2: the breaker implements its specification: after any sequence of finished calls, a fresh
  breaker counts the transport and 5xx failures since the last success, and is open exactly when
  they have reached the threshold, since the latest of them. Client-side 4xx errors leave no trace.
\<close>

theorem breaker_refines_outcomes:
  assumes "0 < brk_threshold b" and "brk_failures b = 0" and "brk_opened_at b = None"
  shows "(breaker_blocks now (fold brk_event evs b) \<longleftrightarrow>
      brk_threshold b \<le> int (length (trailing_failures evs))
      \<and> now - fst (hd (trailing_failures evs)) < brk_cooldown_s b)
    \<and> brk_failures (fold brk_event evs b) = int (length (trailing_failures evs))"
  using assms by (simp_all add: breaker_abs breaker_blocks_def)

theorem breaker_refines_outcomes_witness:
  "breaker_blocks 20 (fold brk_event
      [(1, Some APITimeoutError), (2, None), (3, Some (APIStatusError (Some 503))),
       (4, Some (APIStatusError (Some 422))), (5, Some APIConnectionError)] (llm_brk demo_llm))"
  by (subst breaker_refines_outcomes [THEN conjunct1])
    (simp_all add: demo_llm_def trailing_failures_def is_breaker_failure_def status_code_def)

text \<open>
  C3: the breaker never locks a caller out for good: whatever calls finished, once a cooldown has
  passed since each counted failure the next call is let through.
\<close>

theorem breaker_always_recovers:
  assumes "\<not> breaker_blocks now b"
    and "\<forall>(t, e) \<in> set evs. (\<exists>x. e = Some x \<and> is_breaker_failure x) \<longrightarrow> t + brk_cooldown_s b \<le> now"
  shows "\<not> breaker_blocks now (fold brk_event evs b)"
  unfolding fold_brk_event
proof (rule cb.recovers [OF assms(1)], intro ballI impI)
  fix ev assume ev: "ev \<in> set (map verdict evs)" "snd ev = Some False"
  then obtain t e where te: "(t, e) \<in> set evs" "ev = verdict (t, e)" by auto
  with ev(2) have "\<exists>x. e = Some x \<and> is_breaker_failure x"
    by (auto simp: verdict_def split: option.splits if_splits)
  with te assms(2) show "fst ev + brk_cooldown_s b \<le> now" by (auto simp: verdict_def)
qed

theorem breaker_always_recovers_witness:
  "\<not> breaker_blocks 40 (fold brk_event [(1, Some APITimeoutError), (2, Some APITimeoutError)] (llm_brk demo_llm))"
  by (rule breaker_always_recovers) (simp_all add: demo_llm_def breaker_blocks_def)

text \<open>
  C4: with several calls in flight on one client, the metered spend never exceeds the job cap by
  more than one per-call ceiling for each call that may be in flight, whatever the gateway answers
  and however the calls interleave.
\<close>

theorem job_cap_under_concurrency:
  assumes "llm_reach clk par (s, []) (t, fl)" and "0 < job_cost_cap_usd s" and "0 \<le> max_cost_usd s"
    and "u_cost_usd (llm_usage s) \<le> job_cost_cap_usd s"
  shows "u_cost_usd (llm_usage t) \<le> job_cost_cap_usd s + max_cost_usd s * of_nat par"
proof -
  have "budget_inv (job_cost_cap_usd s) (max_cost_usd s) par (s, [])"
    using assms by (simp add: budget_inv_def add_increasing2)
  from budget_reach [OF assms(1) this assms(2,3)]
  have "u_cost_usd (llm_usage t) + max_cost_usd s * of_nat (length fl)
      \<le> job_cost_cap_usd s + max_cost_usd s * of_nat par" by (simp add: budget_inv_def)
  moreover have "0 \<le> max_cost_usd s * of_nat (length fl)" using assms(3) by simp
  ultimately show ?thesis by linarith
qed

definition demo_flying :: shared where
  "demo_flying = (demo_llm\<lparr>llm_sent := [ChatReq ''gpt-5'' demo_msgs 100 0]\<rparr>, [''gpt-5''])"

lemma demo_reach:
  "llm_reach demo_clk 2 (demo_llm, [])
     (snd (end_call demo_clk ''gpt-5'' (Inr (demo_resp 100 ''x'')) (fst demo_flying)), [])"
proof (rule llm_reach.Step [OF llm_reach.Step [OF llm_reach.Init]])
  show "llm_step demo_clk 2 (demo_llm, []) demo_flying"
    using llm_step.Start [of demo_clk demo_msgs None None 0 demo_llm "ChatReq ''gpt-5'' demo_msgs 100 0"
        "fst demo_flying" "[]" 2]
    by (simp add: demo_flying_def begin_call_def complete_defs demo_defs)
  show "llm_step demo_clk 2 demo_flying
     (snd (end_call demo_clk ''gpt-5'' (Inr (demo_resp 100 ''x'')) (fst demo_flying)), [])"
    using llm_step.Finish [of 0 "[''gpt-5'']" demo_clk "Inr (demo_resp 100 ''x'')" "fst demo_flying",
        OF _ prod.collapse [symmetric]]
    by (simp add: demo_flying_def)
qed

theorem job_cap_under_concurrency_witness:
  "u_cost_usd (llm_usage (snd (end_call demo_clk ''gpt-5'' (Inr (demo_resp 100 ''x'')) (fst demo_flying)))) \<le> 12/10"
  using job_cap_under_concurrency [OF demo_reach] by (simp add: demo_llm_def usage0_def)

text \<open>
  The job cap counts only calls that stayed below the per-call ceiling. A gateway whose every
  answer costs more than the ceiling is called again and again: after \<open>n\<close> calls it has received
  \<open>n\<close> requests and the meter that the cap reads is where it was.
\<close>

theorem breached_spend_unmetered:
  assumes "estimate_max_cost (llm_prices s) (llm_allow_unpriced s) (str_or m (llm_model s))
        (estimate_prompt_tokens ms) (int_or k (llm_max_tokens s)) \<le> max_cost_usd s"
    and "brk_opened_at (llm_brk s) = None"
    and "job_cost_cap_usd s \<le> 0 \<or> u_cost_usd (llm_usage s) < job_cost_cap_usd s"
    and "\<forall>h. \<exists>resp. gw h (ChatReq (str_or m (llm_model s)) ms (int_or k (llm_max_tokens s)) temp) = Inr resp \<and>
      max_cost_usd s < u_cost_usd (call_usage s (str_or m (llm_model s)) (r_usage resp))"
  shows "llm_usage (llm_run gw clk (replicate n (ms, m, k, temp)) s) = llm_usage s \<and>
    length (llm_sent (llm_run gw clk (replicate n (ms, m, k, temp)) s)) = length (llm_sent s) + n"
  using llm_run_breach [of s ms m k gw temp clk n] assms by (auto simp: proj_cost_def not_less)

theorem breached_spend_unmetered_witness:
  "llm_usage (llm_run (\<lambda>h r. Inr (demo_resp 1000000 ''x'')) demo_clk
     (replicate 50 (demo_msgs, None, None, 1/5)) demo_llm) = usage0"
proof -
  let ?gw = "\<lambda>h r. Inr (demo_resp 1000000 ''x'') :: llm_exc + response"
  have "llm_usage (llm_run ?gw demo_clk (replicate 50 (demo_msgs, None, None, 1/5)) demo_llm) = llm_usage demo_llm"
    by (rule breached_spend_unmetered [THEN conjunct1])
      (simp_all add: complete_defs demo_defs)
  then show ?thesis by (simp add: demo_llm_def)
qed

text \<open>
  \<open>complete_json\<close> sends at most \<open>max_retries + 1\<close> requests, and when it returns, the object is
  what the schema made of the JSON in the gateway's last answer, and the returned usage costs what
  the meter moved by.
\<close>

theorem complete_json_bounded:
  "case complete_json gw clk ms sch m k temp max_retries s of
     (r, t) \<Rightarrow> length (llm_sent t) \<le> length (llm_sent s) + nat (max_retries + 1) \<and>
       (case r of
          Inl e \<Rightarrow> True
        | Inr (obj, tot) \<Rightarrow>
            u_cost_usd tot = u_cost_usd (llm_usage t) - u_cost_usd (llm_usage s) \<and>
            (\<exists>resp ch chs v. gw (butlast (llm_sent t)) (last (llm_sent t)) = Inr resp \<and> r_choices resp = ch # chs
               \<and> json_loads (json_substring (str_or (ch_content ch) [])) = Inr v \<and> model_validate sch v = Some obj))"
proof -
  let ?n = "nat (max_retries + 1)" and ?mdl = "str_or m (llm_model s)"
  obtain r t where c: "json_attempts ?n gw clk sch ?mdl k temp ms usage0 s = (r, t)" by fastforce
  have l: "length (llm_sent t) \<le> length (llm_sent s) + ?n"
    using json_attempts_sent [of ?n gw clk sch ?mdl k temp ms usage0 s] c by simp
  have cj: "complete_json gw clk ms sch m k temp max_retries s = (r, t)" by (simp add: complete_json_def c)
  show ?thesis
  proof (cases r)
    case (Inl e)
    with cj l show ?thesis by simp
  next
    case (Inr p)
    obtain obj tot where p: "p = (obj, tot)" by fastforce
    note ok = json_attempts_ok [OF c [unfolded Inr p]]
    have "u_cost_usd tot = u_cost_usd (llm_usage t) - u_cost_usd (llm_usage s)"
      using ok by (simp add: usage0_def)
    moreover obtain resp ch chs where ch: "gw (butlast (llm_sent t)) (last (llm_sent t)) = Inr resp"
        "r_choices resp = ch # chs" "decode_answer sch (str_or (ch_content ch) []) = Some obj"
      using ok by blast
    moreover from ch(3) obtain v where "json_loads (json_substring (str_or (ch_content ch) [])) = Inr v"
        "model_validate sch v = Some obj" by (auto simp: decode_answer_def split: sum.splits)
    ultimately show ?thesis using l cj Inr p by auto
  qed
qed

text \<open>
  After any run of calls, returned or raised, the meter's per-model amounts have distinct keys
  and add up to its total.
\<close>

theorem usage_by_model_adds_up:
  assumes "llm_usage s = usage0"
  shows "distinct (map fst (u_by_model (llm_usage (llm_run gw clk calls s))))
    \<and> (\<Sum>p\<leftarrow>u_by_model (llm_usage (llm_run gw clk calls s)). snd p) = u_cost_usd (llm_usage (llm_run gw clk calls s))"
  using llm_run_usage_ok [of s gw clk calls] assms usage_ok_0 by (simp add: usage_ok_def)

theorem usage_by_model_adds_up_witness:
  "(\<Sum>p\<leftarrow>u_by_model (llm_usage (llm_run demo_gw demo_clk
      [(demo_msgs, None, None, 0), (demo_msgs, Some ''glm-5.1'', None, 0)] demo_llm)). snd p)
   = u_cost_usd (llm_usage (llm_run demo_gw demo_clk
      [(demo_msgs, None, None, 0), (demo_msgs, Some ''glm-5.1'', None, 0)] demo_llm))"
  by (rule usage_by_model_adds_up [THEN conjunct2]) (simp add: demo_llm_def)

text \<open>
  A model without a price fails closed. Unless unpriced models are allowed, a call whose output
  cap alone exceeds the ceiling at 1000 dollars per million tokens is refused unsent, whatever its
  prompt; at the default ceiling of ten cents that is any cap above 100 tokens.
\<close>

theorem unpriced_fails_closed:
  assumes "map_of (llm_prices s) (str_or m (llm_model s)) = None" and "\<not> llm_allow_unpriced s"
    and "1000 * max_cost_usd s < of_int (int_or k (llm_max_tokens s))"
  shows "complete gw clk ms m k temp s = (Inl CostLimitExceeded, s)"
proof (rule complete_refused)
  have "0 \<le> estimate_prompt_tokens ms" by (simp add: estimate_prompt_tokens_def)
  then have "(0::rat) \<le> of_int (estimate_prompt_tokens ms)" by (simp only: of_int_0_le_iff)
  with assms show "max_cost_usd s < proj_cost ms m k s"
    by (simp add: proj_cost_def estimate_max_cost_def estimate_cost_def unpriced_sentinel_def)
qed

theorem unpriced_fails_closed_witness:
  "complete demo_gw demo_clk demo_msgs (Some ''unknown'') (Some 101) 0 demo_llm = (Inl CostLimitExceeded, demo_llm)"
  by (rule unpriced_fails_closed) (simp_all add: demo_llm_def default_prices_def str_or_def int_or_def)

end
