(* ===== verification/AuthTheorems.thy ===== *)
theory AuthTheorems
  imports Auth
begin

text \<open>The properties of token minting, verification and rotation.\<close>

section \<open>A concrete JWT library\<close>

text \<open>
  A library whose tokens carry their claims in the clear, between the algorithm and the secret:
  enough to meet the documented behaviour on one secret, one algorithm and one set of claims.
\<close>

definition demo_claims :: "pyval dict" where
  "demo_claims = [(''sub'', PyStr ''u1''), (''tenant'', PyStr ''acme''), (''role'', PyStr ''viewer''),
     (''iat'', PyInt 100), (''exp'', PyInt 1000)]"

definition one_token_lib :: "pyval dict \<Rightarrow> jwtlib" where
  "one_token_lib c = \<lparr>jwt_encode = (\<lambda>c' sec alg. if c' = c \<and> sec = ''k'' then ''tok'' else ''other''),
     jwt_decode = (\<lambda>now tok sec algs aud req.
       if tok \<noteq> ''tok'' \<or> sec \<noteq> ''k'' then Inl PyJWTError
       else case py_int (claim c ''exp'') of
           Inl _ \<Rightarrow> if claims_valid now aud req c then Inr c else Inl PyJWTError
         | Inr e \<Rightarrow> if of_int e \<le> now then Inl ExpiredSignatureError
                     else if claims_valid now aud req c then Inr c else Inl PyJWTError)\<rparr>"

lemma one_token_sound: "jwt_sound (one_token_lib c)"
  by (auto simp: jwt_sound_def one_token_lib_def split: if_splits sum.splits)

section \<open>Verification\<close>

text \<open>
  A token that verifies was decoded with the configured secret, carries a subject, a non-empty
  tenant and a non-empty role of its own (never defaulted), has not expired, and names the expected
  audience whenever one is configured.
\<close>

theorem verify_token_sound:
  assumes "jwt_sound lib" and "verify_token lib now tok secret algs aud = Inr p"
  shows "secret \<noteq> [] \<and> p_tenant p \<noteq> [] \<and> p_role p \<noteq> [] \<and>
    (\<exists>req c e. jwt_decode lib now tok secret algs aud req = Inr c \<and>
       p_tenant p = py_str (claim c ''tenant'') \<and> p_role p = py_str (claim c ''role'') \<and>
       p_sub p = py_str (claim c ''sub'') \<and>
       py_int (claim c ''exp'') = Inr e \<and> now < of_int e \<and>
       (aud = None \<or> aud_matches (the aud) (claim c ''aud'')))"
proof -
  let ?req = "[''exp'', ''sub''] @ (case aud of None \<Rightarrow> [] | Some _ \<Rightarrow> [''aud''])"
  obtain c where c: "jwt_decode lib now tok secret algs aud ?req = Inr c"
    using assms(2) by (auto simp: verify_token_def Let_def split: if_splits sum.splits jwt_exc.splits)
  have v: "claims_valid now aud ?req c" using assms(1) c by (auto simp: jwt_sound_def)
  then have e: "claim c ''exp'' \<noteq> PyNone" by (simp add: claims_valid_def)
  with v obtain e where e: "py_int (claim c ''exp'') = Inr e" "now < of_int e"
    by (auto simp: claims_valid_def split: sum.splits)
  have a: "aud = None \<or> aud_matches (the aud) (claim c ''aud'')"
    using v by (auto simp: claims_valid_def split: option.splits)
  have "secret \<noteq> []" "truthy (claim c ''tenant'')" "truthy (claim c ''role'')"
    "p_tenant p = py_str (claim c ''tenant'')" "p_role p = py_str (claim c ''role'')"
    "p_sub p = py_str (claim c ''sub'')"
    using assms(2) c
    by (auto simp: verify_token_def Let_def claim_def [of c "''sub''"] split: if_splits option.splits)
  then show ?thesis using c e a py_str_truthy by (intro conjI exI) auto
qed

theorem verify_token_sound_witness:
  "p_tenant (projr (verify_token (one_token_lib demo_claims) 500 ''tok'' ''k'' [''HS256''] None)) \<noteq> []"
proof -
  have "verify_token (one_token_lib demo_claims) 500 ''tok'' ''k'' [''HS256''] None
      = Inr \<lparr>p_sub = ''u1'', p_tenant = ''acme'', p_role = ''viewer'', p_name = PyNone\<rparr>"
    by (simp add: verify_token_def one_token_lib_def demo_claims_def claims_valid_def claim_def)
  from verify_token_sound [OF one_token_sound this] show ?thesis
    by (simp add: verify_token_def one_token_lib_def demo_claims_def claims_valid_def claim_def)
qed

text \<open>
  Minting and verifying agree. A token minted for non-empty claims verifies, with the same
  secret and audience, to exactly the principal it was minted for, at every time before its expiry,
  and is refused as expired from its expiry on.
\<close>

theorem mint_verify_roundtrip:
  assumes "jwt_roundtrip lib (mint_claims t0 sub tenant role ttl aud nm) secret alg" and "secret \<noteq> []" and "alg \<in> set algs"
    and "tenant \<noteq> []" and "role \<noteq> []" and "aud \<noteq> Some []" and "nm \<noteq> Some []"
  shows "verify_token lib now (mint_token lib t0 sub tenant role secret alg ttl aud nm) secret algs aud =
    (if of_int (trunc_rat t0 + ttl) \<le> now then Inl (AuthError ''token expired'')
     else Inr \<lparr>p_sub = sub, p_tenant = tenant, p_role = role,
                p_name = (case nm of None \<Rightarrow> PyNone | Some x \<Rightarrow> PyStr x)\<rparr>)"
proof -
  let ?c = "mint_claims t0 sub tenant role ttl aud nm"
  let ?req = "[''exp'', ''sub''] @ (case aud of None \<Rightarrow> [] | Some _ \<Rightarrow> [''aud''])"
  note m = mint_token_def [of lib t0 sub tenant role secret alg ttl aud nm]
  have c: "map_of ?c ''exp'' = Some (PyInt (trunc_rat t0 + ttl))" "map_of ?c ''sub'' = Some (PyStr sub)"
    "claim ?c ''tenant'' = PyStr tenant" "claim ?c ''role'' = PyStr role"
    "claim ?c ''name'' = (case nm of None \<Rightarrow> PyNone | Some x \<Rightarrow> PyStr x)"
    "claim ?c ''aud'' = (case aud of None \<Rightarrow> PyNone | Some x \<Rightarrow> PyStr x)"
    using assms(6,7) by (auto simp: mint_claims_def claim_def Let_def split: option.splits)
  have v: "of_int (trunc_rat t0 + ttl) \<le> now \<or> claims_valid now aud ?req ?c"
    using c by (auto simp: claims_valid_def claim_def aud_matches_def split: option.splits)
  have d: "jwt_decode lib now (jwt_encode lib ?c secret alg) secret algs aud ?req =
      (if of_int (trunc_rat t0 + ttl) \<le> now then Inl ExpiredSignatureError
       else if claims_valid now aud ?req ?c then Inr ?c else Inl PyJWTError)"
    by (rule assms(1) [unfolded jwt_roundtrip_def, rule_format, OF assms(3) c(1)])
  show ?thesis
  proof (cases "of_int (trunc_rat t0 + ttl) \<le> now")
    case True
    then show ?thesis using d assms(2) by (simp add: m verify_token_def Let_def)
  next
    case False
    with v d have "jwt_decode lib now (jwt_encode lib ?c secret alg) secret algs aud ?req = Inr ?c" by simp
    then show ?thesis using False assms(2,4,5) c by (simp add: m verify_token_def Let_def)
  qed
qed

theorem mint_verify_roundtrip_witness:
  "verify_token (one_token_lib (mint_claims 100 ''u1'' ''acme'' ''admin'' 900 (Some ''api'') None)) 999
     (mint_token (one_token_lib (mint_claims 100 ''u1'' ''acme'' ''admin'' 900 (Some ''api'') None))
        100 ''u1'' ''acme'' ''admin'' ''k'' ''HS256'' 900 (Some ''api'') None) ''k'' [''HS256''] (Some ''api'')
   = Inr \<lparr>p_sub = ''u1'', p_tenant = ''acme'', p_role = ''admin'', p_name = PyNone\<rparr>"
  by (subst mint_verify_roundtrip)
    (auto simp: jwt_roundtrip_def one_token_lib_def claim_def trunc_rat_def mint_claims_def)

text \<open>
  C6: a refresh token works once. Whatever an exchange answers, the token it was given is gone from
  the store (unless the same string is drawn again), every further exchange of it is refused, and a
  successful exchange hands over the claims the token was issued for under a new token.
\<close>

theorem refresh_one_time:
  assumes "refresh_access lib now mt rnd tok secret alg ttl st = (r, st1)" and "rnd \<noteq> tok"
  shows "map_of st1 tok = None
    \<and> fst (refresh_access lib now' mt' rnd' tok secret' alg' ttl' st1) = Inl (AuthError ''invalid refresh token'')
    \<and> (case r of
         Inl e \<Rightarrow> map_of st1 = (map_of st)(tok := None)
       | Inr (access, fresh) \<Rightarrow>
           (\<exists>c ex. map_of st tok = Some (secret, c, ex) \<and> mt \<le> ex \<and> fresh = rnd
              \<and> access = mint_token lib now (rc_sub c) (rc_tenant c) (rc_role c) secret alg ttl (rc_audience c) (rc_name c)
              \<and> map_of st1 = (map_of st)(tok := None,
                    rnd \<mapsto> (secret, c, mt + of_int default_refresh_ttl_s))))"
proof -
  obtain st0 where p: "dict_pop tok st = (map_of st tok, st0)" and st0: "map_of st0 = (map_of st)(tok := None)"
    using map_of_dict_pop [of tok st] by (simp add: dict_pop_def)
  have gone: "map_of st1 tok = None"
    using assms p st0
    by (auto simp: refresh_access_def rotate_tokens_def split: option.splits prod.splits if_splits)
  then have "fst (refresh_access lib now' mt' rnd' tok secret' alg' ttl' st1)
      = Inl (AuthError ''invalid refresh token'')"
    by (simp add: refresh_access_def dict_pop_def)
  moreover have "case r of
         Inl e \<Rightarrow> map_of st1 = (map_of st)(tok := None)
       | Inr (access, fresh) \<Rightarrow>
           (\<exists>c ex. map_of st tok = Some (secret, c, ex) \<and> mt \<le> ex \<and> fresh = rnd
              \<and> access = mint_token lib now (rc_sub c) (rc_tenant c) (rc_role c) secret alg ttl (rc_audience c) (rc_name c)
              \<and> map_of st1 = (map_of st)(tok := None,
                    rnd \<mapsto> (secret, c, mt + of_int default_refresh_ttl_s)))"
    using assms p st0
    by (auto simp: refresh_access_def rotate_tokens_def not_less split: option.splits prod.splits if_splits)
  ultimately show ?thesis using gone by blast
qed

definition demo_refresh :: refresh_store where
  "demo_refresh = [(''r1'', ''k'', \<lparr>rc_sub = ''u'', rc_tenant = ''t'', rc_role = ''admin'', rc_audience = None, rc_name = None\<rparr>, 50)]"

theorem refresh_one_time_witness:
  "fst (refresh_access (one_token_lib []) 11 11 ''r3'' ''r1'' ''k'' ''HS256'' 900
     (snd (refresh_access (one_token_lib []) 10 10 ''r2'' ''r1'' ''k'' ''HS256'' 900 demo_refresh)))
   = Inl (AuthError ''invalid refresh token'')"
  by (rule refresh_one_time [OF prod.collapse [symmetric], THEN conjunct2, THEN conjunct1]) simp

section \<open>Webhook signatures\<close>

lemma hex_no_prefix: "list_all (\<lambda>c. is_digit c \<or> c \<in> set ''abcdef'') m \<Longrightarrow> \<not> prefix ''sha256='' (lower m)"
  by (cases m) (auto simp: lower_def lower_char_def is_digit_def)

lemma hex_plain:
  assumes "list_all (\<lambda>c. is_digit c \<or> c \<in> set ''abcdef'') m"
  shows "list_all is_ascii m" and "\<forall>c \<in> set m. \<not> is_space c"
  using assms by (auto simp: list_all_iff is_ascii_def is_digit_def is_space_def)

text \<open>
  With a secret set and an HMAC that is a non-empty hex digest, the check accepts the bare
  digest and the digest behind \<open>sha256=\<close>; everything it accepts is, after stripping, the digest or
  the digest behind that prefix in some capitalisation; and it never answers True to a missing header
  or without a secret. Against its documentation it can raise: a header with a non-ASCII character
  gives TypeError.
\<close>

theorem webhook_signature_exact:
  assumes "list_all (\<lambda>c. is_digit c \<or> c \<in> set ''abcdef'') (mac secret raw)" and "mac secret raw \<noteq> []"
    and "secret \<noteq> []"
  shows "verify_webhook_signature mac raw (Some (mac secret raw)) secret = Inr True
    \<and> verify_webhook_signature mac raw (Some (''sha256='' @ mac secret raw)) secret = Inr True
    \<and> (verify_webhook_signature mac raw (Some h) secret = Inr True \<longrightarrow>
         (\<exists>pre. strip h = pre @ mac secret raw \<and> (pre = [] \<or> lower pre = ''sha256='')))
    \<and> verify_webhook_signature mac raw None secret = Inr False
    \<and> verify_webhook_signature mac raw (Some h) [] = Inr False
    \<and> verify_webhook_signature mac raw (Some [CHR 0xE9]) secret = Inl TypeError"
proof (intro conjI)
  let ?m = "mac secret raw"
  note hx = hex_plain [OF assms(1)] and np = hex_no_prefix [OF assms(1)]
  have st: "strip ?m = ?m" "strip (''sha256='' @ ?m) = ''sha256='' @ ?m"
    using hx(2) assms(2) by (auto intro!: strip_id simp: is_space_def)
  show "verify_webhook_signature mac raw (Some ?m) secret = Inr True"
    using st np hx assms(2,3) by (simp add: verify_webhook_signature_def compare_digest_def)
  have "lower ''sha256='' = ''sha256=''" by (simp add: lower_def lower_char_def)
  then have "prefix ''sha256='' (lower (''sha256='' @ ?m))" by (simp only: lower_append prefixI)
  moreover have "drop (length ''sha256='') (''sha256='' @ ?m) = ?m" by simp
  ultimately show "verify_webhook_signature mac raw (Some (''sha256='' @ ?m)) secret = Inr True"
    using st(2) hx(1) assms(3)
    unfolding verify_webhook_signature_def compare_digest_def option.case Let_def by simp
  show "verify_webhook_signature mac raw (Some h) secret = Inr True \<longrightarrow>
         (\<exists>pre. strip h = pre @ ?m \<and> (pre = [] \<or> lower pre = ''sha256=''))"
  proof
    assume v: "verify_webhook_signature mac raw (Some h) secret = Inr True"
    show "\<exists>pre. strip h = pre @ ?m \<and> (pre = [] \<or> lower pre = ''sha256='')"
    proof (cases "prefix ''sha256='' (lower (strip h))")
      case True
      then have l: "take 7 (lower (strip h)) = ''sha256=''" by (auto simp: prefix_def)
      have "drop 7 (strip h) = ?m" using v True assms(3)
        by (auto simp: verify_webhook_signature_def compare_digest_def Let_def numeral_eq_Suc split: if_splits)
      then have "strip h = take 7 (strip h) @ ?m" by (metis append_take_drop_id)
      moreover have "lower (take 7 (strip h)) = ''sha256=''" using l by (simp add: lower_def take_map)
      ultimately show ?thesis by blast
    next
      case False
      then have "strip h = ?m" using v assms(3)
        by (auto simp: verify_webhook_signature_def compare_digest_def Let_def split: if_splits)
      then show ?thesis by (intro exI [of _ "[]"]) simp
    qed
  qed
  show "verify_webhook_signature mac raw (Some [CHR 0xE9]) secret = Inl TypeError"
    using assms(3) by (simp add: verify_webhook_signature_def compare_digest_def strip_id is_space_def
        lower_def lower_char_def is_ascii_def)
qed (simp_all add: verify_webhook_signature_def)

theorem webhook_signature_exact_witness:
  "verify_webhook_signature (\<lambda>_ _. ''0af'') ''body'' (Some (''sha256=0af'')) ''k'' = Inr True"
  using webhook_signature_exact [of "\<lambda>_ _. ''0af''" "''k''" "''body''"] by (simp add: is_digit_def)

end
