(* ===== verification/RateReplicas.thy ===== *)
theory RateReplicas
  imports RateTheorems
begin

text \<open>
  Two replicas of an agent on one Redis. The bucket they share holds a time of the monotonic clock of
  whichever replica wrote it last; the clocks of two hosts have different origins. \<open>off\<close> is how far
  Redis' clock is ahead of a replica's, so the replica that started later has the larger one.
\<close>

text \<open>The requests of one client, each with the replica it reaches (\<open>True\<close>: the one up longer) and Redis' time.\<close>

fun replies :: "int \<Rightarrow> secs \<Rightarrow> secs \<Rightarrow> string \<Rightarrow> (bool \<times> secs) list \<Rightarrow> redis_buckets \<Rightarrow> bool list" where
  "replies rate older younger key [] st = []"
| "replies rate older younger key ((up_longer, s) # es) st =
     (let off = (if up_longer then older else younger)
      in case allow_redis rate off key (s - off) st of
           (b, st1) \<Rightarrow> b # replies rate older younger key es st1)"

text \<open>
  Requests in the order of time, none more than two minutes after the one before, and those of the
  younger replica at most \<open>d\<close> after the last one of the older.
\<close>

fun steady :: "secs \<Rightarrow> secs \<Rightarrow> secs \<Rightarrow> (bool \<times> secs) list \<Rightarrow> bool" where
  "steady d seen prev [] \<longleftrightarrow> True"
| "steady d seen prev ((up_longer, s) # es) \<longleftrightarrow> prev \<le> s \<and> s < prev + 120
     \<and> (if up_longer then steady d s s es else s - seen \<le> d \<and> steady d seen s es)"

text \<open>The bucket as the older replica sees it: at its last request it held at most the burst.\<close>

definition behind :: "int \<Rightarrow> secs \<Rightarrow> string \<Rightarrow> secs \<Rightarrow> secs \<Rightarrow> redis_buckets \<Rightarrow> bool" where
  "behind rate older key seen prev st \<longleftrightarrow> (\<exists>tok ts. map_of st key = Some (tok, ts, prev + 120)
     \<and> tok - ts * refill_per_s rate \<le> of_int rate - (seen - older) * refill_per_s rate)"

lemma older_sets_behind:
  assumes "allow_redis rate older key (s - older) st = (b, st1)"
  shows "behind rate older key s s st1"
  using redis_level_burst [of rate older key "s - older" st] map_of_allow_redis [of rate older key "s - older" st] assms
  by (auto simp: behind_def)

lemma younger_refused:
  assumes "0 < rate" and "behind rate older key seen prev st" and "s < prev + 120" and "s - seen \<le> younger - older - 60"
    and "allow_redis rate younger key (s - younger) st = (b, st1)"
  shows "\<not> b" and "behind rate older key seen s st1"
proof -
  let ?r = "refill_per_s rate" and ?l = "redis_level rate younger key (s - younger) st"
  obtain tok ts where m: "map_of st key = Some (tok, ts, prev + 120)"
      "tok - ts * ?r \<le> of_int rate - (seen - older) * ?r" using assms(2) unfolding behind_def by blast
  then have l: "?l = min (of_int rate) (tok + (s - younger - ts) * ?r)"
    using assms(3) by (simp add: redis_level_def redis_hget_def)
  have "(s - younger - (seen - older)) * ?r \<le> - 60 * ?r"
    using assms(1,4) by (intro mult_right_mono) (simp_all add: refill_per_s_def)
  moreover have "60 * ?r = of_int rate" by (simp add: refill_per_s_def)
  ultimately have neg: "tok + (s - younger - ts) * ?r \<le> 0" using m(2) by (simp add: algebra_simps)
  then have "?l \<le> 0" by (simp add: l min_le_iff_disj)
  then show "\<not> b" using assms(5) fst_allow_redis [of rate younger key "s - younger" st] by simp
  have "map_of st1 key = Some (?l, s - younger, s + 120)"
    using \<open>?l \<le> 0\<close> assms(5) map_of_allow_redis [of rate younger key "s - younger" st] by simp
  moreover have "?l \<le> tok + (s - younger - ts) * ?r" by (simp add: l)
  then have "?l - (s - younger) * ?r \<le> of_int rate - (seen - older) * ?r" using m(2) by (simp add: algebra_simps)
  ultimately show "behind rate older key seen s st1" by (simp add: behind_def)
qed

lemma behind_refuses:
  assumes "0 < rate" and "behind rate older key seen prev st" and "steady (younger - older - 60) seen prev es"
  shows "list_all2 (\<lambda>(up_longer, s) b. up_longer \<or> \<not> b) es (replies rate older younger key es st)"
  using assms(2,3)
proof (induction es arbitrary: seen prev st)
  case (Cons e es)
  obtain up s where e: "e = (up, s)" by (cases e)
  obtain b st1 where a: "allow_redis rate (if up then older else younger) key (s - (if up then older else younger)) st = (b, st1)"
    by fastforce
  show ?case
  proof (cases up)
    case True
    then have "behind rate older key s s st1" using a by (intro older_sets_behind) simp
    then show ?thesis using Cons.IH [of s s st1] Cons.prems(2) a True by (simp add: e)
  next
    case False
    then have "s < prev + 120" "s - seen \<le> younger - older - 60" "steady (younger - older - 60) seen s es"
      using Cons.prems(2) by (simp_all add: e)
    then show ?thesis
      using younger_refused [OF assms(1) Cons.prems(1), of s younger b st1] Cons.IH [of seen s st1] a False by (simp add: e)
  qed
qed simp

text \<open>C9: A replica that started later starves the clients it shares. Once the older replica has served a
  client, every request of that client that reaches the younger one is refused, whatever is left in
  the bucket, as long as the client is seen every two minutes and the last request to the older
  replica is no longer ago than the replicas' difference in age less a minute: the shared bucket
  keeps times of two clocks that do not agree.\<close>

theorem younger_replica_starves:
  assumes "0 < rate" and "allow_redis rate older key (s - older) st = (b, st1)"
    and "steady (younger - older - 60) s s es"
  shows "list_all2 (\<lambda>(up_longer, t) answer. up_longer \<or> \<not> answer) es (replies rate older younger key es st1)"
  by (rule behind_refuses [OF assms(1) older_sets_behind [OF assms(2)] assms(3)])

text \<open>Ten requests a minute, replicas an hour apart: one request to the older, then one to the younger each minute.\<close>

theorem younger_replica_starves_witness:
  "\<exists>st1. allow_redis 10 0 ''k'' 5000 [] = (True, st1)
    \<and> list_all (\<lambda>b. \<not> b) (replies 10 0 3600 ''k'' [(False, 5060), (False, 5120), (False, 5180)] st1)"
proof -
  obtain st1 where a: "allow_redis 10 0 ''k'' (5000 - 0) [] = (True, st1)"
    by (simp add: allow_redis_def redis_hget_def)
  have "list_all2 (\<lambda>(up_longer, t) answer. up_longer \<or> \<not> answer) ([(False, 5060), (False, 5120), (False, 5180)] :: (bool \<times> secs) list)
      (replies 10 0 3600 ''k'' [(False, 5060), (False, 5120), (False, 5180)] st1)"
    by (rule younger_replica_starves [OF _ a]) simp_all
  then show ?thesis using a by (auto simp: list_all2_Cons1 list_all2_Nil)
qed

end
