(* ===== verification/IncidentProps.thy ===== *)
theory IncidentProps
  imports MonStore
begin

text \<open>
  The incidents table over its whole life: what any sequence of its statements leaves in a row, that
  the identity column names each row once, that the retention job has nothing to remove, and what two
  upserts see when their statements interleave.
\<close>

section \<open>Histories\<close>

text \<open>One statement of the running agent against the table.\<close>

datatype store_op = Touch string occurrence | Mark string | Clear string | Prune int secs

fun store_step :: "store_op \<Rightarrow> incident_store \<Rightarrow> incident_store" where
  "store_step (Touch k x) st = incident_touch k x st"
| "store_step (Mark k) st = mark_alert_failed k st"
| "store_step (Clear k) st = clear_alert_failed k st"
| "store_step (Prune d now) st = snd (incidents_prune d now st)"

definition no_incidents :: incident_store where
  "no_incidents = \<lparr>is_rows = [], is_next_id = 1\<rparr>"

definition touches :: "string \<Rightarrow> store_op list \<Rightarrow> occurrence list" where
  "touches k ops = List.map_filter (\<lambda>op. case op of Touch k' x \<Rightarrow> if k' = k then Some x else None | _ \<Rightarrow> None) ops"

lemma touches_simps [simp]:
  "touches k [] = []"
  "touches k (ops @ [Touch k' x]) = touches k ops @ (if k' = k then [x] else [])"
  "touches k (ops @ [Mark k']) = touches k ops"
  "touches k (ops @ [Clear k']) = touches k ops"
  "touches k (ops @ [Prune d now]) = touches k ops"
  by (simp_all add: touches_def map_filter_def)

lemma map_of_prune:
  assumes "map_of t k = Some r" and "\<not> dead r"
  shows "map_of (filter (\<lambda>p. \<not> dead (snd p)) t) k = Some r"
  using assms by (induction t) (auto split: if_splits)

lemma flag_kept:
  assumes "incident_failed k st" and "Clear k \<notin> set ops"
  shows "incident_failed k (fold store_step ops st)"
  using assms
proof (induction ops arbitrary: st)
  case (Cons op ops)
  have "incident_failed k (store_step op st)"
  proof (cases op)
    case (Touch k' x)
    with Cons.prems(1) show ?thesis by (simp add: page.touch_keeps)
  next
    case (Mark k')
    with Cons.prems(1) show ?thesis by (cases "k' = k") (simp_all add: page.set_keeps page.other_set)
  next
    case (Clear k')
    with Cons.prems have "k' \<noteq> k" by auto
    with Clear Cons.prems(1) show ?thesis by (simp add: page.other_clear)
  next
    case (Prune d now)
    from Cons.prems(1) obtain r where "map_of (is_rows st) k = Some r" "in_status r = ''alert_failed''"
      by (auto simp: incident_failed_def)
    then show ?thesis
      using map_of_prune [of "is_rows st" k r "\<lambda>r. in_status r = ''resolved'' \<and> in_last_seen r < now - days d"]
      by (auto simp: Prune incident_failed_def incidents_prune_def Let_def)
  qed
  with Cons show ?case by simp
qed simp

section \<open>What a row remembers\<close>

text \<open>The row that a list of occurrences leaves: open, or flagged because its page was lost.\<close>

definition row_of :: "occurrence list \<Rightarrow> incident_row option \<Rightarrow> bool" where
  "row_of xs row =
     (case row of
        None \<Rightarrow> xs = []
      | Some r \<Rightarrow> xs \<noteq> [] \<and> in_count r = int (length xs) \<and> in_first_seen r = oc_now (hd xs)
          \<and> in_last_seen r = oc_now (last xs) \<and> in_source r = oc_source (hd xs) \<and> in_severity r = oc_severity (last xs)
          \<and> in_title r = oc_title (last xs) \<and> in_body r = oc_body (last xs)
          \<and> (in_status r = ''open'' \<or> in_status r = ''alert_failed''))"

lemma map_of_touch:
  "map_of (is_rows (incident_touch k x st)) k' =
     (if k' = k then Some (incident_merge (x\<lparr>oc_id := is_next_id st\<rparr>) (map_of (is_rows st) k)) else map_of (is_rows st) k')"
  by (cases x) (simp add: incident_touch_def is_rows_upsert inc.get_put)

lemma row_of_merge: "row_of xs row \<Longrightarrow> row_of (xs @ [x]) (Some (incident_merge (x\<lparr>oc_id := i\<rparr>) row))"
  by (cases row) (auto simp: row_of_def incident_merge_def hd_append)

lemma row_of_status:
  "row_of xs (Some r) \<Longrightarrow> s = ''open'' \<or> s = ''alert_failed'' \<Longrightarrow> row_of xs (Some (r\<lparr>in_status := s\<rparr>))"
  by (simp add: row_of_def)

lemma never_resolved: "row_of xs (Some r) \<Longrightarrow> in_status r \<noteq> ''resolved''"
  by (auto simp: row_of_def)

definition live :: "incident_store \<Rightarrow> bool" where
  "live st \<longleftrightarrow> distinct (map fst (is_rows st)) \<and> (\<forall>p \<in> set (is_rows st). in_status (snd p) \<noteq> ''resolved'')"

lemma prune_live: "live st \<Longrightarrow> incidents_prune d now st = (0, st)"
  by (auto simp: live_def incidents_prune_def Let_def filter_empty_conv filter_id_conv)

lemma set_upsert_row: "set (upsert_row m k x t) \<subseteq> insert (k, m x (map_of t k)) (set t)"
  by (induction t) (auto simp: upsert_row_def)

lemma keys_update_where [frame]: "map fst (is_rows (update_where k p f st)) = map fst (is_rows st)"
  by (induction "is_rows st" arbitrary: st) (auto simp: update_where_def split: prod.split)

lemma status_update_where:
  "q \<in> set (is_rows (update_where k p f st)) \<Longrightarrow> q \<in> set (is_rows st) \<or> (\<exists>r. snd q = f r)"
  by (auto simp: update_where_def split: if_splits)

lemma live_step [preserve]: "live st \<Longrightarrow> live (store_step op st)"
proof (cases op)
  case (Touch k x)
  assume l: "live st"
  have "in_status r \<noteq> ''resolved''" if "map_of (is_rows st) k = Some r" for r
    using l map_of_SomeD [OF that] by (auto simp: live_def)
  then have "in_status (incident_merge y (map_of (is_rows st) k)) \<noteq> ''resolved''" for y
    by (auto simp: incident_merge_def split: option.split)
  with l set_upsert_row [of incident_merge k] show ?thesis
    by (fastforce simp: Touch live_def incident_touch_def is_rows_upsert distinct_upsert_row)
next
  case (Mark k)
  assume "live st"
  then show ?thesis
    by (auto simp: Mark live_def mark_alert_failed_def keys_update_where dest: status_update_where)
next
  case (Clear k)
  assume "live st"
  then show ?thesis
    by (auto simp: Clear live_def clear_alert_failed_def keys_update_where dest: status_update_where)
next
  case (Prune d now)
  assume "live st"
  then show ?thesis by (simp add: Prune prune_live)
qed

lemma live_store:
  assumes "live st"
  shows "live (incident_touch k x st)" and "live (mark_alert_failed k st)" and "live (clear_alert_failed k st)"
  using live_step [OF assms, of "Touch k x"] live_step [OF assms, of "Mark k"] live_step [OF assms, of "Clear k"] by simp_all

interpretation rows: kept_invariant store_step live
  by unfold_locales (rule live_step)

lemmas live_history = rows.history_keeps

lemma no_incidents_live: "live no_incidents"
  by (simp add: live_def no_incidents_def)

lemma row_history: "row_of (touches k ops) (map_of (is_rows (fold store_step ops no_incidents)) k)"
proof (induction ops rule: rev_induct)
  case Nil
  then show ?case by (simp add: row_of_def no_incidents_def)
next
  case (snoc op ops)
  let ?st = "fold store_step ops no_incidents"
  show ?case
  proof (cases op)
    case (Touch k' x)
    with snoc show ?thesis by (cases "k' = k") (simp_all add: map_of_touch row_of_merge)
  next
    case (Mark k')
    with snoc show ?thesis
      by (cases "map_of (is_rows ?st) k"; cases "k' = k") (simp_all add: mark_alert_failed_def map_of_update_where row_of_status)
  next
    case (Clear k')
    with snoc show ?thesis
      by (cases "map_of (is_rows ?st) k"; cases "k' = k") (simp_all add: clear_alert_failed_def map_of_update_where row_of_status)
  next
    case (Prune d now)
    with snoc show ?thesis by (simp add: prune_live live_history no_incidents_live)
  qed
qed

section \<open>Properties\<close>

text \<open>
  C18: Whatever statements the agent has run, an incident has a row exactly if it has occurred, and the
  row counts its occurrences, dates from the first and was last seen at the last, carries the severity,
  title and body of the last, and is open or flagged as an undelivered page. The severity of the last,
  not the highest seen: the domain model and BR-009 want the highest, the upsert writes whatever came
  last, and the divergence is recorded (severity_falls).
\<close>
theorem incident_row_exact:
  "case map_of (is_rows (fold store_step ops no_incidents)) k of
     None \<Rightarrow> touches k ops = []
   | Some r \<Rightarrow> let xs = touches k ops in
       xs \<noteq> [] \<and> in_count r = int (length xs) \<and> in_first_seen r = oc_now (hd xs) \<and> in_last_seen r = oc_now (last xs)
       \<and> in_severity r = oc_severity (last xs) \<and> in_title r = oc_title (last xs) \<and> in_body r = oc_body (last xs)
       \<and> in_status r \<in> {''open'', ''alert_failed''}"
  using row_history [of k ops] by (auto simp: row_of_def split: option.splits)

text \<open>The severity of a row can fall: a critical incident that is next seen as an info is an info.\<close>

lemma severity_falls:
  assumes "oc_severity x = ''critical''" and "oc_severity y = ''info''"
  shows "map_option in_severity (map_of (is_rows (fold store_step [Touch k x] no_incidents)) k) = Some ''critical''"
    and "map_option in_severity (map_of (is_rows (fold store_step [Touch k x, Touch k y] no_incidents)) k) = Some ''info''"
  using assms by (simp_all add: map_of_touch no_incidents_def incident_merge_def)

text \<open>
  Retention never removes an incident: the prune deletes rows that are resolved, and no statement
  of the agent resolves one, so in every table the agent can reach it deletes nothing.
\<close>
theorem retention_removes_nothing:
  "incidents_prune retention_days now (fold store_step ops no_incidents) = (0, fold store_step ops no_incidents)"
  by (rule prune_live) (rule live_history [OF no_incidents_live])

text \<open>
  Two upserts of the same new problem whose two statements interleave, both reads before the first
  write, both report it as new, so both runs page, although the table counts two occurrences of one
  row; run one after the other, only the first is new.
\<close>
theorem interleaved_upserts_both_new:
  assumes "map_of (is_rows st) k = None"
  shows "let p1 = upsert_read k st; p2 = upsert_read k st;
             (i1, st1) = upsert_write k s1 v1 t1 b1 n1 p1 st;
             (i2, st2) = upsert_write k s2 v2 t2 b2 n2 p2 st1;
             (j2, _) = incident_upsert k s2 v2 t2 b2 n2 st1
         in ic_is_new i1 \<and> ic_is_new i2 \<and> in_count (ic_row i2) = 2 \<and> in_id (ic_row i1) = in_id (ic_row i2)
            \<and> \<not> ic_is_new j2 \<and> ic_row j2 = ic_row i2"
  using assms by (simp add: upsert_read_def upsert_write_def incident_upsert_def inc.get_put incident_merge_def Let_def)

theorem interleaved_upserts_both_new_witness:
  "let p = upsert_read ''k'' no_incidents;
       (i1, st1) = upsert_write ''k'' ''s'' ''info'' ''t'' ''b'' 1 p no_incidents;
       (i2, st2) = upsert_write ''k'' ''s'' ''info'' ''t'' ''b'' 2 p st1
   in ic_is_new i1 \<and> ic_is_new i2"
  using interleaved_upserts_both_new [of no_incidents "''k''" "''s''" "''info''" "''t''" "''b''" 1 "''s''" "''info''" "''t''" "''b''" 2]
  by (simp add: no_incidents_def Let_def split: prod.splits)

end
