(* ===== verification/TriageTheorems.thy ===== *)
theory TriageTheorems
  imports TriageProps IncidentProps LlmTheorems
begin

text \<open>
  Properties of the triage graph and of the sweep that runs it: when a page goes out, that a lost page
  is retried, what can go wrong in between.
\<close>

section \<open>A concrete agent\<close>

text \<open>A gateway that is down: every call raises, so the suggested severity stands.\<close>

definition down_gw :: "response gateway" where
  "down_gw h r = Inl APIConnectionError"

lemma ask_llm_down: "fst (ask_llm down_gw clk cfg sg s) = []"
  by (auto simp: ask_llm_def complete_def call_gateway_def down_gw_def Let_def split: prod.splits sum.splits bool.splits if_splits)

definition demo_world :: triage_world where
  "demo_world = \<lparr>tw_llm = demo_llm, tw_store = \<lparr>is_rows = [], is_next_id = 1\<rparr>, tw_now = 0, tw_attempts = 0, tw_delivered = []\<rparr>"

definition demo_triage_cfg :: triage_cfg where
  "demo_triage_cfg = \<lparr>tc_agent_name = ''monitoring'', tc_dedup_window_minutes = 60, tc_brand = ''x'', tc_notify_max_attempts = 2\<rparr>"

definition demo_signal :: signal where
  "demo_signal = \<lparr>sg_source = ''healthcheck'', sg_fingerprint = ''down:x'', sg_title = ''x is DOWN'', sg_body = [],
     sg_severity = ''warning'', sg_url = PyNone, sg_meta = []\<rparr>"

abbreviation demo_run :: "(nat \<Rightarrow> alert \<Rightarrow> bool) \<Rightarrow> triage_world \<Rightarrow> (pyexc, triage_result) result \<times> triage_world" where
  "demo_run br \<equiv> triage down_gw demo_clk (\<lambda>s. s) br demo_triage_cfg demo_signal"

lemma demo_run_returns: "\<exists>r w'. demo_run br w = (Inr r, w')"
  by (rule triage_returns) (simp add: ask_llm_down bad_severity_def dget_def)

section \<open>When a page goes out\<close>

text \<open>
  A run of the triage graph that returns stays quiet exactly when the same problem was seen within
  the dedup window, its last page was delivered, and it is not critical now; then nothing is sent.
  Otherwise it pages: at least one publish attempt, at most the configured number (never less than
  one), the alert delivered exactly once if an attempt of those succeeds and not at all if none does.
\<close>
theorem page_exactly_when_due:
  assumes "triage gw clk sha br cfg sg w = (Inr r, w')"
  shows "let prev = map_of (is_rows (tw_store w)) (make_dedup_key sha (sg_source sg) (sg_fingerprint sg));
      quiet_now = (\<exists>p. prev = Some p \<and> tw_now w - in_last_seen p < of_int (tc_dedup_window_minutes cfg * 60)
                    \<and> in_status p \<noteq> ''alert_failed'' \<and> tr_severity r \<noteq> ''critical'')
    in if quiet_now then tr_alerted r = None \<and> tw_attempts w' = tw_attempts w \<and> tw_delivered w' = tw_delivered w
       else tw_attempts w < tw_attempts w'
         \<and> int (tw_attempts w') \<le> int (tw_attempts w) + max 1 (tc_notify_max_attempts cfg)
         \<and> (\<exists>a. al_dedup_key a = Some (make_dedup_key sha (sg_source sg) (sg_fingerprint sg))
              \<and> al_severity a = tr_severity r
              \<and> tw_delivered w' = tw_delivered w @ (if tr_alerted r = Some True then [a] else [])
              \<and> (tr_alerted r = Some True) =
                  (\<exists>i<nat (max 1 (tc_notify_max_attempts cfg)). br (tw_attempts w + i) a))"
proof -
  have q: "quiet cfg s t prev = (\<exists>p. prev = Some p \<and> t - in_last_seen p < of_int (tc_dedup_window_minutes cfg * 60)
       \<and> in_status p \<noteq> ''alert_failed'' \<and> s \<noteq> ''critical'')" for s t prev
    by (auto simp: quiet_def split: option.split)
  show ?thesis
    using triage_run [OF assms] unfolding q [symmetric] Let_def sig_key_def [symmetric]
    by (fastforce simp: quiet_run_def paging_run_def Let_def notify_attempts_def split: if_splits)
qed

theorem page_exactly_when_due_witness:
  "\<exists>r w'. demo_run (\<lambda>n a. n = 1) demo_world = (Inr r, w') \<and> tr_alerted r = Some True \<and> length (tw_delivered w') = 1"
proof -
  obtain r w' where run: "demo_run (\<lambda>n a. n = 1) demo_world = (Inr r, w')" using demo_run_returns by blast
  have new: "is_rows (tw_store demo_world) = []" "tw_attempts demo_world = 0" "tw_delivered demo_world = []"
    by (simp_all add: demo_world_def)
  from page_exactly_when_due [OF run]
  have "tr_alerted r = Some True \<and> length (tw_delivered w') = 1"
    by (auto simp: new Let_def demo_triage_cfg_def intro!: exI [of _ "Suc 0"])
  with run show ?thesis by blast
qed

section \<open>Severity\<close>

lemma triage_classified:
  assumes "triage gw clk sha br cfg sg w = (Inr r, w')"
  shows "\<exists>cat hyp. classify_parsed sg (fst (ask_llm gw clk cfg sg (tw_llm w))) = Inr (tr_severity r, cat, hyp)"
  using assms by (auto simp: triage_def Let_def split: prod.splits sum.splits if_splits)

text \<open>
  The severity of a triaged signal is the model's answer when that is one of info, warning and
  critical, else the collector's suggestion when that is one, else warning; whatever the gateway does,
  raises or answers. The one exception is an answer whose severity is a JSON list or object: then the
  run raises TypeError before anything is stored or sent.
\<close>
theorem severity_always_decided:
  "let parsed = fst (ask_llm gw clk cfg sg (tw_llm w)); sev = dget parsed ''severity'';
       (res, w') = triage gw clk sha br cfg sg w
   in case res of
        Inl e \<Rightarrow> e = TypeError \<and> ((\<exists>vs. sev = PyList vs) \<or> (\<exists>d. sev = PyDict d))
                 \<and> tw_store w' = tw_store w \<and> tw_attempts w' = tw_attempts w
      | Inr r \<Rightarrow> tr_severity r = (if sev \<in> PyStr ` {''info'', ''warning'', ''critical''} then py_str sev
                 else if sg_severity sg \<in> {''info'', ''warning'', ''critical''} then sg_severity sg else ''warning'')"
proof (cases "bad_severity (fst (ask_llm gw clk cfg sg (tw_llm w)))")
  case True
  then show ?thesis by (auto simp: triage_raises Let_def bad_severity_def split: pyval.splits)
next
  case False
  then obtain r w' where t: "triage gw clk sha br cfg sg w = (Inr r, w')" using triage_returns by blast
  obtain cat hyp where "classify_parsed sg (fst (ask_llm gw clk cfg sg (tw_llm w))) = Inr (tr_severity r, cat, hyp)"
    using triage_classified [OF t] by blast
  then show ?thesis
    by (cases "dget (fst (ask_llm gw clk cfg sg (tw_llm w))) ''severity''")
      (auto simp: t Let_def classify_parsed_def valid_severity_def suggested_or_warning_def)
qed

text \<open>
  Triage runs outside any guard, so one answer whose severity is a list or an object ends the
  sweep: no signal after that one is triaged, whatever it is, and the sweep reports nothing.
\<close>
theorem list_severity_aborts_sweep:
  assumes "triage_all (triage gw clk sha br cfg) ss1 n w = (Inr m, w1)"
    and "ask_llm gw clk cfg sg (tw_llm w1) = (parsed, s1)"
    and "dget parsed ''severity'' = PyList vs"
  shows "\<forall>ss2. triage_all (triage gw clk sha br cfg) (ss1 @ sg # ss2) n w = (Inl TypeError, w1\<lparr>tw_llm := s1\<rparr>)"
proof -
  have bad: "bad_severity (fst (ask_llm gw clk cfg sg (tw_llm w1)))" using assms(2,3) by (simp add: bad_severity_def)
  have "triage_all tri ss1 n w = (Inr m, w1) \<Longrightarrow>
      triage_all tri (ss1 @ ss) n w = triage_all tri ss m w1" for tri ss
    by (induction ss1 arbitrary: n w) (auto split: prod.splits sum.splits)
  from this [OF assms(1)] show ?thesis using triage_raises [OF bad] assms(2) by simp
qed

text \<open>A gateway that answers with a list of severities.\<close>

definition list_gw :: "response gateway" where
  "list_gw h r = Inr (demo_resp 100 (CHR 0x7B # CHR 0x22 # ''severity'' @ [CHR 0x22, CHR '':'', CHR ''['', CHR '']'', CHR 0x7D]))"

definition demo_rich :: triage_world where
  "demo_rich = demo_world\<lparr>tw_llm := demo_llm\<lparr>max_cost_usd := 1000000, llm_allow_unpriced := True, llm_prices := []\<rparr>\<rparr>"

lemma list_answer:
  "extract_json (CHR 0x7B # CHR 0x22 # ''severity'' @ [CHR 0x22, CHR '':'', CHR ''['', CHR '']'', CHR 0x7D]) =
     Inr [(''severity'', PyList [])]"
  by code_simp

lemma ask_llm_list: "fst (ask_llm list_gw demo_clk cfg sg (tw_llm demo_rich)) = [(''severity'', PyList [])]"
  by (simp add: ask_llm_def complete_def call_gateway_def check_breaker_def settle_def demo_rich_def demo_world_def
      demo_llm_def list_gw_def demo_resp_def estimate_max_cost_def estimate_cost_def zero_price_def call_usage_def
      str_or_def Let_def usage0_def list_answer del: append.simps)

theorem list_severity_aborts_sweep_witness:
  "\<exists>w1. \<forall>ss2. triage_all (triage list_gw demo_clk (\<lambda>s. s) (\<lambda>n a. True) demo_triage_cfg) (demo_signal # ss2) 0 demo_rich
     = (Inl TypeError, w1)"
proof -
  obtain parsed s1 where q: "ask_llm list_gw demo_clk demo_triage_cfg demo_signal (tw_llm demo_rich) = (parsed, s1)" by fastforce
  then have "dget parsed ''severity'' = PyList []"
    using ask_llm_list [of demo_triage_cfg demo_signal] by (simp add: dget_def)
  from list_severity_aborts_sweep [where ?ss1.0 = "[]" and ?w1.0 = demo_rich, OF _ q this] show ?thesis by fastforce
qed

section \<open>A lost page\<close>

lemma failed_after_run:
  assumes "triage gw clk sha br cfg sg w = (Inr r, w')"
  shows "incident_failed (sig_key sha sg) (tw_store w') \<longleftrightarrow> tr_alerted r = Some False"
  using triage_run [OF assms]
  by (fastforce simp: incident_failed_def quiet_run_def paging_run_def Let_def quiet_def incident_merge_def
      split: if_splits option.splits)

text \<open>
  C17: A page that could not be delivered is not lost. Its incident is flagged, the flag outlives any
  interleaving of other runs' table operations short of a delivery of the same page, and the next run
  for that problem tries again whatever its severity and however recent the last occurrence; the flag
  is then gone exactly if that run did not fail to deliver.
\<close>
theorem lost_page_is_retried:
  assumes "triage gw clk sha br cfg sg w = (Inr r, w1)" and "tr_alerted r = Some False"
    and "Clear (sig_key sha sg) \<notin> set ops" and "tw_store w2 = fold store_step ops (tw_store w1)"
    and "triage gw' clk' sha br' cfg' sg w2 = (Inr r2, w3)"
  shows "tw_attempts w2 < tw_attempts w3 \<and> tr_alerted r2 \<noteq> None
    \<and> (incident_failed (sig_key sha sg) (tw_store w3) \<longleftrightarrow> tr_alerted r2 = Some False)"
proof -
  have "incident_failed (sig_key sha sg) (tw_store w2)"
    using flag_kept [OF _ assms(3)] failed_after_run [OF assms(1)] assms(2,4) by simp
  then have "\<not> quiet cfg' (tr_severity r2) (tw_now w2) (map_of (is_rows (tw_store w2)) (sig_key sha sg))"
    by (auto simp: quiet_def incident_failed_def)
  with triage_run [OF assms(5)] failed_after_run [OF assms(5)] show ?thesis by (auto simp: paging_run_def Let_def)
qed

theorem lost_page_is_retried_witness:
  "\<exists>r w1 r2 w3. demo_run (\<lambda>n a. False) demo_world = (Inr r, w1) \<and> demo_run (\<lambda>n a. False) w1 = (Inr r2, w3)
     \<and> tw_attempts w1 < tw_attempts w3"
proof -
  obtain r w1 where run: "demo_run (\<lambda>n a. False) demo_world = (Inr r, w1)" using demo_run_returns by blast
  obtain r2 w3 where run2: "demo_run (\<lambda>n a. False) w1 = (Inr r2, w3)" using demo_run_returns by blast
  have "tr_alerted r = Some False"
    using triage_run [OF run] by (auto simp: demo_world_def quiet_def paging_run_def Let_def)
  from lost_page_is_retried [OF run this, of "[]", OF _ _ run2] run run2 show ?thesis by auto
qed

end
