(* ===== verification/TriageConc.thy ===== *)
theory TriageConc
  imports TriageTheorems
begin

text \<open>
  Runs of the triage graph in flight together. A sweep, a meta sweep and any number of webhook requests
  run as coroutines of one process over one incidents table, and interleave at every await: between
  the read and the write of the upsert, between publish attempts, before the flag is set or cleared.
  Here each of these statements is a step of its own, a schedule is any sequence of steps, and a run
  starts with what its classification answered. \<open>solo_run\<close> shows that the steps of one run alone are
  the \<open>triage\<close> of the graph.
\<close>

section \<open>Runs and their steps\<close>

text \<open>What a run does next: read the row, write it, publish (attempts left), clear the flag after a
  delivery, or nothing more. A run that has no attempt left marks the row.\<close>

datatype phase =
    Reading
  | Writing "secs option"
  | Publishing incident nat
  | Delivered incident
  | Over "bool option"

record run =
  rn_signal :: signal
  rn_severity :: string
  rn_category :: pyval
  rn_hypothesis :: pyval
  rn_phase :: phase

record conc =
  cc_store :: incident_store
  cc_now :: secs
  cc_attempts :: nat
  cc_delivered :: "alert list"
  cc_runs :: "run list"

definition run_key :: "(string \<Rightarrow> string) \<Rightarrow> run \<Rightarrow> string" where
  "run_key sha r = sig_key sha (rn_signal r)"

definition run_alert :: "triage_cfg \<Rightarrow> run \<Rightarrow> incident \<Rightarrow> alert" where
  "run_alert cfg r inc = build_alert cfg (rn_signal r) (rn_severity r) (rn_category r) (rn_hypothesis r) inc"

text \<open>The write and the decision that follows it without an await.\<close>

definition write_phase :: "(string \<Rightarrow> string) \<Rightarrow> triage_cfg \<Rightarrow> secs \<Rightarrow> run \<Rightarrow> secs option \<Rightarrow> incident_store \<Rightarrow> phase \<times> incident_store" where
  "write_phase sha cfg now r prev st =
     (case upsert_write (run_key sha r) (sg_source (rn_signal r)) (rn_severity r) (sg_title (rn_signal r))
             (with_hypothesis (sg_body (rn_signal r)) (rn_hypothesis r)) now prev st of
        (inc, st1) \<Rightarrow>
          let suppressed = (\<not> ic_is_new inc \<and>
                (case ic_seconds_since_prev inc of None \<Rightarrow> False | Some d \<Rightarrow> d < of_int (tc_dedup_window_minutes cfg * 60)))
          in (if decide inc (rn_severity r) suppressed = ''alert'' then Publishing inc (notify_attempts cfg) else Over None, st1))"

text \<open>One step of one run: the phase it is in then, and the table and the broker's queue.\<close>

fun run_step ::
  "(string \<Rightarrow> string) \<Rightarrow> triage_cfg \<Rightarrow> (nat \<Rightarrow> alert \<Rightarrow> bool) \<Rightarrow> run \<Rightarrow> phase \<Rightarrow> conc \<Rightarrow> phase \<times> conc" where
  "run_step sha cfg br r Reading s = (Writing (upsert_read (run_key sha r) (cc_store s)), s)"
| "run_step sha cfg br r (Writing prev) s =
     (case write_phase sha cfg (cc_now s) r prev (cc_store s) of (p, st1) \<Rightarrow> (p, s\<lparr>cc_store := st1\<rparr>))"
| "run_step sha cfg br r (Publishing inc (Suc k)) s =
     (let s1 = s\<lparr>cc_attempts := Suc (cc_attempts s)\<rparr> in
      if br (cc_attempts s) (run_alert cfg r inc)
      then (Delivered inc, s1\<lparr>cc_delivered := cc_delivered s @ [run_alert cfg r inc]\<rparr>)
      else (Publishing inc k, s1))"
| "run_step sha cfg br r (Publishing inc 0) s =
     (Over (Some False), s\<lparr>cc_store := mark_alert_failed (ic_key inc) (cc_store s)\<rparr>)"
| "run_step sha cfg br r (Delivered inc) s =
     (Over (Some True),
      if in_status (ic_row inc) = ''alert_failed''
      then s\<lparr>cc_store := clear_alert_failed (ic_key inc) (cc_store s)\<rparr> else s)"
| "run_step sha cfg br r (Over b) s = (Over b, s)"

datatype conc_event =
    Begin signal string pyval pyval
  | Go nat "nat \<Rightarrow> alert \<Rightarrow> bool"
  | Elapse secs
  | Retain int

definition advance :: "(string \<Rightarrow> string) \<Rightarrow> triage_cfg \<Rightarrow> (nat \<Rightarrow> alert \<Rightarrow> bool) \<Rightarrow> nat \<Rightarrow> conc \<Rightarrow> conc" where
  "advance sha cfg br i s =
     (if i < length (cc_runs s) then
        (case run_step sha cfg br (cc_runs s ! i) (rn_phase (cc_runs s ! i)) s of
           (p, s1) \<Rightarrow> s1\<lparr>cc_runs := (cc_runs s)[i := (cc_runs s ! i)\<lparr>rn_phase := p\<rparr>]\<rparr>)
      else s)"

fun conc_do :: "(string \<Rightarrow> string) \<Rightarrow> triage_cfg \<Rightarrow> conc_event \<Rightarrow> conc \<Rightarrow> conc" where
  "conc_do sha cfg (Begin sg sev cat hyp) s =
     s\<lparr>cc_runs := cc_runs s @ [\<lparr>rn_signal = sg, rn_severity = sev, rn_category = cat, rn_hypothesis = hyp, rn_phase = Reading\<rparr>]\<rparr>"
| "conc_do sha cfg (Go i br) s = advance sha cfg br i s"
| "conc_do sha cfg (Elapse d) s = s\<lparr>cc_now := cc_now s + d\<rparr>"
| "conc_do sha cfg (Retain d) s = s\<lparr>cc_store := snd (incidents_prune d (cc_now s) (cc_store s))\<rparr>"

definition conc_start :: "secs \<Rightarrow> conc" where
  "conc_start t = \<lparr>cc_store = no_incidents, cc_now = t, cc_attempts = 0, cc_delivered = [], cc_runs = []\<rparr>"

definition conc_schedule :: "(string \<Rightarrow> string) \<Rightarrow> triage_cfg \<Rightarrow> conc_event list \<Rightarrow> conc \<Rightarrow> conc" where
  "conc_schedule sha cfg evs s = fold (conc_do sha cfg) evs s"

section \<open>A run alone is the graph\<close>

definition conc_of :: "triage_world \<Rightarrow> run list \<Rightarrow> conc" where
  "conc_of w rs = \<lparr>cc_store = tw_store w, cc_now = tw_now w, cc_attempts = tw_attempts w, cc_delivered = tw_delivered w, cc_runs = rs\<rparr>"

lemma conc_of_fields [simp]:
  "cc_store (conc_of w rs) = tw_store w" "cc_now (conc_of w rs) = tw_now w" "cc_attempts (conc_of w rs) = tw_attempts w"
  "cc_delivered (conc_of w rs) = tw_delivered w" "cc_runs (conc_of w rs) = rs"
  by (simp_all add: conc_of_def)

lemma advance_conc_of:
  assumes "i < length rs" and "run_step sha cfg br (rs ! i) (rn_phase (rs ! i)) (conc_of w rs) = (p, conc_of w' rs)"
  shows "advance sha cfg br i (conc_of w rs) = conc_of w' (rs[i := (rs ! i)\<lparr>rn_phase := p\<rparr>])"
  using assms by (simp add: advance_def conc_of_def)

text \<open>The publish attempts of one run, with what follows them, are the node \<open>notify\<close>.\<close>

lemma solo_publish:
  assumes "i < length rs" and "rn_phase (rs ! i) = Publishing inc k"
  shows "\<exists>n. (advance sha cfg br i ^^ n) (conc_of w rs) =
    (case try_publish k br (run_alert cfg (rs ! i) inc) w of (b, w1) \<Rightarrow>
       conc_of (if b then (if in_status (ic_row inc) = ''alert_failed'' then w1\<lparr>tw_store := clear_alert_failed (ic_key inc) (tw_store w1)\<rparr> else w1)
                else w1\<lparr>tw_store := mark_alert_failed (ic_key inc) (tw_store w1)\<rparr>)
         (rs[i := (rs ! i)\<lparr>rn_phase := Over (Some b)\<rparr>]))"
  using assms
proof (induction k arbitrary: w rs)
  case 0
  have "advance sha cfg br i (conc_of w rs) =
      conc_of (w\<lparr>tw_store := mark_alert_failed (ic_key inc) (tw_store w)\<rparr>) (rs[i := (rs ! i)\<lparr>rn_phase := Over (Some False)\<rparr>])"
    by (rule advance_conc_of) (use 0 in \<open>simp_all add: conc_of_def\<close>)
  then show ?case by (intro exI [of _ 1]) simp
next
  case (Suc k)
  let ?a = "run_alert cfg (rs ! i) inc" and ?w1 = "w\<lparr>tw_attempts := Suc (tw_attempts w)\<rparr>"
  show ?case
  proof (cases "br (tw_attempts w) ?a")
    case True
    let ?w2 = "?w1\<lparr>tw_delivered := tw_delivered w @ [?a]\<rparr>" and ?rs = "rs[i := (rs ! i)\<lparr>rn_phase := Delivered inc\<rparr>]"
    have one: "advance sha cfg br i (conc_of w rs) = conc_of ?w2 ?rs"
      by (rule advance_conc_of) (use Suc.prems True in \<open>simp_all add: conc_of_def Let_def\<close>)
    have two: "advance sha cfg br i (conc_of ?w2 ?rs) =
        conc_of (if in_status (ic_row inc) = ''alert_failed'' then ?w2\<lparr>tw_store := clear_alert_failed (ic_key inc) (tw_store ?w2)\<rparr> else ?w2)
          (?rs[i := (?rs ! i)\<lparr>rn_phase := Over (Some True)\<rparr>])"
      by (rule advance_conc_of) (use Suc.prems in \<open>simp_all add: conc_of_def\<close>)
    show ?thesis using Suc.prems True one two
      by (intro exI [of _ 2]) (simp add: numeral_2_eq_2 Let_def)
  next
    case False
    let ?rs = "rs[i := (rs ! i)\<lparr>rn_phase := Publishing inc k\<rparr>]"
    have one: "advance sha cfg br i (conc_of w rs) = conc_of ?w1 ?rs"
      by (rule advance_conc_of) (use Suc.prems False in \<open>simp_all add: conc_of_def Let_def\<close>)
    have a: "run_alert cfg (?rs ! i) inc = ?a" using Suc.prems by (simp add: run_alert_def)
    obtain n where "(advance sha cfg br i ^^ n) (conc_of ?w1 ?rs) = (case try_publish k br ?a ?w1 of (b, w2) \<Rightarrow>
       conc_of (if b then (if in_status (ic_row inc) = ''alert_failed'' then w2\<lparr>tw_store := clear_alert_failed (ic_key inc) (tw_store w2)\<rparr> else w2)
                else w2\<lparr>tw_store := mark_alert_failed (ic_key inc) (tw_store w2)\<rparr>)
         (rs[i := (rs ! i)\<lparr>rn_phase := Over (Some b)\<rparr>]))"
      using Suc.IH [of ?rs ?w1] Suc.prems unfolding a by (auto split: prod.splits)
    then show ?thesis using False one
      by (intro exI [of _ "Suc n"]) (simp add: funpow_swap1 Let_def)
  qed
qed

lemma write_phase_dedup:
  "write_phase sha cfg now r (upsert_read (run_key sha r) st) st =
     (case dedup sha cfg (rn_signal r) (rn_severity r) (rn_hypothesis r) now st of
        ((inc, suppressed), st1) \<Rightarrow>
          (if decide inc (rn_severity r) suppressed = ''alert'' then Publishing inc (notify_attempts cfg) else Over None, st1))"
  by (simp add: write_phase_def dedup_def incident_upsert_def run_key_def sig_key_def Let_def case_prod_beta)

text \<open>
  A run that starts with what the graph's classification answered, and is not interrupted, ends with
  the graph's outcome and leaves its table, its attempts and its pages.
\<close>

lemma solo_run:
  assumes "triage gw clk sha br cfg sg w = (Inr r, w')"
  shows "\<exists>cat hyp n. (advance sha cfg br (length rs) ^^ n) (conc_do sha cfg (Begin sg (tr_severity r) cat hyp) (conc_of w rs)) =
    conc_of w' (rs @ [\<lparr>rn_signal = sg, rn_severity = tr_severity r, rn_category = cat, rn_hypothesis = hyp,
      rn_phase = Over (tr_alerted r)\<rparr>])"
proof -
  obtain p s1 where q: "ask_llm gw clk cfg sg (tw_llm w) = (p, s1)" by fastforce
  obtain sev cat hyp where c: "classify_parsed sg p = Inr (sev, cat, hyp)"
    using assms by (cases "classify_parsed sg p") (auto simp: triage_def q)
  obtain inc sup st1 where d: "dedup sha cfg sg sev hyp (tw_now w) (tw_store w) = ((inc, sup), st1)" by (metis prod.exhaust)
  let ?r = "\<lambda>ph. \<lparr>rn_signal = sg, rn_severity = sev, rn_category = cat, rn_hypothesis = hyp, rn_phase = ph\<rparr>"
  let ?i = "length rs" and ?rs = "\<lambda>ph. rs @ [?r ph]"
  let ?prev = "upsert_read (sig_key sha sg) (tw_store w)"
  let ?ph = "if decide inc sev sup = ''alert'' then Publishing inc (notify_attempts cfg) else Over None"
  have one: "advance sha cfg br ?i (conc_of v (?rs Reading)) = conc_of v (?rs (Writing (upsert_read (sig_key sha sg) (tw_store v))))" for v
    using advance_conc_of [of ?i "?rs Reading" sha cfg br v _ v] by (simp add: run_key_def nth_append)
  have two: "advance sha cfg br ?i (conc_of w (?rs (Writing ?prev))) = conc_of (w\<lparr>tw_store := st1\<rparr>) (?rs ?ph)"
    using advance_conc_of [of ?i "?rs (Writing ?prev)" sha cfg br w ?ph "w\<lparr>tw_store := st1\<rparr>"]
      write_phase_dedup [of sha cfg "tw_now w" "?r (Writing ?prev)" "tw_store w"] d
    by (simp add: run_key_def nth_append conc_of_def)
  have start: "conc_do sha cfg (Begin sg sev cat hyp) (conc_of w rs) = conc_of w (?rs Reading)"
    by (simp add: conc_of_def)
  have begun: "(advance sha cfg br ?i ^^ 2) (conc_of w (?rs Reading)) = conc_of (w\<lparr>tw_store := st1\<rparr>) (?rs ?ph)"
    using one [of w] two by (simp add: numeral_2_eq_2)
  show ?thesis
  proof (cases "decide inc sev sup = ''alert''")
    case False
    then have r: "tr_severity r = sev" "tr_alerted r = None" "w' = w\<lparr>tw_llm := s1, tw_store := st1\<rparr>"
      using assms by (auto simp: triage_def q c d Let_def)
    then have "conc_of w' rs' = conc_of (w\<lparr>tw_store := st1\<rparr>) rs'" for rs' by (simp add: conc_of_def)
    then have "(advance sha cfg br ?i ^^ 2) (conc_of w (?rs Reading)) = conc_of w' (?rs (Over None))"
      using begun False by simp
    then show ?thesis unfolding r(1,2) by (metis start)
  next
    case True
    obtain al af w3 where n: "notify br cfg sg sev cat hyp inc (w\<lparr>tw_llm := s1, tw_store := st1\<rparr>) = ((al, af), w3)"
      by (metis prod.exhaust)
    have r: "tr_severity r = sev" "tr_alerted r = Some al" "w' = w3"
      using assms True by (auto simp: triage_def q c d Let_def n)
    let ?w2 = "w\<lparr>tw_store := st1\<rparr>" and ?a = "build_alert cfg sg sev cat hyp inc"
    have llm: "try_publish k br a (v\<lparr>tw_llm := s1\<rparr>) = (case try_publish k br a v of (b, u) \<Rightarrow> (b, u\<lparr>tw_llm := s1\<rparr>))" for k a v
    proof (induction k arbitrary: v)
      case (Suc k)
      show ?case using Suc [of "v\<lparr>tw_attempts := Suc (tw_attempts v)\<rparr>"] by (cases v) (simp add: Let_def)
    qed simp
    obtain b w1 where t: "try_publish (notify_attempts cfg) br ?a ?w2 = (b, w1)" by fastforce
    have t2: "try_publish (notify_attempts cfg) br ?a (w\<lparr>tw_llm := s1, tw_store := st1\<rparr>) = (b, w1\<lparr>tw_llm := s1\<rparr>)"
      using llm [of "notify_attempts cfg" ?a ?w2] t by (cases w) simp
    obtain n where "(advance sha cfg br ?i ^^ n) (conc_of ?w2 (?rs ?ph)) =
       conc_of (if b then (if in_status (ic_row inc) = ''alert_failed'' then w1\<lparr>tw_store := clear_alert_failed (ic_key inc) (tw_store w1)\<rparr> else w1)
                else w1\<lparr>tw_store := mark_alert_failed (ic_key inc) (tw_store w1)\<rparr>) (?rs (Over (Some b)))"
      using solo_publish [of ?i "?rs ?ph" inc "notify_attempts cfg" sha cfg br ?w2] True t
      by (auto simp: nth_append run_alert_def)
    moreover have "al = b" "conc_of w3 rs' = conc_of (if b then (if in_status (ic_row inc) = ''alert_failed'' then w1\<lparr>tw_store := clear_alert_failed (ic_key inc) (tw_store w1)\<rparr> else w1)
                else w1\<lparr>tw_store := mark_alert_failed (ic_key inc) (tw_store w1)\<rparr>) rs'" for rs'
      using n by (auto simp: notify_def t2 conc_of_def split: bool.splits)
    ultimately have "(advance sha cfg br ?i ^^ (n + 2)) (conc_of w (?rs Reading)) = conc_of w3 (?rs (Over (Some al)))"
      unfolding funpow_add comp_def begun by simp
    then show ?thesis unfolding r by (metis start)
  qed
qed

end
