(* ===== verification/TriageConcProps.thy ===== *)
theory TriageConcProps
  imports TriageConc
begin

text \<open>
  What holds of the incidents table and of the pages whatever the schedule of the runs: the table counts
  every run that wrote, the pages are those of the runs that delivered one, no problem is without a
  page, a flag or a run that is still trying, and a run that is scheduled often enough ends.
\<close>

section \<open>What a schedule keeps\<close>

fun wrote :: "phase \<Rightarrow> bool" where
  "wrote Reading = False" | "wrote (Writing p) = False" | "wrote (Publishing inc n) = True"
| "wrote (Delivered inc) = True" | "wrote (Over b) = True"

fun has_paged :: "phase \<Rightarrow> bool" where
  "has_paged (Delivered inc) = True" | "has_paged (Over b) = (b = Some True)"
| "has_paged Reading = False" | "has_paged (Writing p) = False" | "has_paged (Publishing inc n) = False"

fun publishing :: "phase \<Rightarrow> bool" where
  "publishing (Publishing inc n) = True"
| "publishing Reading = False" | "publishing (Writing p) = False" | "publishing (Delivered inc) = False" | "publishing (Over b) = False"

definition row_count :: "string \<Rightarrow> incident_store \<Rightarrow> int" where
  "row_count k st = (case map_of (is_rows st) k of None \<Rightarrow> 0 | Some r \<Rightarrow> in_count r)"

definition pages_for :: "string \<Rightarrow> conc \<Rightarrow> nat" where
  "pages_for k s = length (filter (\<lambda>a. al_dedup_key a = Some k) (cc_delivered s))"

definition runs_of :: "(string \<Rightarrow> string) \<Rightarrow> string \<Rightarrow> (phase \<Rightarrow> bool) \<Rightarrow> conc \<Rightarrow> nat" where
  "runs_of sha k P s = length (filter (\<lambda>r. run_key sha r = k \<and> P (rn_phase r)) (cc_runs s))"

lemma frame_fields [simp]:
  "pages_for k (s\<lparr>cc_store := st\<rparr>) = pages_for k s" "pages_for k (s\<lparr>cc_now := t\<rparr>) = pages_for k s"
  "pages_for k (s\<lparr>cc_runs := rs\<rparr>) = pages_for k s" "runs_of sha k P (s\<lparr>cc_store := st\<rparr>) = runs_of sha k P s"
  "runs_of sha k P (s\<lparr>cc_now := t\<rparr>) = runs_of sha k P s"
  by (simp_all add: pages_for_def runs_of_def)

text \<open>What the state of a run says of the table.\<close>

definition run_ok :: "(string \<Rightarrow> string) \<Rightarrow> conc \<Rightarrow> run \<Rightarrow> bool" where
  "run_ok sha s r \<longleftrightarrow>
     (case rn_phase r of
        Reading \<Rightarrow> True
      | Writing prev \<Rightarrow> prev \<noteq> None \<longrightarrow> incident_present (run_key sha r) (cc_store s)
      | Publishing inc n \<Rightarrow> ic_key inc = run_key sha r \<and> incident_present (run_key sha r) (cc_store s)
      | Delivered inc \<Rightarrow> ic_key inc = run_key sha r \<and> 0 < pages_for (run_key sha r) s
      | Over b \<Rightarrow> True)"

definition cared_for :: "(string \<Rightarrow> string) \<Rightarrow> conc \<Rightarrow> string \<Rightarrow> bool" where
  "cared_for sha s k \<longleftrightarrow> incident_failed k (cc_store s) \<or> 0 < pages_for k s \<or> 0 < runs_of sha k publishing s"

definition conc_inv :: "(string \<Rightarrow> string) \<Rightarrow> conc \<Rightarrow> bool" where
  "conc_inv sha s \<longleftrightarrow> live (cc_store s) \<and> list_all (run_ok sha s) (cc_runs s)
     \<and> (\<forall>k. row_count k (cc_store s) = int (runs_of sha k wrote s) \<and> pages_for k s = runs_of sha k has_paged s
          \<and> (incident_present k (cc_store s) \<longrightarrow> 0 < row_count k (cc_store s) \<and> cared_for sha s k))"

section \<open>One step\<close>

lemma write_phase_run:
  assumes "write_phase sha cfg now r prev st = (p, st1)"
  shows "\<exists>x. st1 = incident_touch (run_key sha r) x st"
    and "p = Over None \<and> prev \<noteq> None \<or> (\<exists>inc. p = Publishing inc (notify_attempts cfg) \<and> ic_key inc = run_key sha r)"
proof -
  obtain inc st2 where u: "upsert_write (run_key sha r) (sg_source (rn_signal r)) (rn_severity r) (sg_title (rn_signal r))
      (with_hypothesis (sg_body (rn_signal r)) (rn_hypothesis r)) now prev st = (inc, st2)" by fastforce
  have st: "st1 = st2" using assms by (simp add: write_phase_def u Let_def)
  show "\<exists>x. st1 = incident_touch (run_key sha r) x st"
    using u by (intro exI [of _ "\<lparr>oc_id = 0, oc_source = sg_source (rn_signal r), oc_severity = rn_severity r,
        oc_title = sg_title (rn_signal r), oc_body = with_hypothesis (sg_body (rn_signal r)) (rn_hypothesis r), oc_now = now\<rparr>"])
      (auto simp: st incident_touch_def incident_upsert_def upsert_write_def Let_def)
  have "ic_key inc = run_key sha r" "ic_is_new inc = (prev = None)"
    using u by (auto simp: upsert_write_def Let_def)
  then show "p = Over None \<and> prev \<noteq> None \<or> (\<exists>inc. p = Publishing inc (notify_attempts cfg) \<and> ic_key inc = run_key sha r)"
    using assms by (auto simp: write_phase_def u Let_def decide_def split: if_splits)
qed

lemma touch_rows:
  "row_count k (incident_touch k' x st) = row_count k st + of_bool (k = k')"
  "incident_present k (incident_touch k' x st) = (incident_present k st \<or> k = k')"
  "incident_failed k st \<Longrightarrow> incident_failed k (incident_touch k' x st)"
  by (auto simp: row_count_def incident_present_def incident_failed_def incident_touch_def is_rows_upsert map_of_upsert_row
      incident_merge_def split: option.split)

lemma status_rows:
  "row_count k (mark_alert_failed k' st) = row_count k st"
  "row_count k (clear_alert_failed k' st) = row_count k st"
  "incident_present k (mark_alert_failed k' st) = incident_present k st"
  "incident_present k (clear_alert_failed k' st) = incident_present k st"
  "incident_failed k (mark_alert_failed k' st) = (incident_failed k st \<or> k = k' \<and> incident_present k st)"
  "incident_failed k (clear_alert_failed k' st) = (incident_failed k st \<and> k \<noteq> k')"
  by (auto simp: row_count_def incident_present_def incident_failed_def mark_alert_failed_def clear_alert_failed_def
      map_of_update_where split: option.split if_splits)

lemma run_alert_key: "al_dedup_key (run_alert cfg r inc) = Some (ic_key inc)"
  by (simp add: run_alert_def build_alert_def Let_def)

text \<open>What a step of run \<open>r\<close> changes: everything an invariant can ask of the new state.\<close>

definition step_effect :: "(string \<Rightarrow> string) \<Rightarrow> run \<Rightarrow> conc \<Rightarrow> phase \<Rightarrow> conc \<Rightarrow> bool" where
  "step_effect sha r s p s1 \<longleftrightarrow>
     live (cc_store s1) \<and> cc_runs s1 = cc_runs s \<and> run_ok sha s1 (r\<lparr>rn_phase := p\<rparr>)
     \<and> (wrote (rn_phase r) \<longrightarrow> wrote p) \<and> (has_paged (rn_phase r) \<longrightarrow> has_paged p)
     \<and> (\<forall>k. row_count k (cc_store s1) = row_count k (cc_store s) + of_bool (k = run_key sha r \<and> wrote p \<and> \<not> wrote (rn_phase r))
        \<and> pages_for k s1 = pages_for k s + of_bool (k = run_key sha r \<and> has_paged p \<and> \<not> has_paged (rn_phase r))
        \<and> (incident_present k (cc_store s) \<longrightarrow> incident_present k (cc_store s1))
        \<and> (incident_failed k (cc_store s) \<longrightarrow> incident_failed k (cc_store s1) \<or> 0 < pages_for k s1)
        \<and> (incident_present k (cc_store s1) \<longrightarrow> incident_present k (cc_store s) \<or> k = run_key sha r \<and> publishing p \<and> 0 < row_count k (cc_store s1)))
     \<and> (publishing (rn_phase r) \<longrightarrow>
          publishing p \<or> incident_failed (run_key sha r) (cc_store s1) \<or> 0 < pages_for (run_key sha r) s1)"

lemma row_count_absent: "\<not> incident_present k st \<Longrightarrow> row_count k st = 0"
  by (simp add: row_count_def incident_present_def)

lemma upsert_read_present: "upsert_read k st \<noteq> None \<Longrightarrow> incident_present k st"
  by (simp add: upsert_read_def incident_present_def)

lemma run_step_effect:
  assumes "live (cc_store s)" and "run_ok sha s r" and "run_step sha cfg br r (rn_phase r) s = (p, s1)"
  shows "step_effect sha r s p s1"
proof (cases "rn_phase r")
  case Reading
  then show ?thesis using assms upsert_read_present [of "run_key sha r" "cc_store s"]
    by (auto simp: step_effect_def run_ok_def run_key_def)
next
  case (Writing prev)
  obtain st1 where w: "write_phase sha cfg (cc_now s) r prev (cc_store s) = (p, st1)" and s1: "s1 = s\<lparr>cc_store := st1\<rparr>"
    using assms(3) Writing by (auto split: prod.splits)
  obtain x where st1: "st1 = incident_touch (run_key sha r) x (cc_store s)" using write_phase_run(1) [OF w] by blast
  show ?thesis using write_phase_run(2) [OF w] assms(1,2) Writing
    by (auto simp: step_effect_def run_ok_def run_key_def s1 st1 touch_rows live_store row_count_absent)
next
  case (Publishing inc n)
  show ?thesis
  proof (cases n)
    case 0
    have p: "p = Over (Some False)" and s1: "s1 = s\<lparr>cc_store := mark_alert_failed (ic_key inc) (cc_store s)\<rparr>"
      using assms(3) Publishing 0 by simp_all
    show ?thesis using assms(1,2) Publishing
      by (auto simp: step_effect_def run_ok_def p s1 status_rows live_store)
  next
    case (Suc m)
    then show ?thesis using assms Publishing
      by (auto simp: step_effect_def run_ok_def pages_for_def run_alert_key run_key_def Let_def split: if_splits)
  qed
next
  case (Delivered inc)
  have p: "p = Over (Some True)" and s1: "s1 = (if in_status (ic_row inc) = ''alert_failed''
      then s\<lparr>cc_store := clear_alert_failed (ic_key inc) (cc_store s)\<rparr> else s)"
    using assms(3) Delivered by simp_all
  show ?thesis using assms(1,2) Delivered
    by (auto simp: step_effect_def run_ok_def p s1 status_rows live_store)
next
  case (Over b)
  then have "p = Over b" "s1 = s" using assms(3) by simp_all
  then show ?thesis using assms(1) Over by (simp add: step_effect_def run_ok_def)
qed

section \<open>Every schedule\<close>

lemma length_filter_update:
  "i < length xs \<Longrightarrow>
     int (length (filter P (xs[i := x]))) = int (length (filter P xs)) + of_bool (P x) - of_bool (P (xs ! i))"
proof (induction xs arbitrary: i)
  case (Cons a xs)
  then show ?case by (cases i) simp_all
qed simp

lemma runs_of_update:
  assumes "i < length (cc_runs s)" and "cc_runs s1 = cc_runs s"
  shows "int (runs_of sha k P (s1\<lparr>cc_runs := (cc_runs s)[i := (cc_runs s ! i)\<lparr>rn_phase := p\<rparr>]\<rparr>)) =
    int (runs_of sha k P s) + of_bool (k = run_key sha (cc_runs s ! i) \<and> P p)
      - of_bool (k = run_key sha (cc_runs s ! i) \<and> P (rn_phase (cc_runs s ! i)))"
  using length_filter_update [OF assms(1), of "\<lambda>r. run_key sha r = k \<and> P (rn_phase r)"]
  by (simp add: runs_of_def run_key_def)

lemma run_ok_keeps:
  assumes "run_ok sha s r" and "\<And>k. incident_present k (cc_store s) \<Longrightarrow> incident_present k (cc_store s1)"
    and "\<And>k. pages_for k s \<le> pages_for k s1"
  shows "run_ok sha s1 r"
  using assms(1,2) assms(3) [of "run_key sha r"] by (auto simp: run_ok_def split: phase.splits)

lemma runs_of_pos: "0 < runs_of sha k P s \<longleftrightarrow> (\<exists>r \<in> set (cc_runs s). run_key sha r = k \<and> P (rn_phase r))"
  by (auto simp: runs_of_def filter_empty_conv)

lemma advance_inv:
  assumes "conc_inv sha s"
  shows "conc_inv sha (advance sha cfg br i s)"
proof (cases "i < length (cc_runs s)")
  case True
  let ?r = "cc_runs s ! i"
  obtain p s1 where st: "run_step sha cfg br ?r (rn_phase ?r) s = (p, s1)" by fastforce
  let ?s = "s1\<lparr>cc_runs := (cc_runs s)[i := ?r\<lparr>rn_phase := p\<rparr>]\<rparr>"
  have s': "advance sha cfg br i s = ?s" using True st by (simp add: advance_def)
  have ok: "list_all (run_ok sha s) (cc_runs s)" "run_ok sha s ?r" and lv: "live (cc_store s)"
    using assms True by (auto simp: conc_inv_def list_all_length)
  note e = run_step_effect [OF lv ok(2) st, unfolded step_effect_def]
  note rest = e [THEN conjunct2, THEN conjunct2, THEN conjunct2, THEN conjunct2, THEN conjunct2]
  note rows = rest [THEN conjunct1, rule_format] and trying = rest [THEN conjunct2, rule_format]
  have rs: "cc_runs s1 = cc_runs s" using e by simp
  have keep: "incident_present k (cc_store s) \<Longrightarrow> incident_present k (cc_store s1)" "pages_for k s \<le> pages_for k s1" for k
    using e by auto
  have in_s': "run_ok sha ?s = run_ok sha s1" by (rule ext) (simp add: run_ok_def split: phase.split)
  have "\<forall>q \<in> set (cc_runs s). run_ok sha s1 q" using ok(1) run_ok_keeps [OF _ keep] by (auto simp: list_all_iff)
  then have "list_all (run_ok sha ?s) (cc_runs ?s)"
    unfolding in_s' list_all_iff using e set_update_subset_insert [of "cc_runs s" i] by auto
  moreover have "row_count k (cc_store ?s) = int (runs_of sha k wrote ?s)" for k
    using assms e runs_of_update [OF True rs, of sha k wrote p] by (auto simp: conc_inv_def)
  moreover have "pages_for k ?s = runs_of sha k has_paged ?s" for k
  proof -
    have "int (pages_for k ?s) = int (runs_of sha k has_paged ?s)"
      using assms e runs_of_update [OF True rs, of sha k has_paged p] by (auto simp: conc_inv_def)
    then show ?thesis by simp
  qed
  moreover have "0 < row_count k (cc_store ?s)" if "incident_present k (cc_store ?s)" for k
  proof (cases "incident_present k (cc_store s)")
    case True
    then have "0 < row_count k (cc_store s)" using assms unfolding conc_inv_def by blast
    then show ?thesis using conjunct1 [OF rows [of k]] by (auto simp: of_bool_def)
  next
    case False
    moreover have "incident_present k (cc_store s1)" using that by simp
    ultimately have "0 < row_count k (cc_store s1)" using rows [of k] by argo
    then show ?thesis by simp
  qed
  moreover have "cared_for sha ?s k" if "incident_present k (cc_store ?s)" for k
  proof -
    have now: "k = run_key sha ?r \<Longrightarrow> publishing p \<Longrightarrow> 0 < runs_of sha k publishing ?s"
      using True by (auto simp: runs_of_pos run_key_def intro!: bexI [of _ "?r\<lparr>rn_phase := p\<rparr>"] set_update_memI)
    show ?thesis
    proof (cases "incident_present k (cc_store s)")
      case False
      moreover have "incident_present k (cc_store s1)" using that by simp
      ultimately have "k = run_key sha ?r \<and> publishing p" using rows [of k] by simp
      then show ?thesis using now by (simp add: cared_for_def)
    next
      case True
      then have "cared_for sha s k" using assms by (simp add: conc_inv_def)
      then consider "incident_failed k (cc_store s)" | "0 < pages_for k s"
        | "0 < runs_of sha k publishing s" "k = run_key sha ?r" "publishing (rn_phase ?r)"
        | "0 < runs_of sha k publishing s" "\<not> (k = run_key sha ?r \<and> publishing (rn_phase ?r))"
        unfolding cared_for_def by argo
      then show ?thesis
      proof cases
        case 1
        then have "incident_failed k (cc_store s1) \<or> 0 < pages_for k s1" using rows [of k] by argo
        then show ?thesis by (auto simp: cared_for_def)
      next
        case 2
        then show ?thesis using keep(2) [of k] by (simp add: cared_for_def)
      next
        case 3
        have "publishing p \<or> incident_failed k (cc_store s1) \<or> 0 < pages_for k s1" unfolding 3(2) by (rule trying [OF 3(3)])
        then show ?thesis using now 3(2) by (auto simp: cared_for_def)
      next
        case 4
        then have "0 < runs_of sha k publishing ?s"
          using runs_of_update [OF \<open>i < length (cc_runs s)\<close> rs, of sha k publishing p] by (auto simp: of_bool_def split: if_splits)
        then show ?thesis by (simp add: cared_for_def)
      qed
    qed
  qed
  ultimately show ?thesis using e unfolding s' conc_inv_def by simp
qed (use assms in \<open>simp add: advance_def\<close>)

lemma conc_do_inv: "conc_inv sha s \<Longrightarrow> conc_inv sha (conc_do sha cfg ev s)"
proof (cases ev)
  case (Begin sg sev cat hyp)
  assume s: "conc_inv sha s"
  let ?r = "\<lparr>rn_signal = sg, rn_severity = sev, rn_category = cat, rn_hypothesis = hyp, rn_phase = Reading\<rparr>"
  have r: "runs_of sha k P (s\<lparr>cc_runs := cc_runs s @ [?r]\<rparr>) = runs_of sha k P s + of_bool (run_key sha ?r = k \<and> P Reading)" for k P
    by (simp add: runs_of_def)
  have k: "run_ok sha (s\<lparr>cc_runs := rs\<rparr>) = run_ok sha s" for rs by (rule ext) (simp add: run_ok_def split: phase.split)
  have "run_ok sha s ?r" by (simp add: run_ok_def)
  with s show ?thesis by (auto simp: Begin conc_inv_def r k cared_for_def)
next
  case (Go i br)
  assume "conc_inv sha s"
  then show ?thesis by (simp add: Go advance_inv)
next
  case (Elapse d)
  assume "conc_inv sha s"
  moreover have "run_ok sha (s\<lparr>cc_now := t\<rparr>) = run_ok sha s" for t by (rule ext) (simp add: run_ok_def split: phase.split)
  ultimately show ?thesis by (auto simp: Elapse conc_inv_def cared_for_def)
next
  case (Retain d)
  assume "conc_inv sha s"
  moreover from this have "snd (incidents_prune d (cc_now s) (cc_store s)) = cc_store s" by (simp add: conc_inv_def prune_live)
  ultimately show ?thesis by (simp add: Retain)
qed

lemma conc_start_inv: "conc_inv sha (conc_start t)"
  by (simp add: conc_inv_def conc_start_def live_def no_incidents_def row_count_def pages_for_def runs_of_def incident_present_def)

interpretation sched: kept_invariant "conc_do sha cfg" "conc_inv sha" for sha cfg
  by unfold_locales (rule conc_do_inv)

lemma schedule_inv: "conc_inv sha s \<Longrightarrow> conc_inv sha (conc_schedule sha cfg evs s)"
  unfolding conc_schedule_def by (rule sched.history_keeps)

section \<open>No problem is forgotten\<close>

fun over :: "phase \<Rightarrow> bool" where
  "over (Over b) = True"
| "over Reading = False" | "over (Writing p) = False" | "over (Publishing inc n) = False" | "over (Delivered inc) = False"

lemma over_phases: "over ph \<Longrightarrow> wrote ph \<and> \<not> publishing ph"
  by (cases ph) simp_all

text \<open>
  C15: However the sweeps and webhooks in flight interleave, statement by statement, whatever the broker
  does to each attempt and however the clock and the retention job move: once the runs are over, a
  problem has a row exactly if a run was about it, the row counts those runs, and operators have a
  page of it or the row is flagged so that the next run pages; and there is one page for each run
  that reported a delivery, none else.
\<close>
theorem problem_never_forgotten:
  assumes "s = conc_schedule sha cfg evs (conc_start t)" and "list_all (\<lambda>r. over (rn_phase r)) (cc_runs s)"
  shows "let mine = filter (\<lambda>r. sig_key sha (rn_signal r) = k) (cc_runs s);
             pages = filter (\<lambda>a. al_dedup_key a = Some k) (cc_delivered s) in
    length pages = length (filter (\<lambda>r. rn_phase r = Over (Some True)) mine)
    \<and> (case map_of (is_rows (cc_store s)) k of
         None \<Rightarrow> mine = []
       | Some row \<Rightarrow> mine \<noteq> [] \<and> in_count row = int (length mine) \<and> (pages \<noteq> [] \<or> in_status row = ''alert_failed''))"
proof -
  have inv: "conc_inv sha s" using schedule_inv [OF conc_start_inv] assms(1) by simp
  let ?mine = "filter (\<lambda>r. sig_key sha (rn_signal r) = k) (cc_runs s)"
  have ov: "over (rn_phase r)" if "r \<in> set (cc_runs s)" for r using assms(2) that by (simp add: list_all_iff)
  have same: "runs_of sha k P s = length (filter (\<lambda>r. Q (rn_phase r)) ?mine)"
    if "\<And>ph. over ph \<Longrightarrow> P ph = Q ph" for P Q
  proof -
    have "filter (\<lambda>r. run_key sha r = k \<and> P (rn_phase r)) (cc_runs s) =
        filter (\<lambda>r. sig_key sha (rn_signal r) = k \<and> Q (rn_phase r)) (cc_runs s)"
      by (rule filter_cong) (use ov that in \<open>auto simp: run_key_def\<close>)
    then show ?thesis by (simp add: runs_of_def conj_commute)
  qed
  have w: "runs_of sha k wrote s = length ?mine" using same [of wrote "\<lambda>_. True"] over_phases by simp
  have p: "runs_of sha k publishing s = 0" using same [of publishing "\<lambda>_. False"] over_phases by simp
  have "has_paged ph = (ph = Over (Some True))" if "over ph" for ph using that by (cases ph) simp_all
  then have d: "runs_of sha k has_paged s = length (filter (\<lambda>r. rn_phase r = Over (Some True)) ?mine)"
    by (rule same)
  have k: "row_count k (cc_store s) = int (length ?mine)" "pages_for k s = runs_of sha k has_paged s"
    "incident_present k (cc_store s) \<Longrightarrow> 0 < row_count k (cc_store s) \<and> (incident_failed k (cc_store s) \<or> 0 < pages_for k s)"
    using inv w p by (auto simp: conc_inv_def cared_for_def)
  show ?thesis
  proof (cases "map_of (is_rows (cc_store s)) k")
    case None
    then show ?thesis using k(1,2) d by (simp add: row_count_def pages_for_def Let_def)
  next
    case (Some row)
    then have "0 < in_count row" "in_status row = ''alert_failed'' \<or> 0 < pages_for k s" "in_count row = int (length ?mine)"
      using k by (auto simp: row_count_def incident_present_def incident_failed_def)
    then show ?thesis using k(2) d Some by (auto simp: pages_for_def Let_def)
  qed
qed

section \<open>Every run ends\<close>

text \<open>The turns a run can still need.\<close>

fun turns :: "triage_cfg \<Rightarrow> phase \<Rightarrow> nat" where
  "turns cfg Reading = notify_attempts cfg + 3"
| "turns cfg (Writing p) = notify_attempts cfg + 2"
| "turns cfg (Publishing inc n) = n + 1"
| "turns cfg (Delivered inc) = 1"
| "turns cfg (Over b) = 0"

fun turn_of :: "nat \<Rightarrow> conc_event \<Rightarrow> bool" where
  "turn_of i (Go j br) = (j = i)"
| "turn_of i (Begin sg sev cat hyp) = False" | "turn_of i (Elapse d) = False" | "turn_of i (Retain d) = False"

lemma turns_0: "turns cfg ph = 0 \<longleftrightarrow> over ph"
  by (cases ph) simp_all

lemma step_runs: "cc_runs (snd (run_step sha cfg br r ph s)) = cc_runs s"
  by (induction sha cfg br r ph s rule: run_step.induct) (simp_all add: Let_def case_prod_beta)

lemma step_turns: "turns cfg (fst (run_step sha cfg br r ph s)) \<le> turns cfg ph - 1"
proof (cases ph)
  case (Writing prev)
  obtain p st1 where w: "write_phase sha cfg (cc_now s) r prev (cc_store s) = (p, st1)" by fastforce
  then show ?thesis using write_phase_run(2) [OF w] Writing by auto
next
  case (Publishing inc n)
  then show ?thesis by (cases n) (simp_all add: Let_def)
qed simp_all

lemma advance_runs:
  "cc_runs (advance sha cfg br i s) =
     (if i < length (cc_runs s)
      then (cc_runs s)[i := (cc_runs s ! i)\<lparr>rn_phase := fst (run_step sha cfg br (cc_runs s ! i) (rn_phase (cc_runs s ! i)) s)\<rparr>]
      else cc_runs s)"
  using step_runs by (simp add: advance_def case_prod_beta)

lemma conc_do_turns:
  assumes "i < length (cc_runs s)"
  shows "i < length (cc_runs (conc_do sha cfg ev s))"
    and "turns cfg (rn_phase (cc_runs (conc_do sha cfg ev s) ! i)) \<le> turns cfg (rn_phase (cc_runs s ! i)) - of_bool (turn_of i ev)"
  using assms step_turns [of cfg sha _ "cc_runs s ! i" "rn_phase (cc_runs s ! i)" s]
  by (cases ev; auto simp: advance_runs nth_list_update nth_append)+

text \<open>
  C16: Every run ends: whatever else is scheduled and whatever the broker does, a run that has been given
  as many turns as it has publish attempts and three more is over; one that is further on needs fewer.
\<close>
theorem runs_always_end:
  assumes "i < length (cc_runs s)" and "turns cfg (rn_phase (cc_runs s ! i)) \<le> length (filter (turn_of i) evs)"
  shows "\<exists>b. rn_phase (cc_runs (conc_schedule sha cfg evs s) ! i) = Over b"
proof -
  have "turns cfg (rn_phase (cc_runs (conc_schedule sha cfg evs s) ! i)) \<le>
      turns cfg (rn_phase (cc_runs s ! i)) - length (filter (turn_of i) evs)"
    using assms(1) unfolding conc_schedule_def
  proof (induction evs arbitrary: s)
    case (Cons ev evs)
    have "turns cfg (rn_phase (cc_runs (fold (conc_do sha cfg) evs (conc_do sha cfg ev s)) ! i)) \<le>
        turns cfg (rn_phase (cc_runs (conc_do sha cfg ev s) ! i)) - length (filter (turn_of i) evs)"
      by (rule Cons.IH [OF conc_do_turns(1) [OF Cons.prems]])
    then show ?case using conc_do_turns(2) [OF Cons.prems, of cfg sha ev] by (cases "turn_of i ev") simp_all
  qed simp
  then have "over (rn_phase (cc_runs (conc_schedule sha cfg evs s) ! i))"
    using assms(2) turns_0 [of cfg] by simp
  then show ?thesis by (cases "rn_phase (cc_runs (conc_schedule sha cfg evs s) ! i)") simp_all
qed

section \<open>Two runs of one problem\<close>

text \<open>Two runs of one new problem that both read before either writes, and a broker that delivers.\<close>

definition demo_schedule :: "conc_event list" where
  "demo_schedule =
     [Begin demo_signal ''warning'' PyNone (PyStr []), Begin demo_signal ''warning'' PyNone (PyStr [])]
     @ concat (replicate 5 [Go 0 (\<lambda>n a. True), Go 1 (\<lambda>n a. True)])"

definition demo_conc :: conc where
  "demo_conc = conc_schedule (\<lambda>s. s) demo_triage_cfg demo_schedule (conc_start 0)"

lemma demo_over: "list_all (\<lambda>r. over (rn_phase r)) (cc_runs demo_conc)"
  by code_simp

theorem problem_never_forgotten_witness:
  "length (filter (\<lambda>a. al_dedup_key a = Some (sig_key (\<lambda>s. s) demo_signal)) (cc_delivered demo_conc)) = 2
   \<and> (\<exists>row. map_of (is_rows (cc_store demo_conc)) (sig_key (\<lambda>s. s) demo_signal) = Some row \<and> in_count row = 2)"
proof -
  have m: "length (filter (\<lambda>r. sig_key (\<lambda>s. s) (rn_signal r) = sig_key (\<lambda>s. s) demo_signal) (cc_runs demo_conc)) = 2"
    by code_simp
  have d: "length (filter (\<lambda>r. rn_phase r = Over (Some True)) (filter (\<lambda>r. sig_key (\<lambda>s. s) (rn_signal r) = sig_key (\<lambda>s. s) demo_signal) (cc_runs demo_conc))) = 2"
    by code_simp
  show ?thesis
    using problem_never_forgotten [OF demo_conc_def demo_over, of "sig_key (\<lambda>s. s) demo_signal"] m d
    by (auto simp: Let_def simp del: filter_filter split: option.splits)
qed

theorem runs_always_end_witness:
  "\<exists>b. rn_phase (cc_runs (conc_schedule (\<lambda>s. s) demo_triage_cfg (drop 2 demo_schedule)
     (conc_schedule (\<lambda>s. s) demo_triage_cfg (take 2 demo_schedule) (conc_start 0))) ! 1) = Over b"
  by (rule runs_always_end) code_simp+

end
