(* ===== verification/MonApiProps.thy ===== *)
theory MonApiProps
  imports MonitorApi TriageTheorems EgressTheorems
begin

text \<open>
  Properties of the monitoring agent's webhooks: a request changes nothing unless it is signed with
  the configured secret, and one request causes a bounded amount of work.
\<close>

section \<open>The signature gate\<close>

definition signed_with :: "hmac \<Rightarrow> mon_settings \<Rightarrow> string \<Rightarrow> string option \<Rightarrow> bool" where
  "signed_with hm st raw sig \<longleftrightarrow>
     ms_webhook_secret st \<noteq> [] \<and> int (length raw) \<le> ms_webhook_max_body_bytes st
     \<and> (\<exists>h. sig = Some h \<and> (strip h = hm (ms_webhook_secret st) raw
          \<or> lower (take 7 (strip h)) = ''sha256='' \<and> drop 7 (strip h) = hm (ms_webhook_secret st) raw))"

lemma prefix_lower_take: "prefix p (lower s) \<Longrightarrow> lower (take (length p) s) = p"
  by (auto simp: prefix_def lower_def take_map [symmetric])

lemma verified_signed: "verified_webhook_body hm st raw sig = Inr body \<Longrightarrow> body = raw \<and> signed_with hm st raw sig"
  using prefix_lower_take [of "''sha256=''"]
  by (auto simp: verified_webhook_body_def signed_with_def verify_webhook_signature_def compare_digest_def Let_def
      rbind_eq_Inr_iff eval_nat_numeral split: if_splits option.splits)

lemma webhook_object_signed: "webhook_object hm st raw sig = Inr v \<Longrightarrow> signed_with hm st raw sig"
  by (auto simp: webhook_object_def rbind_eq_Inr_iff dest: verified_signed)

lemma webhook_alert_cases:
  "(\<exists>e. rbind (webhook_object hm st raw sig) parse_alert = Inl e \<and> webhook_alert hm tri st raw sig w = (Inl e, w))
   \<or> (\<exists>sgs. rbind (webhook_object hm st raw sig) parse_alert = Inr sgs
        \<and> webhook_alert hm tri st raw sig w =
            (case triage_each tri (fst (cap_alerts st sgs)) w of
               (Inl e, w1) \<Rightarrow> (Inl e, w1)
             | (Inr rs, w1) \<Rightarrow>
                 (Inr (alert_response rs (length (fst (cap_alerts st sgs))) (snd (cap_alerts st sgs))), w1)))"
  by (cases "rbind (webhook_object hm st raw sig) parse_alert")
     (auto simp: webhook_alert_def split: prod.splits sum.splits)

text \<open>C23: A webhook request that changes anything (the model client, the incidents, a page) or that
  is answered with success carries the HMAC of its body under a configured, non-empty secret, bare
  or after \<open>sha256=\<close>, and its body is within the size cap.\<close>

theorem webhook_effect_is_signed:
  assumes "(r, w') \<in> {webhook_sentry hm tri st raw sig w, webhook_alert hm tri st raw sig w}"
    and "w' \<noteq> w \<or> (\<exists>v. r = Inr v)"
  shows "ms_webhook_secret st \<noteq> [] \<and> int (length raw) \<le> ms_webhook_max_body_bytes st
    \<and> (\<exists>h. sig = Some h \<and> (strip h = hm (ms_webhook_secret st) raw
          \<or> lower (take 7 (strip h)) = ''sha256='' \<and> drop 7 (strip h) = hm (ms_webhook_secret st) raw))"
proof -
  have "\<exists>v. webhook_object hm st raw sig = Inr v"
  proof (rule ccontr)
    assume "\<not> ?thesis"
    then obtain e where "webhook_object hm st raw sig = Inl e" by (cases "webhook_object hm st raw sig") auto
    then show False using assms by (auto simp: webhook_sentry_def webhook_alert_def)
  qed
  then show ?thesis using webhook_object_signed unfolding signed_with_def by blast
qed

text \<open>A configured secret, an HMAC that returns its key, and a body with one alert.\<close>

definition demo_mon :: mon_settings where
  "demo_mon = (mon_defaults (demo_settings ''http://llm.internal''))\<lparr>ms_webhook_secret := ''k'', ms_webhook_max_alerts := 1\<rparr>"

definition demo_body :: string where
  "demo_body = [CHR 0x7B, CHR 0x22] @ ''alerts'' @ [CHR 0x22] @ '':['' @ [CHR 0x7B, CHR 0x7D] @ '','' @ [CHR 0x7B, CHR 0x7D] @ '']'' @ [CHR 0x7D]"

definition demo_hm :: hmac where
  "demo_hm k b = k"

lemma demo_mon_simps [simp]:
  "ms_webhook_secret demo_mon = ''k''" "ms_webhook_max_body_bytes demo_mon = 262144" "ms_webhook_max_alerts demo_mon = 1"
  by (simp_all add: demo_mon_def mon_defaults_def agent_settings.defs)

definition demo_alert :: signal where
  "demo_alert = \<lparr>sg_source = ''alert'', sg_fingerprint = ''alert:'', sg_title = ''alert'', sg_body = ''status: firing'',
     sg_severity = ''warning'', sg_url = PyNone,
     sg_meta = [(''alertname'', PyStr ''alert''), (''instance'', PyStr []), (''status'', PyStr ''firing''),
                (''labels'', PyDict [])]\<rparr>"

lemma demo_body_parsed: "json_loads_bytes demo_body = Inr (PyDict [(''alerts'', PyList [PyDict [], PyDict []])])"
  by code_simp

lemma demo_alerts: "parse_alert (PyDict [(''alerts'', PyList [PyDict [], PyDict []])]) = Inr [demo_alert, demo_alert]"
  by code_simp

lemma demo_object: "rbind (webhook_object demo_hm demo_mon demo_body (Some ''sha256=k'')) parse_alert = Inr [demo_alert, demo_alert]"
proof -
  have v: "verify_webhook_signature demo_hm demo_body (Some ''sha256=k'') ''k'' = Inr True" by code_simp
  have "length demo_body = 18" by code_simp
  then show ?thesis
    by (simp add: webhook_object_def verified_webhook_body_def v parse_json_body_def demo_body_parsed demo_alerts)
qed

lemma demo_webhook: "\<exists>v w'. webhook_alert demo_hm (triage down_gw demo_clk (\<lambda>s. s) (\<lambda>n a. True) demo_triage_cfg) demo_mon
    demo_body (Some ''sha256=k'') demo_world = (Inr v, w')"
proof -
  have "\<not> bad_severity (fst (ask_llm down_gw demo_clk demo_triage_cfg demo_alert (tw_llm demo_world)))"
    by (simp add: ask_llm_down bad_severity_def dget_def)
  from triage_returns [OF this] obtain q w1 where
    run: "triage down_gw demo_clk (\<lambda>s. s) (\<lambda>n a. True) demo_triage_cfg demo_alert demo_world = (Inr q, w1)" by blast
  then show ?thesis by (simp add: webhook_alert_def demo_object cap_alerts_def py_take_def)
qed

theorem webhook_effect_is_signed_witness:
  "\<exists>h. Some ''sha256=k'' = Some h \<and> (strip h = demo_hm (ms_webhook_secret demo_mon) demo_body
      \<or> lower (take 7 (strip h)) = ''sha256='' \<and> drop 7 (strip h) = demo_hm (ms_webhook_secret demo_mon) demo_body)"
proof -
  obtain v w' where run: "webhook_alert demo_hm (triage down_gw demo_clk (\<lambda>s. s) (\<lambda>n a. True) demo_triage_cfg)
      demo_mon demo_body (Some ''sha256=k'') demo_world = (Inr v, w')" using demo_webhook by blast
  show ?thesis
    by (rule webhook_effect_is_signed [where r = "Inr v" and w' = w' and w = demo_world and raw = demo_body, THEN conjunct2, THEN conjunct2])
       (auto simp: run [symmetric])
qed

section \<open>Bounded work\<close>

lemma ask_llm_sent: "ask_llm gw clk cfg sg s = (p, t) \<Longrightarrow>
    length (llm_sent s) \<le> length (llm_sent t) \<and> length (llm_sent t) \<le> Suc (length (llm_sent s))"
  by (auto simp: ask_llm_def split: prod.splits sum.splits dest!: complete_frame(2))

definition work_within :: "nat \<Rightarrow> triage_cfg \<Rightarrow> triage_world \<Rightarrow> triage_world \<Rightarrow> bool" where
  "work_within n cfg w w' \<longleftrightarrow>
     length (llm_sent (tw_llm w')) \<le> length (llm_sent (tw_llm w)) + n
     \<and> tw_attempts w' \<le> tw_attempts w + n * notify_attempts cfg
     \<and> length (tw_delivered w') \<le> length (tw_delivered w) + n"

lemma notify_llm: "notify br cfg sg sev cat hyp inc w = (r, w') \<Longrightarrow> tw_llm w' = tw_llm w"
proof -
  have "tw_llm (snd (try_publish k br a w)) = tw_llm w" for k a
    by (induction k br a w rule: try_publish.induct) (simp_all add: Let_def)
  then show "notify br cfg sg sev cat hyp inc w = (r, w') \<Longrightarrow> tw_llm w' = tw_llm w"
    by (auto simp: notify_def split: prod.splits bool.splits if_splits) (metis snd_conv)+
qed

lemma triage_llm: "triage gw clk sha br cfg sg w = (r, w') \<Longrightarrow> tw_llm w' = snd (ask_llm gw clk cfg sg (tw_llm w))"
  by (auto simp: triage_def Let_def split: prod.splits sum.splits if_splits dest!: notify_llm)

lemma triage_work: "triage gw clk sha br cfg sg w = (r, w') \<Longrightarrow> work_within 1 cfg w w'"
proof -
  assume run: "triage gw clk sha br cfg sg w = (r, w')"
  have llm: "length (llm_sent (tw_llm w')) \<le> length (llm_sent (tw_llm w)) + 1"
    using triage_llm [OF run] ask_llm_sent [of gw clk cfg sg "tw_llm w"] by (metis Suc_eq_plus1 prod.collapse)
  show ?thesis
  proof (cases r)
    case (Inl e)
    then have "tw_attempts w' = tw_attempts w" "tw_delivered w' = tw_delivered w"
      using run by (auto simp: triage_def Let_def split: prod.splits sum.splits if_splits)
    then show ?thesis using llm by (simp add: work_within_def)
  next
    case (Inr q)
    have "tw_attempts w' \<le> tw_attempts w + notify_attempts cfg \<and> length (tw_delivered w') \<le> length (tw_delivered w) + 1"
    proof -
      obtain k row a where "quiet_run q w k row w' \<or> paging_run br cfg q w k row a w'"
        using triage_run [OF run [unfolded Inr]] by (metis (no_types))
      then show ?thesis by (elim disjE) (simp_all add: quiet_run_def paging_run_def Let_def)
    qed
    then show ?thesis using llm by (simp add: work_within_def)
  qed
qed

lemma work_within_trans: "work_within m cfg w w1 \<Longrightarrow> work_within n cfg w1 w2 \<Longrightarrow> work_within (m + n) cfg w w2"
  by (simp add: work_within_def algebra_simps)

lemma work_within_mono: "work_within m cfg w w' \<Longrightarrow> m \<le> n \<Longrightarrow> work_within n cfg w w'"
  using mult_le_mono1 [of m n "notify_attempts cfg"] unfolding work_within_def by linarith

lemma triage_each_work:
  "triage_each (triage gw clk sha br cfg) sgs w = (r, w') \<Longrightarrow> work_within (length sgs) cfg w w'"
proof (induction sgs arbitrary: r w w')
  case (Cons sg sgs)
  obtain r1 w1 where one: "triage gw clk sha br cfg sg w = (r1, w1)" by fastforce
  then have w1: "work_within 1 cfg w w1" by (rule triage_work)
  show ?case
  proof (cases r1)
    case (Inl e)
    then show ?thesis using Cons.prems one work_within_mono [OF w1, of "Suc (length sgs)"] by simp
  next
    case (Inr q)
    obtain r2 w2 where rest: "triage_each (triage gw clk sha br cfg) sgs w1 = (r2, w2)" by fastforce
    have "w' = w2" using Cons.prems one Inr rest by (auto split: sum.splits)
    then show ?thesis using work_within_trans [OF w1 Cons.IH [OF rest]] by simp
  qed
qed (simp add: work_within_def)

lemma triage_each_length: "triage_each tri sgs w = (Inr rs, w') \<Longrightarrow> length rs = length sgs"
  by (induction sgs arbitrary: w rs) (auto split: prod.splits sum.splits)

lemma cap_alerts_length:
  assumes "0 \<le> ms_webhook_max_alerts st"
  shows "int (length (fst (cap_alerts st sgs))) \<le> ms_webhook_max_alerts st"
    and "int (length (fst (cap_alerts st sgs))) + snd (cap_alerts st sgs) = int (length sgs)"
  using assms by (auto simp: cap_alerts_def Let_def py_take_def min_def)

lemma work_within_int:
  assumes "m = int n" and "work_within n cfg w w'"
  shows "int (length (llm_sent (tw_llm w'))) \<le> int (length (llm_sent (tw_llm w))) + m"
    and "int (length (tw_delivered w')) \<le> int (length (tw_delivered w)) + m"
    and "int (tw_attempts w') \<le> int (tw_attempts w) + m * max 1 (tc_notify_max_attempts cfg)"
proof -
  have "int (notify_attempts cfg) = max 1 (tc_notify_max_attempts cfg)" by (simp add: notify_attempts_def)
  moreover have "int (tw_attempts w') \<le> int (tw_attempts w + n * notify_attempts cfg)"
    using assms(2) unfolding work_within_def by linarith
  ultimately show "int (tw_attempts w') \<le> int (tw_attempts w) + m * max 1 (tc_notify_max_attempts cfg)"
    using assms(1) by simp
qed (use assms in \<open>simp_all add: work_within_def\<close>)

text \<open>Whatever the body of an alert webhook, at most \<open>webhook_max_alerts\<close> alerts are classified:
  that many model requests and pages, and for each at most the configured number of publish
  attempts. An answered request accounts for every alert of the body: those triaged, with one
  incident each, and those dropped.\<close>

theorem webhook_work_bounded:
  assumes "0 \<le> ms_webhook_max_alerts st"
  shows "case webhook_alert hm (triage gw clk sha br cfg) st raw sig w of (r, w') \<Rightarrow>
      int (length (llm_sent (tw_llm w'))) \<le> int (length (llm_sent (tw_llm w))) + ms_webhook_max_alerts st
    \<and> int (length (tw_delivered w')) \<le> int (length (tw_delivered w)) + ms_webhook_max_alerts st
    \<and> int (tw_attempts w') \<le> int (tw_attempts w) + ms_webhook_max_alerts st * max 1 (tc_notify_max_attempts cfg)
    \<and> (\<forall>v. r = Inr v \<longrightarrow> (\<exists>sgs rs. rbind (webhook_object hm st raw sig) parse_alert = Inr sgs
          \<and> v = alert_response rs (length rs) (int (length sgs) - int (length rs))
          \<and> int (length rs) = min (int (length sgs)) (ms_webhook_max_alerts st)))"
proof (cases "rbind (webhook_object hm st raw sig) parse_alert")
  case (Inl e)
  then have "webhook_alert hm (triage gw clk sha br cfg) st raw sig w = (Inl e, w)" by (simp add: webhook_alert_def)
  then show ?thesis using assms by (simp add: mult_nonneg_nonneg)
next
  case (Inr sgs)
  let ?c = "fst (cap_alerts st sgs)" and ?m = "ms_webhook_max_alerts st"
  obtain r w' where run: "triage_each (triage gw clk sha br cfg) ?c w = (r, w')" by fastforce
  note c = cap_alerts_length [OF assms, of sgs]
  obtain n where n: "?m = int n" using assms by (metis nonneg_int_cases)
  have "length ?c \<le> n" using c(1) n by simp
  then have ww: "work_within n cfg w w'" by (rule work_within_mono [OF triage_each_work [OF run]])
  have work: "int (length (llm_sent (tw_llm w'))) \<le> int (length (llm_sent (tw_llm w))) + ?m"
    "int (length (tw_delivered w')) \<le> int (length (tw_delivered w)) + ?m"
    "int (tw_attempts w') \<le> int (tw_attempts w) + ?m * max 1 (tc_notify_max_attempts cfg)"
    by (rule work_within_int [OF n ww])+
  have m: "int (length ?c) = min (int (length sgs)) ?m"
    using assms by (auto simp: cap_alerts_def Let_def py_take_def)
  have run2: "webhook_alert hm (triage gw clk sha br cfg) st raw sig w =
      (case r of Inl e \<Rightarrow> Inl e | Inr rs \<Rightarrow> Inr (alert_response rs (length ?c) (snd (cap_alerts st sgs))), w')"
    by (cases "cap_alerts st sgs"; cases r) (use Inr run in \<open>simp_all add: webhook_alert_def\<close>)
  have resp: "\<exists>rs. v = alert_response rs (length rs) (int (length sgs) - int (length rs))
      \<and> int (length rs) = min (int (length sgs)) ?m"
    if v: "(case r of Inl e \<Rightarrow> Inl e | Inr rs \<Rightarrow> Inr (alert_response rs (length ?c) (snd (cap_alerts st sgs)))) = Inr v" for v
  proof -
    obtain rs where rs: "r = Inr rs" using v by (cases r) auto
    then have "length rs = length ?c" using triage_each_length run by blast
    moreover have "snd (cap_alerts st sgs) = int (length sgs) - int (length ?c)" using c(2) by linarith
    ultimately show ?thesis using v rs m by (intro exI [of _ rs]) simp
  qed
  show ?thesis unfolding run2 prod.case using work resp Inr by blast
qed

theorem webhook_work_bounded_witness:
  "\<exists>v w'. webhook_alert demo_hm (triage down_gw demo_clk (\<lambda>s. s) (\<lambda>n a. True) demo_triage_cfg) demo_mon
      demo_body (Some ''sha256=k'') demo_world = (Inr v, w')
    \<and> length (tw_delivered w') \<le> 1 \<and> tw_attempts w' \<le> 2"
proof -
  obtain v w' where run: "webhook_alert demo_hm (triage down_gw demo_clk (\<lambda>s. s) (\<lambda>n a. True) demo_triage_cfg)
      demo_mon demo_body (Some ''sha256=k'') demo_world = (Inr v, w')" using demo_webhook by blast
  have "int (length (tw_delivered w')) \<le> int (length (tw_delivered demo_world)) + 1
      \<and> int (tw_attempts w') \<le> int (tw_attempts demo_world) + 1 * max 1 (tc_notify_max_attempts demo_triage_cfg)"
    using webhook_work_bounded [where st = demo_mon and hm = demo_hm and gw = down_gw and clk = demo_clk and sha = "\<lambda>s. s"
      and br = "\<lambda>n a. True" and cfg = demo_triage_cfg and raw = demo_body and sig = "Some ''sha256=k''" and w = demo_world]
    unfolding run prod.case demo_mon_simps by simp
  then show ?thesis using run by (auto simp: demo_world_def demo_triage_cfg_def)
qed

end
