(* ===== verification/MetaProps.thy ===== *)
theory MetaProps
  imports Sweep
begin

text \<open>
  The sweeps of the monitoring agent: which targets can end a health sweep, what a health sweep
  reports, that the collectors of a meta sweep do not disturb each other, and what the streaks and the
  restart counts kept between sweeps make of failures.
\<close>

section \<open>Loops that may raise\<close>

lemma rmap_raises_iff: "(\<exists>e. rmap f xs = Inl e) \<longleftrightarrow> (\<exists>x \<in> set xs. \<exists>e. f x = Inl e)"
proof (induction xs)
  case (Cons x xs)
  then show ?case by (cases "f x"; cases "rmap f xs") auto
qed simp

lemma rmap_Inr_iff: "rmap f xs = Inr ys \<longleftrightarrow> list_all2 (\<lambda>x y. f x = Inr y) xs ys"
  by (induction xs arbitrary: ys) (auto simp: rbind_eq_Inr_iff list_all2_Cons1)

section \<open>Health sweep\<close>

definition port_raises :: "string \<Rightarrow> bool" where
  "port_raises t \<longleftrightarrow> (\<exists>p e. urlparse t = Inr p \<and> url_scheme p = ''https'' \<and> url_port p = Inl e)"

lemma probe_target_raises:
  "(\<exists>e. probe_target net t = Inl e) \<longleftrightarrow>
     is_probeable_url t \<and> ((\<exists>x. po_get (net t) = HttpRaise x) \<or> port_raises t)"
proof (cases "is_probeable_url t")
  case True
  then obtain p where p: "urlparse t = Inr p" by (auto simp: is_probeable_url_def split: sum.splits)
  show ?thesis
    by (cases "po_get (net t)"; cases "url_port p")
      (auto simp: True p probe_target_def tls_expiry_days_def port_raises_def rbind_def Let_def split: sum.splits)
qed (simp add: probe_target_def)

lemma probe_target_keeps: "probe_target net t = Inr r \<Longrightarrow> pr_target r = t"
  by (auto simp: probe_target_def Let_def rbind_eq_Inr_iff split: if_splits)

lemma probe_to_signal_raises: "(\<exists>e. probe_to_signal slow warn r = Inl e) \<longleftrightarrow> (\<exists>e. urlparse (pr_target r) = Inl e)"
  by (cases "urlparse (pr_target r)") (auto simp: probe_to_signal_def target_host_def Let_def split: if_splits option.splits)

text \<open>
  C19: A health sweep raises, and then triages nothing, exactly when one of its targets is a URL that
  does not parse, or is probed and meets an exception other than a network error, or is an https URL
  with a malformed port. Each of these is one line of configuration that silences every other target.
\<close>
theorem sweep_raises_iff:
  "(\<exists>e. sweep net targets slow warn = Inl e) \<longleftrightarrow>
     (\<exists>t \<in> set targets. (\<exists>e. urlparse t = Inl e)
        \<or> is_probeable_url t \<and> ((\<exists>x. po_get (net t) = HttpRaise x)
            \<or> (\<exists>p e. urlparse t = Inr p \<and> url_scheme p = ''https'' \<and> url_port p = Inl e)))"
proof (cases "rmap (probe_target net) targets")
  case (Inl e)
  then obtain t where t: "t \<in> set targets" "\<exists>e. probe_target net t = Inl e" by (metis rmap_raises_iff)
  have "sweep net targets slow warn = Inl e" by (simp add: sweep_def Inl)
  with t show ?thesis unfolding probe_target_raises port_raises_def by meson
next
  case (Inr rs)
  then have no: "\<forall>t \<in> set targets. \<not> (\<exists>e. probe_target net t = Inl e)" by (metis Inl_Inr_False rmap_raises_iff)
  from Inr have "list_all2 (\<lambda>t r. probe_target net t = Inr r) targets rs" by (simp add: rmap_Inr_iff)
  then have "map pr_target rs = targets" by (induction rule: list_all2_induct) (simp_all add: probe_target_keeps)
  then have t: "targets = map pr_target rs" ..
  have "(\<exists>e. sweep net targets slow warn = Inl e) \<longleftrightarrow> (\<exists>e. rmap (probe_to_signal slow warn) rs = Inl e)"
    by (auto simp: sweep_def Inr rbind_eq_Inl_iff)
  also have "\<dots> \<longleftrightarrow> (\<exists>t \<in> set targets. \<exists>e. urlparse t = Inl e)"
    by (simp add: rmap_raises_iff probe_to_signal_raises t)
  finally have "(\<exists>e. sweep net targets slow warn = Inl e) \<longleftrightarrow> (\<exists>t \<in> set targets. \<exists>e. urlparse t = Inl e)" .
  moreover have "\<not> (is_probeable_url t \<and> ((\<exists>x. po_get (net t) = HttpRaise x) \<or> port_raises t))" if "t \<in> set targets" for t
    using no that probe_target_raises by blast
  ultimately show ?thesis unfolding port_raises_def by meson
qed

text \<open>The worst condition of one target, as \<open>(fingerprint, severity)\<close>: down, slow, expiring certificate.\<close>

definition worst_condition :: "probe_obs \<Rightarrow> rat \<Rightarrow> int \<Rightarrow> string \<Rightarrow> (string \<times> string) option" where
  "worst_condition ob slow warn t =
     (if \<not> is_probeable_url t then Some (''down:'' @ t, ''critical'')
      else case po_get ob of
        HttpOk sc \<Rightarrow>
          if 500 \<le> sc then Some (''down:'' @ t, ''critical'')
          else if slow < py_round 4 (po_elapsed ob) then Some (''slow:'' @ t, ''warning'')
          else (case (urlparse t, po_tls ob) of
                  (Inr p, Inr (Some d)) \<Rightarrow>
                    if url_scheme p = ''https'' \<and> d \<le> warn
                    then Some (''cert:'' @ t, if d \<le> 3 then ''critical'' else ''warning'') else None
                | _ \<Rightarrow> None)
      | _ \<Rightarrow> Some (''down:'' @ t, ''critical''))"

lemma one_target:
  assumes "probe_target net t = Inr r" and "probe_to_signal slow warn r = Inr s"
  shows "map_option (\<lambda>s. (sg_fingerprint s, sg_severity s)) s = worst_condition (net t) slow warn t"
proof (cases "is_probeable_url t")
  case False
  with assms show ?thesis
    by (auto simp: probe_target_def worst_condition_def probe_to_signal_def Let_def rbind_eq_Inr_iff)
next
  case True
  then obtain p h where p: "urlparse t = Inr p" "url_hostname p = Some h"
    by (auto simp: is_probeable_url_def split: sum.splits)
  show ?thesis
  proof (cases "po_get (net t)")
    case (HttpOk sc)
    obtain d where d: "tls_expiry_days (po_tls (net t)) t = Inr d"
      using assms(1) HttpOk by (auto simp: True probe_target_def Let_def rbind_eq_Inr_iff)
    have r: "r = \<lparr>pr_target = t, pr_ok = (sc < 500), pr_status_code = Some sc,
        pr_latency = Some (py_round 4 (po_elapsed (net t))), pr_tls_days = d, pr_error = None\<rparr>"
      using assms(1) HttpOk d by (simp add: True probe_target_def Let_def)
    have d': "d = (case po_tls (net t) of Inl _ \<Rightarrow> None | Inr v \<Rightarrow> if url_scheme p = ''https'' then v else None)"
      using d p by (auto simp: tls_expiry_days_def rbind_eq_Inr_iff split: sum.splits if_splits)
    show ?thesis
    proof (cases "sc < 500 \<and> \<not> slow < py_round 4 (po_elapsed (net t))")
      case True
      then have "s = cert_signal h t warn d"
        using assms(2) p by (simp add: r probe_to_signal_def target_host_def Let_def)
      then show ?thesis using True p HttpOk \<open>is_probeable_url t\<close>
        by (auto simp: d' worst_condition_def cert_signal_def split: sum.split option.split)
    next
      case False
      then show ?thesis using assms(2) p HttpOk \<open>is_probeable_url t\<close>
        by (auto simp: r probe_to_signal_def target_host_def worst_condition_def Let_def split: if_splits)
    qed
  next
    case (HttpErr e)
    then show ?thesis using assms p
      by (auto simp: True probe_target_def worst_condition_def probe_to_signal_def Let_def rbind_eq_Inr_iff)
  next
    case (HttpRaise x)
    then show ?thesis using assms(1) by (simp add: True probe_target_def Let_def)
  qed
qed

text \<open>
  C20: A health sweep that returns reports each unhealthy target once, in the order of the targets, by
  its worst condition: unreachable, rejected or answering 5xx before slow before an expiring
  certificate; a healthy target is not reported.
\<close>
theorem sweep_reports_worst_condition:
  assumes "sweep net targets slow warn = Inr sigs"
  shows "map (\<lambda>s. (sg_fingerprint s, sg_severity s)) sigs =
    List.map_filter (\<lambda>t. worst_condition (net t) slow warn t) targets"
proof -
  from assms obtain rs ss where r: "rmap (probe_target net) targets = Inr rs"
    and s: "rmap (probe_to_signal slow warn) rs = Inr ss" and sigs: "sigs = List.map_filter (\<lambda>s. s) ss"
    by (auto simp: sweep_def rbind_eq_Inr_iff)
  have "list_all2 (\<lambda>t s. map_option (\<lambda>s. (sg_fingerprint s, sg_severity s)) s = worst_condition (net t) slow warn t) targets ss"
    using list_all2_trans [OF one_target r [unfolded rmap_Inr_iff] s [unfolded rmap_Inr_iff]] .
  then show ?thesis unfolding sigs
  proof (induction rule: list_all2_induct)
    case (Cons t ts s ss)
    then show ?case by (cases s) (simp_all add: map_filter_simps flip: Cons.hyps(1))
  qed (simp add: map_filter_simps)
qed

definition demo_net :: "string \<Rightarrow> probe_obs" where
  "demo_net t = \<lparr>po_get = HttpOk 200, po_elapsed = 0, po_tls = Inr None\<rparr>"

lemma demo_rejected:
  "urlparse ''x'' = Inr \<lparr>url_scheme = [], url_netloc = []\<rparr>"
  "is_probeable_url ''x'' = False"
  by code_simp+

theorem sweep_reports_worst_condition_witness:
  "\<exists>sigs. sweep demo_net [''x''] 1 7 = Inr sigs
     \<and> map (\<lambda>s. (sg_fingerprint s, sg_severity s)) sigs = [(''down:x'', ''critical'')]"
proof -
  have "\<exists>sigs. sweep demo_net [''x''] 1 7 = Inr sigs"
    by (simp add: sweep_def probe_target_def demo_rejected probe_to_signal_def target_host_def Let_def)
  then obtain sigs where q: "sweep demo_net [''x''] 1 7 = Inr sigs" ..
  from sweep_reports_worst_condition [OF q] q show ?thesis
    by (simp add: worst_condition_def demo_rejected map_filter_simps)
qed

section \<open>Streaks\<close>

definition run_writes :: "(string \<times> probe_write) list \<Rightarrow> probe_table \<Rightarrow> probe_table" where
  "run_writes ws t = fold (\<lambda>(k, x). upsert_row probe_merge k x) ws t"

definition outcomes :: "string \<Rightarrow> (string \<times> probe_write) list \<Rightarrow> bool list" where
  "outcomes k ws = List.map_filter (\<lambda>p. case p of (k', Endpoint ok _) \<Rightarrow> if k' = k then Some ok else None | _ \<Rightarrow> None) ws"

text \<open>How many failures end a list of outcomes.\<close>

definition trailing_failures :: "bool list \<Rightarrow> nat" where
  "trailing_failures oks = length (takeWhile Not (rev oks))"

definition streak_of :: "probe_state option \<Rightarrow> int" where
  "streak_of r = (case r of None \<Rightarrow> 0 | Some p \<Rightarrow> pb_fail_streak p)"

lemma streak_merge:
  "streak_of (Some (probe_merge x r)) =
     (case x of Endpoint ok _ \<Rightarrow> if ok then 0 else streak_of r + 1 | _ \<Rightarrow> streak_of r)"
  by (simp add: streak_of_def probe_merge_def fresh_probe_def split: option.split probe_write.split)

lemma streak_history:
  "streak_of (map_of (run_writes ws []) k) = int (trailing_failures (outcomes k ws))"
proof (induction ws rule: rev_induct)
  case (snoc p ws)
  obtain k' x where p: "p = (k', x)" by (cases p)
  have "map_of (run_writes (ws @ [p]) []) k =
      (if k = k' then Some (probe_merge x (map_of (run_writes ws []) k)) else map_of (run_writes ws []) k)"
    by (simp add: p run_writes_def prb.get_put)
  with snoc show ?case
    by (auto simp: p streak_merge outcomes_def map_filter_def trailing_failures_def split: probe_write.split)
qed (simp add: streak_of_def run_writes_def outcomes_def trailing_failures_def map_filter_def)

text \<open>
  However the writes of agents, containers and queues to the probe table were interleaved before,
  an agent is reported down in a sweep exactly if its liveness probe fails and it is at least the
  configured number of times in a row that it has failed, this time included.
\<close>
theorem down_exactly_after_streak:
  assumes "probe_agent_endpoint (mn_endpoints net agent) agent url = Inr res"
  shows "(\<exists>s \<in> set (fst (meta_endpoint net cfg now (agent, url) ([], run_writes ws []))).
            sg_fingerprint s = ''agent-down:'' @ agent) \<longleftrightarrow>
    \<not> er_healthz_ok res
    \<and> sc_fail_streak_to_alert cfg \<le> int (trailing_failures (outcomes (''endpoint:'' @ agent) ws @ [False]))"
proof -
  let ?k = "''endpoint:'' @ agent"
  have a: "er_agent res = agent"
    using assms by (auto simp: probe_agent_endpoint_def Let_def split: if_splits http.splits)
  have "fst (record_endpoint ?k ok now (run_writes ws [])) =
      int (trailing_failures (outcomes ?k ws @ [ok]))" for ok
    using streak_history [of "ws @ [(?k, Endpoint ok now)]" ?k]
    by (simp add: record_endpoint_def Let_def run_writes_def streak_of_def outcomes_def map_filter_def split: option.splits)
  note st = this [of "er_healthz_ok res"]
  show ?thesis
    using st assms by (auto simp: meta_endpoint_def endpoint_to_signals_def a Let_def split: prod.split option.split)
qed

definition demo_sweep_cfg :: sweep_cfg where
  "demo_sweep_cfg = \<lparr>sc_targets = [], sc_slow_threshold = 1, sc_cert_warn_days = 7, sc_agent_endpoints = [],
     sc_fail_streak_to_alert = 2, sc_watched_containers = [''db''], sc_restart_loop_threshold = 3, sc_watched_queues = [],
     sc_queue_depth_threshold = 10, sc_heartbeat_sources = [], sc_mem_avail_warn_mb = 100, sc_swap_used_warn_mb = 100,
     sc_incident_retention_days = 30, sc_probe_state_retention_days = 30, sc_poll_interval = 60, sc_meta_enabled = True,
     sc_meta_poll_interval = 60, sc_prune_interval = 3600\<rparr>"

definition demo_meta_net :: meta_net where
  "demo_meta_net = \<lparr>mn_endpoints = (\<lambda>a. \<lparr>eo_healthz = HttpErr ''e'', eo_elapsed = 0, eo_readyz = HttpErr ''e''\<rparr>),
     mn_listing = HttpOk (Some (PyList [PyDict [(''Id'', PyStr ''7''), (''Names'', PyList [PyStr ''/db''])]])),
     mn_inspect = (\<lambda>c. HttpOk (Some (PyDict [(''RestartCount'', PyInt 5), (''State'', PyDict [(''Status'', PyStr ''running'')])]))),
     mn_queues = HttpErr ''e'', mn_dbs = None, mn_meminfo = None\<rparr>"

lemma demo_threshold: "sc_fail_streak_to_alert demo_sweep_cfg = 2"
  by (simp add: demo_sweep_cfg_def)

theorem down_exactly_after_streak_witness:
  "\<exists>s \<in> set (fst (meta_endpoint demo_meta_net demo_sweep_cfg 9 (''a'', ''x'')
      ([], run_writes [(''endpoint:a'', Endpoint False 8)] []))). sg_fingerprint s = ''agent-down:a''"
proof -
  obtain res where r: "probe_agent_endpoint (mn_endpoints demo_meta_net ''a'') ''a'' ''x'' = Inr res" "\<not> er_healthz_ok res"
    by (simp add: probe_agent_endpoint_def demo_rejected Let_def)
  from down_exactly_after_streak [OF r(1), of demo_sweep_cfg 9 "[(''endpoint:a'', Endpoint False 8)]"] r(2) show ?thesis
    by (simp add: demo_threshold outcomes_def map_filter_simps trailing_failures_def)
qed

section \<open>Restart counts\<close>

lemma inspect_unreachable: "\<exists>st. inspect_one (\<lambda>c. HttpErr e) by name = Inr (blank_container name st)"
proof (cases "map_of by name")
  case (Some cid)
  then show ?thesis by (cases cid) (auto simp: inspect_one_def)
qed (auto simp: inspect_one_def)

lemma parse_keeps_name: "parse_container_inspect name data = Inr cs \<Longrightarrow> cs_name cs = name"
  by (auto simp: parse_container_inspect_def Let_def rbind_eq_Inr_iff)

lemma inspect_keeps_name:
  assumes "inspect_one inspect by name = Inr cs"
  shows "cs_name cs = name"
proof (cases "map_of by name")
  case None
  with assms show ?thesis by (auto simp: inspect_one_def blank_container_def)
next
  case (Some cid)
  show ?thesis
  proof (cases "cid = PyNone")
    case True
    with Some assms show ?thesis by (auto simp: inspect_one_def blank_container_def)
  next
    case False
    have "inspect_one inspect by name = (case inspect cid of
             HttpRaise x \<Rightarrow> Inl x
           | HttpErr e \<Rightarrow> Inr (blank_container name ''unknown'')
           | HttpOk None \<Rightarrow> Inr (blank_container name ''unknown'')
           | HttpOk (Some data) \<Rightarrow>
               (case parse_container_inspect name data of
                  Inl ValueError \<Rightarrow> Inr (blank_container name ''unknown'')
                | r \<Rightarrow> r))"
      using Some False by (cases cid) (simp_all add: inspect_one_def)
    with assms show ?thesis
      by (auto simp: blank_container_def parse_keeps_name split: http.splits option.splits sum.splits pyexc.splits)
  qed
qed

lemma collect_one:
  "collect_container_states listing inspect [name] = Inr [cs] \<longleftrightarrow>
     (\<exists>v by. listing = HttpOk (Some v) \<and> rfold (add_listing [name]) (case v of PyList vs \<Rightarrow> vs | _ \<Rightarrow> []) [] = Inr by
        \<and> inspect_one inspect by name = Inr cs)"
  by (auto simp: collect_container_states_def rbind_eq_Inr_iff split: http.split option.split)

lemma crashloop_iff:
  "(\<exists>s \<in> set (container_to_signals prev thr cs).
       sg_fingerprint s = ''container-crashloop:'' @ cs_name cs \<and> sg_severity s = ''critical'') \<longleftrightarrow>
     (case prev of None \<Rightarrow> False | Some p \<Rightarrow> thr \<le> cs_restart_count cs - p)"
  by (cases prev) (auto simp: container_to_signals_def Let_def split: if_splits)

text \<open>
  A container whose restart count has not moved is reported, as critical, as crash-looping when one
  inspection of it fails: the failed inspection is recorded as a restart count of zero, and the next
  good one is compared with that. Without the failed inspection in between nothing is reported.
\<close>
theorem failed_inspect_fakes_crashloop:
  assumes "collect_container_states (mn_listing net) (mn_inspect net) [name] = Inr [cs]"
    and "sc_watched_containers cfg = [name]"
    and "0 < sc_restart_loop_threshold cfg" and "sc_restart_loop_threshold cfg \<le> cs_restart_count cs"
  shows "let pt1 = snd (meta_containers net cfg t1 ([], pt));
             pt2 = snd (meta_containers (net\<lparr>mn_inspect := \<lambda>c. HttpErr e\<rparr>) cfg t2 ([], pt1));
             crashloop = (\<lambda>s. sg_fingerprint s = ''container-crashloop:'' @ name \<and> sg_severity s = ''critical'')
         in (\<exists>s \<in> set (fst (meta_containers net cfg t3 ([], pt2))). crashloop s)
            \<and> \<not> (\<exists>s \<in> set (fst (meta_containers net cfg t3 ([], pt1))). crashloop s)"
proof -
  let ?k = "''container:'' @ name"
  obtain st where bad: "collect_container_states (mn_listing net) (\<lambda>c. HttpErr e) [name] = Inr [blank_container name st]"
    using assms(1) inspect_unreachable unfolding collect_one by metis
  have nm: "cs_name cs = name" using assms(1) inspect_keeps_name unfolding collect_one by metis
  have good: "meta_containers net cfg t ([], q) =
      (container_to_signals (fst (record_restart ?k (cs_restart_count cs) t q)) (sc_restart_loop_threshold cfg) cs,
       snd (record_restart ?k (cs_restart_count cs) t q))" for t q
    by (simp add: meta_containers_def assms(1,2) meta_container_def nm split: prod.split)
  have fail: "snd (meta_containers (net\<lparr>mn_inspect := \<lambda>c. HttpErr e\<rparr>) cfg t ([], q)) = snd (record_restart ?k 0 t q)" for t q
    by (simp add: meta_containers_def assms(2) bad meta_container_def blank_container_def split: prod.split)
  have last: "fst (record_restart ?k n t' (snd (record_restart ?k m t q))) = Some m" for n m t t' q
    by (auto simp: record_restart_def prb.get_put probe_merge_def split: option.split)
  show ?thesis
    unfolding Let_def good fail fst_conv snd_conv last crashloop_iff [of _ _ cs, unfolded nm] using assms(3,4) by simp
qed

lemma demo_container:
  "collect_container_states (mn_listing demo_meta_net) (mn_inspect demo_meta_net) [''db''] =
     Inr [\<lparr>cs_name = ''db'', cs_status = ''running'', cs_oom_killed = False, cs_restart_count = 5,
          cs_health = PyNone, cs_exit_code = None\<rparr>]"
  by code_simp

theorem failed_inspect_fakes_crashloop_witness:
  "let pt1 = snd (meta_containers demo_meta_net demo_sweep_cfg 1 ([], []));
       pt2 = snd (meta_containers (demo_meta_net\<lparr>mn_inspect := \<lambda>c. HttpErr ''e''\<rparr>) demo_sweep_cfg 2 ([], pt1))
   in \<exists>s \<in> set (fst (meta_containers demo_meta_net demo_sweep_cfg 3 ([], pt2))).
        sg_fingerprint s = ''container-crashloop:'' @ ''db''"
proof -
  have c: "sc_watched_containers demo_sweep_cfg = [''db'']" "sc_restart_loop_threshold demo_sweep_cfg = 3"
    by (simp_all add: demo_sweep_cfg_def)
  from failed_inspect_fakes_crashloop [where cfg = demo_sweep_cfg and ?t1.0 = 1 and ?t2.0 = 2
      and ?t3.0 = 3 and pt = "[]" and e = "''e''", OF demo_container c(1)]
  show ?thesis unfolding Let_def c(2) by auto
qed

section \<open>Isolation of the collectors\<close>

text \<open>Two runs side by side: the same new signals after different old ones, and the same rows under a prefix.\<close>

definition side_by_side :: "string \<Rightarrow> signal list \<Rightarrow> signal list \<Rightarrow> signal list \<times> probe_table \<Rightarrow> signal list \<times> probe_table \<Rightarrow> bool" where
  "side_by_side pre s0 s1 a b \<longleftrightarrow>
     (\<exists>d. fst a = s0 @ d \<and> fst b = s1 @ d) \<and> (\<forall>k. map_of (snd a) (pre @ k) = map_of (snd b) (pre @ k))"

lemma side_by_side_fold:
  assumes "\<And>x a b. side_by_side pre s0 s1 a b \<Longrightarrow> side_by_side pre s0 s1 (f x a) (f x b)" and "side_by_side pre s0 s1 a b"
  shows "side_by_side pre s0 s1 (fold f xs a) (fold f xs b)"
  using assms(2) by (induction xs arbitrary: a b) (simp_all add: assms(1))

lemma side_by_side_container:
  "side_by_side ''container:'' s0 s1 a b \<Longrightarrow>
     side_by_side ''container:'' s0 s1 (meta_container cfg now st a) (meta_container cfg now st b)"
  by (cases a; cases b) (auto simp: side_by_side_def meta_container_def record_restart_def prb.get_put)

lemma side_by_side_queue:
  "side_by_side ''queue:'' s0 s1 a b \<Longrightarrow> side_by_side ''queue:'' s0 s1 (meta_queue cfg now nd a) (meta_queue cfg now nd b)"
  by (cases a; cases b; cases nd) (auto simp: side_by_side_def meta_queue_def record_depth_def prb.get_put)

lemma side_by_side_containers:
  "side_by_side ''container:'' s0 s1 a b \<Longrightarrow>
     side_by_side ''container:'' s0 s1 (meta_containers net cfg now a) (meta_containers net cfg now b)"
  by (simp add: meta_containers_def side_by_side_fold side_by_side_container split: sum.split)

lemma side_by_side_queues:
  "side_by_side ''queue:'' s0 s1 a b \<Longrightarrow> side_by_side ''queue:'' s0 s1 (meta_queues net cfg now a) (meta_queues net cfg now b)"
  by (simp add: meta_queues_def side_by_side_fold side_by_side_queue split: sum.split)

text \<open>Rows under another prefix are left alone.\<close>

definition leaves :: "string \<Rightarrow> (signal list \<times> probe_table \<Rightarrow> signal list \<times> probe_table) \<Rightarrow> bool" where
  "leaves pre f \<longleftrightarrow> (\<forall>a k. map_of (snd (f a)) (pre @ k) = map_of (snd a) (pre @ k))"

lemma leaves_fold: "(\<And>x. leaves pre (f x)) \<Longrightarrow> leaves pre (fold f xs)"
  by (induction xs) (simp_all add: leaves_def del: split_paired_All)

lemma leaves_endpoint [frame]:
  "leaves ''container:'' (meta_endpoint net cfg now au)" "leaves ''queue:'' (meta_endpoint net cfg now au)"
  by (auto simp: leaves_def meta_endpoint_def record_endpoint_def prb.get_put Let_def split: prod.splits sum.splits)

lemma leaves_container [frame]: "leaves ''queue:'' (meta_container cfg now st)"
  by (auto simp: leaves_def meta_container_def record_restart_def prb.get_put split: prod.splits)

lemma leaves_containers [frame]: "leaves ''queue:'' (meta_containers net cfg now)"
  using leaves_fold [where f = "meta_container cfg now", OF leaves_container]
  by (auto simp: leaves_def meta_containers_def split: sum.split)

text \<open>
  C21: The collectors of a meta sweep are isolated. The sweep's signals are, source by source, those
  each collector finds when it runs alone on the probe table the sweep started from: a source that
  raises only takes away its own signals, and no source reads what another has written.
\<close>
theorem collectors_isolated:
  "fst (collect_meta_signals net cfg now pt) =
     fst (fold (meta_endpoint net cfg now) (sc_agent_endpoints cfg) ([], pt))
     @ fst (meta_containers net cfg now ([], pt))
     @ fst (meta_queues net cfg now ([], pt))
     @ meta_heartbeats net cfg now
     @ meta_host net cfg"
proof -
  let ?a = "fold (meta_endpoint net cfg now) (sc_agent_endpoints cfg) ([], pt)"
  let ?b = "meta_containers net cfg now ?a"
  have ac: "side_by_side ''container:'' (fst ?a) [] ?a ([], pt)" and aq: "side_by_side ''queue:'' (fst ?a) [] ?a ([], pt)"
    using leaves_fold [where f = "meta_endpoint net cfg now", OF leaves_endpoint(1)]
      leaves_fold [where f = "meta_endpoint net cfg now", OF leaves_endpoint(2)]
    by (auto simp: side_by_side_def leaves_def)
  from side_by_side_containers [OF ac, of net cfg now]
  have b: "fst ?b = fst ?a @ fst (meta_containers net cfg now ([], pt))" by (auto simp: side_by_side_def)
  have "side_by_side ''queue:'' (fst ?b) [] ?b ([], pt)"
    using aq leaves_containers [of net cfg now, unfolded leaves_def, rule_format, of ?a]
    unfolding side_by_side_def by simp
  from side_by_side_queues [OF this, of net cfg now]
  have "fst (meta_queues net cfg now ?b) = fst ?b @ fst (meta_queues net cfg now ([], pt))" by (auto simp: side_by_side_def)
  then show ?thesis by (simp add: collect_meta_signals_def Let_def b)
qed

end
