(* ===== verification/AgentHistory.thy ===== *)
theory AgentHistory
  imports MonApiProps MetaProps
begin

text \<open>
  The whole life of the monitoring agent: any sequence of signed webhooks, scheduled and requested
  sweeps, retention jobs, restarts, kills in the middle of a run, and waiting. What it does to the
  operators is compared with a specification that never looks at the database: a log of the
  problems seen, in which each outcome is decided by the earlier entries of the same problem. Runs
  of the triage graph are taken one after the other here; TriageConc lets them interleave.
\<close>

section \<open>The log\<close>

text \<open>\<open>Cut b\<close>: the process was killed during the run's publish attempts; \<open>b\<close> says whether one had delivered.\<close>

datatype outcome = Quiet | Paged | Failed | Cut bool

record page_entry =
  pe_key :: string
  pe_time :: secs
  pe_severity :: string
  pe_outcome :: outcome

type_synonym page_log = "page_entry list"

definition entries :: "string \<Rightarrow> page_log \<Rightarrow> page_log" where
  "entries k l = filter (\<lambda>e. pe_key e = k) l"

text \<open>A page is owed when the last one that was reported as delivered or failed had failed.\<close>

definition owed_after :: "page_entry \<Rightarrow> bool \<Rightarrow> bool" where
  "owed_after e b = (case pe_outcome e of Paged \<Rightarrow> False | Failed \<Rightarrow> True | _ \<Rightarrow> b)"

definition owed :: "string \<Rightarrow> page_log \<Rightarrow> bool" where
  "owed k l = fold owed_after (entries k l) False"

definition last_time :: "string \<Rightarrow> page_log \<Rightarrow> secs option" where
  "last_time k l = (if entries k l = [] then None else Some (pe_time (last (entries k l))))"

definition page_due :: "secs \<Rightarrow> page_log \<Rightarrow> page_entry \<Rightarrow> bool" where
  "page_due win l e =
     (case last_time (pe_key e) l of None \<Rightarrow> True
      | Some t \<Rightarrow> win \<le> pe_time e - t \<or> pe_severity e = ''critical'' \<or> owed (pe_key e) l)"

fun log_decided :: "secs \<Rightarrow> page_log \<Rightarrow> page_log \<Rightarrow> bool" where
  "log_decided win l [] = True"
| "log_decided win l (e # es) = ((pe_outcome e \<noteq> Quiet) = page_due win l e \<and> log_decided win (l @ [e]) es)"

definition delivers :: "page_entry \<Rightarrow> bool" where
  "delivers e = (pe_outcome e \<in> {Paged, Cut True})"

text \<open>The pages of a log as the operators see them: the problem and its severity.\<close>

definition pages_of :: "page_log \<Rightarrow> (string option \<times> string) list" where
  "pages_of l = map (\<lambda>e. (Some (pe_key e), pe_severity e)) (filter delivers l)"

definition page_of :: "alert \<Rightarrow> string option \<times> string" where
  "page_of a = (al_dedup_key a, al_severity a)"

section \<open>The agent\<close>

text \<open>What one deployment fixes, and what changes from one run to the next: the model behind the
  gateway, the monotonic clock, the broker, and how long the classification took before the upsert
  read the database's clock.\<close>

record deployment =
  dp_hmac :: hmac
  dp_jwt :: jwtlib
  dp_sha :: "string \<Rightarrow> string"
  dp_settings :: mon_settings

record run_env =
  re_gateway :: "response gateway"
  re_clock :: "nat \<Rightarrow> secs"
  re_broker :: "nat \<Rightarrow> alert \<Rightarrow> bool"
  re_delay :: "triage_world \<Rightarrow> secs"

abbreviation dp_cfg :: "deployment \<Rightarrow> triage_cfg" where
  "dp_cfg D \<equiv> triage_cfg_of (dp_settings D)"

definition late :: "run_env \<Rightarrow> triage_world \<Rightarrow> triage_world" where
  "late E w = w\<lparr>tw_now := tw_now w + re_delay E w\<rparr>"

definition graph_of :: "deployment \<Rightarrow> run_env \<Rightarrow> triager" where
  "graph_of D E sg w = triage (re_gateway E) (re_clock E) (dp_sha D) (re_broker E) (dp_cfg D) sg (late E w)"

text \<open>A run that ends after at most \<open>k\<close> publish attempts, before it could report on them to the table:
  the process was killed, or the statement that was to report raised.\<close>

definition triage_cut ::
  "deployment \<Rightarrow> run_env \<Rightarrow> nat \<Rightarrow> signal \<Rightarrow> triage_world \<Rightarrow> (string \<times> outcome) option \<times> triage_world" where
  "triage_cut D E k sg w0 =
     (let w = late E w0; cfg = dp_cfg D in
      case ask_llm (re_gateway E) (re_clock E) cfg sg (tw_llm w) of
        (parsed, s1) \<Rightarrow>
          let w1 = w\<lparr>tw_llm := s1\<rparr> in
          case classify_parsed sg parsed of
            Inl e \<Rightarrow> (None, w1)
          | Inr (severity, category, hyp) \<Rightarrow>
              (case dedup (dp_sha D) cfg sg severity hyp (tw_now w1) (tw_store w1) of
                 ((inc, suppressed), st1) \<Rightarrow>
                   let w2 = w1\<lparr>tw_store := st1\<rparr> in
                   if decide inc severity suppressed = ''alert'' then
                     (case try_publish (min k (notify_attempts cfg)) (re_broker E)
                             (build_alert cfg sg severity category hyp inc) w2 of
                        (b, w3) \<Rightarrow> (Some (severity, Cut b), w3))
                   else (Some (severity, Quiet), w2)))"

datatype occasion =
    Sentry run_env string "string option"
  | Alertmanager run_env string "string option"
  | Health run_env "string \<Rightarrow> probe_obs"
  | Meta run_env meta_net
  | SweepRoute run_env secs string "string \<Rightarrow> probe_obs"
  | MetaRoute run_env secs string meta_net
  | Retention bool bool
  | Restart llm
  | Killed run_env "signal list" signal nat
  | Wait secs

text \<open>The signals an occasion triages.\<close>

definition sentry_signals :: "deployment \<Rightarrow> string \<Rightarrow> string option \<Rightarrow> signal list" where
  "sentry_signals D raw sig =
     (case rbind (webhook_object (dp_hmac D) (dp_settings D) raw sig) parse_sentry of Inl _ \<Rightarrow> [] | Inr sg \<Rightarrow> [sg])"

definition alert_signals :: "deployment \<Rightarrow> string \<Rightarrow> string option \<Rightarrow> signal list" where
  "alert_signals D raw sig =
     (case rbind (webhook_object (dp_hmac D) (dp_settings D) raw sig) parse_alert of
        Inl _ \<Rightarrow> [] | Inr sgs \<Rightarrow> fst (cap_alerts (dp_settings D) sgs))"

definition health_signals :: "deployment \<Rightarrow> (string \<Rightarrow> probe_obs) \<Rightarrow> signal list" where
  "health_signals D net =
     (let c = sweep_cfg_of (dp_settings D) in
      case sweep net (sc_targets c) (sc_slow_threshold c) (sc_cert_warn_days c) of Inl _ \<Rightarrow> [] | Inr sgs \<Rightarrow> sgs)"

definition meta_signals :: "deployment \<Rightarrow> meta_net \<Rightarrow> triage_world \<times> probe_table \<Rightarrow> signal list" where
  "meta_signals D net a = fst (collect_meta_signals net (sweep_cfg_of (dp_settings D)) (tw_now (fst a)) (snd a))"

definition is_admin :: "deployment \<Rightarrow> secs \<Rightarrow> string \<Rightarrow> bool" where
  "is_admin D now authorization = (case admin_principal (dp_jwt D) now (dp_settings D) authorization of Inl _ \<Rightarrow> False | Inr _ \<Rightarrow> True)"

text \<open>The log of the runs over some signals.\<close>

definition outcome_of :: "triage_result \<Rightarrow> outcome" where
  "outcome_of r = (case tr_alerted r of None \<Rightarrow> Quiet | Some True \<Rightarrow> Paged | Some False \<Rightarrow> Failed)"

definition entry_of :: "deployment \<Rightarrow> signal \<Rightarrow> triage_result \<Rightarrow> triage_world \<Rightarrow> page_entry" where
  "entry_of D sg r w' = \<lparr>pe_key = sig_key (dp_sha D) sg, pe_time = tw_now w', pe_severity = tr_severity r, pe_outcome = outcome_of r\<rparr>"

fun runs_log :: "deployment \<Rightarrow> run_env \<Rightarrow> signal list \<Rightarrow> triage_world \<Rightarrow> page_log" where
  "runs_log D E [] w = []"
| "runs_log D E (sg # sgs) w =
     (case graph_of D E sg w of
        (Inl e, w1) \<Rightarrow> []
      | (Inr r, w1) \<Rightarrow> entry_of D sg r w1 # runs_log D E sgs w1)"

definition cut_log :: "deployment \<Rightarrow> run_env \<Rightarrow> nat \<Rightarrow> signal \<Rightarrow> triage_world \<Rightarrow> page_log" where
  "cut_log D E k sg w =
     (case triage_cut D E k sg w of
        (None, w1) \<Rightarrow> []
      | (Some (sev, out), w1) \<Rightarrow>
          [\<lparr>pe_key = sig_key (dp_sha D) sg, pe_time = tw_now w1, pe_severity = sev, pe_outcome = out\<rparr>])"

fun agent_log :: "deployment \<Rightarrow> occasion \<Rightarrow> triage_world \<times> probe_table \<Rightarrow> page_log" where
  "agent_log D (Sentry E raw sig) a = runs_log D E (sentry_signals D raw sig) (fst a)"
| "agent_log D (Alertmanager E raw sig) a = runs_log D E (alert_signals D raw sig) (fst a)"
| "agent_log D (Health E net) a = runs_log D E (health_signals D net) (fst a)"
| "agent_log D (Meta E net) a = runs_log D E (meta_signals D net a) (fst a)"
| "agent_log D (SweepRoute E now auth net) a = (if is_admin D now auth then runs_log D E (health_signals D net) (fst a) else [])"
| "agent_log D (MetaRoute E now auth net) a = (if is_admin D now auth then runs_log D E (meta_signals D net a) (fst a) else [])"
| "agent_log D (Killed E sgs sg k) a =
     runs_log D E sgs (fst a) @
     (case triage_each (graph_of D E) sgs (fst a) of (Inl _, _) \<Rightarrow> [] | (Inr _, w) \<Rightarrow> cut_log D E k sg w)"
| "agent_log D _ a = []"

text \<open>What the agent does: the handlers and jobs of the code.\<close>

fun agent_does :: "deployment \<Rightarrow> occasion \<Rightarrow> triage_world \<times> probe_table \<Rightarrow> triage_world \<times> probe_table" where
  "agent_does D (Sentry E raw sig) (w, pt) = (snd (webhook_sentry (dp_hmac D) (graph_of D E) (dp_settings D) raw sig w), pt)"
| "agent_does D (Alertmanager E raw sig) (w, pt) = (snd (webhook_alert (dp_hmac D) (graph_of D E) (dp_settings D) raw sig w), pt)"
| "agent_does D (Health E net) (w, pt) = (snd (run_sweep net (graph_of D E) (sweep_cfg_of (dp_settings D)) w), pt)"
| "agent_does D (Meta E net) (w, pt) =
     (case run_meta_sweep net (graph_of D E) (sweep_cfg_of (dp_settings D)) pt w of (_, pt1, w1) \<Rightarrow> (w1, pt1))"
| "agent_does D (SweepRoute E now auth net) (w, pt) =
     (snd (trigger_sweep (dp_jwt D) now (dp_settings D) auth net (graph_of D E) w), pt)"
| "agent_does D (MetaRoute E now auth net) (w, pt) =
     (case trigger_meta_sweep (dp_jwt D) now (dp_settings D) auth net (graph_of D E) pt w of (_, pt1, w1) \<Rightarrow> (w1, pt1))"
| "agent_does D (Retention i p) (w, pt) =
     (case run_retention_prune i p (sweep_cfg_of (dp_settings D)) (tw_now w) (tw_store w) pt of
        (_, st1, pt1) \<Rightarrow> (w\<lparr>tw_store := st1\<rparr>, pt1))"
| "agent_does D (Restart s) (w, pt) = (w\<lparr>tw_llm := s\<rparr>, pt)"
| "agent_does D (Killed E sgs sg k) (w, pt) =
     (case triage_each (graph_of D E) sgs w of
        (Inl _, w1) \<Rightarrow> (w1, pt)
      | (Inr _, w1) \<Rightarrow> (snd (triage_cut D E k sg w1), pt))"
| "agent_does D (Wait d) (w, pt) = (w\<lparr>tw_now := tw_now w + d\<rparr>, pt)"

fun agent_history :: "deployment \<Rightarrow> occasion list \<Rightarrow> triage_world \<times> probe_table \<Rightarrow> page_log \<times> triage_world \<times> probe_table" where
  "agent_history D [] a = ([], a)"
| "agent_history D (ev # evs) a =
     (case agent_history D evs (agent_does D ev a) of (l, a') \<Rightarrow> (agent_log D ev a @ l, a'))"

section \<open>One run against the log\<close>

lemma entries_simps [simp]:
  "entries k [] = []"
  "entries k (l @ l') = entries k l @ entries k l'"
  "entries k (e # l) = (if pe_key e = k then e # entries k l else entries k l)"
  by (simp_all add: entries_def)

lemma owed_snoc: "owed k (l @ [e]) = (if pe_key e = k then owed_after e (owed k l) else owed k l)"
  by (simp add: owed_def)

lemma last_time_snoc: "last_time k (l @ [e]) = (if pe_key e = k then Some (pe_time e) else last_time k l)"
  by (simp add: last_time_def)

lemma pages_of_append: "pages_of (l @ l') = pages_of l @ pages_of l'"
  by (simp add: pages_of_def)

text \<open>The refinement relation: what each row of the table says about the log.\<close>

definition row_shows :: "page_log \<Rightarrow> incident_row \<Rightarrow> bool" where
  "row_shows es r \<longleftrightarrow> es \<noteq> [] \<and> in_count r = int (length es) \<and> in_first_seen r = pe_time (hd es)
     \<and> in_last_seen r = pe_time (last es) \<and> in_severity r = pe_severity (last es)
     \<and> (in_status r = ''alert_failed'') = fold owed_after es False"

definition table_shows :: "page_log \<Rightarrow> incident_store \<Rightarrow> bool" where
  "table_shows l st \<longleftrightarrow>
     (\<forall>k. case map_of (is_rows st) k of None \<Rightarrow> entries k l = [] | Some r \<Rightarrow> row_shows (entries k l) r)"

lemma row_shows_merge:
  assumes "case prev of None \<Rightarrow> es = [] | Some r \<Rightarrow> row_shows es r"
    and "pe_time e = oc_now x" and "pe_severity e = oc_severity x"
    and "(s = ''alert_failed'') = owed_after e (fold owed_after es False)"
  shows "row_shows (es @ [e]) ((incident_merge x prev)\<lparr>in_status := s\<rparr>)"
  using assms by (cases prev) (simp_all add: row_shows_def incident_merge_def hd_append)

lemma table_shows_run:
  assumes "table_shows l st" and "map_of (is_rows st') k = Some ((incident_merge x (map_of (is_rows st) k))\<lparr>in_status := s\<rparr>)"
    and "\<And>k'. k' \<noteq> k \<Longrightarrow> map_of (is_rows st') k' = map_of (is_rows st) k'"
    and "pe_key e = k" and "pe_time e = oc_now x" and "pe_severity e = oc_severity x"
    and "(s = ''alert_failed'') = owed_after e (owed k l)"
  shows "table_shows (l @ [e]) st'"
  unfolding table_shows_def
proof
  fix k'
  show "case map_of (is_rows st') k' of None \<Rightarrow> entries k' (l @ [e]) = [] | Some r \<Rightarrow> row_shows (entries k' (l @ [e])) r"
  proof (cases "k' = k")
    case True
    have "row_shows (entries k l @ [e]) ((incident_merge x (map_of (is_rows st) k))\<lparr>in_status := s\<rparr>)"
      using assms(1,5,6,7) by (intro row_shows_merge) (simp_all add: table_shows_def owed_def)
    then show ?thesis using True assms(2,4) by simp
  next
    case False
    then have l': "entries k' (l @ [e]) = entries k' l" using assms(4) by simp
    show ?thesis using assms(1) unfolding table_shows_def assms(3) [OF False] l' by blast
  qed
qed

lemma table_shows_row:
  assumes "table_shows l st"
  shows "last_time k l = map_option in_last_seen (map_of (is_rows st) k)"
    and "owed k l = incident_failed k st"
  using assms [unfolded table_shows_def, rule_format, of k]
  by (auto simp: last_time_def owed_def incident_failed_def row_shows_def split: option.splits)

lemma page_due_quiet:
  assumes "table_shows l st" and "pe_time e = now" and "pe_severity e = sev" and "pe_key e = k"
  shows "page_due (of_int (tc_dedup_window_minutes cfg * 60)) l e = (\<not> quiet cfg sev now (map_of (is_rows st) k))"
  using assms(2-4) table_shows_row [OF assms(1), of k]
  by (auto simp: page_due_def quiet_def incident_failed_def split: option.split)

text \<open>What a run writes are statements of the table, so the table stays \<open>live\<close>.\<close>

lemma dedup_touch:
  "snd (dedup sha cfg sg sev hyp now st) = incident_touch (sig_key sha sg) (occ_of sg sev hyp now st) st"
  by (simp add: dedup_def incident_touch_def sig_key_def occ_of_def split: prod.split)

lemma live_dedup: "live st \<Longrightarrow> live (snd (dedup sha cfg sg sev hyp now st))"
  by (simp add: dedup_touch live_store)

lemma live_notify: "live (tw_store w) \<Longrightarrow> live (tw_store (snd (notify br cfg sg sev cat hyp inc w)))"
proof -
  assume w: "live (tw_store w)"
  have "tw_store (snd (try_publish k br a w)) = tw_store w" for k a by (rule try_publish_frame)
  with w show ?thesis
    by (auto simp: notify_def live_store split: prod.splits bool.splits if_splits) (metis snd_conv live_store)+
qed

lemma live_triage: "live (tw_store w) \<Longrightarrow> live (tw_store (snd (triage gw clk sha br cfg sg w)))"
proof -
  assume w: "live (tw_store w)"
  obtain p s1 where q: "ask_llm gw clk cfg sg (tw_llm w) = (p, s1)" by fastforce
  show ?thesis
  proof (cases "classify_parsed sg p")
    case (Inl e)
    with q w show ?thesis by (simp add: triage_def)
  next
    case (Inr a)
    obtain sev cat hyp where a: "a = (sev, cat, hyp)" by (metis prod.exhaust)
    obtain inc sup st1 where d: "dedup sha cfg sg sev hyp (tw_now w) (tw_store w) = ((inc, sup), st1)" by (metis prod.exhaust)
    let ?w2 = "w\<lparr>tw_llm := s1, tw_store := st1\<rparr>"
    have st1: "live st1" using live_dedup [OF w, of sha cfg sg sev hyp "tw_now w"] d by simp
    obtain al af w3 where n: "notify br cfg sg sev cat hyp inc ?w2 = ((al, af), w3)" by (metis prod.exhaust)
    have "live (tw_store w3)" using live_notify [of ?w2 br cfg sg sev cat hyp inc] st1 n by simp
    then show ?thesis using q Inr a d n st1 by (simp add: triage_def Let_def)
  qed
qed

section \<open>From one state to another\<close>

definition shown :: "page_log \<Rightarrow> triage_world \<Rightarrow> bool" where
  "shown l w \<longleftrightarrow> live (tw_store w) \<and> table_shows l (tw_store w)"

definition leads :: "secs \<Rightarrow> triage_world \<Rightarrow> page_log \<Rightarrow> triage_world \<Rightarrow> bool" where
  "leads win w es w' \<longleftrightarrow>
     (\<forall>l. shown l w \<longrightarrow> shown (l @ es) w' \<and> log_decided win l es)
     \<and> map page_of (tw_delivered w') = map page_of (tw_delivered w) @ pages_of es"

lemma log_decided_append: "log_decided win l (es @ es') = (log_decided win l es \<and> log_decided win (l @ es) es')"
  by (induction es arbitrary: l) simp_all

lemma leads_same: "tw_store w' = tw_store w \<Longrightarrow> tw_delivered w' = tw_delivered w \<Longrightarrow> leads win w [] w'"
  by (simp add: leads_def shown_def pages_of_def)

lemma leads_trans:
  assumes "leads win w es w1" and "leads win w1 es' w'"
  shows "leads win w (es @ es') w'"
  using assms by (fastforce simp: leads_def log_decided_append pages_of_append)

lemma leads_one:
  assumes "map_of (is_rows (tw_store w')) k = Some ((incident_merge x (map_of (is_rows (tw_store w)) k))\<lparr>in_status := s\<rparr>)"
    and "\<And>k'. k' \<noteq> k \<Longrightarrow> map_of (is_rows (tw_store w')) k' = map_of (is_rows (tw_store w)) k'"
    and "live (tw_store w) \<Longrightarrow> live (tw_store w')"
    and "pe_key e = k" and "pe_time e = oc_now x" and "pe_severity e = oc_severity x"
    and "live (tw_store w) \<Longrightarrow> (s = ''alert_failed'') = owed_after e (incident_failed k (tw_store w))"
    and "(pe_outcome e \<noteq> Quiet) = (\<not> quiet cfg (pe_severity e) (pe_time e) (map_of (is_rows (tw_store w)) k))"
    and "map page_of (tw_delivered w') = map page_of (tw_delivered w) @ pages_of [e]"
  shows "leads (of_int (tc_dedup_window_minutes cfg * 60)) w [e] w'"
  unfolding leads_def
proof (intro conjI allI impI)
  fix l
  assume l: "shown l w"
  then have t: "table_shows l (tw_store w)" and v: "live (tw_store w)" by (simp_all add: shown_def)
  have "(s = ''alert_failed'') = owed_after e (owed k l)" using assms(7) [OF v] table_shows_row(2) [OF t] by simp
  then show "shown (l @ [e]) w'"
    unfolding shown_def using table_shows_run [OF t assms(1,2,4,5,6)] assms(3) [OF v] by blast
  show "log_decided (of_int (tc_dedup_window_minutes cfg * 60)) l [e]"
    using page_due_quiet [OF t, of e "pe_time e" "pe_severity e" k cfg] assms(4,8) by simp
qed (rule assms(9))

lemma live_status: "live st \<Longrightarrow> map_of (is_rows st) k = Some p \<Longrightarrow> in_status p \<noteq> ''resolved''"
  by (auto simp: live_def dest!: map_of_SomeD)

text \<open>The status of a fresh occurrence is flagged exactly if the row was.\<close>

lemma merged_status: "live st \<Longrightarrow>
    (in_status (incident_merge x (map_of (is_rows st) k)) = ''alert_failed'') = incident_failed k st"
  using live_status [of st k] by (auto simp: incident_merge_def incident_failed_def split: option.split)

lemma status_same: "r\<lparr>in_status := in_status r\<rparr> = (r :: incident_row)"
  by simp

lemma graph_leads:
  assumes run: "graph_of D E sg w = (Inr r, w')"
  shows "leads (of_int (tc_dedup_window_minutes (dp_cfg D) * 60)) w [entry_of D sg r w'] w'"
proof -
  let ?k = "sig_key (dp_sha D) sg" and ?prev = "map_of (is_rows (tw_store w)) (sig_key (dp_sha D) sg)"
  have late: "tw_store (late E w) = tw_store w" "tw_delivered (late E w) = tw_delivered w" by (simp_all add: late_def)
  have lv: "live (tw_store w) \<Longrightarrow> live (tw_store w')"
    using live_triage [of "late E w"] run by (simp add: graph_of_def late) (metis snd_conv)
  from triage_run [OF run [unfolded graph_of_def]] obtain row hyp where
    row: "row = incident_merge (occ_of sg (tr_severity r) hyp (tw_now (late E w)) (tw_store w)) ?prev"
    and now: "tw_now w' = tw_now (late E w)"
    and rest: "\<And>k'. k' \<noteq> ?k \<Longrightarrow> map_of (is_rows (tw_store w')) k' = map_of (is_rows (tw_store w)) k'"
    and ends: "if quiet (dp_cfg D) (tr_severity r) (tw_now w') ?prev then quiet_run r (late E w) ?k row w'
       else \<exists>a. paging_run (re_broker E) (dp_cfg D) r (late E w) ?k row a w'"
    unfolding late by metis
  let ?x = "occ_of sg (tr_severity r) hyp (tw_now w') (tw_store w)"
  have row: "row = incident_merge ?x ?prev" using row now by simp
  have x: "oc_now ?x = tw_now w'" "oc_severity ?x = tr_severity r" by (simp_all add: occ_of_def)
  show ?thesis
  proof (cases "quiet (dp_cfg D) (tr_severity r) (tw_now w') ?prev")
    case True
    then have q: "quiet_run r (late E w) ?k row w'" using ends by simp
    then have o: "outcome_of r = Quiet" by (simp add: quiet_run_def outcome_of_def)
    show ?thesis
    proof (rule leads_one [where k = ?k and x = ?x and s = "in_status row"])
      show "map_of (is_rows (tw_store w')) ?k = Some ((incident_merge ?x ?prev)\<lparr>in_status := in_status row\<rparr>)"
        using q by (simp add: quiet_run_def row)
      show "live (tw_store w) \<Longrightarrow> (in_status row = ''alert_failed'') = owed_after (entry_of D sg r w') (incident_failed ?k (tw_store w))"
        unfolding row by (simp add: merged_status owed_after_def entry_of_def o)
      show "map page_of (tw_delivered w') = map page_of (tw_delivered w) @ pages_of [entry_of D sg r w']"
        using q by (simp add: quiet_run_def late pages_of_def delivers_def entry_of_def o)
    qed (use rest lv True x in \<open>simp_all add: entry_of_def o\<close>)
  next
    case False
    then obtain a where p: "paging_run (re_broker E) (dp_cfg D) r (late E w) ?k row a w'" using ends by auto
    define b where "b = (\<exists>i<notify_attempts (dp_cfg D). re_broker E (tw_attempts (late E w) + i) a)"
    have o: "outcome_of r = (if b then Paged else Failed)" and
      d: "tw_delivered w' = tw_delivered w @ (if b then [a] else [])" "page_of a = (Some ?k, tr_severity r)" and
      m: "map_of (is_rows (tw_store w')) ?k = Some (row\<lparr>in_status :=
          (if b then (if in_status row = ''alert_failed'' then ''open'' else in_status row) else ''alert_failed'')\<rparr>)"
      using p unfolding paging_run_def Let_def b_def [symmetric] by (simp_all add: outcome_of_def late page_of_def)
    show ?thesis
    proof (rule leads_one [OF m [unfolded row]])
      show "map page_of (tw_delivered w') = map page_of (tw_delivered w) @ pages_of [entry_of D sg r w']"
        by (simp add: d pages_of_def delivers_def entry_of_def o)
    qed (use rest lv False x in \<open>simp_all add: entry_of_def o owed_after_def row\<close>)
  qed
qed

section \<open>Killed runs\<close>

text \<open>A killed run has written its occurrence and nothing else, and has delivered at most one page.\<close>

lemma triage_cut_run:
  assumes "triage_cut D E k sg w = (Some (sev, out), w')"
  shows "\<exists>hyp. let key = sig_key (dp_sha D) sg; st = tw_store w; x = occ_of sg sev hyp (tw_now w') st in
      tw_store w' = incident_touch key x st \<and> tw_now w' = tw_now w + re_delay E w
      \<and> (if quiet (dp_cfg D) sev (tw_now w') (map_of (is_rows st) key) then out = Quiet \<and> tw_delivered w' = tw_delivered w
         else \<exists>b a. out = Cut b \<and> page_of a = (Some key, sev) \<and> tw_delivered w' = tw_delivered w @ (if b then [a] else []))"
proof -
  let ?w = "late E w" and ?cfg = "dp_cfg D" and ?sha = "dp_sha D"
  have late: "tw_store ?w = tw_store w" "tw_delivered ?w = tw_delivered w" "tw_llm ?w = tw_llm w" "tw_now ?w = tw_now w + re_delay E w"
    by (simp_all add: late_def)
  obtain p s1 where q: "ask_llm (re_gateway E) (re_clock E) ?cfg sg (tw_llm ?w) = (p, s1)" by fastforce
  obtain cat hyp where c: "classify_parsed sg p = Inr (sev, cat, hyp)"
    using assms by (auto simp: triage_cut_def Let_def q split: sum.splits prod.splits if_splits)
  obtain inc sup st1 where d: "dedup ?sha ?cfg sg sev hyp (tw_now ?w) (tw_store ?w) = ((inc, sup), st1)" by (metis prod.exhaust)
  have st1: "st1 = incident_touch (sig_key ?sha sg) (occ_of sg sev hyp (tw_now ?w) (tw_store w)) (tw_store w)"
    using dedup_touch [of ?sha ?cfg sg sev hyp "tw_now ?w" "tw_store ?w"] d late by simp
  have key: "ic_key inc = sig_key ?sha sg" using dedup_key [of ?sha ?cfg sg sev hyp "tw_now ?w" "tw_store ?w"] d by simp
  have dec: "decide inc sev sup = (if quiet ?cfg sev (tw_now ?w) (map_of (is_rows (tw_store w)) (sig_key ?sha sg)) then ''suppress'' else ''alert'')"
    using decide_dedup [of ?sha ?cfg sg sev hyp "tw_now ?w" "tw_store ?w"] d late by simp
  let ?w2 = "?w\<lparr>tw_llm := s1, tw_store := st1\<rparr>" and ?a = "build_alert ?cfg sg sev cat hyp inc"
  obtain b w3 where t: "try_publish (min k (notify_attempts ?cfg)) (re_broker E) ?a ?w2 = (b, w3)" by fastforce
  have fr: "tw_store w3 = st1" "tw_now w3 = tw_now ?w" "tw_delivered w3 = tw_delivered w @ (if b then [?a] else [])"
    using try_publish_frame [of "min k (notify_attempts ?cfg)" "re_broker E" ?a ?w2]
      try_publish_delivered [of "min k (notify_attempts ?cfg)" "re_broker E" ?a ?w2] t late by simp_all
  have a: "page_of ?a = (Some (sig_key ?sha sg), sev)" by (simp add: page_of_def build_alert_def Let_def key)
  show ?thesis
  proof (cases "quiet ?cfg sev (tw_now ?w) (map_of (is_rows (tw_store w)) (sig_key ?sha sg))")
    case True
    then have "out = Quiet" "w' = ?w2" using assms by (simp_all add: triage_cut_def Let_def q c d dec)
    then show ?thesis using True by (intro exI [of _ hyp]) (simp add: st1 late)
  next
    case False
    then have "out = Cut b" "w' = w3" using assms by (simp_all add: triage_cut_def Let_def q c d dec t)
    then show ?thesis using False a fr
      by (intro exI [of _ hyp]) (auto simp: st1 Let_def late intro!: exI [of _ ?a])
  qed
qed

lemma triage_cut_raised: "triage_cut D E k sg w = (None, w') \<Longrightarrow> tw_store w' = tw_store w \<and> tw_delivered w' = tw_delivered w
    \<and> tw_now w' = tw_now w + re_delay E w"
  by (auto simp: triage_cut_def Let_def late_def split: prod.splits sum.splits if_splits)

lemma cut_leads:
  assumes "triage_cut D E k sg w = (res, w')"
  shows "leads (of_int (tc_dedup_window_minutes (dp_cfg D) * 60)) w (cut_log D E k sg w) w'"
proof (cases res)
  case None
  then show ?thesis using assms triage_cut_raised [of D E k sg w w'] by (simp add: cut_log_def leads_same)
next
  case (Some so)
  obtain sev out where so: "so = (sev, out)" by fastforce
  let ?k = "sig_key (dp_sha D) sg" and ?prev = "map_of (is_rows (tw_store w)) (sig_key (dp_sha D) sg)"
  let ?e = "\<lparr>pe_key = ?k, pe_time = tw_now w', pe_severity = sev, pe_outcome = out\<rparr>"
  have log: "cut_log D E k sg w = [?e]" using assms Some so by (simp add: cut_log_def)
  obtain hyp where st: "tw_store w' = incident_touch ?k (occ_of sg sev hyp (tw_now w') (tw_store w)) (tw_store w)"
    and ends: "if quiet (dp_cfg D) sev (tw_now w') ?prev then out = Quiet \<and> tw_delivered w' = tw_delivered w
         else \<exists>b a. out = Cut b \<and> page_of a = (Some ?k, sev) \<and> tw_delivered w' = tw_delivered w @ (if b then [a] else [])"
    using triage_cut_run [OF assms [unfolded Some so]] unfolding Let_def by blast
  let ?x = "occ_of sg sev hyp (tw_now w') (tw_store w)"
  have x: "oc_now ?x = tw_now w'" "oc_severity ?x = sev" "is_next_id (tw_store w) = oc_id ?x" by (simp_all add: occ_of_def)
  have rows: "map_of (is_rows (tw_store w')) k' = (if k' = ?k then Some (incident_merge ?x ?prev) else map_of (is_rows (tw_store w)) k')" for k'
    by (simp add: st incident_touch_def is_rows_upsert map_of_upsert_row occ_of_def)
  have o: "owed_after ?e c = c" for c
    using ends by (auto simp: owed_after_def split: if_splits)
  show ?thesis unfolding log
  proof (rule leads_one [where x = ?x and s = "in_status (incident_merge ?x ?prev)"])
    show "live (tw_store w) \<Longrightarrow> (in_status (incident_merge ?x ?prev) = ''alert_failed'') = owed_after ?e (incident_failed ?k (tw_store w))"
      by (simp add: o merged_status)
    show "live (tw_store w) \<Longrightarrow> live (tw_store w')" unfolding st by (rule live_store)
    show "map page_of (tw_delivered w') = map page_of (tw_delivered w) @ pages_of [?e]"
      using ends by (auto simp: pages_of_def delivers_def split: if_splits)
    show "(pe_outcome ?e \<noteq> Quiet) = (\<not> quiet (dp_cfg D) (pe_severity ?e) (pe_time ?e) ?prev)"
      using ends by (auto split: if_splits)
  qed (simp_all add: rows x)
qed

text \<open>With all its attempts a cut run has paged exactly as a full run does.\<close>

lemma full_cut_pages:
  assumes "graph_of D E sg w = (Inr r, w1)" and "notify_attempts (dp_cfg D) \<le> k"
  shows "\<exists>w2. triage_cut D E k sg w = (Some (tr_severity r, case tr_alerted r of None \<Rightarrow> Quiet | Some b \<Rightarrow> Cut b), w2)
     \<and> tw_delivered w2 = tw_delivered w1 \<and> tw_attempts w2 = tw_attempts w1"
  using assms by (auto simp: graph_of_def triage_def triage_cut_def notify_def Let_def min_absorb2
      split: prod.splits sum.splits if_splits bool.splits)

section \<open>Every handler and job\<close>

abbreviation window :: "deployment \<Rightarrow> secs" where
  "window D \<equiv> of_int (tc_dedup_window_minutes (dp_cfg D) * 60)"

lemma graph_raised: "graph_of D E sg w = (Inl e, w') \<Longrightarrow> tw_store w' = tw_store w \<and> tw_delivered w' = tw_delivered w
    \<and> tw_now w' = tw_now w + re_delay E w"
  by (auto simp: graph_of_def triage_def late_def Let_def split: prod.splits sum.splits if_splits)

lemma each_leads: "leads (window D) w (runs_log D E sgs w) (snd (triage_each (graph_of D E) sgs w))"
proof (induction sgs arbitrary: w)
  case (Cons sg sgs)
  obtain r w1 where g: "graph_of D E sg w = (r, w1)" by fastforce
  show ?case
  proof (cases r)
    case (Inl e)
    then show ?thesis using g graph_raised [of D E sg w e w1] by (simp add: leads_same)
  next
    case (Inr q)
    have "leads (window D) w ([entry_of D sg q w1] @ runs_log D E sgs w1) (snd (triage_each (graph_of D E) sgs w1))"
      by (rule leads_trans [OF graph_leads [OF g [unfolded Inr]] Cons.IH])
    moreover have "snd (triage_each (graph_of D E) (sg # sgs) w) = snd (triage_each (graph_of D E) sgs w1)"
      using g Inr by (simp split: prod.split sum.split)
    ultimately show ?thesis using g Inr by simp
  qed
qed (simp add: leads_same)

lemma all_each: "snd (triage_all tri sgs n w) = snd (triage_each tri sgs w)"
  by (induction sgs arbitrary: n w) (auto split: prod.split sum.split)

text \<open>Every entry point is the triage of its signals, and changes nothing else of the world.\<close>

lemma entry_points:
  "snd (webhook_sentry (dp_hmac D) (graph_of D E) (dp_settings D) raw sig w) = snd (triage_each (graph_of D E) (sentry_signals D raw sig) w)"
  "snd (webhook_alert (dp_hmac D) (graph_of D E) (dp_settings D) raw sig w) = snd (triage_each (graph_of D E) (alert_signals D raw sig) w)"
  "snd (run_sweep net (graph_of D E) (sweep_cfg_of (dp_settings D)) w) = snd (triage_each (graph_of D E) (health_signals D net) w)"
  "snd (snd (run_meta_sweep mnet (graph_of D E) (sweep_cfg_of (dp_settings D)) pt w)) = snd (triage_each (graph_of D E) (meta_signals D mnet (w, pt)) w)"
  by (auto simp: webhook_sentry_def sentry_signals_def webhook_alert_def alert_signals_def run_sweep_def health_signals_def
      run_meta_sweep_def meta_signals_def Let_def all_each [where n = 0, symmetric]
      split: sum.split prod.split) (metis all_each snd_conv)+

lemma admin_entry_points:
  "snd (trigger_sweep (dp_jwt D) now (dp_settings D) auth net tri w) =
     (if is_admin D now auth then snd (run_sweep net tri (sweep_cfg_of (dp_settings D)) w) else w)"
  "snd (snd (trigger_meta_sweep (dp_jwt D) now (dp_settings D) auth mnet tri pt w)) =
     (if is_admin D now auth then snd (snd (run_meta_sweep mnet tri (sweep_cfg_of (dp_settings D)) pt w)) else w)"
  by (auto simp: trigger_sweep_def trigger_meta_sweep_def is_admin_def split: sum.split)

lemma agent_leads: "leads (window D) (fst a) (agent_log D ev a) (fst (agent_does D ev a))"
proof -
  obtain w pt where a: "a = (w, pt)" by fastforce
  show ?thesis
  proof (cases ev)
    case (Meta E net)
    then show ?thesis using each_leads [of D w E "meta_signals D net a"]
      by (simp add: a entry_points(4) [symmetric] split: prod.split) (metis snd_conv)
  next
    case (MetaRoute E now auth net)
    then show ?thesis
      using each_leads [of D w E "meta_signals D net a"] admin_entry_points(2) [of D now auth net "graph_of D E" pt w]
      by (auto simp: a entry_points(4) leads_same split: prod.split)
  next
    case (Retention i p)
    obtain n st1 pt1 where r: "run_retention_prune i p (sweep_cfg_of (dp_settings D)) (tw_now w) (tw_store w) pt = (n, st1, pt1)"
      by (metis prod.exhaust)
    then have "live (tw_store w) \<Longrightarrow> st1 = tw_store w"
      by (auto simp: run_retention_prune_def prune_live split: prod.splits if_splits)
    then show ?thesis using Retention r by (auto simp: a leads_def shown_def pages_of_def)
  next
    case (Killed E sgs sg k)
    obtain r w1 where g: "triage_each (graph_of D E) sgs w = (r, w1)" by fastforce
    have one: "leads (window D) w (runs_log D E sgs w) w1" using each_leads [of D w E sgs] g by simp
    have cut: "leads (window D) w1 (cut_log D E k sg w1) (snd (triage_cut D E k sg w1))"
      by (rule cut_leads [where res = "fst (triage_cut D E k sg w1)"]) simp
    show ?thesis
    proof (cases r)
      case (Inl e)
      then show ?thesis using Killed g one by (simp add: a)
    next
      case (Inr rs)
      then show ?thesis using Killed g leads_trans [OF one cut] by (simp add: a)
    qed
  qed (use each_leads in \<open>simp_all add: a entry_points admin_entry_points leads_same\<close>)
qed

lemma history_leads:
  "agent_history D evs a = (l, a') \<Longrightarrow> leads (window D) (fst a) l (fst a')"
proof (induction evs arbitrary: a l a')
  case (Cons ev evs)
  obtain l1 a1 where h: "agent_history D evs (agent_does D ev a) = (l1, a1)" by (metis prod.exhaust)
  have "leads (window D) (fst a) (agent_log D ev a @ l1) (fst a1)" by (rule leads_trans [OF agent_leads Cons.IH [OF h]])
  then show ?case using Cons.prems h by simp
qed (simp add: leads_same)

end
