(* ===== verification/AgentTheorems.thy ===== *)
theory AgentTheorems
  imports AgentHistory
begin

text \<open>
  What any life of the monitoring agent leaves, read off the log: the refinement itself, how far apart
  the pages of one problem are, and how a kill loses one.
\<close>

section \<open>The agent is its log\<close>

definition new_agent :: "llm \<Rightarrow> secs \<Rightarrow> probe_table \<Rightarrow> triage_world \<times> probe_table" where
  "new_agent s t pt =
     (\<lparr>tw_llm = s, tw_store = no_incidents, tw_now = t, tw_attempts = 0, tw_delivered = []\<rparr>, pt)"

lemma new_shown: "shown [] (fst (new_agent s t pt))" "tw_delivered (fst (new_agent s t pt)) = []"
  by (simp_all add: new_agent_def shown_def live_def table_shows_def no_incidents_def)

lemma window_settings [simp]: "tc_dedup_window_minutes (triage_cfg_of st) = ms_dedup_window_minutes st"
  by (simp add: triage_cfg_of_def)

lemma history_shown:
  assumes "agent_history D evs (new_agent s t pt) = (l, a)"
  shows "shown l (fst a)" "log_decided (of_int (ms_dedup_window_minutes (dp_settings D) * 60)) [] l"
    "map page_of (tw_delivered (fst a)) = pages_of l"
  using history_leads [OF assms] new_shown [of s t pt] unfolding leads_def window_settings by fastforce+

text \<open>
  C12: The agent is its log, as long as its occasions follow one another. Take any webhooks, sweeps,
  retention jobs, restarts of the model client and kills in the middle of a run, in any order and with
  any model, broker and clock, each ended before the next begins (runs that overlap are the subject of
  TriageConc; two of them can both page one new problem). Then the pages the operators got are those of
  the log, in its order; each run is decided by the earlier entries of the same problem alone, it pages
  when there is none, when the last is at least the dedup window old, when the problem is critical now
  or when a failed page is owed, and is quiet otherwise; and each row of the incidents table counts,
  dates and flags what the log holds of its problem. So a problem that goes on or comes back is paged
  again, by the window, by its severity or by an owed page, where BR-009 and the documents that repeat
  it want one alert for each firing transition and none on a recurrence: that is what the code does,
  and it is recorded as a divergence (critical_repeat_pages, spaced_repeat_pages).
\<close>
theorem agent_is_its_log:
  "case agent_history D evs (new_agent s t pt) of (l, w, _) \<Rightarrow>
     log_decided (of_int (ms_dedup_window_minutes (dp_settings D) * 60)) [] l
   \<and> map page_of (tw_delivered w) = pages_of l
   \<and> (\<forall>k. case map_of (is_rows (tw_store w)) k of
         None \<Rightarrow> entries k l = []
       | Some r \<Rightarrow> row_shows (entries k l) r)"
proof -
  obtain l w pt' where h: "agent_history D evs (new_agent s t pt) = (l, w, pt')" by (metis prod.exhaust)
  show ?thesis using history_shown [OF h] unfolding h prod.case fst_conv shown_def table_shows_def by blast
qed

section \<open>What the log says about pages\<close>

lemma log_decided_at: "log_decided win l0 (l @ e # l') \<Longrightarrow> (pe_outcome e \<noteq> Quiet) = page_due win (l0 @ l) e"
  by (simp add: log_decided_append)

lemma owed_kept:
  assumes "\<not> owed k l" and "\<forall>e \<in> set es. pe_key e = k \<longrightarrow> pe_outcome e \<noteq> Failed"
  shows "\<not> owed k (l @ es)"
  using assms(2)
proof (induction es rule: rev_induct)
  case (snoc e es)
  then show ?case
    using owed_snoc [of k "l @ es" e] by (auto simp: owed_after_def split: outcome.splits)
qed (use assms(1) in simp)

lemma last_time_between:
  assumes "sorted (map pe_time (l @ e # es))"
  shows "\<exists>t. last_time (pe_key e) (l @ e # es) = Some t \<and> pe_time e \<le> t"
proof -
  have "last (e # entries (pe_key e) es) \<in> set (e # es)"
    using last_in_set [of "e # entries (pe_key e) es"] by (auto simp: entries_def)
  then show ?thesis using assms by (auto simp: last_time_def sorted_append)
qed

text \<open>
  What BR-009 rules out and the code does: a run of a known problem pages again when the problem is
  critical now, and when it was last seen the dedup window ago, although nothing was resolved between.
\<close>
lemma critical_repeat_pages:
  assumes "agent_history D evs (new_agent s t pt) = (pre @ e # post, a)" and "pe_severity e = ''critical''"
  shows "pe_outcome e \<noteq> Quiet"
  using log_decided_at [of _ "[]" pre e post] history_shown(2) [OF assms(1)] assms(2)
  by (simp add: page_due_def split: option.split)

lemma spaced_repeat_pages:
  assumes "agent_history D evs (new_agent s t pt) = (pre @ e # post, a)" and "last_time (pe_key e) pre = Some t0"
    and "of_int (ms_dedup_window_minutes (dp_settings D) * 60) \<le> pe_time e - t0"
  shows "pe_outcome e \<noteq> Quiet"
  using log_decided_at [of _ "[]" pre e post] history_shown(2) [OF assms(1)] assms(2,3) by (simp add: page_due_def)

text \<open>
  C13: Pages of one problem do not crowd when the runs of the agent follow one another: if a page of it
  was delivered and none failed since, the next one, unless the problem is critical by then, comes at
  least the dedup window later. The clock of the database must not have gone back, and no two runs may
  overlap: two overlapping runs of one new problem both page at once (recorded as a defect of the
  upsert, IncidentProps.interleaved_upserts_both_new).
\<close>
theorem pages_never_crowd:
  assumes "agent_history D evs (new_agent s t pt) = (pre @ e1 # mid @ e2 # post, a)"
    and "sorted (map pe_time (pre @ e1 # mid))"
    and "pe_key e1 = pe_key e2" and "pe_outcome e1 = Paged"
    and "\<forall>e \<in> set mid. pe_key e = pe_key e2 \<longrightarrow> pe_outcome e \<noteq> Failed"
    and "pe_outcome e2 \<noteq> Quiet" and "pe_severity e2 \<noteq> ''critical''"
  shows "of_int (ms_dedup_window_minutes (dp_settings D) * 60) \<le> pe_time e2 - pe_time e1"
proof -
  let ?l = "pre @ e1 # mid" and ?k = "pe_key e2"
  have due: "page_due (of_int (ms_dedup_window_minutes (dp_settings D) * 60)) ?l e2"
    using log_decided_at [of _ "[]" ?l e2 post] history_shown(2) [OF assms(1)] assms(6) by simp
  have "\<not> owed ?k (pre @ [e1])" using assms(3,4) by (simp add: owed_snoc owed_after_def)
  then have "\<not> owed ?k ?l" using owed_kept [OF _ assms(5), of "pre @ [e1]"] by simp
  moreover obtain t' where "last_time ?k ?l = Some t'" "pe_time e1 \<le> t'"
    using last_time_between [OF assms(2)] assms(3) by auto
  ultimately show ?thesis using due assms(7) by (simp add: page_due_def)
qed

text \<open>A problem that is seen again within the window each time, and is not critical.\<close>

definition lasting :: "secs \<Rightarrow> page_log \<Rightarrow> bool" where
  "lasting win es \<longleftrightarrow> successively (\<lambda>a b. pe_time b - pe_time a < win \<and> pe_severity b \<noteq> ''critical'') es"

lemma lasting_quiet:
  assumes "log_decided win [] (pre @ e1 # post)" and "\<not> owed (pe_key e1) (pre @ [e1])"
    and "lasting win (entries (pe_key e1) (e1 # post))"
  shows "\<forall>e \<in> set (entries (pe_key e1) post). pe_outcome e = Quiet"
  using assms
proof (induction post rule: rev_induct)
  case (snoc e es)
  let ?k = "pe_key e1"
  show ?case
  proof (cases "pe_key e = ?k")
    case False
    then show ?thesis using snoc by (simp add: log_decided_append)
  next
    case True
    let ?es = "e1 # entries ?k es"
    have las: "lasting win ?es" "pe_time e - pe_time (last ?es) < win" "pe_severity e \<noteq> ''critical''"
      using snoc.prems(3) True successively_append_iff [of _ ?es "[e]"]
      by (simp_all add: lasting_def)
    have q: "\<forall>x \<in> set (entries ?k es). pe_outcome x = Quiet"
      using snoc.IH snoc.prems(1,2) las(1) by (simp add: log_decided_append)
    then have "\<not> owed ?k ((pre @ [e1]) @ es)"
      by (intro owed_kept [OF snoc.prems(2)]) (auto simp: entries_def)
    moreover have "last_time ?k (pre @ e1 # es) = Some (pe_time (last ?es))" by (simp add: last_time_def)
    ultimately have "\<not> page_due win (pre @ e1 # es) e" using las True by (simp add: page_due_def)
    then have "pe_outcome e = Quiet" using log_decided_at [of win "[]" "pre @ e1 # es" e "[]"] snoc.prems(1) by simp
    then show ?thesis using q True by simp
  qed
qed simp

text \<open>A lasting problem is paged once, however long it lasts: each sighting renews the window.\<close>
theorem lasting_problem_pages_once:
  assumes "agent_history D evs (new_agent s t pt) = (pre @ e1 # post, a)"
    and "pe_outcome e1 = Paged"
    and "lasting (of_int (ms_dedup_window_minutes (dp_settings D) * 60)) (entries (pe_key e1) (e1 # post))"
  shows "filter delivers (entries (pe_key e1) post) = []"
  using lasting_quiet [OF history_shown(2) [OF assms(1)] _ assms(3)] assms(2)
  by (auto simp: owed_snoc owed_after_def filter_empty_conv delivers_def)

text \<open>
  C14: A kill can lose a page for good. The occurrence is committed before the page is tried, so a run
  of a new problem that ends before a publish succeeded and before it could flag the row, because the
  process was killed or the flagging statement raised, leaves an unflagged row; and as long as
  the problem, not critical, is seen again within the window each time, nobody is ever paged for it.
\<close>
theorem killed_page_is_lost:
  assumes "agent_history D evs (new_agent s t pt) = (pre @ e1 # post, a)"
    and "entries (pe_key e1) pre = []" and "pe_outcome e1 = Cut False"
    and "lasting (of_int (ms_dedup_window_minutes (dp_settings D) * 60)) (entries (pe_key e1) (e1 # post))"
  shows "\<forall>x \<in> set (tw_delivered (fst a)). al_dedup_key x \<noteq> Some (pe_key e1)"
proof -
  let ?k = "pe_key e1"
  have "\<not> owed ?k (pre @ [e1])" using assms(2,3) by (simp add: owed_snoc owed_after_def owed_def)
  from lasting_quiet [OF history_shown(2) [OF assms(1)] this assms(4)]
  have "filter delivers (entries ?k (pre @ e1 # post)) = []"
    using assms(2,3) by (auto simp: filter_empty_conv delivers_def)
  then have "(Some ?k, sev) \<notin> set (pages_of (pre @ e1 # post))" for sev
    by (auto simp: pages_of_def entries_def filter_empty_conv)
  then have "(Some ?k, sev) \<notin> page_of ` set (tw_delivered (fst a))" for sev
    using history_shown(3) [OF assms(1)] by (metis set_map)
  then show ?thesis by (force simp: page_of_def)
qed

section \<open>A concrete life\<close>

text \<open>An agent whose model is down; it signs with \<open>demo_hm\<close> and knows no tokens.\<close>

definition demo_deployment :: deployment where
  "demo_deployment = \<lparr>dp_hmac = demo_hm, dp_jwt = \<lparr>jwt_encode = (\<lambda>_ _ _. []), jwt_decode = (\<lambda>_ _ _ _ _ _. Inl PyJWTError)\<rparr>,
     dp_sha = (\<lambda>s. s), dp_settings = demo_mon\<rparr>"

definition demo_env :: run_env where
  "demo_env = \<lparr>re_gateway = down_gw, re_clock = demo_clk, re_broker = (\<lambda>n a. True), re_delay = (\<lambda>w. 0)\<rparr>"

definition demo_hook :: occasion where
  "demo_hook = Alertmanager demo_env demo_body (Some ''sha256=k'')"

definition demo_page :: "secs \<Rightarrow> outcome \<Rightarrow> page_entry" where
  "demo_page now out = \<lparr>pe_key = sig_key (\<lambda>s. s) demo_alert, pe_time = now, pe_severity = ''warning'', pe_outcome = out\<rparr>"

lemma demo_fields [simp]:
  "dp_hmac demo_deployment = demo_hm" "dp_sha demo_deployment = (\<lambda>s. s)" "dp_settings demo_deployment = demo_mon"
  "re_gateway demo_env = down_gw" "re_clock demo_env = demo_clk" "re_broker demo_env = (\<lambda>n a. True)" "re_delay demo_env = (\<lambda>w. 0)"
  "ms_dedup_window_minutes demo_mon = 30" "late demo_env w = w"
  by (simp_all add: demo_deployment_def demo_env_def demo_mon_def mon_defaults_def agent_settings.defs late_def)

lemma demo_page_fields [simp]:
  "pe_key (demo_page now out) = sig_key (\<lambda>s. s) demo_alert" "pe_time (demo_page now out) = now"
  "pe_severity (demo_page now out) = ''warning''" "pe_outcome (demo_page now out) = out"
  by (simp_all add: demo_page_def)

lemma demo_hook_signals: "alert_signals demo_deployment demo_body (Some ''sha256=k'') = [demo_alert]"
  by (simp add: alert_signals_def demo_object cap_alerts_def py_take_def)

lemma demo_classified: "classify_parsed demo_alert [] = Inr (''warning'', PyStr ''alert'', PyStr [])"
  by code_simp

lemma demo_graph:
  "\<exists>r w'. graph_of demo_deployment demo_env demo_alert w = (Inr r, w') \<and> tw_now w' = tw_now w \<and> tr_severity r = ''warning''
     \<and> tr_alerted r \<noteq> Some False"
proof -
  have bad: "\<not> bad_severity (fst (ask_llm down_gw demo_clk (dp_cfg demo_deployment) demo_alert (tw_llm w)))"
    by (simp add: ask_llm_down bad_severity_def dget_def)
  from triage_returns [OF this] obtain r w' where
    run: "triage down_gw demo_clk (\<lambda>s. s) (\<lambda>n a. True) (dp_cfg demo_deployment) demo_alert w = (Inr r, w')" by blast
  have "tr_severity r = ''warning''"
    using triage_classified [OF run] by (simp add: ask_llm_down demo_classified)
  moreover obtain k row a where "tw_now w' = tw_now w"
    "quiet_run r w k row w' \<or> paging_run (\<lambda>n a. True) (dp_cfg demo_deployment) r w k row a w'"
    using triage_run [OF run] by metis
  moreover have "\<exists>i. i < notify_attempts c" for c using notify_attempts_pos by blast
  ultimately have "tw_now w' = tw_now w" "tr_alerted r \<noteq> Some False" "tr_severity r = ''warning''"
    by (auto simp: quiet_run_def paging_run_def Let_def)
  then show ?thesis using run by (simp add: graph_of_def)
qed

lemma demo_hook_does:
  "\<exists>out w'. agent_log demo_deployment demo_hook (w, pt) = [demo_page (tw_now w) out]
     \<and> agent_does demo_deployment demo_hook (w, pt) = (w', pt) \<and> tw_now w' = tw_now w \<and> out \<in> {Quiet, Paged}"
proof -
  obtain r w' where g: "graph_of demo_deployment demo_env demo_alert w = (Inr r, w')" "tw_now w' = tw_now w"
    "tr_severity r = ''warning''" "tr_alerted r \<noteq> Some False"
    using demo_graph by blast
  have "snd (webhook_alert demo_hm (graph_of demo_deployment demo_env) demo_mon demo_body (Some ''sha256=k'') w) = w'"
    using entry_points(2) [of demo_deployment demo_env demo_body "Some ''sha256=k''" w] by (simp add: demo_hook_signals g)
  moreover have "outcome_of r \<in> {Quiet, Paged}"
    using g(4) by (auto simp: outcome_of_def split: option.split bool.split)
  ultimately show ?thesis
    using g by (auto simp: demo_hook_def demo_hook_signals entry_of_def demo_page_def)
qed

lemma demo_killed_does:
  "\<exists>out w'. agent_log demo_deployment (Killed demo_env [] demo_alert 0) (w, pt) = [demo_page (tw_now w) out]
     \<and> agent_does demo_deployment (Killed demo_env [] demo_alert 0) (w, pt) = (w', pt) \<and> tw_now w' = tw_now w
     \<and> out \<in> {Quiet, Cut False}"
proof -
  obtain s1 where q: "ask_llm down_gw demo_clk (dp_cfg demo_deployment) demo_alert (tw_llm w) = ([], s1)"
    using ask_llm_down by (metis prod.collapse)
  obtain out w' where c: "triage_cut demo_deployment demo_env 0 demo_alert w = (Some (''warning'', out), w')"
    "tw_now w' = tw_now w" "out \<in> {Quiet, Cut False}"
    using q [unfolded demo_fields]
    by (cases "dedup (\<lambda>s. s) (triage_cfg_of demo_mon) demo_alert ''warning'' (PyStr []) (tw_now w) (tw_store w)")
      (force simp: triage_cut_def Let_def demo_classified split: prod.splits if_splits)
  then show ?thesis by (simp add: cut_log_def demo_page_def)
qed

text \<open>Two such occasions, a while apart, on a new agent: the log has their two entries.\<close>

lemma demo_two:
  assumes "\<And>w pt. \<exists>out w'. agent_log demo_deployment ev (w, pt) = [demo_page (tw_now w) out]
      \<and> agent_does demo_deployment ev (w, pt) = (w', pt) \<and> tw_now w' = tw_now w \<and> out \<in> {Quiet, o1}"
  shows "\<exists>o2 a. agent_history demo_deployment [ev, Wait d, demo_hook] (new_agent demo_llm 0 []) =
      ([demo_page 0 o1, demo_page d o2], a)
    \<and> (o2 \<noteq> Quiet) = page_due 1800 [demo_page 0 o1] (demo_page d o2) \<and> o2 \<in> {Quiet, Paged}"
proof -
  let ?w = "fst (new_agent demo_llm 0 [])"
  obtain out w1 where one: "agent_log demo_deployment ev (?w, []) = [demo_page 0 out]"
    "agent_does demo_deployment ev (?w, []) = (w1, [])" "tw_now w1 = 0" "out \<in> {Quiet, o1}"
    using assms [of ?w "[]"] by (auto simp: new_agent_def)
  obtain o2 w2 where two: "agent_log demo_deployment demo_hook (w1\<lparr>tw_now := d\<rparr>, []) = [demo_page d o2]"
    "agent_does demo_deployment demo_hook (w1\<lparr>tw_now := d\<rparr>, []) = (w2, [])" "o2 \<in> {Quiet, Paged}"
    using demo_hook_does [of "w1\<lparr>tw_now := d\<rparr>" "[]"] by auto
  have h: "agent_history demo_deployment [ev, Wait d, demo_hook] (new_agent demo_llm 0 []) =
      ([demo_page 0 out, demo_page d o2], (w2, []))"
    using one two by (simp add: new_agent_def)
  from history_shown(2) [OF h] have "out \<noteq> Quiet" and
    "(o2 \<noteq> Quiet) = page_due 1800 [demo_page 0 out] (demo_page d o2)"
    by (simp_all add: page_due_def last_time_def)
  with h one(4) two(3) show ?thesis by auto
qed

theorem pages_never_crowd_witness:
  "\<exists>a. agent_history demo_deployment [demo_hook, Wait 3600, demo_hook] (new_agent demo_llm 0 []) =
      ([demo_page 0 Paged, demo_page 3600 Paged], a) \<and> (1800 :: secs) \<le> 3600 - 0"
proof -
  obtain o2 a where h: "agent_history demo_deployment [demo_hook, Wait 3600, demo_hook] (new_agent demo_llm 0 []) =
      ([] @ demo_page 0 Paged # [] @ demo_page 3600 o2 # [], a)" and
    o2: "(o2 \<noteq> Quiet) = page_due 1800 [demo_page 0 Paged] (demo_page 3600 o2)" "o2 \<in> {Quiet, Paged}"
    using demo_two [OF demo_hook_does, of 3600] by auto
  have "o2 = Paged" using o2 by (auto simp: page_due_def last_time_def)
  then show ?thesis using pages_never_crowd [OF h] h by simp
qed

theorem lasting_problem_pages_once_witness:
  "\<exists>o2 a. agent_history demo_deployment [demo_hook, Wait 60, demo_hook] (new_agent demo_llm 0 []) =
      ([demo_page 0 Paged, demo_page 60 o2], a) \<and> \<not> delivers (demo_page 60 o2)"
proof -
  obtain o2 a where h: "agent_history demo_deployment [demo_hook, Wait 60, demo_hook] (new_agent demo_llm 0 []) =
      ([] @ demo_page 0 Paged # [demo_page 60 o2], a)"
    using demo_two [OF demo_hook_does, of 60] by auto
  have "\<not> delivers (demo_page 60 o2)"
    using lasting_problem_pages_once [OF h] by (simp add: lasting_def split: if_splits)
  with h show ?thesis unfolding append_Nil by blast
qed

theorem killed_page_is_lost_witness:
  "\<exists>l a. agent_history demo_deployment [Killed demo_env [] demo_alert 0, Wait 60, demo_hook] (new_agent demo_llm 0 []) = (l, a)
     \<and> length l = 2 \<and> (\<forall>x \<in> set (tw_delivered (fst a)). al_dedup_key x \<noteq> Some (sig_key (\<lambda>s. s) demo_alert))"
proof -
  obtain o2 a where h: "agent_history demo_deployment [Killed demo_env [] demo_alert 0, Wait 60, demo_hook] (new_agent demo_llm 0 []) =
      ([] @ demo_page 0 (Cut False) # [demo_page 60 o2], a)"
    using demo_two [OF demo_killed_does, of 60] by auto
  then show ?thesis using killed_page_is_lost [OF h] by (simp add: lasting_def)
qed

end
