(* ===== verification/DashStoreProps.thy ===== *)
theory DashStoreProps
  imports DashStore
begin

text \<open>
  The dashboard's cost rollup over its whole life, and the personal access tokens' isolation between
  tenants.
\<close>

section \<open>The rollup is a keyed table\<close>

interpretation daily: keyed_table "\<lambda>k t. map_of t k" "upsert_row cost_merge" cost_merge
  by (rule keyed_upsert_row)

interpretation overlay: keyed_table "\<lambda>k t. map_of t k" "upsert_row triage_merge" triage_merge
  by (rule keyed_upsert_row)

lemma daily_upsert:
  "map_of (db_cost_daily (rollup_upsert k x db)) k' =
     (if k' = k then Some (cost_merge x (map_of (db_cost_daily db) k)) else map_of (db_cost_daily db) k')"
  by (simp add: rollup_upsert_def daily.get_put)

lemma rollup_upsert_frame [simp]:
  "db_cost_events (rollup_upsert k x db) = db_cost_events db"
  "db_model_events (rollup_upsert k x db) = db_model_events db"
  by (simp_all add: rollup_upsert_def)

lemma update_same: "map_of t k = Some v \<Longrightarrow> AList.update k v t = t"
  by (induction t) auto

lemma rollup_upsert_dominated:
  "map_of (db_cost_daily db) k = Some y \<Longrightarrow> x \<le> y \<Longrightarrow> rollup_upsert k x db = db"
  by (simp add: rollup_upsert_def upsert_row_def cost_merge_def max_absorb1 update_same)

text \<open>The largest of a list of figures, if any.\<close>

definition largest :: "usd list \<Rightarrow> usd option" where
  "largest us = (if us = [] then None else Some (Max (set us)))"

lemma largest_snoc: "largest (us @ [u]) = Some (cost_merge u (largest us))"
  by (cases "us = []") (simp_all add: largest_def cost_merge_def max.commute)

lemma largest_ge: "u \<in> set us \<Longrightarrow> \<exists>x. largest us = Some x \<and> u \<le> x"
  by (auto simp: largest_def)

section \<open>Histories\<close>

text \<open>What a dashboard does to its cost tables.\<close>

datatype cost_op = Total string pyval secs | ByModel string pyval secs | PruneRaw int secs | Repair

fun cost_step :: "cost_op \<Rightarrow> dash_db \<Rightarrow> dash_db" where
  "cost_step (Total a v t) db = snd (record_cost a v t db)"
| "cost_step (ByModel a v t) db = snd (record_cost_by_model a v t db)"
| "cost_step (PruneRaw n now) db = the (snd (prune_old_data n now (Some db)))"
| "cost_step Repair db = rollup_cost_daily db"

text \<open>The figures an operation reports under one key; a figure that is not a number ends the report.\<close>

fun model_figures :: "string \<Rightarrow> pyval dict \<Rightarrow> usd list" where
  "model_figures m [] = []"
| "model_figures m ((k, v) # d) =
     (case usd_value v of Inl _ \<Rightarrow> [] | Inr u \<Rightarrow> (if model_label k = m then [u] else []) @ model_figures m d)"

fun figures :: "cost_key \<Rightarrow> cost_op \<Rightarrow> usd list" where
  "figures (a, m, d) (Total a' v t) =
     (if a' = a \<and> m = agent_total_model \<and> day_of t = d then (case usd_value v of Inl _ \<Rightarrow> [] | Inr u \<Rightarrow> [u]) else [])"
| "figures (a, m, d) (ByModel a' v t) =
     (if a' = a \<and> m \<noteq> agent_total_model \<and> day_of t = d
      then (case v of PyDict bm \<Rightarrow> model_figures m bm | _ \<Rightarrow> []) else [])"
| "figures _ _ = []"

definition reported :: "cost_key \<Rightarrow> cost_op list \<Rightarrow> usd list" where
  "reported k ops = concat (map (figures k) ops)"

lemma model_label_nonempty [simp]: "model_label s \<noteq> agent_total_model" "model_label s \<noteq> []"
  by (simp_all add: model_label_def agent_total_model_def unknown_model_def Let_def)

text \<open>The rollup is exact for the figures \<open>fs\<close>, and every event kept is one of them.\<close>

definition exact_for :: "(cost_key \<Rightarrow> usd list) \<Rightarrow> dash_db \<Rightarrow> bool" where
  "exact_for fs db \<longleftrightarrow> (\<forall>k. map_of (db_cost_daily db) k = largest (fs k))
     \<and> (\<forall>e \<in> set (db_cost_events db) \<union> set (db_model_events db). ce_usd e \<in> set (fs (event_key e)))"

lemma exact_row: "exact_for fs db \<Longrightarrow> map_of (db_cost_daily db) k = largest (fs k)"
  unfolding exact_for_def by blast

lemma exact_event:
  "exact_for fs db \<Longrightarrow> e \<in> set (db_cost_events db) \<union> set (db_model_events db) \<Longrightarrow> ce_usd e \<in> set (fs (event_key e))"
  unfolding exact_for_def by blast

lemma exact_total:
  assumes "exact_for fs db" and "usd_value v = Inr u"
  shows "exact_for (\<lambda>k. fs k @ (if k = (a, agent_total_model, day_of t) then [u] else [])) (snd (record_cost a v t db))"
  using assms unfolding exact_for_def
  by (auto simp: record_cost_def daily_upsert log_cost_def largest_snoc event_key_def agent_total_model_def)

lemma exact_one_model:
  assumes "exact_for fs db"
  shows "exact_for (\<lambda>k. fs k @ (if k = (a, m, day_of t) then [u] else []))
     (rollup_upsert (a, m, day_of t) u (log_model_cost a m u t db))"
  using assms unfolding exact_for_def
  by (auto simp: daily_upsert log_model_cost_def largest_snoc event_key_def)

lemma exact_models:
  assumes "exact_for fs db"
  shows "exact_for (\<lambda>k. fs k @ (if fst k = a \<and> snd (snd k) = day_of t then model_figures (fst (snd k)) bm else []))
     (snd (record_models a t bm db))"
  using assms
proof (induction bm arbitrary: fs db)
  case (Cons mv bm)
  obtain m v where mv: "mv = (m, v)" by (cases mv)
  show ?case
  proof (cases "usd_value v")
    case (Inr u)
    from Cons.IH [OF exact_one_model [OF Cons.prems, of a "model_label m" t u]]
    show ?thesis by (simp add: mv Inr Let_def) (rule back_subst [of "\<lambda>f. exact_for f _"], assumption, auto simp: fun_eq_iff mv Inr)
  qed (simp add: mv Cons.prems cong: if_cong)
qed (simp cong: if_cong)

text \<open>The figure the repair upserts for a key: the largest of the key's events.\<close>

definition group_max :: "cost_event list \<Rightarrow> cost_key \<Rightarrow> usd" where
  "group_max es k = Max (set (map ce_usd (filter (\<lambda>e. event_key e = k) es)))"

lemma rollup_events_fold:
  "rollup_events es db = fold (\<lambda>k. rollup_upsert k (group_max es k)) (remdups (map event_key es)) db"
  by (simp add: rollup_events_def group_max_def)

lemma group_max_event:
  assumes "k \<in> set (map event_key es)"
  shows "\<exists>e \<in> set es. event_key e = k \<and> ce_usd e = group_max es k"
proof -
  obtain e where "e \<in> set es" "event_key e = k" using assms by auto
  then have "set (map ce_usd (filter (\<lambda>e. event_key e = k) es)) \<noteq> {}" by (auto simp: filter_empty_conv)
  from Max_in [OF List.finite_set this] show ?thesis by (auto simp: group_max_def)
qed

lemma group_max_ge: "e \<in> set es \<Longrightarrow> ce_usd e \<le> group_max es (event_key e)"
  unfolding group_max_def by (rule Max_ge) auto

lemma upsert_group_dominated:
  assumes "exact_for fs db" and "set es \<subseteq> set (db_cost_events db) \<union> set (db_model_events db)"
    and "k \<in> set (map event_key es)"
  shows "rollup_upsert k (group_max es k) db = db"
proof -
  obtain e where "e \<in> set es" "event_key e = k" "ce_usd e = group_max es k" using group_max_event [OF assms(3)] by blast
  then have "group_max es k \<in> set (fs k)" using exact_event [OF assms(1), of e] assms(2) by auto
  from largest_ge [OF this] obtain x where "largest (fs k) = Some x" "group_max es k \<le> x" by blast
  then show ?thesis using exact_row [OF assms(1), of k] rollup_upsert_dominated by metis
qed

lemma fold_fixed: "(\<And>k. k \<in> set ks \<Longrightarrow> f k x = x) \<Longrightarrow> fold f ks x = x"
  by (induction ks) auto

lemma fold_one_effective:
  assumes "\<And>k. k \<in> set ks \<Longrightarrow> k \<noteq> k0 \<Longrightarrow> f k x = x" and "f k0 x = y"
    and "\<And>k. k \<in> set ks \<Longrightarrow> f k y = y" and "k0 \<in> set ks"
  shows "fold f ks x = y"
  using assms(1,3,4)
proof (induction ks)
  case (Cons k ks)
  show ?case
  proof (cases "k = k0")
    case True
    then show ?thesis using assms(2) Cons.prems(2) by (simp add: fold_fixed)
  next
    case False
    then show ?thesis using Cons by simp
  qed
qed simp

lemma rollup_events_dominated:
  assumes "exact_for fs db" and "set es \<subseteq> set (db_cost_events db) \<union> set (db_model_events db)"
  shows "rollup_events es db = db"
  unfolding rollup_events_fold by (rule fold_fixed) (use upsert_group_dominated [OF assms] in simp)

lemma repair_exact: "exact_for fs db \<Longrightarrow> rollup_cost_daily db = db"
  by (simp add: rollup_cost_daily_def rollup_events_dominated)

lemma exact_step:
  assumes "exact_for fs db"
  shows "exact_for (\<lambda>k. fs k @ figures k op) (cost_step op db)"
proof (cases op)
  case (Total a v t)
  show ?thesis
  proof (cases "usd_value v")
    case (Inl e)
    have "(\<lambda>k. fs k @ figures k op) = fs" by (auto simp: fun_eq_iff Total Inl)
    then show ?thesis using assms by (simp add: Total record_cost_def Inl)
  next
    case (Inr u)
    have "(\<lambda>k. fs k @ figures k op) = (\<lambda>k. fs k @ (if k = (a, agent_total_model, day_of t) then [u] else []))"
      by (auto simp: fun_eq_iff Total Inr)
    then show ?thesis using exact_total [OF assms Inr] by (simp add: Total)
  qed
next
  case (ByModel a v t)
  show ?thesis
  proof (cases "\<exists>bm. v = PyDict bm")
    case True
    then obtain bm where v: "v = PyDict bm" ..
    have m: "model_figures agent_total_model bm = []" by (induction bm) (auto split: sum.split)
    have "(\<lambda>k. fs k @ figures k op) =
        (\<lambda>k. fs k @ (if fst k = a \<and> snd (snd k) = day_of t then model_figures (fst (snd k)) bm else []))"
      by (auto simp: fun_eq_iff ByModel v m)
    then show ?thesis using exact_models [OF assms, of a t bm]
      by (cases "bm = []") (simp_all add: ByModel v record_cost_by_model_def)
  next
    case False
    then have "cost_step op db = db" by (cases v) (auto simp: ByModel record_cost_by_model_def)
    moreover have "(\<lambda>k. fs k @ figures k op) = fs" using False by (auto simp: fun_eq_iff ByModel split: pyval.split)
    ultimately show ?thesis using assms by simp
  qed
next
  case (PruneRaw n now)
  have "(\<lambda>k. fs k @ figures k op) = fs" by (auto simp: fun_eq_iff PruneRaw)
  then show ?thesis using assms by (auto simp: PruneRaw prune_old_data_def exact_for_def Let_def)
next
  case Repair
  have "(\<lambda>k. fs k @ figures k op) = fs" by (auto simp: fun_eq_iff Repair)
  then show ?thesis using assms by (simp add: Repair repair_exact)
qed

lemma exact_history: "exact_for (\<lambda>k. reported k ops) (fold cost_step ops create_schema)"
proof (induction ops rule: rev_induct)
  case Nil
  then show ?case by (simp add: exact_for_def reported_def create_schema_def largest_def)
next
  case (snoc op ops)
  from exact_step [OF this, of op] show ?case by (simp add: reported_def)
qed

text \<open>The repair of a database that has logged one total more than it has rolled up.\<close>

lemma cut_group:
  fixes a t u db
  defines "db1 \<equiv> log_cost a u t db" and "k0 \<equiv> (a, agent_total_model, day_of t)"
  defines "es \<equiv> db_cost_events db1"
  assumes ex: "exact_for fs db"
  shows "k \<in> set (map event_key es) \<Longrightarrow> k \<noteq> k0 \<Longrightarrow> rollup_upsert k (group_max es k) db1 = db1"
    and "rollup_upsert k0 (group_max es k0) db1 = rollup_upsert k0 u db1"
    and "k0 \<in> set (map event_key es)"
proof -
  let ?e = "\<lparr>ce_agent = a, ce_model = [], ce_ts = t, ce_usd = u\<rparr>"
  have es: "es = db_cost_events db @ [?e]" and daily: "db_cost_daily db1 = db_cost_daily db"
    by (simp_all add: es_def db1_def log_cost_def)
  have key: "event_key ?e = k0" by (simp add: event_key_def agent_total_model_def k0_def)
  show k0: "k0 \<in> set (map event_key es)" using key by (auto simp: es image_iff)
  have below: "\<exists>x. map_of (db_cost_daily db1) k = Some x \<and> group_max es k \<le> x"
    if k: "k \<in> set (map event_key es)" and new: "k \<noteq> k0 \<or> group_max es k \<noteq> u" for k
  proof -
    obtain e where e: "e \<in> set es" "event_key e = k" "ce_usd e = group_max es k" using group_max_event [OF k] by blast
    then have "e \<in> set (db_cost_events db)" using new key by (auto simp: es)
    then have "ce_usd e \<in> set (fs k)" using exact_event [OF ex, of e] e(2) by simp
    from largest_ge [OF this] show ?thesis using exact_row [OF ex, of k] by (simp add: daily e(3))
  qed
  show "rollup_upsert k (group_max es k) db1 = db1" if "k \<in> set (map event_key es)" "k \<noteq> k0"
    using below [OF that(1)] that(2) rollup_upsert_dominated by metis
  show "rollup_upsert k0 (group_max es k0) db1 = rollup_upsert k0 u db1"
  proof (cases "group_max es k0 = u")
    case False
    then obtain x where x: "map_of (db_cost_daily db1) k0 = Some x" "group_max es k0 \<le> x" using below [OF k0] by auto
    moreover have "u \<le> group_max es k0" using group_max_ge [of ?e es] by (simp add: key es)
    ultimately show ?thesis using rollup_upsert_dominated by (metis order_trans)
  qed simp
qed

section \<open>Properties\<close>

text \<open>
  C22: After any history of cost reports, retention prunes and repairs, the rollup has for every agent
  and day the largest agent total reported that day, and for every model label the largest figure
  reported under it, also when the raw events are long pruned; whatever models an agent reports, blank
  names included, its total is untouched by them.
\<close>
theorem cost_rollup_exact:
  "map_of (db_cost_daily (fold cost_step ops create_schema)) (a, m, d) =
     (let us = concat (map (\<lambda>op. case op of
            Total a' v t \<Rightarrow>
              if a' = a \<and> m = agent_total_model \<and> day_of t = d then (case usd_value v of Inl _ \<Rightarrow> [] | Inr u \<Rightarrow> [u]) else []
          | ByModel a' (PyDict bm) t \<Rightarrow>
              if a' = a \<and> m \<noteq> agent_total_model \<and> day_of t = d then model_figures m bm else []
          | _ \<Rightarrow> []) ops)
      in if us = [] then None else Some (Max (set us)))"
proof -
  have "figures (a, m, d) op = (case op of
            Total a' v t \<Rightarrow>
              if a' = a \<and> m = agent_total_model \<and> day_of t = d then (case usd_value v of Inl _ \<Rightarrow> [] | Inr u \<Rightarrow> [u]) else []
          | ByModel a' (PyDict bm) t \<Rightarrow>
              if a' = a \<and> m \<noteq> agent_total_model \<and> day_of t = d then model_figures m bm else []
          | _ \<Rightarrow> [])" for op
    by (cases op) (auto split: pyval.split)
  with exact_history [of ops] show ?thesis
    unfolding exact_for_def reported_def largest_def Let_def by simp
qed

text \<open>
  A report cut off between its two statements, the event logged and the rollup not yet written, is
  completed by the next repair: the database is then exactly the one the whole report would have left,
  and a repair of a database with nothing cut off changes nothing.
\<close>
theorem repair_completes_cut_report:
  assumes "db = fold cost_step ops create_schema" and "usd_value v = Inr u"
  shows "rollup_cost_daily (log_cost a u t db) = snd (record_cost a v t db) \<and> rollup_cost_daily db = db"
proof -
  let ?db1 = "log_cost a u t db" and ?k = "(a, agent_total_model, day_of t)" and ?db2 = "snd (record_cost a v t db)"
  let ?es = "db_cost_events ?db1"
  note ex = exact_history [of ops, folded assms(1)]
  note ex2 = exact_total [OF ex assms(2), of a t] and cut = cut_group [OF ex, where a = a and u = u and t = t]
  have db2: "?db2 = rollup_upsert ?k u ?db1" by (simp add: record_cost_def assms(2))
  have ev: "db_cost_events ?db2 = ?es" "db_model_events ?db1 = db_model_events ?db2" by (simp_all add: db2)
  have "rollup_events ?es ?db1 = ?db2"
    unfolding rollup_events_fold
  proof (rule fold_one_effective [where ?k0.0 = ?k])
    show "rollup_upsert ?k (group_max ?es ?k) ?db1 = ?db2" using cut(2) by (simp add: db2)
    show "?k \<in> set (remdups (map event_key ?es))" using cut(3) by simp
    show "rollup_upsert k (group_max ?es k) ?db1 = ?db1" if "k \<in> set (remdups (map event_key ?es))" "k \<noteq> ?k" for k
      by (rule cut(1)) (use that in simp_all)
    show "rollup_upsert k (group_max ?es k) ?db2 = ?db2" if "k \<in> set (remdups (map event_key ?es))" for k
      by (rule upsert_group_dominated [OF ex2]) (use that ev in auto)
  qed
  then have "rollup_cost_daily ?db1 = ?db2"
    unfolding rollup_cost_daily_def using rollup_events_dominated [OF ex2] ev(2) by simp
  then show ?thesis using repair_exact [OF ex] by simp
qed

theorem repair_completes_cut_report_witness:
  "rollup_cost_daily (log_cost ''a'' 1 0 create_schema) = snd (record_cost ''a'' (PyBool True) 0 create_schema)"
  using repair_completes_cut_report [of create_schema "[]" "PyBool True" 1 "''a''" 0]
  by (simp add: usd_value_def dec_val_def)

end
