(* ===== verification/CliConfig.thy ===== *)
theory CliConfig
  imports DashRegistry
begin

text \<open>
  The registry writer of the command line (\<open>platform_cli/config.py\<close>): one key of a dotenv file is
  read and written, every other line is left alone, and the file is replaced by renaming a
  temporary file over it. The file is its text (universal newlines are already translated by
  Python's text mode); \<open>None\<close> is a missing file.
\<close>

section \<open>The file and its atomic replacement\<close>

record env_fs =
  env_text :: "string option"
  env_tmp :: "string option"

datatype write_step = MkTemp | WriteTemp string | Fsync | ReplaceTemp

fun fs_step :: "write_step \<Rightarrow> env_fs \<Rightarrow> env_fs" where
  "fs_step MkTemp fs = fs\<lparr>env_tmp := Some []\<rparr>"
| "fs_step (WriteTemp c) fs = fs\<lparr>env_tmp := Some c\<rparr>"
| "fs_step Fsync fs = fs"
| "fs_step ReplaceTemp fs = fs\<lparr>env_text := env_tmp fs, env_tmp := None\<rparr>"

definition atomic_steps :: "string \<Rightarrow> write_step list" where
  "atomic_steps content = [MkTemp, WriteTemp content, Fsync, ReplaceTemp]"

text \<open>
  \<open>fault\<close> is the number of the step that raises, if one does; \<open>unlinked\<close> says whether removing the
  temporary file then succeeds (its error is swallowed). \<open>mkstemp\<close> stands before the \<open>try\<close>.
\<close>

definition atomic_write :: "nat option \<Rightarrow> bool \<Rightarrow> string \<Rightarrow> env_fs \<Rightarrow> (pyexc, unit) result \<times> env_fs" where
  "atomic_write fault unlinked content fs =
     (case fault of
        None \<Rightarrow> (Inr (), fold fs_step (atomic_steps content) fs)
      | Some i \<Rightarrow>
          let fs1 = fold fs_step (take i (atomic_steps content)) fs
          in if length (atomic_steps content) \<le> i then (Inr (), fs1)
             else (Inl (Upstream ''OSError''), if 0 < i \<and> unlinked then fs1\<lparr>env_tmp := None\<rparr> else fs1))"

section \<open>Dotenv lines\<close>

definition dashboard_agents_key :: string where
  "dashboard_agents_key = ''DASHBOARD_AGENTS''"

definition is_quote :: "char \<Rightarrow> bool" where
  "is_quote c \<longleftrightarrow> c = CHR 0x22 \<or> c = CHR 0x27"

definition unquote_value :: "string \<Rightarrow> string" where
  "unquote_value v =
     (if 2 \<le> length v \<and> hd v = last v \<and> is_quote (hd v) then butlast (tl v) else v)"

text \<open>The value a line gives to \<open>key\<close>, if it does.\<close>

definition line_value :: "string \<Rightarrow> string \<Rightarrow> string option" where
  "line_value key line =
     (let s = strip line in
      if s = [] \<or> hd s = CHR ''#'' \<or> CHR ''='' \<notin> set s then None
      else case partition_at CHR ''='' s of (name, _, value) \<Rightarrow>
        if strip name \<noteq> key then None else Some (unquote_value (strip value)))"

fun first_value :: "string \<Rightarrow> string list \<Rightarrow> string option" where
  "first_value key [] = None"
| "first_value key (l # ls) = (case line_value key l of Some v \<Rightarrow> Some v | None \<Rightarrow> first_value key ls)"

definition read_dotenv_value :: "string option \<Rightarrow> string \<Rightarrow> string option" where
  "read_dotenv_value text key = (case text of None \<Rightarrow> None | Some t \<Rightarrow> first_value key (splitlines t))"

definition quote_value :: "string \<Rightarrow> string" where
  "quote_value v =
     (if v \<noteq> [] \<and> hd v = last v \<and> is_quote (hd v) then v else CHR 0x27 # v @ [CHR 0x27])"

definition line_name :: "string \<Rightarrow> string" where
  "line_name line = strip (fst (partition_at CHR ''='' (strip line)))"

text \<open>The loop over the lines: the first line named \<open>key\<close> is replaced; the flag tells whether one was.\<close>

fun replace_line :: "string \<Rightarrow> string \<Rightarrow> string list \<Rightarrow> string list \<times> bool" where
  "replace_line key new [] = ([], False)"
| "replace_line key new (l # ls) =
     (if line_name l = key then (new # ls, True)
      else case replace_line key new ls of (out, r) \<Rightarrow> (l # out, r))"

definition dotenv_lines :: "string option \<Rightarrow> string list" where
  "dotenv_lines text = (case text of None \<Rightarrow> [] | Some t \<Rightarrow> splitlines t)"

definition dotenv_text :: "string option \<Rightarrow> string \<Rightarrow> string \<Rightarrow> string" where
  "dotenv_text text key value =
     (let new = key @ ''='' @ quote_value value
      in case replace_line key new (dotenv_lines text) of (out, replaced) \<Rightarrow>
           join nl (if replaced then out else out @ [new]) @ nl)"

definition write_dotenv_value ::
  "nat option \<Rightarrow> bool \<Rightarrow> env_fs \<Rightarrow> string \<Rightarrow> string \<Rightarrow> (pyexc, unit) result \<times> env_fs" where
  "write_dotenv_value fault unlinked fs key value =
     atomic_write fault unlinked (dotenv_text (env_text fs) key value) fs"

section \<open>The registry\<close>

text \<open>
  \<open>validate\<close> is pydantic's \<open>AgentConfig(**obj)\<close> on a decoded object; \<open>AgentConfig(**obj)\<close> of a value
  that is no dictionary is a \<open>TypeError\<close>. \<open>live\<close> is \<open>list(Settings().agents)\<close>, read when the key
  is absent.
\<close>

type_synonym validator = "pyval \<Rightarrow> (pyexc, agent_config) result"

definition agent_of :: "validator \<Rightarrow> pyval \<Rightarrow> (pyexc, agent_config) result" where
  "agent_of validate v = (if is_dict v then validate v else Inl TypeError)"

text \<open>\<open>[AgentConfig(**obj) for obj in v]\<close>: a dictionary iterates over its keys, a string over its characters.\<close>

fun agents_of :: "validator \<Rightarrow> pyval \<Rightarrow> (pyexc, agent_config list) result" where
  "agents_of validate (PyList vs) = rmap (agent_of validate) vs"
| "agents_of validate (PyDict d) = (if d = [] then Inr [] else Inl TypeError)"
| "agents_of validate (PyStr s) = (if s = [] then Inr [] else Inl TypeError)"
| "agents_of validate _ = Inl TypeError"

definition load_agents ::
  "validator \<Rightarrow> (pyexc, agent_config list) result \<Rightarrow> string option \<Rightarrow> (pyexc, agent_config list) result" where
  "load_agents validate live text =
     (case read_dotenv_value text dashboard_agents_key of
        None \<Rightarrow> live
      | Some raw \<Rightarrow> rbind (json_loads raw) (agents_of validate))"

definition upsert :: "agent_config list \<Rightarrow> agent_config \<Rightarrow> agent_config list" where
  "upsert agents new = filter (\<lambda>a. ac_slug a \<noteq> ac_slug new) agents @ [new]"

definition remove_agent :: "agent_config list \<Rightarrow> string \<Rightarrow> agent_config list" where
  "remove_agent agents slug = filter (\<lambda>a. ac_slug a \<noteq> slug) agents"

definition serialize :: "agent_config list \<Rightarrow> string" where
  "serialize agents = json_compact (PyList (map model_dump agents))"

text \<open>\<open>Settings(agents=[...])\<close> validates every dumped agent again.\<close>

definition registry_for :: "validator \<Rightarrow> agent_config list \<Rightarrow> (pyexc, agent_spec list) result" where
  "registry_for validate agents =
     rbind (rmap (\<lambda>a. validate (model_dump a)) agents) (\<lambda>as. Inr (build_registry as))"

definition save_agents ::
  "validator \<Rightarrow> nat option \<Rightarrow> bool \<Rightarrow> env_fs \<Rightarrow> agent_config list \<Rightarrow> (pyexc, unit) result \<times> env_fs" where
  "save_agents validate fault unlinked fs agents =
     (let payload = serialize agents in
      case rbind (json_loads payload) (\<lambda>v. rbind (agents_of validate v) (registry_for validate)) of
        Inl e \<Rightarrow> (Inl e, fs)
      | Inr reg \<Rightarrow>
          if map sp_slug reg \<noteq> map ac_slug agents then (Inl ValueError, fs)
          else write_dotenv_value fault unlinked fs dashboard_agents_key payload)"

end
