(* ===== verification/CliProps.thy ===== *)
theory CliProps
  imports CliConfig
begin

text \<open>
  Properties of the registry writer: the file is replaced atomically, the key written is the key
  read back, the agents saved are the agents loaded, and which lines of the file change.
\<close>

section \<open>Lines\<close>

definition no_break :: "string \<Rightarrow> bool" where
  "no_break l \<longleftrightarrow> list_all (\<lambda>c. \<not> is_linebreak c) l"

lemma splitlines_acc_line: "no_break l \<Longrightarrow>
    splitlines_acc False w (l @ CHR 0x0A # rest) = (rev w @ l) # splitlines_acc False [] rest"
  by (induction l arbitrary: w) (auto simp: no_break_def is_linebreak_def)

lemma splitlines_join: "list_all no_break ls \<Longrightarrow> ls \<noteq> [] \<Longrightarrow> splitlines (join nl ls @ nl) = ls"
proof (induction ls)
  case (Cons l ls)
  then show ?case using splitlines_acc_line [of l "[]"] by (cases ls) (auto simp: splitlines_def)
qed simp

lemma no_break_simps [simp]: "no_break []" "no_break (c # cs) \<longleftrightarrow> \<not> is_linebreak c \<and> no_break cs"
  "no_break (s @ t) \<longleftrightarrow> no_break s \<and> no_break t" "no_break (rev s) \<longleftrightarrow> no_break s"
  by (simp_all add: no_break_def)

lemma splitlines_acc_no_break: "no_break w \<Longrightarrow> list_all no_break (splitlines_acc cr w t)"
  by (induction t arbitrary: cr w) simp_all

lemma dotenv_lines_no_break: "list_all no_break (dotenv_lines text)"
  by (auto simp: dotenv_lines_def splitlines_def splitlines_acc_no_break split: option.splits)

text \<open>The lines of a file as an editor shows them: a line feed ends a line, and nothing else does.\<close>

fun lf_acc :: "string \<Rightarrow> string \<Rightarrow> string list" where
  "lf_acc w [] = (if w = [] then [] else [rev w])"
| "lf_acc w (c # cs) = (if c = CHR 0x0A then rev w # lf_acc [] cs else lf_acc (c # w) cs)"

definition file_lines :: "string option \<Rightarrow> string list" where
  "file_lines tx = (case tx of None \<Rightarrow> [] | Some t \<Rightarrow> lf_acc [] t)"

text \<open>A file without any of the other characters at which \<open>str.splitlines\<close> breaks a line.\<close>

definition only_lf :: "string option \<Rightarrow> bool" where
  "only_lf tx = (case tx of None \<Rightarrow> True | Some t \<Rightarrow> list_all (\<lambda>c. is_linebreak c \<longrightarrow> c = CHR 0x0A) t)"

lemma lf_acc_line: "no_break l \<Longrightarrow> lf_acc w (l @ CHR 0x0A # rest) = (rev w @ l) # lf_acc [] rest"
  by (induction l arbitrary: w) (auto simp: no_break_def is_linebreak_def)

lemma file_lines_join: "list_all no_break ls \<Longrightarrow> ls \<noteq> [] \<Longrightarrow> file_lines (Some (join nl ls @ nl)) = ls"
proof (induction ls)
  case (Cons l ls)
  then show ?case using lf_acc_line [of l "[]"] by (cases ls) (auto simp: file_lines_def)
qed simp

lemma splitlines_acc_lf:
  "list_all (\<lambda>c. is_linebreak c \<longrightarrow> c = CHR 0x0A) t \<Longrightarrow> splitlines_acc False w t = lf_acc w t"
proof (induction t arbitrary: w)
  case (Cons c t)
  have "is_linebreak (CHR 0x0A)" "code (CHR 0x0A) = 10" by code_simp+
  then show ?case using Cons by (cases "c = CHR 0x0A") simp_all
qed simp

lemma dotenv_lines_only_lf: "only_lf tx \<Longrightarrow> dotenv_lines tx = file_lines tx"
  by (auto simp: only_lf_def dotenv_lines_def file_lines_def splitlines_def splitlines_acc_lf split: option.splits)

section \<open>The replaced line\<close>

lemma line_value_name: "line_value key l = Some v \<Longrightarrow> line_name l = key"
  by (auto simp: line_value_def line_name_def Let_def split: prod.splits if_splits)

lemma first_value_none: "list_all (\<lambda>l. line_name l \<noteq> key) ls \<Longrightarrow>
    first_value key (ls @ ms) = first_value key ms"
  by (induction ls) (auto split: option.splits dest: line_value_name)

lemma replace_line_False: "replace_line key new ls = (out, False) \<Longrightarrow>
    out = ls \<and> list_all (\<lambda>l. line_name l \<noteq> key) ls"
  by (induction ls arbitrary: out) (auto split: prod.splits if_splits)

lemma replace_line_True: "replace_line key new ls = (out, True) \<Longrightarrow>
    \<exists>pre l post. ls = pre @ l # post \<and> out = pre @ new # post \<and> line_name l = key
      \<and> list_all (\<lambda>l. line_name l \<noteq> key) pre"
proof (induction ls arbitrary: out)
  case (Cons l ls)
  show ?case
  proof (cases "line_name l = key")
    case True
    then have "l # ls = [] @ l # ls \<and> out = [] @ new # ls" using Cons.prems by simp
    then show ?thesis using True by fastforce
  next
    case False
    then obtain out' where o: "replace_line key new ls = (out', True)" "out = l # out'"
      using Cons.prems by (auto split: prod.splits)
    from Cons.IH [OF o(1)] obtain pre m post where
      "ls = pre @ m # post" "out' = pre @ new # post" "line_name m = key" "list_all (\<lambda>l. line_name l \<noteq> key) pre"
      by blast
    then have "l # ls = (l # pre) @ m # post" "out = (l # pre) @ new # post" "list_all (\<lambda>l. line_name l \<noteq> key) (l # pre)"
      using o(2) False by simp_all
    with \<open>line_name m = key\<close> show ?thesis by blast
  qed
qed simp

text \<open>The lines of the file after a write.\<close>

definition written :: "string \<Rightarrow> string \<Rightarrow> string list \<Rightarrow> string list" where
  "written key new ls = (case replace_line key new ls of (out, r) \<Rightarrow> if r then out else out @ [new])"

text \<open>One line is replaced, the first named by the key, or one is appended when none is.\<close>

definition one_line_set :: "string \<Rightarrow> string \<Rightarrow> string list \<Rightarrow> string list \<Rightarrow> bool" where
  "one_line_set key new ls ls' \<longleftrightarrow>
     (\<exists>pre old post. ls = pre @ old # post \<and> ls' = pre @ new # post \<and> line_name old = key \<and> (\<forall>l \<in> set pre. line_name l \<noteq> key))
   \<or> (ls' = ls @ [new] \<and> (\<forall>l \<in> set ls. line_name l \<noteq> key))"

lemma written_one_line: "one_line_set key new ls (written key new ls)"
proof (cases "replace_line key new ls")
  case (Pair out r)
  show ?thesis
  proof (cases r)
    case True
    with Pair have "replace_line key new ls = (out, True)" by simp
    from replace_line_True [OF this] show ?thesis
      using Pair True by (simp add: written_def one_line_set_def list_all_iff)
  next
    case False
    with Pair have "replace_line key new ls = (out, False)" by simp
    from replace_line_False [OF this] show ?thesis
      using Pair False by (simp add: written_def one_line_set_def list_all_iff)
  qed
qed

lemma written_split: obtains pre post where
    "written key new ls = pre @ new # post" "list_all (\<lambda>l. line_name l \<noteq> key) pre" "set (pre @ post) \<subseteq> set ls"
  using written_one_line [of key new ls] unfolding one_line_set_def
proof (elim disjE exE conjE)
  fix pre old post
  assume "ls = pre @ old # post" "written key new ls = pre @ new # post" "\<forall>l \<in> set pre. line_name l \<noteq> key"
  then show thesis by (intro that [of pre post]) (auto simp: list_all_iff)
next
  assume "written key new ls = ls @ [new]" "\<forall>l \<in> set ls. line_name l \<noteq> key"
  then show thesis by (intro that [of ls "[]"]) (auto simp: list_all_iff)
qed

section \<open>Keys and values\<close>

definition key_ok :: "string \<Rightarrow> bool" where
  "key_ok key \<longleftrightarrow> key \<noteq> [] \<and> \<not> is_space (hd key) \<and> \<not> is_space (last key) \<and> hd key \<noteq> CHR ''#''
     \<and> CHR ''='' \<notin> set key \<and> no_break key"

definition value_ok :: "string \<Rightarrow> bool" where
  "value_ok v \<longleftrightarrow> (v = [] \<or> \<not> is_quote (hd v)) \<and> no_break v"

lemma partition_at_fresh: "c \<notin> set k \<Longrightarrow> partition_at c (k @ c # r) = (k, True, r)"
  by (induction k) auto

lemma new_line:
  assumes "key_ok key" and "value_ok v"
  shows "line_value key (key @ ''='' @ quote_value v) = Some v"
    and "line_name (key @ ''='' @ quote_value v) = key"
    and "no_break (key @ ''='' @ quote_value v)"
proof -
  have q: "quote_value v = CHR 0x27 # v @ [CHR 0x27]"
    using assms(2) by (auto simp: quote_value_def value_ok_def)
  have sp: "\<not> is_space (CHR 0x27)" by (simp add: is_space_def)
  have s: "strip (key @ ''='' @ quote_value v) = key @ ''='' @ quote_value v"
    using assms(1) sp by (intro strip_id) (simp add: key_ok_def q)
  have k: "strip key = key" using assms(1) by (intro strip_id) (simp add: key_ok_def)
  have qv: "strip (quote_value v) = quote_value v" using sp by (intro strip_id) (simp add: q)
  have p: "partition_at CHR ''='' (key @ ''='' @ quote_value v) = (key, True, quote_value v)"
    using assms(1) by (simp add: key_ok_def partition_at_fresh)
  have u: "unquote_value (quote_value v) = v" by (simp add: q unquote_value_def is_quote_def)
  show "line_name (key @ ''='' @ quote_value v) = key" unfolding line_name_def s p by (simp add: k)
  show "line_value key (key @ ''='' @ quote_value v) = Some v"
    using assms(1) unfolding line_value_def Let_def s p by (auto simp: k qv u key_ok_def)
  show "no_break (key @ ''='' @ quote_value v)"
    using assms unfolding q by (auto simp: key_ok_def value_ok_def no_break_def is_linebreak_def)
qed

lemma dotenv_text_lines:
  assumes "key_ok key" and "value_ok v"
  shows "splitlines (dotenv_text tx key v) = written key (key @ ''='' @ quote_value v) (dotenv_lines tx)"
    and "file_lines (Some (dotenv_text tx key v)) = written key (key @ ''='' @ quote_value v) (dotenv_lines tx)"
proof -
  let ?new = "key @ ''='' @ quote_value v"
  obtain pre post where w: "written key ?new (dotenv_lines tx) = pre @ ?new # post"
    "set (pre @ post) \<subseteq> set (dotenv_lines tx)" using written_split by blast
  then have "list_all no_break (written key ?new (dotenv_lines tx))"
    using dotenv_lines_no_break [of tx] new_line(3) [OF assms] by (auto simp: list_all_iff)
  moreover have "dotenv_text tx key v = join nl (written key ?new (dotenv_lines tx)) @ nl"
    by (auto simp: dotenv_text_def written_def Let_def split: prod.splits)
  ultimately show "splitlines (dotenv_text tx key v) = written key ?new (dotenv_lines tx)"
    and "file_lines (Some (dotenv_text tx key v)) = written key ?new (dotenv_lines tx)"
    using w(1) by (simp_all add: splitlines_join file_lines_join)
qed

lemma read_written:
  assumes "key_ok key" and "value_ok v"
  shows "read_dotenv_value (Some (dotenv_text tx key v)) key = Some v"
proof -
  obtain pre post where "written key (key @ ''='' @ quote_value v) (dotenv_lines tx) = pre @ (key @ ''='' @ quote_value v) # post"
    and "list_all (\<lambda>l. line_name l \<noteq> key) pre" using written_split by blast
  then show ?thesis
    using new_line(1) [OF assms] by (simp add: read_dotenv_value_def dotenv_text_lines(1) [OF assms] first_value_none)
qed

lemma dotenv_text_one_line:
  assumes "key_ok key" and "value_ok v"
  shows "one_line_set key (key @ ''='' @ quote_value v) (dotenv_lines tx) (file_lines (Some (dotenv_text tx key v)))"
  unfolding dotenv_text_lines(2) [OF assms] by (rule written_one_line)

text \<open>
  What the docstring of the writer excludes: a line that holds a form feed comes back as two, whichever
  key is set.
\<close>

lemma form_feed_splits_line:
  "file_lines (Some (''A=x'' @ [CHR 0x0C] @ ''y'' @ nl)) = [''A=x'' @ [CHR 0x0C] @ ''y'']"
  "file_lines (Some (dotenv_text (Some (''A=x'' @ [CHR 0x0C] @ ''y'' @ nl)) ''B'' ''1'')) = [''A=x'', ''y'', ''B='' @ [CHR 0x27] @ ''1'' @ [CHR 0x27]]"
  by code_simp+

section \<open>The payload\<close>

definition plain :: "string \<Rightarrow> bool" where
  "plain s \<longleftrightarrow> list_all (\<lambda>c. 32 \<le> code c \<and> code c \<le> 126) s"

lemma plain_simps [simp]: "plain []" "plain (c # s) \<longleftrightarrow> 32 \<le> code c \<and> code c \<le> 126 \<and> plain s"
  "plain (s @ t) \<longleftrightarrow> plain s \<and> plain t"
  by (simp_all add: plain_def)

lemma plain_join: "plain sep \<Longrightarrow> list_all plain ws \<Longrightarrow> plain (join sep ws)"
  by (induction sep ws rule: join.induct) simp_all

lemma plain_hex_digit: "n < 16 \<Longrightarrow> 32 \<le> code (hex_digit n) \<and> code (hex_digit n) \<le> 126"
  by (simp add: hex_digit_def)

lemma plain_json_char: "plain (json_char c)"
proof -
  have "code c div 16 < 16" using code_less [of c] by (simp add: less_mult_imp_div_less)
  then show ?thesis using plain_hex_digit [of "code c div 16"] plain_hex_digit [of "code c mod 16"]
    by (simp add: json_char_def)
qed

lemma plain_json_str: "plain (json_str s)"
  by (induction s) (simp_all add: json_str_def plain_json_char)

lemma plain_show_nat: "plain (show_nat n)"
  using show_nat_digits [of n] by (auto simp: plain_def list_all_iff is_digit_def)

lemma plain_replicate [simp]: "plain (replicate n CHR ''0'')"
  by (simp add: plain_def list_all_iff)

lemma plain_take: "plain s \<Longrightarrow> plain (take n s)" and plain_drop: "plain s \<Longrightarrow> plain (drop n s)"
  by (auto simp: plain_def list_all_iff dest: in_set_takeD in_set_dropD)

lemma plain_json_float: "plain (json_float f)"
proof (cases f)
  case (Dec m e)
  show ?thesis by (cases "m = 0") (simp_all add: Dec repr_dec_def Let_def plain_show_nat plain_take plain_drop)
qed simp_all

lemma plain_json_dumps: "plain isep \<Longrightarrow> plain ksep \<Longrightarrow> jwf v \<Longrightarrow> plain (json_dumps isep ksep v)"
proof (induction v)
  case (PyList vs)
  then show ?case by (auto simp: list_all_iff intro!: plain_join)
next
  case (PyDict d)
  then show ?case by (fastforce simp: list_all_iff plain_json_str case_prod_unfold intro!: plain_join)
qed (simp_all add: plain_json_str plain_json_float plain_show_nat show_int_def)

lemma plain_no_break: "plain s \<Longrightarrow> no_break s"
  by (auto simp: plain_def no_break_def list_all_iff is_linebreak_def)

text \<open>\<open>json.loads\<close> and \<open>json.dumps\<close> refuse integers of more than 4300 digits.\<close>

definition port_ok :: "agent_config \<Rightarrow> bool" where
  "port_ok a \<longleftrightarrow> length (show_nat (nat \<bar>ac_port a\<bar>)) \<le> 4300"

lemma jwf_dumps: "list_all port_ok agents \<Longrightarrow> jwf (PyList (map model_dump agents))"
  by (simp add: list_all_iff port_ok_def jwf_model_dump)

lemma seps_ok: "sep_ok CHR '','' '',''" "sep_ok CHR '':'' '':''"
  by (simp_all add: sep_ok_def)

lemma value_ok_serialize: "list_all port_ok agents \<Longrightarrow> value_ok (serialize agents)"
  using plain_no_break [OF plain_json_dumps [OF _ _ jwf_dumps]]
  by (simp add: value_ok_def serialize_def is_quote_def is_linebreak_def)

lemma json_loads_serialize:
  "list_all port_ok agents \<Longrightarrow> json_loads (serialize agents) = Inr (PyList (map model_dump agents))"
  unfolding serialize_def by (rule json_loads_dumps [OF seps_ok jwf_dumps])

lemma key_ok_agents: "key_ok dashboard_agents_key"
  by (simp add: key_ok_def dashboard_agents_key_def is_space_def is_linebreak_def)

section \<open>Saving and loading\<close>

lemma agents_of_dumps:
  assumes "\<And>a. validate (model_dump a) = Inr a"
  shows "rmap (agent_of validate) (map model_dump agents) = Inr agents"
  by (induction agents) (simp_all add: agent_of_def model_dump_def assms [unfolded model_dump_def])

lemma registry_for_eq:
  assumes "\<And>a. validate (model_dump a) = Inr a"
  shows "registry_for validate agents = Inr (build_registry agents)"
  using rmap_total [of agents "\<lambda>a. validate (model_dump a)" id] assms by (simp add: registry_for_def)

lemma save_agents_eq:
  assumes "\<And>a. validate (model_dump a) = Inr a" and "list_all port_ok agents"
  shows "save_agents validate fault unlinked fs agents =
    atomic_write fault unlinked (dotenv_text (env_text fs) dashboard_agents_key (serialize agents)) fs"
  by (simp add: save_agents_def Let_def json_loads_serialize assms agents_of_dumps registry_for_eq
      write_dotenv_value_def)

lemma atomic_write_ok: "atomic_write None unlinked content fs = (Inr (), fs\<lparr>env_text := Some content, env_tmp := None\<rparr>)"
  by (simp add: atomic_write_def atomic_steps_def)

lemma load_saved:
  assumes "\<And>a. validate (model_dump a) = Inr a" and "list_all port_ok agents"
  shows "load_agents validate live (Some (dotenv_text tx dashboard_agents_key (serialize agents))) = Inr agents"
  by (simp add: load_agents_def read_written [OF key_ok_agents value_ok_serialize [OF assms(2)]]
      json_loads_serialize assms agents_of_dumps)

lemma save_agents_ok:
  assumes "\<And>a. validate (model_dump a) = Inr a" and "list_all port_ok agents"
  shows "\<exists>tx. save_agents validate None unlinked fs agents =
      (Inr (), fs\<lparr>env_text := Some tx, env_tmp := None\<rparr>)
    \<and> load_agents validate live (Some tx) = Inr agents
    \<and> one_line_set dashboard_agents_key (dashboard_agents_key @ ''='' @ quote_value (serialize agents))
        (dotenv_lines (env_text fs)) (file_lines (Some tx))"
proof (intro exI conjI)
  let ?tx = "dotenv_text (env_text fs) dashboard_agents_key (serialize agents)"
  show "save_agents validate None unlinked fs agents = (Inr (), fs\<lparr>env_text := Some ?tx, env_tmp := None\<rparr>)"
    using assms by (simp add: save_agents_eq atomic_write_ok)
  show "load_agents validate live (Some ?tx) = Inr agents" using assms by (intro load_saved) simp_all
  show "one_line_set dashboard_agents_key (dashboard_agents_key @ ''='' @ quote_value (serialize agents))
      (dotenv_lines (env_text fs)) (file_lines (Some ?tx))"
    by (rule dotenv_text_one_line [OF key_ok_agents value_ok_serialize [OF assms(2)]])
qed

text \<open>C24: Saving agents and loading them again gives the same agents, and sets one line of the file. The lines
  of the new file, each ended by a line feed, are the pieces into which \<open>str.splitlines\<close> breaks the old
  one, with the first \<open>DASHBOARD_AGENTS\<close> piece replaced by the new assignment, or the assignment appended
  when there is none; where the old file breaks at line feeds only, those pieces are its lines, so every
  other line is kept untouched and in place. (A line that holds another break, such as a form feed, is
  rewritten as two, which is recorded as a defect.) Assumed: validating an agent's own dump gives that
  agent, and each port has at most the 4300 digits Python prints.\<close>

theorem registry_save_roundtrip:
  assumes "\<forall>a. validate (model_dump a) = Inr a" and "list_all port_ok agents"
  shows "\<exists>tx. save_agents validate None unlinked fs agents =
      (Inr (), fs\<lparr>env_text := Some tx, env_tmp := None\<rparr>)
    \<and> load_agents validate live (Some tx) = Inr agents
    \<and> one_line_set dashboard_agents_key (dashboard_agents_key @ ''='' @ quote_value (serialize agents))
        (case env_text fs of None \<Rightarrow> [] | Some t \<Rightarrow> splitlines t) (file_lines (Some tx))
    \<and> (only_lf (env_text fs) \<longrightarrow>
        one_line_set dashboard_agents_key (dashboard_agents_key @ ''='' @ quote_value (serialize agents))
          (file_lines (env_text fs)) (file_lines (Some tx)))"
  using save_agents_ok [of validate agents unlinked fs live] assms dotenv_lines_only_lf [of "env_text fs"]
  by (auto simp: dotenv_lines_def)

text \<open>A validator that reads each field at its declared type and refuses anything else.\<close>

fun read_str :: "pyval \<Rightarrow> (pyexc, string) result" where
  "read_str (PyStr s) = Inr s"
| "read_str _ = Inl ValueError"

fun read_int :: "pyval \<Rightarrow> (pyexc, int) result" where
  "read_int (PyInt k) = Inr k"
| "read_int _ = Inl ValueError"

fun read_strs :: "pyval \<Rightarrow> (pyexc, string list) result" where
  "read_strs (PyList vs) = rmap read_str vs"
| "read_strs _ = Inl ValueError"

definition kind_of :: "string \<Rightarrow> (pyexc, agent_kind) result" where
  "kind_of s = (if s = ''server'' then Inr KServer else if s = ''batch'' then Inr KBatch
     else if s = ''self'' then Inr KSelf else Inl ValueError)"

definition strict_validate :: validator where
  "strict_validate v =
     rbind (py_get v ''slug'' PyNone) (\<lambda>sv. rbind (read_str sv) (\<lambda>slug.
     rbind (py_get v ''url'' PyNone) (\<lambda>uv. rbind (read_str uv) (\<lambda>url.
     rbind (py_get v ''kind'' (PyStr ''server'')) (\<lambda>kv. rbind (read_str kv) (\<lambda>ks. rbind (kind_of ks) (\<lambda>kind.
     rbind (py_get v ''title'' (PyStr [])) (\<lambda>tv. rbind (read_str tv) (\<lambda>title.
     rbind (py_get v ''port'' (PyInt 0)) (\<lambda>pv. rbind (read_int pv) (\<lambda>port.
     rbind (py_get v ''features'' (PyList [])) (\<lambda>fv. rbind (read_strs fv) (\<lambda>feats.
       Inr \<lparr>ac_slug = slug, ac_url = url, ac_kind = kind, ac_title = title, ac_port = port,
            ac_features = feats\<rparr>)))))))))))))"

lemma read_strs_map: "rmap read_str (map PyStr fs) = Inr fs"
  by (induction fs) simp_all

lemma strict_validate_dump: "strict_validate (model_dump a) = Inr a"
  by (cases "ac_kind a") (simp_all add: strict_validate_def model_dump_def kind_of_def kind_name_def read_strs_map)

text \<open>The witness: the default registry, over a file with a comment, a secret and an old registry.\<close>

definition demo_env :: env_fs where
  "demo_env = \<lparr>env_text = Some (''# keep'' @ nl @ ''JWT_SECRET=x'' @ nl @ ''DASHBOARD_AGENTS=[]'' @ nl), env_tmp = None\<rparr>"

theorem registry_save_roundtrip_witness:
  "\<exists>tx. save_agents strict_validate None True demo_env default_agents =
      (Inr (), demo_env\<lparr>env_text := Some tx, env_tmp := None\<rparr>)
    \<and> load_agents strict_validate (Inr []) (Some tx) = Inr default_agents
    \<and> one_line_set dashboard_agents_key (dashboard_agents_key @ ''='' @ quote_value (serialize default_agents))
        [''# keep'', ''JWT_SECRET=x'', ''DASHBOARD_AGENTS=[]''] (file_lines (Some tx))"
proof -
  have v: "\<forall>a. strict_validate (model_dump a) = Inr a" by (simp add: strict_validate_dump)
  have p: "list_all port_ok default_agents" by (simp add: default_agents_def port_ok_def show_nat.simps)
  have "only_lf (env_text demo_env)" "file_lines (env_text demo_env) = [''# keep'', ''JWT_SECRET=x'', ''DASHBOARD_AGENTS=[]'']"
    by code_simp+
  then show ?thesis using registry_save_roundtrip [OF v p, of True demo_env "Inr []"] by auto
qed

lemma fold_steps_keep: "i < 4 \<Longrightarrow> env_text (fold fs_step (take i (atomic_steps c)) fs) = env_text fs"
  by (auto simp: atomic_steps_def numeral_eq_Suc less_Suc_eq)

lemma fold_steps_all: "\<not> i < 4 \<Longrightarrow> env_text (fold fs_step (take i (atomic_steps c)) fs) = Some c"
  by (simp add: atomic_steps_def)

lemma atomic_write_cases:
  "case atomic_write fault unlinked c fs of
      (Inl e, fs') \<Rightarrow> env_text fs' = env_text fs
    | (Inr u, fs') \<Rightarrow> env_text fs' = Some c"
proof (cases fault)
  case None
  then show ?thesis by (simp add: atomic_write_ok)
next
  case (Some i)
  have "length (atomic_steps c) = 4" by (simp add: atomic_steps_def)
  then show ?thesis using Some fold_steps_keep [of i c fs] fold_steps_all [of i c fs]
    by (cases "i < 4") (simp_all add: atomic_write_def Let_def)
qed

text \<open>C25: The registry file is replaced atomically: a save that fails at any step leaves it as it
  was, a process killed between two steps of the write leaves the old file or the new one, and the
  file changes only to the text that sets the line of the registry to the saved agents (the round trip
  above shows that this text loads as those agents).\<close>

theorem registry_write_atomic:
  "(case save_agents validate fault unlinked fs agents of
      (Inl e, fs') \<Rightarrow> env_text fs' = env_text fs
    | (Inr u, fs') \<Rightarrow> env_text fs' = Some (dotenv_text (env_text fs) dashboard_agents_key (serialize agents)))
   \<and> env_text (fold fs_step (take n (atomic_steps content)) fs) \<in> {env_text fs, Some content}"
proof
  show "case save_agents validate fault unlinked fs agents of
      (Inl e, fs') \<Rightarrow> env_text fs' = env_text fs
    | (Inr u, fs') \<Rightarrow> env_text fs' = Some (dotenv_text (env_text fs) dashboard_agents_key (serialize agents))"
    unfolding save_agents_def write_dotenv_value_def Let_def
    using atomic_write_cases by (simp split: sum.split)
  show "env_text (fold fs_step (take n (atomic_steps content)) fs) \<in> {env_text fs, Some content}"
    using fold_steps_keep fold_steps_all by (cases "n < 4") simp_all
qed

end
