(* ===== verification/CliCommands.thy ===== *)
theory CliCommands
  imports CliProps
begin

text \<open>
  The commands of the platform's command line: the registry commands
  (\<open>platform_cli/registry_cmds.py\<close>), the docker-compose lifecycle (\<open>compose.py\<close>), the token command
  (\<open>token_cmds.py\<close>), the probe of the registered agents (\<open>doctor.py\<close>) and their dispatch
  (\<open>__main__.py\<close>). A command returns its exit code, what it prints and the registry file; a line
  whose text has characters above 255 is a constructor with the values it shows. The subprocess
  and the HTTP client are arguments.
\<close>

datatype cli_line =
    Line string | ErrLine string
  | WroteAgents nat | RemovedAgent string nat | ApplyNotice
  | SkippedProbe string string | ProbeLine string bool bool "string option"

type_synonym cli_result = "(pyexc, int \<times> cli_line list) result \<times> env_fs"

section \<open>Registry commands\<close>

definition normalize_feature :: "string \<Rightarrow> (pyexc, string) result" where
  "normalize_feature raw =
     (let f = lower (strip raw) in if f \<notin> set known_features then Inl ValueError else Inr f)"

definition normalize_features :: "string list \<Rightarrow> (pyexc, string list) result" where
  "normalize_features fs = rmap normalize_feature fs"

text \<open>The keyword arguments of \<open>AgentConfig(...)\<close> as the object the validator sees.\<close>

definition agent_kwargs :: "string \<Rightarrow> string \<Rightarrow> string \<Rightarrow> int \<Rightarrow> string \<Rightarrow> string list \<Rightarrow> pyval" where
  "agent_kwargs slug url kind port title feats = PyDict
     [(''slug'', PyStr slug), (''url'', PyStr url), (''kind'', PyStr kind), (''port'', PyInt port),
      (''title'', PyStr title), (''features'', PyList (map PyStr feats))]"

definition agent_add ::
  "validator \<Rightarrow> (pyexc, agent_config list) result \<Rightarrow> nat option \<Rightarrow> bool \<Rightarrow>
   string \<Rightarrow> string \<Rightarrow> string \<Rightarrow> int \<Rightarrow> string \<Rightarrow> string list \<Rightarrow> env_fs \<Rightarrow> cli_result" where
  "agent_add validate live fault unlinked slug url kind port title features fs =
     (case rbind (normalize_features features) (\<lambda>feats.
           rbind (validate (agent_kwargs slug url kind port title feats)) (\<lambda>new.
           rbind (load_agents validate live (env_text fs)) (\<lambda>agents. Inr (upsert agents new)))) of
        Inl e \<Rightarrow> (Inl e, fs)
      | Inr agents \<Rightarrow>
          (case save_agents validate fault unlinked fs agents of
             (Inl e, fs1) \<Rightarrow> (Inl e, fs1)
           | (Inr _, fs1) \<Rightarrow> (Inr (0, [WroteAgents (length agents), ApplyNotice]), fs1)))"

definition agent_remove ::
  "validator \<Rightarrow> (pyexc, agent_config list) result \<Rightarrow> nat option \<Rightarrow> bool \<Rightarrow> string \<Rightarrow> env_fs \<Rightarrow> cli_result" where
  "agent_remove validate live fault unlinked slug fs =
     (case rbind (load_agents validate live (env_text fs)) (\<lambda>agents.
           rbind (registry_for validate agents) (\<lambda>reg. Inr (agents, reg))) of
        Inl e \<Rightarrow> (Inl e, fs)
      | Inr (agents, reg) \<Rightarrow>
          if by_slug reg slug = None then
            (Inr (1, [ErrLine (''error: no agent with slug '' @ repr_str slug)]), fs)
          else
            let rest = remove_agent agents slug in
            (case save_agents validate fault unlinked fs rest of
               (Inl e, fs1) \<Rightarrow> (Inl e, fs1)
             | (Inr _, fs1) \<Rightarrow> (Inr (0, [RemovedAgent slug (length rest), ApplyNotice]), fs1)))"

definition features_of :: "agent_spec \<Rightarrow> string list" where
  "features_of s = filter (has_attr s) known_features"

definition spec_json :: "agent_spec \<Rightarrow> pyval" where
  "spec_json s = PyDict
     [(''slug'', PyStr (sp_slug s)), (''kind'', PyStr (kind_name (sp_kind s))), (''url'', PyStr (sp_base_url s)),
      (''port'', PyInt (sp_port s)), (''features'', PyList (map PyStr (features_of s)))]"

definition spec_row :: "agent_spec \<Rightarrow> string list" where
  "spec_row s =
     [sp_slug s, kind_name (sp_kind s), sp_base_url s,
      (let fs = join '','' (features_of s) in if fs \<noteq> [] then fs else ''-''), show_int (sp_port s)]"

definition ljust :: "nat \<Rightarrow> string \<Rightarrow> string" where
  "ljust w s = s @ replicate (w - length s) CHR '' ''"

definition table_lines :: "string list list \<Rightarrow> string list" where
  "table_lines rows =
     (let widths = map (\<lambda>i. Max (set (map (\<lambda>r. length (r ! i)) rows))) [0..<length (hd rows)]
      in map (\<lambda>row. rdrop_while is_space (join ''  '' (map2 ljust widths row))) rows)"

definition agent_list ::
  "validator \<Rightarrow> (pyexc, agent_config list) result \<Rightarrow> bool \<Rightarrow> env_fs \<Rightarrow> cli_result" where
  "agent_list validate live as_json fs =
     (rbind (rbind (load_agents validate live (env_text fs)) (registry_for validate)) (\<lambda>reg.
        Inr (0,
          if as_json then [Line (json_compact (PyList (map spec_json reg)))]
          else if reg = [] then [Line ''(no agents registered)'']
          else map Line (table_lines ([''slug'', ''kind'', ''url'', ''features'', ''port''] # map spec_row reg)))), fs)"

section \<open>Subprocesses\<close>

definition known_profiles :: "string list" where
  "known_profiles = [''edge'', ''meta'']"

datatype compose_action = Up | Down

definition compose_argv :: "compose_action \<Rightarrow> string list \<Rightarrow> string list \<Rightarrow> string list" where
  "compose_argv action services profiles =
     [''docker'', ''compose''] @ concat (map (\<lambda>p. [''--profile'', p]) profiles)
     @ (case action of Up \<Rightarrow> [''up'', ''-d''] | Down \<Rightarrow> [''down'']) @ services"

definition compose ::
  "(string list \<Rightarrow> int) \<Rightarrow> compose_action \<Rightarrow> string list \<Rightarrow> string list \<Rightarrow> (pyexc, int) result" where
  "compose run action services profiles =
     (if filter (\<lambda>p. p \<notin> set known_profiles) profiles \<noteq> [] then Inl ValueError
      else Inr (run (compose_argv action services profiles)))"

definition role_choices :: "string list" where
  "role_choices = [''admin'', ''manager'']"

definition token_mint ::
  "(string list \<Rightarrow> int) \<Rightarrow> string \<Rightarrow> string \<Rightarrow> string \<Rightarrow> string \<Rightarrow> string \<Rightarrow> int \<Rightarrow> string option \<Rightarrow> int" where
  "token_mint run interpreter script sub tenant role ttl audience =
     run ([interpreter, script, ''--sub'', sub, ''--tenant'', tenant, ''--role'', role, ''--ttl'', show_int ttl]
       @ (case audience of None \<Rightarrow> [] | Some a \<Rightarrow> if a = [] then [] else [''--audience'', a]))"

section \<open>Doctor\<close>

text \<open>A request's outcome: its status, an \<open>httpx.HTTPError\<close> by class name, or any other exception.\<close>

datatype http_outcome = Status int | HttpFail string | OtherFail string

record probe_report =
  rp_slug :: string
  rp_skipped :: bool
  rp_reason :: string
  rp_healthz :: "bool option"
  rp_readyz :: "bool option"
  rp_error :: "string option"

definition should_skip :: "agent_spec \<Rightarrow> bool" where
  "should_skip s \<longleftrightarrow> sp_kind s = KBatch \<or> sp_port s = 0"

definition probe_one :: "(string \<Rightarrow> http_outcome) \<Rightarrow> agent_spec \<Rightarrow> (pyexc, probe_report) result" where
  "probe_one get s =
     (if should_skip s then
        Inr \<lparr>rp_slug = sp_slug s, rp_skipped = True, rp_reason = ''batch, no port'', rp_healthz = None,
             rp_readyz = None, rp_error = None\<rparr>
      else
        let r = \<lparr>rp_slug = sp_slug s, rp_skipped = False, rp_reason = [], rp_healthz = None,
                 rp_readyz = None, rp_error = None\<rparr> in
        (case get (sp_base_url s @ ''/healthz'') of
           OtherFail c \<Rightarrow> Inl (Upstream c)
         | HttpFail c \<Rightarrow> Inr (r\<lparr>rp_healthz := Some False, rp_error := Some c\<rparr>)
         | Status h \<Rightarrow>
             (case get (sp_base_url s @ ''/readyz'') of
                OtherFail c \<Rightarrow> Inl (Upstream c)
              | HttpFail c \<Rightarrow> Inr (r\<lparr>rp_healthz := Some (h < 400), rp_readyz := Some False, rp_error := Some c\<rparr>)
              | Status k \<Rightarrow> Inr (r\<lparr>rp_healthz := Some (h < 400), rp_readyz := Some (k < 400)\<rparr>))))"

text \<open>The coroutines are awaited one after the other.\<close>

definition probe :: "(string \<Rightarrow> http_outcome) \<Rightarrow> agent_spec list \<Rightarrow> (pyexc, probe_report list) result" where
  "probe get specs = rmap (probe_one get) specs"

definition opt_json :: "('a \<Rightarrow> pyval) \<Rightarrow> 'a option \<Rightarrow> pyval" where
  "opt_json f x = (case x of None \<Rightarrow> PyNone | Some v \<Rightarrow> f v)"

definition report_json :: "probe_report \<Rightarrow> pyval" where
  "report_json r = PyDict
     [(''slug'', PyStr (rp_slug r)), (''skipped'', PyBool (rp_skipped r)), (''reason'', PyStr (rp_reason r)),
      (''healthz_ok'', opt_json PyBool (rp_healthz r)), (''readyz_ok'', opt_json PyBool (rp_readyz r)),
      (''error'', opt_json PyStr (rp_error r))]"

definition report_line :: "probe_report \<Rightarrow> cli_line" where
  "report_line r =
     (if rp_skipped r then SkippedProbe (rp_slug r) (rp_reason r)
      else ProbeLine (rp_slug r) (rp_healthz r = Some True) (rp_readyz r = Some True)
             (case rp_error r of None \<Rightarrow> None | Some e \<Rightarrow> if e = [] then None else Some e))"

definition doctor ::
  "validator \<Rightarrow> (pyexc, agent_config list) result \<Rightarrow> (string \<Rightarrow> http_outcome) \<Rightarrow> string option \<Rightarrow> bool \<Rightarrow>
   env_fs \<Rightarrow> cli_result" where
  "doctor validate live get slug as_json fs =
     (rbind (rbind (load_agents validate live (env_text fs)) (registry_for validate)) (\<lambda>reg.
        let specs = (case slug of None \<Rightarrow> reg | Some x \<Rightarrow> filter (\<lambda>s. sp_slug s = x) reg) in
        case slug of
          Some x \<Rightarrow>
            if specs = [] then Inr (1, [Line (''error: no agent with slug '' @ repr_str x)])
            else rbind (probe get specs) (\<lambda>rs.
              Inr (0, if as_json then [Line (json_compact (PyList (map report_json rs)))] else map report_line rs))
        | None \<Rightarrow>
            rbind (probe get specs) (\<lambda>rs.
              Inr (0,
                if as_json then [Line (json_compact (PyList (map report_json rs)))]
                else if rs = [] then [Line ''(no agents registered)'']
                else map report_line rs))), fs)"

section \<open>Dispatch\<close>

text \<open>The parsed command line (\<open>argparse\<close> has checked the choices and filled the defaults).\<close>

datatype cli_args =
    Compose compose_action "string list" "string list"
  | AgentAdd string string string int string "string list"
  | AgentList bool
  | AgentRemove string
  | TokenMint string string string int "string option"
  | Doctor "string option" bool

record cli_world =
  cw_validate :: validator
  cw_live :: "(pyexc, agent_config list) result"
  cw_run :: "string list \<Rightarrow> int"
  cw_get :: "string \<Rightarrow> http_outcome"
  cw_interpreter :: string
  cw_script :: string
  cw_fault :: "nat option"
  cw_unlinked :: bool

definition dispatch :: "cli_world \<Rightarrow> cli_args \<Rightarrow> env_fs \<Rightarrow> cli_result" where
  "dispatch w args fs =
     (case args of
        Compose action services profiles \<Rightarrow>
          (rbind (compose (cw_run w) action services profiles) (\<lambda>c. Inr (c, [])), fs)
      | AgentAdd slug url kind port title features \<Rightarrow>
          agent_add (cw_validate w) (cw_live w) (cw_fault w) (cw_unlinked w) slug url kind port title features fs
      | AgentList as_json \<Rightarrow> agent_list (cw_validate w) (cw_live w) as_json fs
      | AgentRemove slug \<Rightarrow> agent_remove (cw_validate w) (cw_live w) (cw_fault w) (cw_unlinked w) slug fs
      | TokenMint sub tenant role ttl audience \<Rightarrow>
          (Inr (token_mint (cw_run w) (cw_interpreter w) (cw_script w) sub tenant role ttl audience, []), fs)
      | Doctor slug as_json \<Rightarrow> doctor (cw_validate w) (cw_live w) (cw_get w) slug as_json fs)"

text \<open>\<open>except ValueError\<close>: a JSON decoding error and a pydantic validation error are value errors.\<close>

definition is_value_error :: "pyexc \<Rightarrow> bool" where
  "is_value_error e \<longleftrightarrow> e = ValueError \<or> e = JSONDecodeError"

definition cli_main :: "cli_world \<Rightarrow> cli_args \<Rightarrow> env_fs \<Rightarrow> cli_result" where
  "cli_main w args fs =
     (case dispatch w args fs of
        (Inr r, fs1) \<Rightarrow> (Inr r, fs1)
      | (Inl e, fs1) \<Rightarrow> if is_value_error e then (Inr (2, [ErrLine ''error'']), fs1) else (Inl e, fs1))"

section \<open>What the registry commands do\<close>

lemma normalize_features_Inr: "normalize_features fs = Inr gs \<Longrightarrow>
    gs = map (\<lambda>f. lower (strip f)) fs \<and> set gs \<subseteq> set known_features"
  by (induction fs arbitrary: gs)
     (fastforce simp: normalize_features_def normalize_feature_def Let_def rbind_eq_Inr_iff split: if_splits)+

text \<open>Adding: the new agent is last, every other slug's agents are kept in order.\<close>

lemma agent_add_ok:
  assumes "\<And>a. validate (model_dump a) = Inr a"
    and "normalize_features features = Inr feats"
    and "validate (agent_kwargs slug url kind port title feats) = Inr new"
    and "load_agents validate live (env_text fs) = Inr agents"
    and "list_all port_ok (upsert agents new)"
  shows "\<exists>tx. agent_add validate live None unlinked slug url kind port title features fs =
      (Inr (0, [WroteAgents (length (upsert agents new)), ApplyNotice]), fs\<lparr>env_text := Some tx, env_tmp := None\<rparr>)
    \<and> load_agents validate live (Some tx) = Inr (upsert agents new)"
proof -
  obtain tx where "save_agents validate None unlinked fs (upsert agents new) =
      (Inr (), fs\<lparr>env_text := Some tx, env_tmp := None\<rparr>)"
    "load_agents validate live (Some tx) = Inr (upsert agents new)"
    using save_agents_ok [OF assms(1,5)] by blast
  then show ?thesis using assms by (intro exI [of _ tx]) (simp add: agent_add_def)
qed

lemma agent_remove_ok:
  assumes "\<And>a. validate (model_dump a) = Inr a"
    and "load_agents validate live (env_text fs) = Inr agents"
    and "list_all port_ok agents" and "slug \<in> ac_slug ` set agents"
  shows "\<exists>tx. agent_remove validate live None unlinked slug fs =
      (Inr (0, [RemovedAgent slug (length (remove_agent agents slug)), ApplyNotice]),
       fs\<lparr>env_text := Some tx, env_tmp := None\<rparr>)
    \<and> load_agents validate live (Some tx) = Inr (remove_agent agents slug)"
proof -
  have "list_all port_ok (remove_agent agents slug)" using assms(3) by (auto simp: remove_agent_def list_all_iff)
  then obtain tx where "save_agents validate None unlinked fs (remove_agent agents slug) =
      (Inr (), fs\<lparr>env_text := Some tx, env_tmp := None\<rparr>)"
    "load_agents validate live (Some tx) = Inr (remove_agent agents slug)"
    using save_agents_ok [OF assms(1)] by blast
  moreover have "by_slug (build_registry agents) slug \<noteq> None" using assms(4) by (simp add: by_slug_None)
  ultimately show ?thesis
    using assms by (intro exI [of _ tx]) (simp add: agent_remove_def registry_for_eq Let_def)
qed

lemma agent_remove_absent:
  assumes "\<And>a. validate (model_dump a) = Inr a"
    and "load_agents validate live (env_text fs) = Inr agents" and "slug \<notin> ac_slug ` set agents"
  shows "agent_remove validate live fault unlinked slug fs =
    (Inr (1, [ErrLine (''error: no agent with slug '' @ repr_str slug)]), fs)"
  using assms by (simp add: agent_remove_def registry_for_eq by_slug_None)

end
