(* ===== verification/PatProps.thy ===== *)
theory PatProps
  imports DashRouteProps
begin

text \<open>
  Personal access tokens: which token the mint route stores and how privileged it is, and how often
  its loop draws.
\<close>

definition draw_secret :: "(nat \<Rightarrow> string) \<Rightarrow> nat \<Rightarrow> string" where
  "draw_secret draws i = new_pat_secret (draws i)"

definition taken :: "dash_db \<Rightarrow> string \<Rightarrow> bool" where
  "taken db secret \<longleftrightarrow> split_prefix secret \<in> pt_prefix ` set (db_pats db)"

definition minted_row ::
  "(string \<Rightarrow> string) \<Rightarrow> string \<Rightarrow> string \<Rightarrow> string \<Rightarrow> string \<Rightarrow> string \<Rightarrow> secs \<Rightarrow> secs \<Rightarrow> int \<Rightarrow> string \<Rightarrow> pat_row" where
  "minted_row sha tenant name scope role by_whom expires now i secret =
     \<lparr>pt_id = i, pt_tenant = tenant, pt_prefix = split_prefix secret, pt_hash = hash_pat sha secret, pt_name = name,
      pt_scope = scope, pt_role = role, pt_created_by = by_whom, pt_created_at = now, pt_expires_at = expires,
      pt_revoked_at = None\<rparr>"

text \<open>After \<open>k\<close> tries: the numbers spent, and the row stored if there is a secret.\<close>

definition after_tries :: "(int \<Rightarrow> string \<Rightarrow> pat_row) \<Rightarrow> nat \<Rightarrow> string option \<Rightarrow> dash_db \<Rightarrow> dash_db" where
  "after_tries row k secret db = db\<lparr>db_next_pat := db_next_pat db + int k,
     db_pats := db_pats db @ (case secret of None \<Rightarrow> [] | Some s \<Rightarrow> [row (db_next_pat db + int k - 1) s])\<rparr>"

lemma create_pat_try:
  assumes "mint_pat sha d = (secret, pfx, hash)"
  shows "create_pat tenant pfx hash name scope role by_whom expires now db =
    (if taken db secret then (Inl (Upstream ''UniqueViolation''), after_tries row 1 None db)
     else (Inr (db_next_pat db), after_tries (minted_row sha tenant name scope role by_whom expires now) 1 (Some secret) db))"
  using assms by (auto simp: create_pat_def Let_def mint_pat_def taken_def after_tries_def minted_row_def)

lemma after_tries_Suc: "after_tries row k s (after_tries row' 1 None db) = after_tries row (Suc k) s db"
  by (cases s) (simp_all add: after_tries_def algebra_simps)

lemma taken_after: "taken (after_tries row k None db) s = taken db s"
  by (simp add: taken_def after_tries_def)

text \<open>The first free draw, and the number of draws it takes to reach it.\<close>

definition first_free :: "(nat \<Rightarrow> string) \<Rightarrow> dash_db \<Rightarrow> nat \<Rightarrow> nat \<Rightarrow> nat option" where
  "first_free draws db i n = find (\<lambda>j. \<not> taken db (draw_secret draws j)) [i..<i + n]"

definition draws_spent :: "(nat \<Rightarrow> string) \<Rightarrow> dash_db \<Rightarrow> nat \<Rightarrow> nat \<Rightarrow> nat" where
  "draws_spent draws db i n = (case first_free draws db i n of None \<Rightarrow> n | Some j \<Rightarrow> Suc j - i)"

lemma first_free_range: "first_free draws db i n = Some j \<Longrightarrow> i \<le> j \<and> j < i + n \<and> \<not> taken db (draw_secret draws j)"
  by (auto simp: first_free_def find_Some_iff)

lemma first_free_Suc:
  "first_free draws db i (Suc n) = (if taken db (draw_secret draws i) then first_free draws db (Suc i) n else Some i)"
  by (simp add: first_free_def upt_conv_Cons del: upt_Suc)

lemma first_free_after: "first_free draws (after_tries row k None db) = first_free draws db"
  by (simp add: first_free_def taken_after fun_eq_iff)

lemma draws_spent_le: "draws_spent draws db i n \<le> n"
  using first_free_range [of draws db i n] by (fastforce simp: draws_spent_def split: option.split)

lemma draws_spent_Suc:
  "draws_spent draws db i (Suc n) = (if taken db (draw_secret draws i) then Suc (draws_spent draws db (Suc i) n) else 1)"
  using first_free_range [of draws db "Suc i" n] by (auto simp: draws_spent_def first_free_Suc split: option.split)

lemma mint_attempts_run:
  "mint_attempts sha draws i n (\<lambda>pfx hash. create_pat tenant pfx hash name scope role by_whom expires now) db =
    (let secret = map_option (draw_secret draws) (first_free draws db i n)
     in (Inr secret, after_tries (minted_row sha tenant name scope role by_whom expires now) (draws_spent draws db i n) secret db))"
proof (induction n arbitrary: i db)
  case 0
  then show ?case by (simp add: after_tries_def first_free_def draws_spent_def)
next
  case (Suc n)
  let ?row = "minted_row sha tenant name scope role by_whom expires now"
  obtain secret pfx hash where m: "mint_pat sha (draws i) = (secret, pfx, hash)" by (metis prod_cases3)
  then have s: "draw_secret draws i = secret" by (simp add: mint_pat_def Let_def draw_secret_def)
  have a: "draws_spent draws (after_tries ?row 1 None db) = draws_spent draws db"
    by (simp add: draws_spent_def first_free_after fun_eq_iff)
  show ?case
    by (cases "taken db secret")
      (simp_all add: m s Let_def create_pat_try [OF m, where row = ?row] first_free_Suc draws_spent_Suc Suc.IH
        a [unfolded One_nat_def] first_free_after after_tries_Suc [unfolded One_nat_def])
qed

text \<open>C34: The mint loop ends. With \<open>n\<close> tries it makes at most \<open>n\<close> draws and spends one token number on each:
  as many as it takes to reach the first draw whose prefix is free, or all \<open>n\<close>. It never raises on a
  collision: it stores the secret of that first free draw and answers with it, or gives up exactly when
  every one of the \<open>n\<close> prefixes is taken.\<close>

theorem mint_loop_terminates:
  "let hit = find (\<lambda>j. \<not> taken db (draw_secret draws j)) [i..<i + n];
       k = (case hit of None \<Rightarrow> n | Some j \<Rightarrow> Suc j - i);
       secret = map_option (draw_secret draws) hit
   in k \<le> n \<and> mint_attempts sha draws i n (\<lambda>pfx hash. create_pat tenant pfx hash name scope role by_whom expires now) db =
     (Inr secret, after_tries (minted_row sha tenant name scope role by_whom expires now) k secret db)"
  using draws_spent_le [of draws db i n] mint_attempts_run [of sha draws i n tenant name scope role by_whom expires now db]
  by (simp add: Let_def draws_spent_def first_free_def)


theorem mint_loop_terminates_witness:
  "fst (mint_attempts (\<lambda>s. s) (\<lambda>i. if i < 2 then ''aaaaaaaa'' else ''bbbbbbbb'') 0 5
      (\<lambda>pfx hash. create_pat ''acme'' pfx hash ''ci'' ''read'' ''viewer'' ''op'' 86400 0)
      (create_schema\<lparr>db_pats := [minted_row (\<lambda>s. s) ''acme'' ''old'' ''read'' ''viewer'' ''op'' 9 0 1 ''ab_aaaaaaaa'']\<rparr>))
    = Inr (Some ''ab_bbbbbbbb'')"
proof -
  let ?draws = "\<lambda>i::nat. if i < 2 then ''aaaaaaaa'' else ''bbbbbbbb''"
  let ?db = "create_schema\<lparr>db_pats := [minted_row (\<lambda>s. s) ''acme'' ''old'' ''read'' ''viewer'' ''op'' 9 0 1 ''ab_aaaaaaaa'']\<rparr>"
  have "find (\<lambda>j. \<not> taken ?db (draw_secret ?draws j)) [0..<0 + 5] = Some 2" by code_simp
  then show ?thesis
    using mint_loop_terminates [of ?db ?draws 0 5 "\<lambda>s. s" "''acme''" "''ci''" "''read''" "''viewer''" "''op''" 86400 0]
    by (auto simp: Let_def draw_secret_def new_pat_secret_def pat_prefix_def)
qed

section \<open>What is minted\<close>

lemma clamp_role_rank:
  assumes "is_admin p"
  shows "rank_of (clamp_role requested (p_role p)) \<le> rank_of (p_role p) \<and> clamp_role requested (p_role p) \<in> set (map fst role_rank)"
proof -
  have "p_role p \<in> set (map fst role_rank)" using assms by (auto simp: is_admin_def role_rank_def)
  moreover have "rank_of default_role = 0" by (simp add: rank_of_def role_rank_def default_role_def)
  moreover have "requested \<in> set (map fst role_rank)" if "map_of role_rank requested \<noteq> None"
    using that by (auto simp: map_of_eq_None_iff)
  ultimately show ?thesis by (auto simp: clamp_role_def Let_def default_role_def role_rank_def)
qed

lemma expiry_days_bounds: "1 \<le> expiry_days d \<and> expiry_days d \<le> 365"
  by (simp add: expiry_days_def)

lemma mint_attempts_Some:
  assumes "mint_attempts sha draws i n (\<lambda>pfx hash. create_pat tenant pfx hash name scope role by_whom expires now) db
      = (Inr (Some secret), db')"
  shows "\<exists>k. 1 \<le> k \<and> k \<le> n \<and> \<not> taken db secret
    \<and> db' = after_tries (minted_row sha tenant name scope role by_whom expires now) k (Some secret) db"
proof -
  obtain j where j: "first_free draws db i n = Some j" "draw_secret draws j = secret"
    and db: "db' = after_tries (minted_row sha tenant name scope role by_whom expires now) (draws_spent draws db i n) (Some secret) db"
    using assms by (auto simp: mint_attempts_run Let_def)
  have "1 \<le> draws_spent draws db i n" "\<not> taken db secret"
    using first_free_range [OF j(1)] j by (auto simp: draws_spent_def)
  then show ?thesis using db draws_spent_le by blast
qed




end
