(* ===== verification/ConsoleHistory.thy ===== *)
theory ConsoleHistory
  imports PatProps DashReads DashStoreProps
begin

text \<open>
  The dashboard over its whole life: requests in any order by any sessions, the rounds of the two
  background loops, and outages of the database and of Redis (\<open>console_step\<close>, \<open>console_run\<close>). What holds
  of the database at every moment of such a history comes from its single statements: an order on
  databases that every statement follows (\<open>statement_order\<close>) is followed by every history. Three
  orders: the schema's constraints are kept, history only grows, a tenant's rows stay.
\<close>

section \<open>Steps that follow an order on the database\<close>

definition leads :: "(dash_pool \<Rightarrow> dash_pool \<Rightarrow> bool) \<Rightarrow> 'a dash \<Rightarrow> bool" where
  "leads Q m \<longleftrightarrow> (\<forall>w. rel_option Q (dw_pool w) (dw_pool (snd (m w))))"

lemma leadsD: "leads Q m \<Longrightarrow> m w = (x, w') \<Longrightarrow> rel_option Q (dw_pool w) (dw_pool w')"
  unfolding leads_def by (metis snd_conv)

named_theorems leads_intros "steps that follow an order"

locale pool_order =
  fixes Q :: "dash_pool \<Rightarrow> dash_pool \<Rightarrow> bool"
  assumes same: "Q p p"
    and compose: "Q p q \<Longrightarrow> Q q r \<Longrightarrow> Q p r"
begin

lemma pool_same: "rel_option Q x x"
  by (cases x) (simp_all add: same)

lemma pool_compose: "rel_option Q x y \<Longrightarrow> rel_option Q y z \<Longrightarrow> rel_option Q x z"
  by (cases x; cases y; cases z) (auto intro: compose)

lemma leads_keeps: "keeps dw_pool m \<Longrightarrow> leads Q m"
  by (simp add: leads_def keeps_def pool_same)

lemma leads_basic: "leads Q (dret x)" "leads Q (draise e)" "leads Q (dlift y)" "leads Q (db_read g)"
  by (simp_all add: leads_keeps keeps_intros)

lemma leads_dbind:
  assumes "leads Q m" and "\<And>x. leads Q (g x)"
  shows "leads Q (dbind m g)"
  unfolding leads_def
proof
  fix w
  obtain x w1 where m: "m w = (x, w1)" by fastforce
  note a = leadsD [OF assms(1) m]
  show "rel_option Q (dw_pool w) (dw_pool (snd (dbind m g w)))"
  proof (cases x)
    case (Inr y)
    obtain z w2 where g: "g y w1 = (z, w2)" by fastforce
    show ?thesis using pool_compose [OF a leadsD [OF assms(2) g]] by (simp add: dbind_def m g Inr)
  qed (use a in \<open>simp add: dbind_def m\<close>)
qed

lemma leads_lift_bind: "(\<And>x. y = Inr x \<Longrightarrow> leads Q (g x)) \<Longrightarrow> leads Q (dbind (dlift y) g)"
  by (cases y) (simp_all add: leads_def dbind_def dlift_def pool_same)

lemma leads_http_answer: "leads Q m \<Longrightarrow> leads Q (http_answer m)"
  unfolding leads_def http_answer_def by (auto split: prod.split sum.split pyexc.split) (metis snd_conv)+

lemma leads_plain: "leads Q m \<Longrightarrow> leads Q (plain m)"
  by (simp add: plain_def leads_dbind leads_basic)

lemma leads_with_session: "(\<And>p. session_dep D r = Inr p \<Longrightarrow> leads Q (g p)) \<Longrightarrow> leads Q (with_session D r g)"
  by (simp add: with_session_cases leads_basic split: sum.split)

lemma leads_with_admin: "(\<And>p. session_dep D r = Inr p \<Longrightarrow> leads Q (g p)) \<Longrightarrow> leads Q (with_admin D r g)"
  by (simp add: with_admin_def leads_with_session leads_basic)

lemma leads_if_pair:
  "leads Q m \<Longrightarrow> leads Q (\<lambda>w. if P w then (y, w) else m w)" "leads Q m \<Longrightarrow> leads Q (\<lambda>w. if P w then m w else (y, w))"
  by (simp_all add: leads_def pool_same)

lemma leads_call_agent: "leads Q (call_agent label spec g)"
  by (rule leads_keeps) (rule keeps_call_agent [OF off_agg_pool])

lemma leads_db_write:
  assumes "\<And>p. Q p (p\<lparr>dl_db := snd (g (dl_db p))\<rparr>)"
  shows "leads Q (db_write g)"
  unfolding leads_def
proof
  fix w
  show "rel_option Q (dw_pool w) (dw_pool (snd (db_write g w)))"
  proof (cases "dw_pool w")
    case (Some p)
    then show ?thesis using assms [of p] same by (cases "g (dl_db p)") (simp add: db_write_def)
  qed (simp add: db_write_def)
qed

text \<open>Two statements in a row.\<close>

lemma db_compose:
  assumes "Q p (p\<lparr>dl_db := db\<rparr>)" and "\<And>q. Q q (q\<lparr>dl_db := f (dl_db q)\<rparr>)"
  shows "Q p (p\<lparr>dl_db := f db\<rparr>)"
  using compose [OF assms(1) assms(2) [of "p\<lparr>dl_db := db\<rparr>"]] by simp

lemma db_same: "Q p (p\<lparr>dl_db := dl_db p\<rparr>)"
  using same [of p] by simp

end

section \<open>Orders that every statement follows\<close>

text \<open>What a minted token may say of itself: a known role, and a life of 1 to 365 days.\<close>

definition granted :: "string \<Rightarrow> secs \<Rightarrow> secs \<Rightarrow> bool" where
  "granted role now expires \<longleftrightarrow>
     role \<in> set (map fst role_rank) \<and> now + 86400 \<le> expires \<and> expires \<le> now + 365 * 86400"

lemma granted_mint:
  assumes "is_admin p"
  shows "granted (clamp_role role (p_role p)) now (now + of_int (expiry_days days) * 86400)"
proof -
  have "86400 \<le> of_int (expiry_days days) * (86400::rat)" "of_int (expiry_days days) * 86400 \<le> (365 * 86400::rat)"
    using expiry_days_bounds [of days] by auto
  then show ?thesis using clamp_role_rank [OF assms, of role] by (simp add: granted_def)
qed

text \<open>The statements of the requests are on behalf of a tenant, one of \<open>who\<close>.\<close>

locale statement_order = pool_order Q for Q :: "dash_pool \<Rightarrow> dash_pool \<Rightarrow> bool" +
  fixes who :: "string \<Rightarrow> bool"
  assumes st_audit: "who tn \<Longrightarrow> audit_append True now tn actor action res meta ts (Some (dl_audit p)) = Some rows
      \<Longrightarrow> Q p (p\<lparr>dl_audit := rows\<rparr>)"
    and st_triage: "who tn \<Longrightarrow> st \<in> set incident_triage_statuses \<Longrightarrow> k \<noteq> []
      \<Longrightarrow> set_incident_triage tn k st actor why now (Some (dl_db p)) = Some db \<Longrightarrow> Q p (p\<lparr>dl_db := db\<rparr>)"
    and st_create: "who tn \<Longrightarrow> granted role now expires
      \<Longrightarrow> create_pat tn pfx hash name scope role by_whom expires now (dl_db p) = (x, db) \<Longrightarrow> Q p (p\<lparr>dl_db := db\<rparr>)"
    and st_revoke: "who tn \<Longrightarrow> Q p (p\<lparr>dl_db := snd (revoke_pat tn i now (dl_db p))\<rparr>)"
    and st_beat: "Q p (p\<lparr>dl_db := record_heartbeat row (dl_db p)\<rparr>)"
    and st_cost: "Q p (p\<lparr>dl_db := log_cost a u t (dl_db p)\<rparr>)"
    and st_model_cost: "Q p (p\<lparr>dl_db := log_model_cost a m u t (dl_db p)\<rparr>)"
    and st_rollup: "Q p (p\<lparr>dl_db := rollup_upsert key u (dl_db p)\<rparr>)"
    and st_prune: "prune_old_data n now (Some (dl_db p)) = (c, Some db) \<Longrightarrow> Q p (p\<lparr>dl_db := db\<rparr>)"
begin

lemma leads_audit: "who (p_tenant p) \<Longrightarrow> leads Q (dash_audit D p action res meta)"
  unfolding leads_def
proof
  fix w assume t: "who (p_tenant p)"
  show "rel_option Q (dw_pool w) (dw_pool (snd (dash_audit D p action res meta w)))"
  proof (cases "dw_pool w")
    case (Some q)
    show ?thesis
    proof (cases "dw_db_up w")
      case True
      obtain rows where "audit_append True (dn_now D) (p_tenant p) (p_sub p) action res
          (if meta = [] then PyNone else PyDict meta) None (Some (dl_audit q)) = Some rows" by (simp add: audit_append_def)
      with st_audit [OF t this] show ?thesis using True by (simp add: dash_audit_def put_audit_def Some)
    qed (simp add: dash_audit_def put_audit_def audit_append_def Some same)
  qed (simp add: dash_audit_def put_audit_def)
qed

lemma leads_store_triage:
  "who (p_tenant p) \<Longrightarrow> st \<in> set incident_triage_statuses \<Longrightarrow> k \<noteq> [] \<Longrightarrow> leads Q (store_triage D p k st why)"
  unfolding store_triage_def
  by (intro leads_if_pair leads_db_write) (auto simp: set_incident_triage_def intro: st_triage)

lemma mint_follows:
  assumes "who tn" and "granted role now expires"
  shows "Q p (p\<lparr>dl_db := snd (mint_attempts sha draws i n (\<lambda>pfx hash.
    create_pat tn pfx hash name scope role by_whom expires now) (dl_db p))\<rparr>)"
proof (induction n arbitrary: i p)
  case (Suc n)
  obtain secret pfx hash where m: "mint_pat sha (draws i) = (secret, pfx, hash)" by (metis prod_cases3)
  obtain x db where c: "create_pat tn pfx hash name scope role by_whom expires now (dl_db p) = (x, db)" by fastforce
  note one = st_create [OF assms c]
  show ?case
  proof (cases x)
    case (Inl e)
    then show ?thesis using one db_compose [OF one Suc.IH [of _ "Suc i"]] by (simp add: m c)
  qed (use one in \<open>simp add: m c\<close>)
qed (simp add: same)

lemma leads_mint:
  "who tn \<Longrightarrow> granted role now expires \<Longrightarrow> leads Q (db_write (mint_attempts sha draws i n (\<lambda>pfx hash.
    create_pat tn pfx hash name scope role by_whom expires now)))"
  by (intro leads_db_write mint_follows)

lemma leads_revoke:
  "who tn \<Longrightarrow> leads Q (db_write (\<lambda>db. case revoke_pat tn i now db of (b, db1) \<Rightarrow> (Inr b, db1)))"
  by (rule leads_db_write) (use st_revoke in \<open>auto simp: split_beta\<close>)

lemma rollup_events_follows: "Q p (p\<lparr>dl_db := rollup_events es (dl_db p)\<rparr>)"
proof -
  have "Q p (p\<lparr>dl_db := fold (\<lambda>k. rollup_upsert k (f k)) ks (dl_db p)\<rparr>)" for f ks
  proof (induction ks arbitrary: p)
    case (Cons k ks)
    show ?case using db_compose [OF st_rollup [of p k "f k"] Cons.IH] by simp
  qed (simp add: same)
  then show ?thesis by (simp add: rollup_events_def)
qed

lemma repair_follows: "Q p (p\<lparr>dl_db := rollup_cost_daily (dl_db p)\<rparr>)"
  unfolding rollup_cost_daily_def
  by (rule compose [OF rollup_events_follows [of p "db_cost_events (dl_db p)"]])
    (use rollup_events_follows [of "p\<lparr>dl_db := rollup_events (db_cost_events (dl_db p)) (dl_db p)\<rparr>"] in simp)

lemma models_follow: "Q p (p\<lparr>dl_db := snd (record_models a t d (dl_db p))\<rparr>)"
proof (induction d arbitrary: p)
  case (Cons mv d)
  obtain m v where mv: "mv = (m, v)" by (cases mv)
  show ?case
  proof (cases "usd_value v")
    case (Inr u)
    let ?p1 = "p\<lparr>dl_db := log_model_cost a (model_label m) u t (dl_db p)\<rparr>"
    let ?p2 = "?p1\<lparr>dl_db := rollup_upsert (a, model_label m, day_of t) u (dl_db ?p1)\<rparr>"
    have "Q p ?p2" by (rule compose [OF st_model_cost st_rollup])
    from compose [OF this Cons.IH [of ?p2]] show ?thesis by (simp add: mv Inr Let_def)
  qed (simp add: mv same)
qed (simp add: same)

lemma cost_follows: "Q p (p\<lparr>dl_db := snd (record_cost a v t (dl_db p))\<rparr>)"
proof (cases "usd_value v")
  case (Inr u)
  let ?p1 = "p\<lparr>dl_db := log_cost a u t (dl_db p)\<rparr>"
  have "Q p (?p1\<lparr>dl_db := rollup_upsert (a, agent_total_model, day_of t) u (dl_db ?p1)\<rparr>)"
    by (rule compose [OF st_cost st_rollup])
  then show ?thesis by (simp add: record_cost_def Inr)
qed (simp add: record_cost_def same)

lemma model_costs_follow: "Q p (p\<lparr>dl_db := snd (record_cost_by_model a v t (dl_db p))\<rparr>)"
  by (auto simp: record_cost_by_model_def models_follow same split: pyval.split)

lemma leads_snapshot_tile: "leads Q (snapshot_tile now h)"
proof -
  have "leads Q (db_write (\<lambda>db. case tile_heartbeat now h of Inl e \<Rightarrow> (Inl e, db) | Inr row \<Rightarrow> (Inr (), record_heartbeat row db)))"
    by (rule leads_db_write) (simp add: same st_beat split: sum.split)
  moreover have "leads Q (db_write (record_cost agent (hd_cost h) now))"
    "leads Q (db_write (record_cost_by_model agent (hd_cost_by_model h) now))" for agent
    by (rule leads_db_write, rule cost_follows) (rule leads_db_write, rule model_costs_follow)
  ultimately show ?thesis unfolding snapshot_tile_def by (simp add: leads_dbind leads_basic)
qed

lemma leads_snapshot_tiles: "leads Q (snapshot_tiles now hs)"
  by (induction hs) (simp_all add: leads_basic leads_dbind leads_snapshot_tile)

lemma snapshot_round_follows: "rel_option Q (dw_pool w) (dw_pool (snapshot_round D w))"
proof -
  have "leads Q (dbind (on_agg (agents_health (dn_agg D) (dn_now D) (dn_registry D) True)) (snapshot_tiles (dn_now D)))"
    by (intro leads_dbind leads_snapshot_tiles leads_keeps keeps_on_agg off_agg_pool)
  then show ?thesis by (simp add: snapshot_round_def leads_def)
qed

lemma prune_round_follows: "rel_option Q (dw_pool w) (dw_pool (prune_round D n w))"
proof -
  have "leads Q (db_write (\<lambda>db. case prune_old_data n (dn_now D) (Some db) of
      (_, Some db1) \<Rightarrow> (Inr (), db1) | (_, None) \<Rightarrow> (Inr (), db)))"
    by (rule leads_db_write) (auto simp: same st_prune split: prod.split option.split)
  moreover have "leads Q (db_write (\<lambda>db. (Inr (), rollup_cost_daily db)))"
    by (rule leads_db_write) (simp add: repair_follows)
  ultimately show ?thesis by (simp add: prune_round_def leads_def [symmetric] leads_dbind leads_def [THEN iffD1, rule_format])
qed

text \<open>A request, whose session and login are of \<open>who\<close>.\<close>

lemma leads_login:
  assumes "\<And>p. verify_admin_token (ae_lib (dn_agg D)) (dn_now D) tok (dn_settings D) = Inr p \<Longrightarrow> who (p_tenant p)"
  shows "leads Q (login_submit D r tok)"
  unfolding login_submit_def using assms
  by (auto intro!: leads_dbind leads_basic leads_audit leads_keeps [OF keeps_render_token] split: sum.split)

lemma leads_triage_action:
  assumes "\<And>p. session_dep D r = Inr p \<Longrightarrow> who (p_tenant p)"
  shows "leads Q (action_incident_triage D r key status why)"
  unfolding action_incident_triage_def
proof (intro leads_with_session leads_lift_bind leads_dbind)
  fix p k assume "session_dep D r = Inr p" and "triage_key incident_triage_statuses ''incident'' status key = Inr k"
  then show "leads Q (store_triage D p k status (clean_note why))"
    by (intro leads_store_triage assms) (auto simp: triage_key_def Let_def split: if_splits)
qed (simp_all add: assms leads_audit leads_keeps keeps_fragment keeps_incidents off_agg_pool)

lemma post_follows:
  assumes "\<And>p. session_dep D r = Inr p \<Longrightarrow> who (p_tenant p)"
    and "\<And>tok p. rt = LoginSubmit tok \<Longrightarrow> verify_admin_token (ae_lib (dn_agg D)) (dn_now D) tok (dn_settings D) = Inr p
      \<Longrightarrow> who (p_tenant p)"
    and "route_method rt = ''POST''"
  shows "leads Q (route_body D L rt r)"
  using assms(3)
proof (cases rt)
  case (LoginSubmit tok)
  then show ?thesis using assms(2) by (simp add: route_body_def leads_login)
next
  case (IncidentTriage key st why)
  then show ?thesis using assms(1) by (simp add: route_body_def leads_triage_action)
next
  case (TokenMint name scope role days)
  have "leads Q (mint_pat_route D (lb_sha L) (lb_draws L) r name scope role days)"
    unfolding mint_pat_route_def Let_def
    by (intro leads_with_admin leads_if_pair leads_dbind leads_mint granted_mint)
      (auto simp: assms(1) dest: session_is_admin intro!: leads_basic leads_dbind leads_audit split: option.split)
  then show ?thesis by (simp add: TokenMint route_body_def)
next
  case (TokenRevoke i)
  show ?thesis unfolding TokenRevoke route_body_def dash_route.case revoke_pat_route_def
    by (auto intro!: leads_with_admin leads_if_pair leads_dbind leads_revoke leads_basic leads_audit leads_plain assms(1))
next
  case WebextRun
  show ?thesis unfolding WebextRun route_body_def dash_route.case action_webext_run_def
    by (auto intro!: leads_with_session leads_plain leads_dbind leads_call_agent leads_audit leads_basic assms(1)
        leads_keeps [OF keeps_basic(5)] split: agg_result.split)
qed (auto simp: route_body_def route_method_def logout_def action_sweep_def action_scan_def action_qa_scan_def run_action_def
    action_finding_resolve_def
    intro!: leads_with_session leads_plain leads_dbind leads_call_agent leads_audit leads_basic assms(1)
      leads_keeps [OF keeps_fragment] keeps_views off_agg_pool)

lemma serve_follows:
  assumes "\<And>p. session_dep D r = Inr p \<Longrightarrow> who (p_tenant p)"
    and "\<And>tok p. rt = LoginSubmit tok \<Longrightarrow> verify_admin_token (ae_lib (dn_agg D)) (dn_now D) tok (dn_settings D) = Inr p
      \<Longrightarrow> who (p_tenant p)"
    and "dash_serve D L nonce rt r w = (res, w')"
  shows "rel_option Q (dw_pool w) (dw_pool w')"
proof -
  have "route_method rt = ''POST'' \<or> route_method rt = ''GET''" by (cases rt) (simp_all add: route_method_def)
  then have "leads Q (route_body D L rt r)"
  proof
    assume "route_method rt = ''POST''"
    with assms(1,2) show ?thesis by (rule post_follows)
  next
    assume "route_method rt = ''GET''"
    then show ?thesis by (rule leads_keeps [OF get_routes_keep [OF _ off_agg_pool]])
  qed
  from leadsD [OF leads_http_answer [OF this]] show ?thesis
    using assms(3) by (auto simp: dash_serve_def csrf_middleware_def route_handler_def [abs_def] pool_same
      split: sum.splits option.splits prod.splits)
qed

end

section \<open>Histories\<close>

text \<open>
  What happens to a console: a request, one round of a background loop, and the database or Redis
  becoming reachable or unreachable. Requests and rounds are taken one after the other.
\<close>

datatype console_event =
    Request dash_env dash_libs string dash_route dash_request
  | Snapshot dash_env
  | Upkeep dash_env int
  | DatabaseUp bool
  | RedisUp bool

inductive console_step :: "dash_world \<Rightarrow> console_event \<Rightarrow> dash_world \<Rightarrow> bool" where
  serve: "dash_serve D L nonce rt r w = (res, w') \<Longrightarrow> console_step w (Request D L nonce rt r) w'"
| snapshot: "console_step w (Snapshot D) (snapshot_round D w)"
| upkeep: "console_step w (Upkeep D n) (prune_round D n w)"
| database: "console_step w (DatabaseUp b) (w\<lparr>dw_db_up := b\<rparr>)"
| redis: "console_step w (RedisUp b) (w\<lparr>dw_agg := (dw_agg w)\<lparr>ag_redis_up := b\<rparr>\<rparr>)"

inductive_cases console_stepE: "console_step w e w'"

inductive console_run :: "dash_world \<Rightarrow> console_event list \<Rightarrow> dash_world \<Rightarrow> bool" for w where
  start: "console_run w [] w"
| more: "console_run w es w1 \<Longrightarrow> console_step w1 e w2 \<Longrightarrow> console_run w (es @ [e]) w2"

text \<open>The tenants an event acts for: that of the session it carries, and that of the token it logs in with.\<close>

definition acts_for :: "(string \<Rightarrow> bool) \<Rightarrow> console_event \<Rightarrow> bool" where
  "acts_for who e =
     (case e of
        Request D L nonce rt r \<Rightarrow>
          (case session_dep D r of Inl _ \<Rightarrow> True | Inr p \<Rightarrow> who (p_tenant p))
          \<and> (case rt of
               LoginSubmit tok \<Rightarrow>
                 (case verify_admin_token (ae_lib (dn_agg D)) (dn_now D) tok (dn_settings D) of
                    Inl _ \<Rightarrow> True | Inr p \<Rightarrow> who (p_tenant p))
             | _ \<Rightarrow> True)
      | _ \<Rightarrow> True)"

lemma acts_for_True: "acts_for (\<lambda>_. True) e"
  by (simp add: acts_for_def split: console_event.split dash_route.split sum.split)

lemma acts_for_Request:
  assumes "acts_for who (Request D L nonce rt r)"
  shows "session_dep D r = Inr p \<Longrightarrow> who (p_tenant p)"
    and "rt = LoginSubmit tok \<Longrightarrow> verify_admin_token (ae_lib (dn_agg D)) (dn_now D) tok (dn_settings D) = Inr p \<Longrightarrow> who (p_tenant p)"
  using assms by (simp_all add: acts_for_def)

context statement_order
begin

lemma step_follows:
  assumes "console_step w e w'" and "acts_for who e"
  shows "rel_option Q (dw_pool w) (dw_pool w')"
  using assms
proof cases
  case (serve D L nonce rt r res)
  from assms(2) [unfolded serve(1)] show ?thesis
    by (intro serve_follows [OF _ _ serve(2)]) (blast dest: acts_for_Request)+
qed (simp_all add: snapshot_round_follows prune_round_follows pool_same)

lemma run_follows:
  assumes "console_run w es w'" and "\<forall>e \<in> set es. acts_for who e"
  shows "rel_option Q (dw_pool w) (dw_pool w')"
  using assms
proof (induction rule: console_run.induct)
  case start
  show ?case by (rule pool_same)
next
  case (more es w1 e w2)
  then show ?case using pool_compose step_follows by (metis UnCI list.set_intros(1) set_append)
qed

lemma run_pool:
  assumes "console_run w es w'" and "\<forall>e \<in> set es. acts_for who e" and "dw_pool w = Some p"
  shows "\<exists>q. dw_pool w' = Some q \<and> Q p q"
  using run_follows [OF assms(1,2)] by (cases "dw_pool w'") (simp_all add: assms(3))

end

section \<open>The constraints of the schema\<close>

text \<open>
  Primary keys and unique columns, numbers handed out in order, tokens with a known role and a bounded
  life, decisions with a key and a known status.
\<close>

definition pats_wf :: "dash_db \<Rightarrow> bool" where
  "pats_wf db \<longleftrightarrow> sorted_wrt (<) (map pt_id (db_pats db)) \<and> (\<forall>r \<in> set (db_pats db). pt_id r < db_next_pat db)
     \<and> distinct (map pt_prefix (db_pats db))
     \<and> (\<forall>r \<in> set (db_pats db). granted (pt_role r) (pt_created_at r) (pt_expires_at r))"

definition triage_wf :: "((string \<times> string) \<times> triage_row) list \<Rightarrow> bool" where
  "triage_wf t \<longleftrightarrow> distinct (map fst t) \<and> (\<forall>(k, r) \<in> set t. snd k \<noteq> [] \<and> ti_status r \<in> set incident_triage_statuses)"

definition pool_wf :: "dash_pool \<Rightarrow> bool" where
  "pool_wf p \<longleftrightarrow> pats_wf (dl_db p) \<and> triage_wf (db_triage (dl_db p)) \<and> distinct (map fst (db_cost_daily (dl_db p)))
     \<and> sorted_wrt (<) (map ar_id (dl_audit p))"

lemma fold_max_ge: "x \<in> set xs \<or> x \<le> a \<Longrightarrow> x \<le> fold max xs (a :: nat)"
proof (induction xs arbitrary: a)
  case (Cons y xs)
  have "x \<in> set xs \<or> x \<le> max y a" using Cons.prems by auto
  from Cons.IH [OF this] show ?case by simp
qed simp

lemma audit_append_sorted:
  assumes "sorted_wrt (<) (map ar_id rows)"
    and "audit_append True now tn actor action res meta ts (Some rows) = Some rows'"
  shows "sorted_wrt (<) (map ar_id rows')"
proof -
  have "\<forall>r \<in> set rows. ar_id r < Suc (fold max (map ar_id rows) 0)"
    using fold_max_ge [of _ "map ar_id rows" 0] by (simp add: less_Suc_eq_le)
  then show ?thesis using assms(1) assms(2) [symmetric] by (simp add: audit_append_def sorted_wrt_append)
qed

lemma create_pat_wf:
  assumes "pats_wf db" and "granted role now expires"
    and "create_pat tn pfx hash name scope role by_whom expires now db = (x, db')"
  shows "pats_wf db'"
proof (cases "pfx \<in> pt_prefix ` set (db_pats db)")
  case True
  then have "db' = db\<lparr>db_next_pat := db_next_pat db + 1\<rparr>" using assms(3) by (simp add: create_pat_def Let_def)
  then show ?thesis using assms(1) by (auto simp: pats_wf_def intro: order.strict_trans)
next
  case False
  define row where "row = \<lparr>pt_id = db_next_pat db, pt_tenant = tn, pt_prefix = pfx, pt_hash = hash, pt_name = name,
    pt_scope = scope, pt_role = role, pt_created_by = by_whom, pt_created_at = now, pt_expires_at = expires, pt_revoked_at = None\<rparr>"
  have "db' = db\<lparr>db_next_pat := db_next_pat db + 1, db_pats := db_pats db @ [row]\<rparr>"
    using False assms(3) by (simp add: create_pat_def Let_def row_def)
  moreover have "pt_id row = db_next_pat db" "pt_prefix row = pfx" "pt_role row = role" "pt_created_at row = now"
    "pt_expires_at row = expires" by (simp_all add: row_def)
  moreover have "\<forall>r \<in> set (db_pats db). pt_id r < db_next_pat db + 1" using assms(1) by (auto simp: pats_wf_def intro: order.strict_trans)
  ultimately show ?thesis using assms(1,2) False by (simp add: pats_wf_def sorted_wrt_append)
qed

lemma create_pat_rest:
  assumes "create_pat tn pfx hash name scope role by_whom expires now db = (x, db')"
  shows "db_triage db' = db_triage db" "db_cost_daily db' = db_cost_daily db"
  using assms by (auto simp: create_pat_def Let_def split: if_splits)

lemma map_revoke:
  assumes "\<And>r. f (r\<lparr>pt_revoked_at := Some now\<rparr>) = f r"
  shows "map f (db_pats (snd (revoke_pat tn i now db))) = map f (db_pats db)"
  using assms by (simp add: revoke_pat_def)

lemma revoke_pat_wf: "pats_wf db \<Longrightarrow> pats_wf (snd (revoke_pat tn i now db))"
  unfolding pats_wf_def by (simp add: map_revoke) (auto simp: revoke_pat_def)

lemma in_set_update: "e \<in> set (AList.update k v t) \<Longrightarrow> e = (k, v) \<or> e \<in> set t"
  by (induction t) (auto split: if_splits)

lemma triage_wf_update:
  assumes "triage_wf t" and "st \<in> set incident_triage_statuses" and "k \<noteq> []"
  shows "triage_wf (upsert_row triage_merge (tn, k) \<lparr>ti_status = st, ti_note = why, ti_actor = a, ti_updated_at = now\<rparr> t)"
  unfolding triage_wf_def
proof (intro conjI ballI)
  let ?r = "\<lparr>ti_status = st, ti_note = why, ti_actor = a, ti_updated_at = now\<rparr>"
  show "distinct (map fst (upsert_row triage_merge (tn, k) ?r t))"
    using assms(1) by (simp add: triage_wf_def distinct_upsert_row)
  fix e assume "e \<in> set (upsert_row triage_merge (tn, k) ?r t)"
  then have "e = ((tn, k), ?r) \<or> e \<in> set t"
    by (auto simp: upsert_row_def triage_merge_def dest: in_set_update)
  then show "case e of (k, r) \<Rightarrow> snd k \<noteq> [] \<and> ti_status r \<in> set incident_triage_statuses"
    using assms by (auto simp: triage_wf_def)
qed

lemma pool_wf_logs:
  "pool_wf (p\<lparr>dl_db := record_heartbeat row (dl_db p)\<rparr>) = pool_wf p"
  "pool_wf (p\<lparr>dl_db := log_cost a u t (dl_db p)\<rparr>) = pool_wf p"
  "pool_wf (p\<lparr>dl_db := log_model_cost a m u t (dl_db p)\<rparr>) = pool_wf p"
  by (simp_all add: pool_wf_def pats_wf_def record_heartbeat_def log_cost_def log_model_cost_def)

interpretation schema: statement_order "\<lambda>p q. pool_wf p \<longrightarrow> pool_wf q" "\<lambda>_. True"
proof
  fix p :: dash_pool and tn actor action res meta ts now rows
  assume "audit_append True now tn actor action res meta ts (Some (dl_audit p)) = Some rows"
  then show "pool_wf p \<longrightarrow> pool_wf (p\<lparr>dl_audit := rows\<rparr>)" by (auto simp: pool_wf_def intro: audit_append_sorted)
next
  fix p :: dash_pool and tn st k actor why now db
  assume "st \<in> set incident_triage_statuses" "k \<noteq> []" "set_incident_triage tn k st actor why now (Some (dl_db p)) = Some db"
  then show "pool_wf p \<longrightarrow> pool_wf (p\<lparr>dl_db := db\<rparr>)"
    by (auto simp: pool_wf_def set_incident_triage_def triage_wf_update pats_wf_def)
next
  fix p :: dash_pool and tn pfx hash name scope role by_whom expires now x db
  assume "granted role now expires" "create_pat tn pfx hash name scope role by_whom expires now (dl_db p) = (x, db)"
  then show "pool_wf p \<longrightarrow> pool_wf (p\<lparr>dl_db := db\<rparr>)" by (auto simp: pool_wf_def create_pat_rest intro: create_pat_wf)
next
  fix p :: dash_pool and tn i now
  have "db_triage (snd (revoke_pat tn i now (dl_db p))) = db_triage (dl_db p)"
    "db_cost_daily (snd (revoke_pat tn i now (dl_db p))) = db_cost_daily (dl_db p)" by (simp_all add: revoke_pat_def)
  then show "pool_wf p \<longrightarrow> pool_wf (p\<lparr>dl_db := snd (revoke_pat tn i now (dl_db p))\<rparr>)" by (simp add: pool_wf_def revoke_pat_wf)
next
  fix p :: dash_pool and key u
  show "pool_wf p \<longrightarrow> pool_wf (p\<lparr>dl_db := rollup_upsert key u (dl_db p)\<rparr>)"
    by (simp add: pool_wf_def pats_wf_def rollup_upsert_def distinct_upsert_row)
next
  fix p :: dash_pool and n now c db
  assume "prune_old_data n now (Some (dl_db p)) = (c, Some db)"
  then show "pool_wf p \<longrightarrow> pool_wf (p\<lparr>dl_db := db\<rparr>)" by (auto simp: prune_old_data_def pool_wf_def pats_wf_def Let_def)
qed (simp_all add: pool_wf_logs)

section \<open>Growth\<close>

text \<open>A token's row stays as it is, but for its one revocation.\<close>

definition pat_later :: "pat_row \<Rightarrow> pat_row \<Rightarrow> bool" where
  "pat_later r r' \<longleftrightarrow> r' = r \<or> pt_revoked_at r = None \<and> (\<exists>t. r' = r\<lparr>pt_revoked_at := Some t\<rparr>)"

definition pats_later :: "pat_row list \<Rightarrow> pat_row list \<Rightarrow> bool" where
  "pats_later rs rs' \<longleftrightarrow> length rs \<le> length rs' \<and> (\<forall>i < length rs. pat_later (rs ! i) (rs' ! i))"

definition grows :: "dash_pool \<Rightarrow> dash_pool \<Rightarrow> bool" where
  "grows p q \<longleftrightarrow> prefix (dl_audit p) (dl_audit q) \<and> pats_later (db_pats (dl_db p)) (db_pats (dl_db q))
     \<and> fst ` set (db_triage (dl_db p)) \<subseteq> fst ` set (db_triage (dl_db q))
     \<and> (\<forall>k u. map_of (db_cost_daily (dl_db p)) k = Some u \<longrightarrow> (\<exists>v. map_of (db_cost_daily (dl_db q)) k = Some v \<and> u \<le> v))"

lemma pat_later_refl [simp]: "pat_later r r"
  by (simp add: pat_later_def)

lemma pat_later_trans: "pat_later r s \<Longrightarrow> pat_later s t \<Longrightarrow> pat_later r t"
  by (auto simp: pat_later_def)

lemma pats_later_refl [simp]: "pats_later rs rs"
  by (simp add: pats_later_def)

lemma pats_later_trans: "pats_later rs ss \<Longrightarrow> pats_later ss ts \<Longrightarrow> pats_later rs ts"
  by (auto simp: pats_later_def) (meson less_le_trans pat_later_trans)

lemma pats_later_append: "pats_later rs (rs @ ss)"
  by (simp add: pats_later_def nth_append)

lemma pats_later_revoke: "pats_later (db_pats db) (db_pats (snd (revoke_pat tn i now db)))"
  by (auto simp: pats_later_def pat_later_def revoke_pat_def revocable_def)

lemma keys_upsert_row: "fst ` set (upsert_row merge k x t) = insert k (fst ` set t)"
  unfolding dom_map_of_conv_image_fst [symmetric] by (auto simp: dom_def map_of_upsert_row)

lemma grows_refl: "grows p p"
  by (simp add: grows_def)

lemma grows_trans: "grows p q \<Longrightarrow> grows q r \<Longrightarrow> grows p r"
  unfolding grows_def by (meson order_trans pats_later_trans prefix_order.trans subset_trans)

text \<open>A statement that touches one table.\<close>

lemma grows_untouched:
  assumes "db_pats db = db_pats (dl_db p)" and "db_triage db = db_triage (dl_db p)"
    and "db_cost_daily db = db_cost_daily (dl_db p)"
  shows "grows p (p\<lparr>dl_db := db\<rparr>)"
  using assms by (simp add: grows_def)

lemma grows_logs:
  "grows p (p\<lparr>dl_db := record_heartbeat row (dl_db p)\<rparr>)" "grows p (p\<lparr>dl_db := log_cost a u t (dl_db p)\<rparr>)"
  "grows p (p\<lparr>dl_db := log_model_cost a m u t (dl_db p)\<rparr>)"
  by (rule grows_untouched; simp add: record_heartbeat_def log_cost_def log_model_cost_def)+

lemma grows_rollup: "grows p (p\<lparr>dl_db := rollup_upsert key u (dl_db p)\<rparr>)"
  by (simp add: grows_def daily_upsert cost_merge_def) (simp add: rollup_upsert_def)

interpretation growth: statement_order grows "\<lambda>_. True"
proof
  fix p :: dash_pool and tn actor action res meta ts now rows
  assume "audit_append True now tn actor action res meta ts (Some (dl_audit p)) = Some rows"
  then show "grows p (p\<lparr>dl_audit := rows\<rparr>)" by (auto simp: grows_def audit_append_def)
next
  fix p :: dash_pool and tn st k actor why now db
  assume "set_incident_triage tn k st actor why now (Some (dl_db p)) = Some db"
  then show "grows p (p\<lparr>dl_db := db\<rparr>)"
    by (clarsimp simp: grows_def set_incident_triage_def keys_upsert_row subset_insertI)
next
  fix p :: dash_pool and tn pfx hash name scope role by_whom expires now x db
  assume c: "create_pat tn pfx hash name scope role by_whom expires now (dl_db p) = (x, db)"
  then have "pats_later (db_pats (dl_db p)) (db_pats db)"
    by (auto simp: create_pat_def Let_def pats_later_append split: if_splits)
  then show "grows p (p\<lparr>dl_db := db\<rparr>)" by (simp add: grows_def create_pat_rest [OF c])
next
  fix p :: dash_pool and tn i now
  show "grows p (p\<lparr>dl_db := snd (revoke_pat tn i now (dl_db p))\<rparr>)"
    by (simp add: grows_def pats_later_revoke) (simp add: revoke_pat_def)
next
  fix p :: dash_pool and n now c db
  assume "prune_old_data n now (Some (dl_db p)) = (c, Some db)"
  then show "grows p (p\<lparr>dl_db := db\<rparr>)" by (intro grows_untouched) (auto simp: prune_old_data_def Let_def)
qed (auto simp: grows_refl grows_logs grows_rollup intro: grows_trans)

section \<open>Other tenants' rows\<close>

lemma tenant_rows_untouched:
  assumes "db_pats db = db_pats (dl_db p)" and "db_triage db = db_triage (dl_db p)"
  shows "tenant_rows t p = tenant_rows t (p\<lparr>dl_db := db\<rparr>)"
  using assms by (simp add: tenant_rows_def)

lemma filter_revoke_other: "tn \<noteq> t \<Longrightarrow> filter (\<lambda>r. pt_tenant r = t) (db_pats (snd (revoke_pat tn i now db)))
    = filter (\<lambda>r. pt_tenant r = t) (db_pats db)"
  unfolding revoke_pat_def snd_conv by (simp add: filter_revoke) (auto simp: revocable_def intro!: map_idI)

interpretation other: statement_order "\<lambda>p q. tenant_rows t p = tenant_rows t q" "\<lambda>u. u \<noteq> t" for t
proof
  fix p :: dash_pool and tn actor action res meta ts now rows
  assume "tn \<noteq> t" "audit_append True now tn actor action res meta ts (Some (dl_audit p)) = Some rows"
  then show "tenant_rows t p = tenant_rows t (p\<lparr>dl_audit := rows\<rparr>)" by (auto simp: tenant_rows_def audit_append_def)
next
  fix p :: dash_pool and tn st k actor why now db
  assume "tn \<noteq> t" "set_incident_triage tn k st actor why now (Some (dl_db p)) = Some db"
  then show "tenant_rows t p = tenant_rows t (p\<lparr>dl_db := db\<rparr>)"
    by (auto simp: tenant_rows_def set_incident_triage_def upsert_row_def filter_update_other [of "\<lambda>k. fst k = t"])
next
  fix p :: dash_pool and tn pfx hash name scope role by_whom expires now x db
  assume "tn \<noteq> t" and c: "create_pat tn pfx hash name scope role by_whom expires now (dl_db p) = (x, db)"
  then show "tenant_rows t p = tenant_rows t (p\<lparr>dl_db := db\<rparr>)"
    using create_pat_frame [OF c] by (simp add: tenant_rows_def)
next
  fix p :: dash_pool and tn i now
  assume "tn \<noteq> t"
  then show "tenant_rows t p = tenant_rows t (p\<lparr>dl_db := snd (revoke_pat tn i now (dl_db p))\<rparr>)"
    by (simp add: tenant_rows_def filter_revoke_other) (simp add: revoke_pat_def)
next
  fix p :: dash_pool and n now c db
  assume "prune_old_data n now (Some (dl_db p)) = (c, Some db)"
  then show "tenant_rows t p = tenant_rows t (p\<lparr>dl_db := db\<rparr>)"
    by (intro tenant_rows_untouched) (auto simp: prune_old_data_def Let_def)
qed (auto intro!: tenant_rows_untouched simp: record_heartbeat_def log_cost_def log_model_cost_def rollup_upsert_def)

section \<open>What holds of every history\<close>

text \<open>C31: The schema's constraints hold at every moment of a console's life. Whatever requests were served,
  whatever rounds of the background loops ran and whenever the database went away: token numbers are
  handed out once and in order, no two tokens share a prefix, every token has a known role and a life
  of 1 to 365 days (on the one clock a request has here; the database dates the row a moment after the
  route counted the expiry, so the stored life is shorter by that moment); an incident has at most one decision per tenant, with a key and a known status;
  the rollup has one row per agent, model and day; the audit trail is numbered in order.\<close>

theorem console_keeps_schema:
  assumes "console_run w es w'" and "dw_pool w = Some p" and "pool_wf p"
  shows "\<exists>q. dw_pool w' = Some q \<and> pool_wf q"
  using schema.run_pool [OF assms(1) _ assms(2)] assms(3) by (auto simp: acts_for_True)

text \<open>C30: The console's history only grows. Whatever happens to it, a row of the audit trail is never
  changed or removed, a token's row never disappears and changes only by its one revocation, which is
  final, a tenant's decision on an incident is never forgotten, and a figure of the cost rollup never
  shrinks, although the raw snapshots are pruned.\<close>

theorem console_history_grows:
  assumes "console_run w es w'" and "dw_pool w = Some p"
  shows "\<exists>q. dw_pool w' = Some q \<and> prefix (dl_audit p) (dl_audit q)
    \<and> (\<forall>i < length (db_pats (dl_db p)). i < length (db_pats (dl_db q))
        \<and> (db_pats (dl_db q) ! i = db_pats (dl_db p) ! i
           \<or> pt_revoked_at (db_pats (dl_db p) ! i) = None
             \<and> (\<exists>t. db_pats (dl_db q) ! i = (db_pats (dl_db p) ! i)\<lparr>pt_revoked_at := Some t\<rparr>)))
    \<and> fst ` set (db_triage (dl_db p)) \<subseteq> fst ` set (db_triage (dl_db q))
    \<and> (\<forall>k u. map_of (db_cost_daily (dl_db p)) k = Some u \<longrightarrow> (\<exists>v. map_of (db_cost_daily (dl_db q)) k = Some v \<and> u \<le> v))"
proof -
  obtain q where q: "dw_pool w' = Some q" "grows p q"
    using growth.run_pool [OF assms(1) _ assms(2)] by (auto simp: acts_for_True)
  then show ?thesis by (simp add: grows_def pats_later_def pat_later_def)
qed

text \<open>C29: Tenants cannot write to each other, over any history. Whatever requests were served, none of them
  by a session or a login of tenant \<open>t\<close>, and whatever the background loops did, the audit trail, the
  access tokens and the triage decisions of \<open>t\<close> are exactly what they were.\<close>

theorem tenant_history_isolated:
  assumes "console_run w es w'" and "\<forall>e \<in> set es. acts_for (\<lambda>u. u \<noteq> t) e" and "dw_pool w = Some p"
  shows "\<exists>q. dw_pool w' = Some q \<and> filter (\<lambda>r. ar_tenant r = t) (dl_audit q) = filter (\<lambda>r. ar_tenant r = t) (dl_audit p)
    \<and> filter (\<lambda>r. pt_tenant r = t) (db_pats (dl_db q)) = filter (\<lambda>r. pt_tenant r = t) (db_pats (dl_db p))
    \<and> filter (\<lambda>e. fst (fst e) = t) (db_triage (dl_db q)) = filter (\<lambda>e. fst (fst e) = t) (db_triage (dl_db p))"
  using other.run_pool [OF assms] by (auto simp: tenant_rows_def)

text \<open>In particular, a single request.\<close>

corollary tenant_writes_isolated:
  assumes "dash_serve D L nonce rt r w = (res, w')"
    and "\<forall>p. session_dep D r = Inr p \<longrightarrow> p_tenant p \<noteq> t"
    and "\<forall>tok p. rt = LoginSubmit tok \<longrightarrow>
      verify_admin_token (ae_lib (dn_agg D)) (dn_now D) tok (dn_settings D) = Inr p \<longrightarrow> p_tenant p \<noteq> t"
  shows "map_option (tenant_rows t) (dw_pool w') = map_option (tenant_rows t) (dw_pool w)"
  using other.serve_follows [of D r t rt L nonce w res w'] assms by (cases "dw_pool w"; cases "dw_pool w'") auto

text \<open>The operator of \<open>acme\<close> mints a token; it is revoked; \<open>other\<close> sees nothing of it.\<close>

definition mint_request :: console_event where
  "mint_request = Request demo_console demo_libs ''m'' (TokenMint ''ci'' [] ''admin'' 0) (demo_request ''/actions/token/mint'')"

definition minted_world :: dash_world where
  "minted_world = snd (dash_serve demo_console demo_libs ''m'' (TokenMint ''ci'' [] ''admin'' 0)
     (demo_request ''/actions/token/mint'') demo_world)"

definition revoke_request :: console_event where
  "revoke_request = Request demo_console demo_libs ''m'' (TokenRevoke 1) (demo_request ''/actions/token/revoke'')"

definition revoked_world :: dash_world where
  "revoked_world = snd (dash_serve demo_console demo_libs ''m'' (TokenRevoke 1)
     (demo_request ''/actions/token/revoke'') minted_world)"

lemma run_one: "console_step w e w' \<Longrightarrow> console_run w [e] w'"
  using more [OF start] by fastforce

lemma demo_mints: "console_run demo_world [mint_request] minted_world"
  by (rule run_one) (simp add: mint_request_def minted_world_def console_step.serve [OF prod.collapse [symmetric]])

lemma demo_revokes: "console_run minted_world [revoke_request] revoked_world"
  by (rule run_one) (simp add: revoke_request_def revoked_world_def console_step.serve [OF prod.collapse [symmetric]])

lemma demo_pool: "dw_pool demo_world = Some \<lparr>dl_db = create_schema, dl_audit = []\<rparr>"
  by (simp add: demo_world_def)

lemma minted_pats: "map_option (\<lambda>q. map pt_revoked_at (db_pats (dl_db q))) (dw_pool minted_world) = Some [None]"
  by code_simp

lemma revoked_pats: "map_option (\<lambda>q. map pt_revoked_at (db_pats (dl_db q))) (dw_pool revoked_world) = Some [Some 0]"
  by code_simp

theorem console_keeps_schema_witness:
  "\<exists>q. dw_pool minted_world = Some q \<and> pool_wf q \<and> length (db_pats (dl_db q)) = 1"
proof -
  have "pool_wf \<lparr>dl_db = create_schema, dl_audit = []\<rparr>" by (simp add: pool_wf_def pats_wf_def triage_wf_def create_schema_def)
  from console_keeps_schema [OF demo_mints demo_pool this] obtain q where q: "dw_pool minted_world = Some q" "pool_wf q" by blast
  then have "length (map pt_revoked_at (db_pats (dl_db q))) = 1" using minted_pats by simp
  then show ?thesis using q by simp
qed

theorem console_history_grows_witness:
  "\<exists>p q t. dw_pool minted_world = Some p \<and> dw_pool revoked_world = Some q \<and> prefix (dl_audit p) (dl_audit q)
    \<and> db_pats (dl_db q) ! 0 = (db_pats (dl_db p) ! 0)\<lparr>pt_revoked_at := Some t\<rparr>"
proof -
  obtain p where p: "dw_pool minted_world = Some p" "map pt_revoked_at (db_pats (dl_db p)) = [None]" using minted_pats by auto
  then obtain q where q: "dw_pool revoked_world = Some q" "prefix (dl_audit p) (dl_audit q)"
      "db_pats (dl_db q) ! 0 = db_pats (dl_db p) ! 0 \<or> (\<exists>t. db_pats (dl_db q) ! 0 = (db_pats (dl_db p) ! 0)\<lparr>pt_revoked_at := Some t\<rparr>)"
    using console_history_grows [OF demo_revokes p(1)] by (auto simp: map_eq_Cons_conv)
  have "pt_revoked_at (db_pats (dl_db q) ! 0) \<noteq> None" using revoked_pats q(1) by (auto simp: map_eq_Cons_conv)
  moreover have "pt_revoked_at (db_pats (dl_db p) ! 0) = None" using p(2) by (auto simp: map_eq_Cons_conv)
  ultimately show ?thesis using p(1) q by metis
qed

theorem tenant_history_isolated_witness:
  "\<exists>q. dw_pool minted_world = Some q \<and> db_pats (dl_db q) \<noteq> [] \<and> filter (\<lambda>r. pt_tenant r = ''other'') (db_pats (dl_db q)) = []"
proof -
  have "\<forall>e \<in> set [mint_request]. acts_for (\<lambda>u. u \<noteq> ''other'') e"
    by (simp add: mint_request_def acts_for_def demo_session demo_principal_def)
  from tenant_history_isolated [OF demo_mints this demo_pool] obtain q
    where q: "dw_pool minted_world = Some q" "filter (\<lambda>r. pt_tenant r = ''other'') (db_pats (dl_db q)) = []"
    by (auto simp: create_schema_def)
  then show ?thesis using minted_pats by auto
qed

end
