(* ===== verification/ChartProps.thy ===== *)
theory ChartProps
  imports DashViews
begin

text \<open>
  The cost chart is the table it is built from: what each bar, segment and legend entry shows is a
  sum over the rows, and the two copies of the builder agree.
\<close>

type_synonym cost_line = "int \<times> string \<times> usd"

definition spend :: "(int \<times> string \<Rightarrow> bool) \<Rightarrow> cost_line list \<Rightarrow> usd" where
  "spend P rows = (\<Sum>r\<leftarrow>filter (\<lambda>(d, m, u). P (d, m)) rows. snd (snd r))"

definition cost_days :: "cost_line list \<Rightarrow> int set" where
  "cost_days rows = fst ` set rows"

definition cost_models :: "(int \<Rightarrow> bool) \<Rightarrow> cost_line list \<Rightarrow> string set" where
  "cost_models P rows = {m. \<exists>d u. (d, m, u) \<in> set rows \<and> P d}"

lemma spend_snoc: "spend P (rows @ [(d, m, u)]) = spend P rows + (if P (d, m) then u else 0)"
  by (simp add: spend_def)

section \<open>The pivot\<close>

lemma map_of_add_usd: "map_of (add_usd k x d) = (map_of d)(k \<mapsto> usd_of d k + x)"
  by (simp add: add_usd_def usd_of_def update_conv')

lemma distinct_add_usd: "distinct (map fst d) \<Longrightarrow> distinct (map fst (add_usd k x d))"
  by (simp add: add_usd_def distinct_update)

lemma total_update: "distinct (map fst d) \<Longrightarrow>
    total_usd (AList.update k x d) = total_usd d - usd_of d k + x"
  by (induction d) (auto simp: total_usd_def usd_of_def split: option.split dest: map_of_SomeD)

lemma total_add_usd: "distinct (map fst d) \<Longrightarrow> total_usd (add_usd k x d) = total_usd d + x"
  by (simp add: add_usd_def total_update usd_of_def)

lemma segs_of_update: "segs_of (AList.update d s dm) d' = (if d' = d then s else segs_of dm d')"
  by (simp add: segs_of_def update_conv)

lemma pivot_snoc: "pivot (rows @ [r]) = pivot_row r (pivot rows)"
  by (simp add: pivot_def)

definition pivot_ok :: "cost_line list \<Rightarrow> (int \<times> usd dict) list \<times> usd dict \<Rightarrow> bool" where
  "pivot_ok rows pv \<longleftrightarrow>
     distinct (map fst (fst pv)) \<and> distinct (map fst (snd pv)) \<and> set (map fst (fst pv)) = cost_days rows
     \<and> (\<forall>d. distinct (map fst (segs_of (fst pv) d)) \<and> fst ` set (segs_of (fst pv) d) = cost_models (\<lambda>x. x = d) rows
          \<and> total_usd (segs_of (fst pv) d) = spend (\<lambda>(x, _). x = d) rows
          \<and> (\<forall>m. usd_of (segs_of (fst pv) d) m = spend (\<lambda>x. x = (d, m)) rows))
     \<and> fst ` set (snd pv) = cost_models (\<lambda>_. True) rows \<and> total_usd (snd pv) = spend (\<lambda>_. True) rows
     \<and> (\<forall>m. usd_of (snd pv) m = spend (\<lambda>(_, y). y = m) rows)"

lemma usd_of_add_usd: "usd_of (add_usd k x d) m = (if m = k then usd_of d k + x else usd_of d m)"
  by (simp add: usd_of_def map_of_add_usd)

lemma keys_add_usd: "fst ` set (add_usd k x d) = insert k (fst ` set d)"
  by (simp add: add_usd_def dom_update)

lemma pivot_ok: "pivot_ok rows (pivot rows)"
proof (induction rows rule: rev_induct)
  case Nil
  then show ?case by (simp add: pivot_ok_def pivot_def cost_days_def cost_models_def spend_def total_usd_def segs_of_def usd_of_def)
next
  case (snoc r rows)
  obtain d m u where r: "r = (d, m, u)" by (cases r)
  obtain dm mt where p: "pivot rows = (dm, mt)" by fastforce
  have days: "cost_days (rows @ [r]) = insert d (cost_days rows)" by (auto simp: cost_days_def r)
  have models: "cost_models P (rows @ [r]) = (if P d then insert m (cost_models P rows) else cost_models P rows)" for P
    by (auto simp: cost_models_def r)
  show ?case
    using snoc unfolding pivot_ok_def pivot_snoc p r fst_conv snd_conv
    by (auto simp: pivot_row_def days [unfolded r] models [unfolded r] spend_snoc segs_of_update usd_of_add_usd keys_add_usd total_add_usd
        distinct_add_usd distinct_update dom_update)
qed


section \<open>The chart\<close>

lemma set_by_spend: "set (by_spend d) = fst ` set d"
  by (simp add: by_spend_def)

lemma distinct_by_spend: "distinct (map fst d) \<Longrightarrow> distinct (by_spend d)"
proof -
  assume "distinct (map fst d)"
  moreover have "mset (by_spend d) = mset (map fst d)" by (simp add: by_spend_def)
  ultimately show ?thesis by (metis mset_eq_imp_distinct_iff)
qed

lemma sorted_by_spend:
  assumes "distinct (map fst d)"
  shows "sorted_wrt (\<lambda>m n. usd_of d n \<le> usd_of d m) (by_spend d)"
proof -
  have "usd_of d (fst p) = snd p" if "p \<in> set d" for p
    using map_of_is_SomeI [OF assms, of "fst p" "snd p"] that by (simp add: usd_of_def)
  moreover have "sorted_wrt (\<lambda>p q. - snd p \<le> - snd q) (sort_key (\<lambda>p. - snd p) (sort_key fst d))"
    using sorted_sort_key [of "\<lambda>p. - snd p" "sort_key fst d"] by (simp add: sorted_map)
  ultimately show ?thesis unfolding by_spend_def sorted_wrt_map
    by (auto elim!: sorted_wrt_mono_rel [rotated])
qed

lemma chart_days: "distinct (map fst dm) \<Longrightarrow> sort (map fst dm) = sorted_list_of_set (set (map fst dm))"
  by (simp only: sorted_list_of_set_sort_remdups distinct_remdups_id)

text \<open>C40: The chart shows the table. It has one bar per day that has a row, in order of the days, each with
  that day's total and one segment per series of that day with its sum; the segment's colour is the
  one the legend gives its series. The legend lists every series once with its sum over all days,
  the largest first, and the chart's total is the sum of all rows. Every figure is rounded to six places.\<close>

theorem cost_chart_exact:
  "length (ch_days (build_cost_chart rows)) = card (cost_days rows)
   \<and> (\<forall>i < card (cost_days rows).
        let bar = ch_days (build_cost_chart rows) ! i; day = sorted_list_of_set (cost_days rows) ! i in
        cd_label bar = day_label day \<and> cd_total bar = py_round 6 (spend (\<lambda>(d, _). d = day) rows)
        \<and> distinct (map sg_model (cd_segments bar)) \<and> sg_model ` set (cd_segments bar) = cost_models (\<lambda>d. d = day) rows
        \<and> (\<forall>g \<in> set (cd_segments bar). sg_usd g = py_round 6 (spend (\<lambda>x. x = (day, sg_model g)) rows)
             \<and> (sg_model g, sg_color g, py_round 6 (spend (\<lambda>(_, m). m = sg_model g) rows)) \<in> set (ch_legend (build_cost_chart rows))))
   \<and> ch_total (build_cost_chart rows) = py_round 6 (spend (\<lambda>_. True) rows)
   \<and> distinct (map fst (ch_legend (build_cost_chart rows)))
   \<and> fst ` set (ch_legend (build_cost_chart rows)) = cost_models (\<lambda>_. True) rows
   \<and> sorted_wrt (\<lambda>a b. spend (\<lambda>(_, m). m = fst b) rows \<le> spend (\<lambda>(_, m). m = fst a) rows) (ch_legend (build_cost_chart rows))"
proof -
  obtain dm mt where p: "pivot rows = (dm, mt)" by fastforce
  have ok: "distinct (map fst dm)" "distinct (map fst mt)" "set (map fst dm) = cost_days rows"
    "fst ` set mt = cost_models (\<lambda>_. True) rows" "total_usd mt = spend (\<lambda>_. True) rows"
    "\<And>m. usd_of mt m = spend (\<lambda>(_, y). y = m) rows"
    and day: "\<And>d. distinct (map fst (segs_of dm d))" "\<And>d. fst ` set (segs_of dm d) = cost_models (\<lambda>x. x = d) rows"
    "\<And>d. total_usd (segs_of dm d) = spend (\<lambda>(x, _). x = d) rows"
    "\<And>d m. usd_of (segs_of dm d) m = spend (\<lambda>x. x = (d, m)) rows"
    using pivot_ok [of rows] unfolding pivot_ok_def p by auto
  have days: "sort (map fst dm) = sorted_list_of_set (cost_days rows)" using chart_days [OF ok(1)] ok(3) by simp
  let ?c = "build_cost_chart rows" and ?ds = "sorted_list_of_set (cost_days rows)"
  let ?peak = "if dm = [] then 0 else Max (set (map (\<lambda>p. total_usd (snd p)) dm))"
  have c: "ch_days ?c = map (\<lambda>d. chart_day_of (by_spend mt) ?peak d (segs_of dm d)) ?ds"
    "ch_legend ?c = map (\<lambda>m. (m, color_of (by_spend mt) m, py_round 6 (usd_of mt m))) (by_spend mt)"
    "ch_total ?c = py_round 6 (total_usd mt)"
    using days by (simp_all add: build_cost_chart_def p Let_def)
  have mem: "m \<in> set (by_spend mt)" if "m \<in> cost_models (\<lambda>x. x = d) rows" for m d
    using that ok(4) by (auto simp: set_by_spend cost_models_def)
  have len: "length ?ds = card (cost_days rows)" by simp
  have bar: "let bar = ch_days ?c ! i; day = ?ds ! i in
        cd_label bar = day_label day \<and> cd_total bar = py_round 6 (spend (\<lambda>(d, _). d = day) rows)
        \<and> distinct (map sg_model (cd_segments bar)) \<and> sg_model ` set (cd_segments bar) = cost_models (\<lambda>d. d = day) rows
        \<and> (\<forall>g \<in> set (cd_segments bar). sg_usd g = py_round 6 (spend (\<lambda>x. x = (day, sg_model g)) rows)
             \<and> (sg_model g, sg_color g, py_round 6 (spend (\<lambda>(_, m). m = sg_model g) rows)) \<in> set (ch_legend ?c))"
    if "i < card (cost_days rows)" for i
    using that mem unfolding Let_def c
    by (auto simp: chart_day_of_def Let_def day ok distinct_by_spend set_by_spend comp_def image_image intro!: image_eqI)
  have legend: "fst ` set (ch_legend ?c) = cost_models (\<lambda>_. True) rows" "distinct (map fst (ch_legend ?c))"
    "sorted_wrt (\<lambda>a b. spend (\<lambda>(_, m). m = fst b) rows \<le> spend (\<lambda>(_, m). m = fst a) rows) (ch_legend ?c)"
    using ok(4) distinct_by_spend [OF ok(2)] sorted_by_spend [OF ok(2)]
    by (simp_all add: c set_by_spend image_image comp_def sorted_wrt_map ok(6))
  show ?thesis using bar legend c(1,3) ok(5) by simp
qed


theorem cost_chart_exact_witness:
  "length (ch_days (build_cost_chart [(0, ''a'', 1), (0, ''b'', 2), (1, ''a'', 3)])) = 2
   \<and> cd_total (ch_days (build_cost_chart [(0, ''a'', 1), (0, ''b'', 2), (1, ''a'', 3)]) ! 0) = py_round 6 3"
proof -
  let ?rows = "[(0, ''a'', 1), (0, ''b'', 2), (1, ''a'', 3)] :: cost_line list"
  have c: "cost_days ?rows = {0, 1}" "card ({0, 1} :: int set) = 2" by (auto simp: cost_days_def)
  have s: "sorted_list_of_set ({0, 1} :: int set) = [0, 1]" by simp
  show ?thesis using cost_chart_exact [of ?rows] unfolding c s by (auto simp: Let_def spend_def)
qed

end
