(* ===== verification/CsvProps.thy ===== *)
theory CsvProps
  imports DashActions
begin

text \<open>
  A reader of CSV, the automaton of Python's \<open>csv.reader\<close> with the default dialect and no limit on
  the size of a field (\<open>csv.field_size_limit\<close>, 131072 by default, raised), and the round trip with
  the writer of the audit export: whatever characters the cells hold, quotes, commas and line breaks
  included, the reader gives back the cells that were written.
\<close>

section \<open>The reader\<close>

text \<open>Where the reader stands: at the start of a record, after the carriage return of the last one, at
  the start of a field, in a plain field, in a quoted one, and after a quote in a quoted one.\<close>

datatype csv_state = RecordStart | AfterCr | FieldStart | InPlain | InQuoted | QuoteInQuoted

definition csv_eol :: "char \<Rightarrow> bool" where
  "csv_eol c \<longleftrightarrow> c = CHR 0x0A \<or> c = CHR 0x0D"

text \<open>\<open>f\<close> is the field read so far, \<open>r\<close> the fields of the record before it.\<close>

fun csv_read :: "csv_state \<Rightarrow> string \<Rightarrow> string list \<Rightarrow> string \<Rightarrow> string list list" where
  "csv_read st f r [] = (if st = RecordStart \<or> st = AfterCr then [] else [r @ [f]])"
| "csv_read InQuoted f r (c # cs) =
     (if c = CHR 0x22 then csv_read QuoteInQuoted f r cs else csv_read InQuoted (f @ [c]) r cs)"
| "csv_read st f r (c # cs) =
     (if st = AfterCr \<and> c = CHR 0x0A then csv_read RecordStart [] [] cs
      else if csv_eol c then
        (if st = RecordStart \<or> st = AfterCr then [] else r @ [f]) # csv_read (if c = CHR 0x0D then AfterCr else RecordStart) [] [] cs
      else if c = CHR '','' then csv_read FieldStart [] (r @ [f]) cs
      else if c = CHR 0x22 then
        (if st = InPlain then csv_read InPlain (f @ [c]) r cs
         else if st = QuoteInQuoted then csv_read InQuoted (f @ [c]) r cs
         else csv_read InQuoted f r cs)
      else csv_read InPlain (f @ [c]) r cs)"

section \<open>The round trip\<close>

text \<open>A written cell, read from the start of a field, leaves the reader at the end of that cell.\<close>

definition at_end :: "csv_state \<Rightarrow> bool" where
  "at_end st \<longleftrightarrow> st \<in> {FieldStart, InPlain, QuoteInQuoted}"

lemma read_plain:
  assumes "\<not> list_ex csv_special s"
  shows "csv_read InPlain f r (s @ t) = csv_read InPlain (f @ s) r t"
  using assms
proof (induction s arbitrary: f)
  case (Cons c s)
  then show ?case by (simp add: csv_special_def csv_eol_def)
qed simp

lemma read_quoted:
  "csv_read InQuoted f r (concat (map (\<lambda>c. if c = CHR 0x22 then [CHR 0x22, CHR 0x22] else [c]) s) @ t) =
     csv_read InQuoted (f @ s) r t"
  by (induction s arbitrary: f) (simp_all add: csv_eol_def)

lemma read_field:
  assumes "st = FieldStart \<or> st = RecordStart \<and> s \<noteq> []"
  shows "\<exists>st'. at_end st' \<and> csv_read st [] r (csv_field s @ t) = csv_read st' s r t"
proof (cases "list_ex csv_special s")
  case True
  then have "csv_read st [] r (csv_field s @ t) = csv_read QuoteInQuoted s r t"
    using assms read_quoted [of "[]" r s "CHR 0x22 # t"] by (auto simp: csv_field_def csv_eol_def)
  then show ?thesis by (auto simp: at_end_def)
next
  case False
  then have w: "csv_field s = s" by (simp add: csv_field_def)
  show ?thesis
  proof (cases s)
    case Nil
    then show ?thesis using assms w by (intro exI [of _ FieldStart]) (simp add: at_end_def)
  next
    case (Cons c cs)
    then have "csv_read st [] r (s @ t) = csv_read InPlain [c] r (cs @ t)"
      using assms False by (auto simp: csv_special_def csv_eol_def)
    also have "\<dots> = csv_read InPlain s r t" using read_plain [of cs "[c]"] False Cons by simp
    finally show ?thesis by (auto simp: w at_end_def)
  qed
qed

lemma at_end_comma: "at_end st \<Longrightarrow> csv_read st f r (CHR '','' # t) = csv_read FieldStart [] (r @ [f]) t"
  by (auto simp: at_end_def csv_eol_def)

lemma at_end_eol: "at_end st \<Longrightarrow> csv_read st f r (CHR 0x0D # CHR 0x0A # t) = (r @ [f]) # csv_read RecordStart [] [] t"
  by (auto simp: at_end_def csv_eol_def)

lemma read_cells:
  assumes "fs \<noteq> []"
  shows "csv_read FieldStart [] r (join '','' (map csv_field fs) @ CHR 0x0D # CHR 0x0A # t) =
     (r @ fs) # csv_read RecordStart [] [] t"
  using assms
proof (induction fs arbitrary: r rule: list_nonempty_induct)
  case (single f)
  show ?case using read_field [of FieldStart f r "CHR 0x0D # CHR 0x0A # t"] by (auto simp: at_end_eol)
next
  case (cons f fs)
  let ?t = "CHR '','' # join '','' (map csv_field fs) @ CHR 0x0D # CHR 0x0A # t"
  have "join '','' (map csv_field (f # fs)) = csv_field f @ CHR '','' # join '','' (map csv_field fs)"
    using cons.hyps by (cases fs) simp_all
  moreover obtain st where "at_end st" "csv_read FieldStart [] r (csv_field f @ ?t) = csv_read st f r ?t"
    using read_field [of FieldStart f r ?t] by auto
  ultimately show ?case using cons.IH [of "r @ [f]"] by (simp add: at_end_comma)
qed

text \<open>Only an empty first cell reads differently at the start of a record, and only if it is alone.\<close>

lemma read_start: "c \<noteq> CHR 0x0D \<Longrightarrow> c \<noteq> CHR 0x0A \<Longrightarrow> csv_read RecordStart [] [] (c # t) = csv_read FieldStart [] [] (c # t)"
  by (simp add: csv_eol_def)

lemma csv_field_start:
  assumes "csv_field s \<noteq> []"
  shows "\<exists>c t. csv_field s = c # t \<and> c \<noteq> CHR 0x0D \<and> c \<noteq> CHR 0x0A"
  using assms by (cases s) (auto simp: csv_field_def csv_special_def)

lemma read_row:
  assumes "2 \<le> length fs"
  shows "csv_read RecordStart [] [] (csv_row fs @ t) = fs # csv_read RecordStart [] [] t"
proof -
  obtain f g gs where fs: "fs = f # g # gs" using assms by (metis Suc_le_length_iff numeral_2_eq_2)
  have j: "csv_row fs @ t = csv_field f @ CHR '','' # join '','' (map csv_field (g # gs)) @ CHR 0x0D # CHR 0x0A # t"
    by (simp add: csv_row_def fs)
  have "\<exists>c u. csv_row fs @ t = c # u \<and> c \<noteq> CHR 0x0D \<and> c \<noteq> CHR 0x0A"
    using csv_field_start [of f] by (cases "csv_field f = []") (auto simp: j)
  then have "csv_read RecordStart [] [] (csv_row fs @ t) = csv_read FieldStart [] [] (csv_row fs @ t)"
    using read_start by metis
  then show ?thesis using read_cells [of fs "[]" t] fs by (simp add: csv_row_def)
qed

lemma csv_roundtrip:
  assumes "list_all (\<lambda>fs. 2 \<le> length fs) rows"
  shows "csv_read RecordStart [] [] (concat (map csv_row rows)) = rows"
  using assms by (induction rows) (simp_all add: read_row)

lemma csv_export_roundtrip:
  "csv_read RecordStart [] [] (csv_export rows) = audit_columns # map csv_cells rows"
  unfolding csv_export_def
  by (rule csv_roundtrip) (auto simp: audit_columns_def csv_cells_def list_all_iff)

end
