(* ===== verification/ExportProps.thy ===== *)
theory ExportProps
  imports DashRouteProps JsonTyped CsvProps
begin

text \<open>
  The audit export can be read back: the JSON text is one array that decodes to the tenant's rows, and
  the CSV text is read back cell by cell.
\<close>

lemma json_chunks_join:
  "json_chunks True rows = join '','' (map (\<lambda>r. json_text (export_row r)) rows) @ '']''"
  "json_chunks False rows = (if rows = [] then [] else '','' @ join '','' (map (\<lambda>r. json_text (export_row r)) rows)) @ '']''"
proof (induction rows)
  case (Cons r rows)
  { case 1 then show ?case using Cons(2) by (cases rows) simp_all }
  { case 2 then show ?case using Cons(2) by (cases rows) simp_all }
qed simp_all

lemma export_row_jwf:
  "jwf (ar_metadata r) \<Longrightarrow> jwf (PyInt (int (ar_id r))) \<Longrightarrow> jwf (export_row r)"
  by (simp add: export_row_def opt_text_def split: option.split)

lemma json_export_roundtrip:
  assumes "list_all (\<lambda>r. jwf (ar_metadata r) \<and> jwf (PyInt (int (ar_id r)))) rows"
  shows "json_loads (json_export rows) = Inr (PyList (map export_row rows))"
proof -
  let ?vs = "map export_row rows"
  have sep: "sep_ok CHR '','' '', ''" "sep_ok CHR '':'' '': ''" "sep_ok CHR '','' '',''"
    by (simp_all add: sep_ok_def is_jws_def)
  have j: "list_all jwf ?vs" using assms by (auto simp: list_all_iff intro: export_row_jwf)
  then have d: "list_all (decodes '', '' '': '') ?vs" by (auto simp: list_all_iff intro!: decodes_dumps sep)
  have e: "json_export rows = CHR ''['' # join '','' (map (json_dumps '', '' '': '') ?vs) @ '']''"
    by (simp add: json_export_def json_chunks_join json_text_def comp_def)
  have "parse_val (2 * length (json_export rows) + 2) (json_export rows) = Inr (PyList ?vs, [])"
  proof (cases "rows = []")
    case True
    then show ?thesis by (simp add: json_export_def numeral_eq_Suc)
  next
    case False
    let ?J = "join '','' (map (json_dumps '', '' '': '') ?vs)"
    have "parse_elems (2 * length (json_export rows) + 1) (?J @ CHR '']'' # []) = Inr (?vs, [])"
      by (rule parse_elems_dumps [OF sep(3) _ j d]) (use False e in simp_all)
    moreover have "skip_ws (?J @ '']'') = ?J @ '']''" "hd (?J @ '']'') \<noteq> CHR '']''"
      using skip_ws_join [OF _ j, of "'',''" "'', ''" "'': ''" "'']''"] False by simp_all
    ultimately show ?thesis unfolding e by (simp add: numeral_eq_Suc)
  qed
  moreover have "skip_ws (json_export rows) = json_export rows" unfolding e by (simp add: skip_ws_def is_jws_def)
  ultimately show ?thesis by (simp add: json_loads_def)
qed


definition exportable :: "audit_log \<Rightarrow> bool" where
  "exportable rows \<longleftrightarrow> list_all (\<lambda>r. jwf (ar_metadata r) \<and> jwf (PyInt (int (ar_id r)))) rows"

lemma exportable_iter: "exportable rows \<Longrightarrow> exportable (iter_audit_log tenant n rows)"
  by (auto simp: exportable_def iter_audit_log_def list_all_iff dest: in_set_takeD)

text \<open>The last cell of a CSV row is the JSON text of the metadata, which decodes too.\<close>

lemma metadata_cell: "exportable rows \<Longrightarrow> list_all (\<lambda>a. json_loads (last (csv_cells a)) = Inr (ar_metadata a)) rows"
  by (auto simp: exportable_def csv_cells_def json_text_def list_all_iff sep_ok_def is_jws_def intro!: json_loads_dumps)

lemma audit_export_body:
  assumes "audit_export D r fmt w = (Inr (resp, x), w')"
  shows "\<exists>p q. session_dep D r = Inr p \<and> dw_pool w = Some q \<and> fmt \<in> {''json'', ''csv''}
    \<and> map_of (dp_context resp) ''body'' = Some (PyStr
        ((if fmt = ''json'' then json_export else csv_export) (iter_audit_log (p_tenant p) 50000 (dl_audit q))))"
proof -
  obtain p where p: "session_dep D r = Inr p"
    using assms by (cases "session_dep D r") (simp_all add: audit_export_def with_session_def dbind_def dlift_def)
  have f: "fmt = ''json'' \<or> fmt = ''csv''"
    using assms p by (auto simp: audit_export_def with_session_def dbind_def dlift_def split: if_splits)
  obtain q where q: "dw_pool w = Some q" "dw_db_up w"
    using assms p f by (cases "dw_pool w"; cases "dw_db_up w")
      (auto simp: audit_export_def with_session_def dbind_def dlift_def has_pool_def plain_def db_read_def)
  have "map_of (dp_context resp) ''body'' = Some (PyStr
        ((if fmt = ''json'' then json_export else csv_export) (iter_audit_log (p_tenant p) 50000 (dl_audit q))))"
    using assms p q f
    by (auto simp: audit_export_def with_session_def dbind_def dlift_def has_pool_def plain_def db_read_def dret_def page_response_def)
  with p q(1) f show ?thesis by auto
qed

text \<open>C39: The audit export is complete and faithful in both its formats. However many rows there are,
  the JSON text streamed to a session decodes to the list of exactly the newest rows of its own tenant,
  at most 50000, each with every column as it is stored; the CSV text, read by Python's own reader with
  its field size limit lifted (a cell of more than 131072 characters raises under the default), is the
  header and exactly one record for each of those rows, whose cells are its columns, whatever
  quotes, commas and line breaks they hold, with the metadata as JSON that decodes to what is stored.
  The rows of other tenants are in neither.\<close>

theorem audit_export_faithful:
  assumes "audit_export D r fmt w = (Inr (resp, x), w')" and "\<forall>q. dw_pool w = Some q \<longrightarrow> exportable (dl_audit q)"
  shows "\<exists>p q text_out. session_dep D r = Inr p \<and> dw_pool w = Some q
    \<and> map_of (dp_context resp) ''body'' = Some (PyStr text_out)
    \<and> (let rows = iter_audit_log (p_tenant p) 50000 (dl_audit q) in
        list_all (\<lambda>a. ar_tenant a = p_tenant p) rows
        \<and> (if fmt = ''json'' then json_loads text_out = Inr (PyList (map export_row rows))
           else fmt = ''csv'' \<and> csv_read RecordStart [] [] text_out = audit_columns # map csv_cells rows
             \<and> list_all (\<lambda>a. json_loads (last (csv_cells a)) = Inr (ar_metadata a)) rows))"
proof -
  obtain p q where e: "session_dep D r = Inr p" "dw_pool w = Some q" "fmt \<in> {''json'', ''csv''}"
    "map_of (dp_context resp) ''body'' = Some (PyStr
        ((if fmt = ''json'' then json_export else csv_export) (iter_audit_log (p_tenant p) 50000 (dl_audit q))))"
    using audit_export_body [OF assms(1)] by auto
  let ?rows = "iter_audit_log (p_tenant p) 50000 (dl_audit q)"
  have x: "exportable ?rows" using exportable_iter assms(2) e(2) by simp
  have "list_all (\<lambda>a. ar_tenant a = p_tenant p) ?rows"
    by (auto simp: iter_audit_log_def list_all_iff dest: in_set_takeD)
  with e x json_export_roundtrip [OF x [unfolded exportable_def]] csv_export_roundtrip [of ?rows] metadata_cell [OF x]
  show ?thesis unfolding Let_def by (cases "fmt = ''json''") auto
qed

text \<open>A trail with an entry of \<open>acme\<close> and one of another tenant.\<close>

definition demo_entry :: "nat \<Rightarrow> string \<Rightarrow> audit_row" where
  "demo_entry i tenant = \<lparr>ar_id = i, ar_tenant = tenant, ar_ts = 0, ar_actor = ''op'', ar_action = ''login'',
     ar_resource = None, ar_metadata = PyDict [(''ok'', PyBool True)]\<rparr>"

theorem audit_export_faithful_witness:
  "list_all (\<lambda>fmt. \<exists>resp x w' text_out. audit_export demo_console (demo_request ''/audit/export'') fmt
      (demo_world\<lparr>dw_pool := Some \<lparr>dl_db = create_schema, dl_audit = [demo_entry 1 ''acme'', demo_entry 2 ''rival'']\<rparr>\<rparr>) = (Inr (resp, x), w')
    \<and> map_of (dp_context resp) ''body'' = Some (PyStr text_out)
    \<and> (if fmt = ''json'' then json_loads text_out = Inr (PyList [export_row (demo_entry 1 ''acme'')])
       else csv_read RecordStart [] [] text_out = [audit_columns, csv_cells (demo_entry 1 ''acme'')])) [''json'', ''csv'']"
proof -
  let ?log = "[demo_entry 1 ''acme'', demo_entry 2 ''rival'']"
  let ?w = "demo_world\<lparr>dw_pool := Some \<lparr>dl_db = create_schema, dl_audit = ?log\<rparr>\<rparr>"
  have w: "dw_pool ?w = Some \<lparr>dl_db = create_schema, dl_audit = ?log\<rparr>" "dw_db_up demo_world" by (simp_all add: demo_world_def)
  have x: "\<forall>q. dw_pool ?w = Some q \<longrightarrow> exportable (dl_audit q)" by (simp add: w exportable_def demo_entry_def show_nat.simps)
  have i: "iter_audit_log ''acme'' 50000 ?log = [demo_entry 1 ''acme'']" by (simp add: iter_audit_log_def demo_entry_def)
  have "\<exists>resp x w' text_out. audit_export demo_console (demo_request ''/audit/export'') fmt ?w = (Inr (resp, x), w')
      \<and> map_of (dp_context resp) ''body'' = Some (PyStr text_out)
      \<and> (if fmt = ''json'' then json_loads text_out = Inr (PyList [export_row (demo_entry 1 ''acme'')])
         else csv_read RecordStart [] [] text_out = [audit_columns, csv_cells (demo_entry 1 ''acme'')])"
    if f: "fmt = ''json'' \<or> fmt = ''csv''" for fmt
  proof -
    obtain resp b w' where e: "audit_export demo_console (demo_request ''/audit/export'') fmt ?w = (Inr (resp, b), w')"
      using f by (auto simp: audit_export_def with_session_def demo_session dbind_def dlift_def has_pool_def plain_def
          db_read_def dret_def w)
    obtain text_out where t: "map_of (dp_context resp) ''body'' = Some (PyStr text_out)"
      "if fmt = ''json'' then json_loads text_out = Inr (PyList [export_row (demo_entry 1 ''acme'')])
       else csv_read RecordStart [] [] text_out = [audit_columns, csv_cells (demo_entry 1 ''acme'')]"
      using audit_export_faithful [OF e x] by (auto simp: w demo_session demo_principal_def i Let_def simp del: One_nat_def split: if_splits)
    show ?thesis using e t by blast
  qed
  then have "?thesis" if "list_all (\<lambda>fmt. fmt = ''json'' \<or> fmt = ''csv'') [''json'', ''csv'']"
    using that by (rule list.pred_mono_strong [rotated])
  then show ?thesis by simp
qed

end
