(* ===== verification/LlmConfig.thy ===== *)
theory LlmConfig
  imports LlmProps AgentConfig
begin

text \<open>
  The LLM part of the shared settings (\<open>agentkit/config.py\<close>) and the client built from it
  (\<open>LLMClient.from_settings\<close>): the two endpoints the OpenAI library is given, and the client's own
  state. The price table is the one loaded at import.
\<close>

record llm_settings =
  ls_api_key :: string
  ls_model :: string
  ls_max_tokens :: int
  ls_max_cost_usd :: usd
  ls_job_cost_cap_usd :: usd
  ls_timeout_s :: secs
  ls_max_retries :: int
  ls_breaker_threshold :: int
  ls_breaker_cooldown_s :: secs
  ls_allow_unpriced_models :: bool
  ls_embed_base_url :: string
  ls_embed_api_key :: string
  ls_embed_model :: string

definition llm_defaults :: llm_settings where
  "llm_defaults = \<lparr>ls_api_key = [], ls_model = ''minimax-m3'', ls_max_tokens = 2048, ls_max_cost_usd = 1/10,
     ls_job_cost_cap_usd = 0, ls_timeout_s = 60, ls_max_retries = 2, ls_breaker_threshold = 5,
     ls_breaker_cooldown_s = 30, ls_allow_unpriced_models = False,
     ls_embed_base_url = ''http://host.docker.internal:11434/v1'', ls_embed_api_key = ''ollama'',
     ls_embed_model = ''nomic-embed-text''\<rparr>"

record endpoint =
  ep_base_url :: string
  ep_api_key :: string
  ep_timeout_s :: secs
  ep_max_retries :: int

record llm_parts =
  lp_chat :: endpoint
  lp_embed :: endpoint
  lp_client :: llm

definition client_from_settings :: "price_table \<Rightarrow> ('a) agent_settings_scheme \<Rightarrow> llm_settings \<Rightarrow> llm_parts" where
  "client_from_settings prices cfg ls =
     \<lparr>lp_chat = \<lparr>ep_base_url = cfg_llm_base_url cfg,
        ep_api_key = (if ls_api_key ls = [] then ''noauth'' else ls_api_key ls),
        ep_timeout_s = ls_timeout_s ls, ep_max_retries = ls_max_retries ls\<rparr>,
      lp_embed = \<lparr>ep_base_url = ls_embed_base_url ls,
        ep_api_key = (if ls_embed_api_key ls = [] then ''ollama'' else ls_embed_api_key ls),
        ep_timeout_s = ls_timeout_s ls, ep_max_retries = ls_max_retries ls\<rparr>,
      lp_client = \<lparr>llm_prices = prices, llm_model = ls_model ls, llm_embed_model = ls_embed_model ls,
        llm_max_tokens = ls_max_tokens ls, max_cost_usd = ls_max_cost_usd ls,
        job_cost_cap_usd = ls_job_cost_cap_usd ls, llm_usage = usage0,
        llm_allow_unpriced = ls_allow_unpriced_models ls,
        llm_brk = \<lparr>brk_threshold = ls_breaker_threshold ls, brk_cooldown_s = ls_breaker_cooldown_s ls,
          brk_failures = 0, brk_opened_at = None\<rparr>,
        llm_sent = [], llm_ticks = 0\<rparr>\<rparr>"

section \<open>What a schema-validated completion sends and spends\<close>

text \<open>Every request of the loop carries the messages it was called with first.\<close>

definition opens_with :: "message list \<Rightarrow> request \<Rightarrow> bool" where
  "opens_with ms r \<longleftrightarrow> (\<exists>mdl extra k temp. r = ChatReq mdl (ms @ extra) k temp)"

lemma json_attempts_opens:
  assumes "json_attempts n gw clk sch mdl k temp (ms @ extra) tot s = (r, t)"
  shows "\<exists>new. llm_sent t = llm_sent s @ new \<and> length new \<le> n \<and> list_all (opens_with ms) new"
  using assms
proof (induction n arbitrary: extra tot s)
  case (Suc n)
  obtain r1 t1 where c: "complete gw clk (ms @ extra) (Some mdl) k temp s = (r1, t1)" by fastforce
  obtain first where f: "llm_sent t1 = llm_sent s @ first" "length first \<le> 1" "list_all (opens_with ms) first"
  proof -
    from complete_frame(2) [OF c] show ?thesis
      by (elim disjE) (use that [of "[]"] in simp, use that in \<open>fastforce simp: opens_with_def\<close>)
  qed
  consider (retry) tx u where "r1 = Inr (tx, u)" "decode_answer sch tx = None" | (done_) "t = t1"
  proof -
    show thesis
      using Suc.prems c that by (cases r1) (auto simp: Let_def split: option.splits)
  qed
  then show ?case
  proof cases
    case (retry tx u)
    then have "json_attempts n gw clk sch mdl k temp (ms @ extra @ [[(''role'', ''assistant''), (''content'', tx)],
        [(''role'', ''user''), (''content'', corrective sch)]]) (usage_add tot u) t1 = (r, t)"
      using Suc.prems c by (simp add: Let_def retry_convo_def)
    from Suc.IH [OF this] obtain new where "llm_sent t = llm_sent t1 @ new" "length new \<le> n" "list_all (opens_with ms) new"
      by blast
    then show ?thesis using f by (intro exI [of _ "first @ new"]) simp
  next
    case done_
    then show ?thesis using f by (intro exI [of _ first]) simp
  qed
qed simp

text \<open>The meter moves by at most one ceiling per attempt.\<close>

lemma complete_spend:
  assumes "complete gw clk ms m k temp s = (r, t)" and "0 \<le> max_cost_usd s"
  shows "u_cost_usd (llm_usage t) \<le> u_cost_usd (llm_usage s) + max_cost_usd s"
proof (cases "llm_usage t = llm_usage s")
  case False
  then obtain u where "llm_usage t = usage_add (llm_usage s) u" "u_cost_usd u \<le> max_cost_usd s"
    using complete_usage [OF assms(1)] by blast
  then show ?thesis by (simp add: usage_add_def)
qed (use assms in simp)

lemma json_attempts_spend:
  assumes "json_attempts n gw clk sch mdl k temp convo tot s = (r, t)" and "0 \<le> max_cost_usd s"
  shows "u_cost_usd (llm_usage t) \<le> u_cost_usd (llm_usage s) + of_nat n * max_cost_usd s"
  using assms
proof (induction n arbitrary: convo tot s)
  case (Suc n)
  obtain r1 t1 where c: "complete gw clk convo (Some mdl) k temp s = (r1, t1)" by fastforce
  have m: "max_cost_usd t1 = max_cost_usd s" using complete_frame(1) [OF c] by (simp add: same_config_def)
  have sp: "u_cost_usd (llm_usage t1) \<le> u_cost_usd (llm_usage s) + max_cost_usd s"
    by (rule complete_spend [OF c Suc.prems(2)])
  have "u_cost_usd (llm_usage t) \<le> u_cost_usd (llm_usage t1) + of_nat n * max_cost_usd s"
  proof (cases "t = t1")
    case True
    then show ?thesis using Suc.prems(2) by simp
  next
    case False
    then obtain tx u where "json_attempts n gw clk sch mdl k temp (retry_convo sch tx convo) (usage_add tot u) t1 = (r, t)"
      using Suc.prems(1) c by (cases r1) (auto simp: Let_def split: option.splits)
    from Suc.IH [OF this] show ?thesis using Suc.prems(2) m by simp
  qed
  then show ?case using sp by (simp add: algebra_simps)
qed simp

end
