(* ===== verification/Scripts.thy ===== *)
theory Scripts
  imports DashRouteProps
begin

text \<open>
  The operator's scripts (\<open>apps/dashboard/scripts\<close>): minting a console token, and seeding a database
  with demo spend. The environment is the dictionary of its variables; PyJWT and the clock are
  arguments.
\<close>

section \<open>Minting a console token\<close>

record mint_args =
  ma_sub :: string
  ma_tenant :: string
  ma_role :: string
  ma_ttl :: int
  ma_audience :: "string option"

text \<open>The arguments when none are given on the command line; \<open>--role\<close> takes admin or manager only.\<close>

definition mint_args_default :: "string dict \<Rightarrow> mint_args" where
  "mint_args_default environ =
     \<lparr>ma_sub = ''operator'', ma_tenant = ''platform'', ma_role = ''admin'', ma_ttl = 3600,
      ma_audience = (case map_of environ ''JWT_AUDIENCE'' of None \<Rightarrow> None | Some a \<Rightarrow> if a = [] then None else Some a)\<rparr>"

definition mint_roles :: "string list" where
  "mint_roles = [''admin'', ''manager'']"

text \<open>The exit code and what is printed.\<close>

definition mint_admin_token :: "jwtlib \<Rightarrow> secs \<Rightarrow> string dict \<Rightarrow> mint_args \<Rightarrow> int \<times> string option" where
  "mint_admin_token lib now environ a =
     (case map_of environ ''JWT_SECRET'' of
        None \<Rightarrow> (2, None)
      | Some secret \<Rightarrow>
          if secret = [] then (2, None)
          else (0, Some (jwt_encode lib
                 (service_claims (ma_sub a) (ma_tenant a) (ma_role a) (trunc_rat now + ma_ttl a) (ma_audience a)) secret ''HS256'')))"

section \<open>Seeding demo spend\<close>

definition demo_spend :: "usd dict dict" where
  "demo_spend =
     [(''monitoring'', [(''minimax-m3'', 4 / 1000), (''gpt-5'', 6 / 1000)]),
      (''security'', [(''claude-sonnet'', 9 / 1000), (''gpt-5'', 3 / 1000)]),
      (''example-agent'', [(''gpt-5'', 2 / 1000), (''minimax-m3'', 7 / 1000)]),
      (''pm'', [(''claude-sonnet'', 5 / 1000)])]"

definition demo_agents :: "string list" where
  "demo_agents = map fst demo_spend"

text \<open>\<open>DELETE ... WHERE agent = ANY(...) AND ts > now() - make_interval(days => n)\<close>.\<close>

definition drop_demo_rows :: "int \<Rightarrow> secs \<Rightarrow> dash_db \<Rightarrow> dash_db" where
  "drop_demo_rows n now db = db\<lparr>db_model_events :=
     filter (\<lambda>e. \<not> (ce_agent e \<in> set demo_agents \<and> now - of_int n * 86400 < ce_ts e)) (db_model_events db)\<rparr>"

text \<open>Day \<open>d\<close> of the window: its noon, and the snapshot of one agent, its cents on a ramp.\<close>

definition seed_time :: "int \<Rightarrow> secs \<Rightarrow> int \<Rightarrow> secs" where
  "seed_time days now d = of_int (day_of now) * 86400 + 43200 - of_int (days - 1 - d) * 86400"

definition seed_snapshot :: "int \<Rightarrow> usd dict \<Rightarrow> pyval" where
  "seed_snapshot d by_model = PyDict (map (\<lambda>(m, cents). (m, py_num (py_round 6 (cents * (1 + of_int d * (15 / 100)))))) by_model)"

text \<open>The two loops; a snapshot that cannot be written ends them.\<close>

fun seed_agents :: "int \<Rightarrow> secs \<Rightarrow> int \<Rightarrow> (string \<times> usd dict) list \<Rightarrow> nat \<Rightarrow> dash_db \<Rightarrow> (pyexc, nat) result \<times> dash_db" where
  "seed_agents days now d [] rows db = (Inr rows, db)"
| "seed_agents days now d ((agent, by_model) # rest) rows db =
     (case record_cost_by_model agent (seed_snapshot d by_model) (seed_time days now d) db of
        (Inl e, db1) \<Rightarrow> (Inl e, db1)
      | (Inr _, db1) \<Rightarrow> seed_agents days now d rest (rows + length by_model) db1)"

fun seed_days :: "int \<Rightarrow> secs \<Rightarrow> int list \<Rightarrow> nat \<Rightarrow> dash_db \<Rightarrow> (pyexc, nat) result \<times> dash_db" where
  "seed_days days now [] rows db = (Inr rows, db)"
| "seed_days days now (d # ds) rows db =
     (case seed_agents days now d demo_spend rows db of
        (Inl e, db1) \<Rightarrow> (Inl e, db1)
      | (Inr rows1, db1) \<Rightarrow> seed_days days now ds rows1 db1)"

text \<open>\<open>create_schema\<close> leaves the rows of an existing database alone.\<close>

definition seed_cost_demo :: "int \<Rightarrow> secs \<Rightarrow> dash_db \<Rightarrow> (pyexc, nat) result \<times> dash_db" where
  "seed_cost_demo days now db = seed_days days now [0..days - 1] 0 (drop_demo_rows (days + 1) now db)"

section \<open>The chart the seed does not feed\<close>

text \<open>Per-model snapshots never touch an agent's total: the chart of spend by agent shows what it showed before.\<close>

definition agent_totals :: "dash_db \<Rightarrow> cost_table" where
  "agent_totals db = filter (\<lambda>r. fst (snd (fst r)) = agent_total_model) (db_cost_daily db)"

lemma model_label_ne: "model_label m \<noteq> agent_total_model"
  by (simp add: model_label_def agent_total_model_def unknown_model_def Let_def)

lemma filter_update_key: "\<not> P k \<Longrightarrow> filter (\<lambda>r. P (fst r)) (AList.update k x t) = filter (\<lambda>r. P (fst r)) t"
  by (induction t) auto

lemma record_models_totals: "agent_totals (snd (record_models agent t ms db)) = agent_totals db"
proof (induction agent t ms db rule: record_models.induct)
  case (2 agent t model v rest db)
  have "agent_totals (rollup_upsert (agent, model_label model, day_of t) u (log_model_cost agent (model_label model) u t db)) = agent_totals db" for u
    using filter_update_key [of "\<lambda>k. fst (snd k) = agent_total_model" "(agent, model_label model, day_of t)"]
    by (simp add: agent_totals_def rollup_upsert_def upsert_row_def log_model_cost_def model_label_ne)
  then show ?case using 2 by (simp add: Let_def split: sum.split)
qed simp

lemma seed_agents_totals: "agent_totals (snd (seed_agents days now d ags rows db)) = agent_totals db"
proof (induction days now d ags rows db rule: seed_agents.induct)
  case (2 days now d agent by_model rest rows db)
  have "agent_totals (snd (record_cost_by_model agent v t db)) = agent_totals db" for v t
    by (auto simp: record_cost_by_model_def record_models_totals split: pyval.split)
  then show ?case using 2 by (auto split: prod.split sum.split) (metis snd_conv)+
qed simp

lemma seed_days_totals: "agent_totals (snd (seed_days days now ds rows db)) = agent_totals db"
proof (induction ds arbitrary: rows db)
  case (Cons d ds)
  obtain r db1 where s: "seed_agents days now d demo_spend rows db = (r, db1)" by fastforce
  then have "agent_totals db1 = agent_totals db" using seed_agents_totals by (metis snd_conv)
  then show ?case using Cons s by (cases r) auto
qed simp

lemma seed_leaves_agent_chart: "cost_agent_daily n t (snd (seed_cost_demo days now db)) = cost_agent_daily n t db"
proof -
  have "cost_agent_daily n t db' = grouped (\<lambda>r. fst (fst r)) (filter (in_days n t) (agent_totals db'))" for db'
    by (simp add: cost_agent_daily_def agent_totals_def conj_commute)
  moreover have "agent_totals (drop_demo_rows k now db) = agent_totals db" for k
    by (simp add: agent_totals_def drop_demo_rows_def)
  ultimately show ?thesis by (simp add: seed_cost_demo_def seed_days_totals)
qed

section \<open>From the script to the console\<close>

text \<open>C27: The token the script prints opens the console. Run with the dashboard's secret and audience, for an
  admin or a manager, it exits with 0 and prints a token that the login form takes: the answer leads
  to the overview and leaves the token as the session cookie, and from then until the lifetime asked
  for has passed every request that carries the cookie is a session of the subject and tenant given;
  after that none is. The JWT library is any that decodes what it encoded.\<close>

theorem operator_token_opens_console:
  assumes "jwt_roundtrip lib (service_claims (ma_sub a) (ma_tenant a) (ma_role a) (trunc_rat now + ma_ttl a) (ma_audience a))
      (jwt_secret st) ''HS256''"
    and "\<forall>c. jwt_encode lib c (jwt_secret st) ''HS256'' \<noteq> []"
    and "map_of environ ''JWT_SECRET'' = Some (jwt_secret st)" and "jwt_secret st \<noteq> []"
    and "ma_audience a = jwt_audience st" and "jwt_audience st \<noteq> Some []" and "''HS256'' \<in> set (jwt_algorithms st)"
    and "ma_tenant a \<noteq> []" and "ma_role a \<in> set mint_roles"
  shows "\<exists>tok. mint_admin_token lib now environ a = (0, Some tok)
    \<and> (\<forall>D L r w. dn_settings D = st \<and> ae_lib (dn_agg D) = lib \<and> dn_now D < of_int (trunc_rat now + ma_ttl a) \<longrightarrow>
         (\<exists>resp w'. route_body D L (LoginSubmit tok) r w = (Inr (resp, None), w') \<and> dp_location resp = Some ''/''
            \<and> (ds_session_cookie_name st \<noteq> ds_csrf_cookie_name st \<longrightarrow>
                 cookie_after (ds_session_cookie_name st) (dp_cookies resp) old = Some tok)))
    \<and> (\<forall>D r. dn_settings D = st \<and> ae_lib (dn_agg D) = lib \<and> map_of (dr_cookies r) (ds_session_cookie_name st) = Some tok \<longrightarrow>
         session_dep D r =
           (if of_int (trunc_rat now + ma_ttl a) \<le> dn_now D then Inl (AuthError ''token expired'')
            else Inr \<lparr>p_sub = ma_sub a, p_tenant = ma_tenant a, p_role = ma_role a, p_name = PyNone\<rparr>))"
proof -
  let ?e = "trunc_rat now + ma_ttl a" and ?p = "\<lparr>p_sub = ma_sub a, p_tenant = ma_tenant a, p_role = ma_role a, p_name = PyNone\<rparr>"
  define tok where "tok = jwt_encode lib (service_claims (ma_sub a) (ma_tenant a) (ma_role a) ?e (ma_audience a)) (jwt_secret st) ''HS256''"
  have role: "ma_role a \<noteq> []" "is_admin ?p" using assms(9) by (auto simp: mint_roles_def is_admin_def)
  have aud: "ma_audience a \<noteq> Some []" using assms(5,6) by simp
  have v: "verify_admin_token lib t tok st = (if of_int ?e \<le> t then Inl (AuthError ''token expired'') else Inr ?p)" for t
    using service_verified [OF assms(1,4,7) aud assms(8) role(1), of t] role(2) assms(5) unfolding tok_def
    by (simp add: verify_admin_token_def)
  have "mint_admin_token lib now environ a = (0, Some tok)"
    using assms(3,4) by (simp add: mint_admin_token_def tok_def)
  moreover have "\<exists>resp w'. route_body D L (LoginSubmit tok) r w = (Inr (resp, None), w') \<and> dp_location resp = Some ''/''
      \<and> (ds_session_cookie_name st \<noteq> ds_csrf_cookie_name st \<longrightarrow> cookie_after (ds_session_cookie_name st) (dp_cookies resp) old = Some tok)"
    if "dn_settings D = st \<and> ae_lib (dn_agg D) = lib \<and> dn_now D < of_int ?e" for D L r w
    using that v [of "dn_now D"]
    by (simp add: route_body_def login_submit_def dash_audit_def dbind_def dret_def set_csrf_cookie_def redirect_response_def)
  moreover have "session_dep D r = (if of_int ?e \<le> dn_now D then Inl (AuthError ''token expired'') else Inr ?p)"
    if "dn_settings D = st \<and> ae_lib (dn_agg D) = lib \<and> map_of (dr_cookies r) (ds_session_cookie_name st) = Some tok" for D r
    using that v [of "dn_now D"] assms(2) by (simp add: session_dep_def require_session_def tok_def)
  ultimately show ?thesis by blast
qed

definition demo_mint :: mint_args where
  "demo_mint = \<lparr>ma_sub = ''dashboard'', ma_tenant = ''platform'', ma_role = ''admin'', ma_ttl = 600, ma_audience = None\<rparr>"

definition demo_opened :: "string \<Rightarrow> dash_request" where
  "demo_opened tok = (demo_request ''/'')\<lparr>dr_cookies := [(ds_session_cookie_name demo_dash, tok)]\<rparr>"

lemma demo_mint_claims: "service_claims (ma_sub demo_mint) (ma_tenant demo_mint) (ma_role demo_mint) e (ma_audience demo_mint) = upstream_claims demo_dash e"
  by (simp add: upstream_service_claims demo_mint_def demo_dash_def dash_defaults_def agent_settings.defs demo_settings_def)

theorem operator_token_opens_console_witness:
  "\<exists>tok. mint_admin_token (service_lib demo_dash) 0 [(''JWT_SECRET'', ''k'')] demo_mint = (0, Some tok)
    \<and> session_dep (demo_console\<lparr>dn_agg := (dn_agg demo_console)\<lparr>ae_lib := service_lib demo_dash\<rparr>\<rparr>) (demo_opened tok)
      = Inr \<lparr>p_sub = ''dashboard'', p_tenant = ''platform'', p_role = ''admin'', p_name = PyNone\<rparr>"
proof -
  let ?D = "demo_console\<lparr>dn_agg := (dn_agg demo_console)\<lparr>ae_lib := service_lib demo_dash\<rparr>\<rparr>"
  let ?st = "demo_dash" and ?lib = "service_lib demo_dash"
  have "jwt_roundtrip ?lib (service_claims (ma_sub demo_mint) (ma_tenant demo_mint) (ma_role demo_mint)
      (trunc_rat 0 + ma_ttl demo_mint) (ma_audience demo_mint)) (jwt_secret ?st) ''HS256''"
    unfolding demo_mint_claims by (rule service_lib_roundtrip)
  moreover have "\<forall>c. jwt_encode ?lib c (jwt_secret ?st) ''HS256'' \<noteq> []" by (simp add: service_lib_ne)
  ultimately obtain tok where tok: "mint_admin_token ?lib 0 [(''JWT_SECRET'', ''k'')] demo_mint = (0, Some tok)"
    and sess: "\<forall>D r. dn_settings D = ?st \<and> ae_lib (dn_agg D) = ?lib \<and> map_of (dr_cookies r) (ds_session_cookie_name ?st) = Some tok \<longrightarrow>
      session_dep D r = (if of_int (trunc_rat 0 + ma_ttl demo_mint) \<le> dn_now D then Inl (AuthError ''token expired'')
        else Inr \<lparr>p_sub = ma_sub demo_mint, p_tenant = ma_tenant demo_mint, p_role = ma_role demo_mint, p_name = PyNone\<rparr>)"
    using operator_token_opens_console [of ?lib demo_mint 0 ?st "[(''JWT_SECRET'', ''k'')]" None]
    by (auto simp: demo_mint_def mint_roles_def)
  have "dn_settings ?D = ?st \<and> ae_lib (dn_agg ?D) = ?lib
      \<and> map_of (dr_cookies (demo_opened tok)) (ds_session_cookie_name ?st) = Some tok"
    by (simp add: demo_console_def demo_csrf_def demo_opened_def)
  from sess [rule_format, OF this] have "session_dep ?D (demo_opened tok)
      = Inr \<lparr>p_sub = ''dashboard'', p_tenant = ''platform'', p_role = ''admin'', p_name = PyNone\<rparr>"
    by (simp add: demo_console_def demo_mint_def trunc_rat_def)
  with tok show ?thesis by blast
qed

end
