(* ===== verification/Lifecycle.thy ===== *)
theory Lifecycle
  imports Server MonStore DashActions
begin

text \<open>
  The life of a process around the routes: what \<open>setup_observability\<close> switches on
  (\<open>agentkit/observability.py\<close>), the layers \<open>create_app\<close> wraps the routes in and the lifespan it
  runs (\<open>agentkit/server.py\<close>), the lifespans of the monitoring agent and of the dashboard, and the
  small pieces of \<open>dashboard/api.py\<close> that belong to no route.
\<close>

section \<open>Observability\<close>

text \<open>The levels \<open>logging\<close> names; its upper-case attributes that are no levels are outside the model.\<close>

definition log_levels :: "(string \<times> int) list" where
  "log_levels = [(''CRITICAL'', 50), (''FATAL'', 50), (''ERROR'', 40), (''WARNING'', 30), (''WARN'', 30), (''INFO'', 20),
     (''DEBUG'', 10), (''NOTSET'', 0)]"

definition log_level_of :: "string \<Rightarrow> int" where
  "log_level_of name = (case map_of log_levels (upper name) of Some n \<Rightarrow> n | None \<Rightarrow> 20)"

datatype log_renderer = JSONRenderer | ConsoleRenderer

text \<open>What became of tracing: exported, off, off with a warning, or the packages are missing.\<close>

datatype otel_state = OtelOff | OtelPrivate | OtelMissing | OtelExporting string

record observability =
  ob_level :: int
  ob_renderer :: log_renderer
  ob_bound :: "string dict"
  ob_otel :: otel_state

definition init_otel :: "bool \<Rightarrow> ('a) agent_settings_scheme \<Rightarrow> otel_state" where
  "init_otel installed s = (if installed then OtelExporting (cfg_otel_endpoint s) else OtelMissing)"

definition setup_observability :: "bool \<Rightarrow> string \<Rightarrow> bool \<Rightarrow> ('a) agent_settings_scheme \<Rightarrow> observability" where
  "setup_observability installed level json s =
     \<lparr>ob_level = log_level_of level, ob_renderer = (if json then JSONRenderer else ConsoleRenderer),
      ob_bound = [(''agent'', cfg_agent_name s), (''env'', env_name (cfg_env s))],
      ob_otel = (if effective_otel_enabled s then init_otel installed s
                 else if cfg_otel_endpoint s \<noteq> [] \<and> cfg_private_mode s then OtelPrivate else OtelOff)\<rparr>"

text \<open>Private mode exports nothing, whatever is installed and configured.\<close>

lemma private_mode_exports_nothing:
  "cfg_private_mode s \<Longrightarrow> ob_otel (setup_observability installed level json s) \<in> {OtelOff, OtelPrivate}"
  by (simp add: setup_observability_def effective_otel_enabled_def)

section \<open>The layers of an app\<close>

text \<open>
  What \<open>create_app\<close> adds around the routes, the first added the innermost. The last two come from
  Starlette; instrumentation is OpenTelemetry's, and added when its packages are there.
\<close>

datatype app_layer =
    MetricsLayer | SecurityHeadersLayer | RateLimitLayer | LlmRateLimitLayer
  | TrustedHostLayer "string list" | CorsLayer "string list" | FastapiOtelLayer | HttpxOtelLayer

definition instrument_otel :: "bool \<Rightarrow> bool \<Rightarrow> app_layer list" where
  "instrument_otel fastapi_extra httpx_extra =
     (if fastapi_extra then FastapiOtelLayer # (if httpx_extra then [HttpxOtelLayer] else []) else [])"

definition app_layers :: "bool \<Rightarrow> bool \<Rightarrow> string list \<Rightarrow> string list \<Rightarrow> ('a) agent_settings_scheme \<Rightarrow> app_layer list" where
  "app_layers fastapi_extra httpx_extra trusted_hosts cors_origins s =
     [MetricsLayer, SecurityHeadersLayer]
     @ (if 0 < cfg_rate_limit_per_minute s then [RateLimitLayer, LlmRateLimitLayer] else [])
     @ (if trusted_hosts \<noteq> [] then [TrustedHostLayer trusted_hosts] else [])
     @ (if cors_origins \<noteq> [] then [CorsLayer cors_origins] else [])
     @ (if cfg_otel_endpoint s \<noteq> [] then instrument_otel fastapi_extra httpx_extra else [])"

text \<open>The interactive documentation is served outside production only.\<close>

definition docs_urls :: "('a) agent_settings_scheme \<Rightarrow> string option list" where
  "docs_urls s = (if cfg_env s = Prod then [None, None, None] else [Some ''/docs'', Some ''/redoc'', Some ''/openapi.json''])"

definition unhandled_response :: response_out where
  "unhandled_response = \<lparr>ro_status = 500, ro_headers = [], ro_body = PyDict [(''detail'', PyStr ''internal error'')]\<rparr>"

lemma serve_unhandled:
  "call_next r = Inl e \<Longrightarrow> cfg_rate_limit_per_minute cfg \<le> 0 \<Longrightarrow>
    fst (serve cfg off f_llm f now fresh_id call_next r st) = unhandled_response"
  by (simp add: serve_def security_dispatch_def metrics_dispatch_def unhandled_response_def Let_def)

section \<open>Lifespans\<close>

text \<open>
  The exit of a lifespan is a list of steps. \<open>async with lifespan(app): yield\<close> leaves the wrapped
  lifespan when the body ends, and the \<open>finally\<close> around it runs after that.
\<close>

definition lifespan_exit :: "('w \<Rightarrow> 'w) list option \<Rightarrow> (app_state \<times> 'w \<Rightarrow> app_state \<times> 'w) list" where
  "lifespan_exit wrapped =
     (case wrapped of None \<Rightarrow> [] | Some steps \<Rightarrow> map (\<lambda>f (a, w). (a, f w)) steps) @ [\<lambda>(a, w). (shutdown a, w)]"

text \<open>The monitoring agent's lifespan: its pool, the scheduler, the pools it opened on the way.\<close>

record mon_resources =
  mr_pool :: bool
  mr_scheduler :: bool
  mr_cross_pools :: "string list"

definition mon_enter :: mon_resources where
  "mon_enter = \<lparr>mr_pool = True, mr_scheduler = True, mr_cross_pools = []\<rparr>"

definition mon_exit :: "mon_resources \<Rightarrow> (mon_resources \<Rightarrow> mon_resources) list" where
  "mon_exit m = [\<lambda>w. w\<lparr>mr_scheduler := False\<rparr>]
     @ map (\<lambda>n w. w\<lparr>mr_cross_pools := removeAll n (mr_cross_pools w)\<rparr>) (mr_cross_pools m)
     @ [\<lambda>w. w\<lparr>mr_pool := False\<rparr>]"

text \<open>The dashboard's: the tasks are cancelled and awaited, then the clients and the pool are closed.\<close>

record dash_resources =
  dz_tasks :: "string list"
  dz_aggregator :: bool
  dz_redis :: bool
  dz_pool :: bool

definition dash_enter :: "bool \<Rightarrow> bool \<Rightarrow> bool \<Rightarrow> dash_resources" where
  "dash_enter opens schema_ok audit_ok =
     \<lparr>dz_tasks = (if opens \<and> schema_ok \<and> audit_ok then [''snapshot'', ''prune''] else []),
      dz_aggregator = True, dz_redis = True, dz_pool = opens\<rparr>"

definition dash_exit :: "dash_resources \<Rightarrow> (dash_resources \<Rightarrow> dash_resources) list" where
  "dash_exit m = map (\<lambda>n w. w\<lparr>dz_tasks := removeAll n (dz_tasks w)\<rparr>) (dz_tasks m)
     @ [\<lambda>w. w\<lparr>dz_aggregator := False\<rparr>, \<lambda>w. w\<lparr>dz_redis := False\<rparr>, \<lambda>w. w\<lparr>dz_pool := False\<rparr>]"

section \<open>Odds and ends of the dashboard\<close>

text \<open>The cache buster of the style sheets: the newest of their modification times, \<open>None\<close> an \<open>OSError\<close>.\<close>

definition asset_version :: "secs option list \<Rightarrow> string" where
  "asset_version mtimes =
     (if None \<in> set mtimes then ''0'' else show_int (trunc_rat (Max (set (map the mtimes)))))"

text \<open>A request whose body was read: the channel hands it out once more, then reports the client gone.\<close>

datatype asgi_message = HttpRequest string bool | HttpDisconnect

definition replay_receive :: "string \<Rightarrow> bool \<Rightarrow> asgi_message \<times> bool" where
  "replay_receive body sent = (if sent then HttpDisconnect else HttpRequest body False, True)"

section \<open>Readiness while a process goes down\<close>

lemma fold_lift: "fold (\<lambda>f. f) (map (\<lambda>f (a, w). (a, f w)) fs) (a, w) = (a, fold (\<lambda>f. f) fs w)"
  by (induction fs arbitrary: w) auto

lemma take_lifespan_exit:
  "n \<le> length steps \<Longrightarrow> take n (lifespan_exit (Some steps)) = map (\<lambda>f (a, w). (a, f w)) (take n steps)"
  by (simp add: lifespan_exit_def take_map)

lemma fold_remove: "mr_cross_pools (fold (\<lambda>f. f) (map (\<lambda>n w. w\<lparr>mr_cross_pools := removeAll n (mr_cross_pools w)\<rparr>) ns) w)
    = filter (\<lambda>x. x \<notin> set ns) (mr_cross_pools w)"
  by (induction ns arbitrary: w) (auto simp: removeAll_filter_not_eq intro: filter_cong)

lemma fold_remove_frame:
  "mr_pool (fold (\<lambda>f. f) (map (\<lambda>n w. w\<lparr>mr_cross_pools := removeAll n (mr_cross_pools w)\<rparr>) ns) w) = mr_pool w"
  "mr_scheduler (fold (\<lambda>f. f) (map (\<lambda>n w. w\<lparr>mr_cross_pools := removeAll n (mr_cross_pools w)\<rparr>) ns) w) = mr_scheduler w"
  by (induction ns arbitrary: w) auto

lemma mon_exit_closes: "fold (\<lambda>f. f) (mon_exit m) m = \<lparr>mr_pool = False, mr_scheduler = False, mr_cross_pools = []\<rparr>"
  using fold_remove [of "mr_cross_pools m" "m\<lparr>mr_scheduler := False\<rparr>"]
    fold_remove_frame [of "mr_cross_pools m" "m\<lparr>mr_scheduler := False\<rparr>"]
  by (simp add: mon_exit_def)

text \<open>
  The readiness flag is the last thing to change. Through every step of the wrapped lifespan's exit,
  and when the scheduler is stopped and all pools are closed, \<open>/readyz\<close> answers as it did before;
  only then does it answer that the process drains.
\<close>

theorem readiness_flips_last:
  "(\<forall>n \<le> length (mon_exit m).
      readyz pg rd (fst (fold (\<lambda>f. f) (take n (lifespan_exit (Some (mon_exit m)))) (a, m))) = readyz pg rd a)
   \<and> snd (fold (\<lambda>f. f) (take (length (mon_exit m)) (lifespan_exit (Some (mon_exit m)))) (a, m))
      = \<lparr>mr_pool = False, mr_scheduler = False, mr_cross_pools = []\<rparr>
   \<and> ro_status (readyz pg rd (fst (fold (\<lambda>f. f) (lifespan_exit (Some (mon_exit m))) (a, m)))) = 503"
proof (intro conjI allI impI)
  fix n assume "n \<le> length (mon_exit m)"
  then show "readyz pg rd (fst (fold (\<lambda>f. f) (take n (lifespan_exit (Some (mon_exit m)))) (a, m))) = readyz pg rd a"
    by (simp add: take_lifespan_exit fold_lift)
next
  show "snd (fold (\<lambda>f. f) (take (length (mon_exit m)) (lifespan_exit (Some (mon_exit m)))) (a, m))
      = \<lparr>mr_pool = False, mr_scheduler = False, mr_cross_pools = []\<rparr>"
    by (simp add: take_lifespan_exit fold_lift mon_exit_closes)
  show "ro_status (readyz pg rd (fst (fold (\<lambda>f. f) (lifespan_exit (Some (mon_exit m))) (a, m)))) = 503"
    by (simp add: lifespan_exit_def fold_lift readyz_def shutdown_def)
qed

end
