(* ===== verification/DbPools.thy ===== *)
theory DbPools
  imports Server AuditLog EgressTheorems
begin

text \<open>
  Connections (\<open>agentkit/db.py\<close>): the pool a lifespan opens and closes, and the readiness checks, each of
  which opens a connection of its own under a time limit. What psycopg and redis do in a call is an
  argument: its outcome and how long it takes. A computation also returns the trace of what it opened
  and closed.
\<close>

section \<open>Calls and their traces\<close>

record call =
  cl_result :: "(pyexc, unit) result"
  cl_time :: secs

datatype conn_event = Opened string | Closed string

record pool_conf =
  pc_conninfo :: string
  pc_min_size :: int
  pc_max_size :: int
  pc_autocommit :: bool

text \<open>\<open>pg_pool\<close>: the pool is opened before the body and closed after it, whatever the body does; if it
  does not open, the body does not run and there is nothing to close.\<close>

definition pg_pool ::
  "('a) agent_settings_scheme \<Rightarrow> int \<Rightarrow> int \<Rightarrow> (pyexc, unit) result \<Rightarrow> (pool_conf \<Rightarrow> (pyexc, 'r) result)
    \<Rightarrow> (pyexc, 'r) result \<times> conn_event list" where
  "pg_pool st min_size max_size opens body =
     (let p = \<lparr>pc_conninfo = database_url st, pc_min_size = min_size, pc_max_size = max_size, pc_autocommit = True\<rparr> in
      case opens of
        Inl e \<Rightarrow> (Inl e, [])
      | Inr _ \<Rightarrow> (body p, [Opened (pc_conninfo p), Closed (pc_conninfo p)]))"

section \<open>The readiness checks under their limit\<close>

text \<open>A call that has not ended when the limit strikes is cancelled: the exception rises at its await.\<close>

definition run_call :: "secs \<Rightarrow> secs \<Rightarrow> call \<Rightarrow> (pyexc, unit) result \<times> secs" where
  "run_call limit spent c =
     (if spent + cl_time c < limit then (cl_result c, spent + cl_time c) else (Inl (Upstream ''TimeoutError''), limit))"

text \<open>What a single connection and a Redis client are made with.\<close>

record conn_conf =
  nc_url :: string
  nc_autocommit :: bool
  nc_connect_timeout :: int

definition one_conn :: "('a) agent_settings_scheme \<Rightarrow> conn_conf" where
  "one_conn st = \<lparr>nc_url = database_url st, nc_autocommit = True, nc_connect_timeout = max 1 (trunc_rat ping_timeout_s)\<rparr>"

definition redis_conn :: "('a) agent_settings_scheme \<Rightarrow> string \<times> bool" where
  "redis_conn st = (redis_url st, True)"

text \<open>\<open>_pg_check\<close>: a connection opened by \<open>_one_conn\<close>, one statement, and the end of its \<open>async with\<close>.\<close>

definition pg_check ::
  "('a) agent_settings_scheme \<Rightarrow> secs \<Rightarrow> call \<Rightarrow> call \<Rightarrow> ((pyexc, unit) result \<times> secs) \<times> conn_event list" where
  "pg_check st limit connect execute =
     (case run_call limit 0 connect of
        (Inl e, t) \<Rightarrow> ((Inl e, t), [])
      | (Inr _, t) \<Rightarrow> (run_call limit t execute, [Opened (nc_url (one_conn st)), Closed (nc_url (one_conn st))]))"

text \<open>\<open>_redis_check\<close>: the client is made without a call, and closed in a \<open>finally\<close>.\<close>

definition redis_check ::
  "('a) agent_settings_scheme \<Rightarrow> secs \<Rightarrow> call \<Rightarrow> ((pyexc, unit) result \<times> secs) \<times> conn_event list" where
  "redis_check st limit ping_call =
     (run_call limit 0 ping_call, [Opened (fst (redis_conn st)), Closed (fst (redis_conn st))])"

definition ping_dependencies ::
  "('a) agent_settings_scheme \<Rightarrow> call \<Rightarrow> call \<Rightarrow> call \<Rightarrow> (bool dict \<times> secs) \<times> conn_event list" where
  "ping_dependencies st connect execute ping_call =
     (case pg_check st ping_timeout_s connect execute of
        (pg, tr1) \<Rightarrow>
          (case redis_check st ping_timeout_s ping_call of
             (rd, tr2) \<Rightarrow> (ping pg rd, tr1 @ tr2)))"

section \<open>Creating a table\<close>

text \<open>\<open>CREATE TABLE IF NOT EXISTS\<close>, on a table that may be absent; no pool, no statement.\<close>

definition create_audit_schema :: "bool \<Rightarrow> audit_row list option \<Rightarrow> audit_row list option" where
  "create_audit_schema has_pool t = (if has_pool then Some (case t of None \<Rightarrow> [] | Some rows \<Rightarrow> rows) else t)"

section \<open>Nothing is left open\<close>

text \<open>The connections a trace leaves open.\<close>

definition left_open :: "conn_event list \<Rightarrow> string multiset" where
  "left_open tr = mset (List.map_filter (\<lambda>e. case e of Opened u \<Rightarrow> Some u | _ \<Rightarrow> None) tr)
     - mset (List.map_filter (\<lambda>e. case e of Closed u \<Rightarrow> Some u | _ \<Rightarrow> None) tr)"

lemma run_call_bounded: "0 \<le> spent \<Longrightarrow> snd (run_call limit spent c) \<le> limit"
  by (simp add: run_call_def)

text \<open>
  A readiness probe leaves no connection open and is over within twice the limit, whatever Postgres and
  Redis do: refuse, hang, or fail half-way; and each dependency is reported on its own outcome alone.
\<close>
theorem ping_leaks_nothing:
  "case ping_dependencies st connect execute ping_call of ((status, t), tr) \<Rightarrow>
     left_open tr = {#} \<and> t \<le> 2 * ping_timeout_s
   \<and> map_of status ''redis'' = Some (cl_result ping_call = Inr () \<and> cl_time ping_call < ping_timeout_s)
   \<and> map_of status ''postgres'' = Some (cl_result connect = Inr () \<and> cl_result execute = Inr ()
        \<and> cl_time connect < ping_timeout_s \<and> cl_time connect + cl_time execute < ping_timeout_s)"
  by (auto simp: ping_dependencies_def pg_check_def redis_check_def ping_def wait_for_def run_call_def ping_timeout_s_def
      left_open_def List.map_filter_def Let_def split: prod.splits sum.splits if_splits)

theorem pool_is_closed: "left_open (snd (pg_pool st m n opens body)) = {#}"
  by (simp add: pg_pool_def left_open_def List.map_filter_def Let_def split: sum.split)

theorem audit_schema_idempotent:
  "create_audit_schema p (create_audit_schema p t) = create_audit_schema p t"
  "create_audit_schema p (Some rows) = Some rows"
  by (simp_all add: create_audit_schema_def split: option.split)

text \<open>
  The password goes into the URL as it is: with a slash in it the host of the URL is no longer the
  configured one, for the database and for Redis alike.
\<close>
theorem slash_in_password:
  "let s = (demo_settings ''http://llm.internal'')\<lparr>cfg_postgres_password := ''a/b'', cfg_postgres_host := ''db'',
        cfg_redis_password := ''a/b'', cfg_redis_host := ''cache''\<rparr>
   in rbind (urlparse (database_url s)) (\<lambda>u. Inr (url_hostname u)) \<noteq> Inr (Some ''db'')
    \<and> rbind (urlparse (redis_url s)) (\<lambda>u. Inr (url_hostname u)) \<noteq> Inr (Some ''cache'')"
  by code_simp

end
