(* ===== verification/Spec2Isabelle.thy ===== *)
theory Spec2Isabelle
  imports BoardWire LlmTheorems AuthTheorems EgressTheorems RateReplicas ServerTheorems AuditLog TriageConcProps AgentTheorems DashStoreProps
    CliProps CliCommands AggProps CsrfProps DashReads Wire PatProps ConsoleHistory ChartProps ExportProps Examples Scripts Lifecycle DbPools
begin

text \<open>
  A verification library for the agent platform under \<open>src/\<close>: the shared toolkit
  (\<open>packages/agentkit\<close>), the monitoring agent (\<open>agents/monitoring\<close>), the dashboard
  (\<open>apps/dashboard\<close>), the command line (\<open>apps/platform-cli\<close>), the example agents (\<open>examples\<close>) and the
  operator's scripts.

  \<^bold>\<open>The program.\<close> Every agent is a FastAPI app made by \<open>create_app\<close>, which wraps its routes in metrics,
  security headers and two rate limiters and adds the health routes. An agent calls a chat gateway
  through the metered, breaker-guarded LLM client, verifies the tokens and the webhook signatures of
  its callers, and writes an audit log. The monitoring agent turns webhooks, probes and heartbeats
  into signals, runs each through the triage graph (classify, dedup, decide, notify) over its
  incidents table, and publishes pages to a broker. The dashboard is an HTTP client of all agents: it
  keeps a service token, fans out, caches the board, and serves pages, exports, actions and access
  tokens to administrators behind a signed double-submit token. The command line edits the registry
  of agents the dashboard reads and probes them.

  \<^bold>\<open>How Python is modelled.\<close>
  \<^item> Errors are values: \<open>('e, 'a) result\<close> with the raised exception as \<open>Inl\<close> (\<open>pyexc\<close>, for the LLM client
    \<open>llm_exc\<close>); every \<open>raise\<close>, uncaught library exception and early return is a branch. State is passed
    explicitly; a handler maps a world to a result and the new world, also when it raises.
  \<^item> Decoded JSON and other dynamic values are \<open>pyval\<close> (PyVal), with Python's truth, \<open>str\<close>, \<open>int\<close>,
    \<open>float\<close>, \<open>get\<close> and \<open>in\<close> on every case, the raising ones included. \<open>json.loads\<close> and \<open>json.dumps\<close> are
    modelled in full (Json, JsonBytes). A dictionary is the association list of its items in
    insertion order. Integers are unbounded, as Python's are.
  \<^item> Times, amounts and other computed floats are exact rationals, without IEEE rounding; a float read
    from or written to text is its decimal (\<open>Dec m e\<close>), an infinity or NaN. \<open>round\<close> is half to even.
  \<^item> A string is a list of code points below 256. The em dash of two prompts and of one label of the
    workspace page is therefore replaced (a hyphen).
  \<^item> A SQL table is the list or association list of its rows, a statement one function on it
    (Tables, AuditLog, MonStore, DashStore); autocommit statements that the code issues one after the
    other are separate steps, so that they can interleave or be cut off.
  \<^item> Coroutines interleave at their awaits: LlmConc gives the calls in flight on one LLM client as an
    inductive step relation; TriageConc gives the triage runs in flight on one incidents table as a
    schedule of their statements and publish attempts. The occasions of the monitoring agent's life
    (AgentHistory) and a console's requests and background rounds (ConsoleHistory) follow one another
    in any order, each taken whole; a run of the agent may also be cut off between its statements. What
    is shown of those lives (\<open>agent_is_its_log\<close>, \<open>pages_never_crowd\<close>, the console's) is of occasions that
    do not overlap; overlapping runs are TriageConc's, where two runs of one new problem can both page.
    A request has one clock, read once.
  \<^item> What is not under \<open>src/\<close> is a parameter with its documented behaviour as a named hypothesis where a
    proof needs it: the LLM gateway (\<open>response gateway\<close>, any function of the requests so far), PyJWT
    (\<open>jwtlib\<close> with \<open>jwt_sound\<close>, \<open>jwt_roundtrip\<close>), HMAC and SHA-256, random draws, clocks, the broker, Redis
    (a map with expiry whose calls may fail at any point, \<open>fate\<close>), the agents' answers over HTTP,
    pydantic's validation (\<open>schema\<close>, \<open>validate\<close>).

  \<^bold>\<open>Theories and sources.\<close>
  \<^item> Foundations: Prelude (results, loops that raise, rounding), PyText (\<open>str\<close> methods), PyVal, PyTime,
    UrlParse (\<open>urllib.parse\<close>, \<open>ipaddress\<close>), Json, JsonBytes; JsonProps, JsonRoundtrip and JsonTyped show
    that the decoder always ends, reads back what the encoder wrote, and returns well-formed values.
  \<^item> \<open>agentkit\<close>: Prompts (\<open>prompts.py\<close>); Llm, LlmProps, LlmConc, LlmConfig, LlmTheorems (\<open>llm.py\<close>, the LLM
    part of \<open>config.py\<close>); Auth, AuthTheorems (\<open>auth.py\<close>, \<open>web.py\<close>); AgentConfig (\<open>config.py\<close>); Egress,
    EgressTheorems (\<open>egress.py\<close>); RateLimit, RateTheorems, RateReplicas, Server, ServerTheorems, Lifecycle, DbPools
    (\<open>server.py\<close>, \<open>db.py\<close>, \<open>observability.py\<close>); Metrics (\<open>metrics.py\<close>); AuditLog (\<open>audit.py\<close>, \<open>heartbeat.py\<close>); Notify
    (\<open>notify.py\<close>).
  \<^item> Monitoring agent: Signals and Collectors (\<open>collectors.py\<close>), MonStore and IncidentProps (\<open>store.py\<close>),
    Triage, TriageProps, TriageTheorems, TriageConc, TriageConcProps (\<open>graph.py\<close>), Sweep and MetaProps
    (\<open>scheduler.py\<close>), MonSettings (\<open>settings.py\<close>), MonitorApi and MonApiProps (\<open>api.py\<close>); AgentHistory and
    AgentTheorems put them together into whole lives of the agent; its lifespan is in Lifecycle.
  \<^item> Dashboard: DashStore, DashStoreProps (\<open>store.py\<close>), DashRegistry (\<open>registry.py\<close>, \<open>settings.py\<close>),
    DashAuth (\<open>auth.py\<close>, \<open>pat.py\<close>), Aggregator, AggProps (\<open>aggregator.py\<close>), DashViews, ChartProps
    (\<open>views.py\<close>, \<open>graph.py\<close>), Csrf, CsrfProps, DashApi, DashActions, DashRouteProps, DashReads, CsvProps, ExportProps
    (\<open>api.py\<close>, \<open>panel_routes.py\<close>), PatProps (\<open>pat_routes.py\<close>), ConsoleHistory (whole lives of a console).
    Wire joins the dashboard's incidents page to the monitoring agent, BoardWire its overview to any agent.
  \<^item> Command line: CliConfig (\<open>config.py\<close>), CliCommands (the other modules), CliProps. Examples and Scripts
    hold the example agents and the two scripts.

  \<^bold>\<open>Interfaces.\<close> A contract that several operations or two components share is a locale, interpreted on
  the model: \<open>keyed_table\<close> (an upsert merges into one row; incidents, probe state, heartbeats, cost
  rollup, triage overlay), \<open>failure_guard\<close> (the breaker as the LLM client uses it), \<open>token_bucket\<close> (the
  limiter's in-process and Redis buckets), \<open>retry_flag\<close> (what triage needs of the incidents table so
  that no page is lost), \<open>kept_invariant\<close> (an invariant of
  the steps holds in every history; the incidents table, the triage runs in flight), \<open>console_view\<close>
  (what of the dashboard's world one tenant's session may depend
  on), \<open>pool_order\<close> and its extension \<open>statement_order\<close> (an order on the dashboard's database that each
  of its statements follows, hence every history).

  \<^bold>\<open>What is shown.\<close>
  \<^item> LLM client: metered spend per call and per job, sequentially and with calls in flight; the breaker refines a
    specification over the history of outcomes and always recovers; retries are bounded; a classifier
    built on it is contained whatever text it is given (Examples).
  \<^item> Authentication and egress: tokens that verify, round trips, one-time refresh, the service token of the
    dashboard accepted by the agents, the script's token opening the console; private mode's destinations.
  \<^item> Limits and metrics: a bound over any interval for the limiter whatever Redis does, and how two replicas whose
    clocks disagree starve a client; rolling counters
    count exactly the window; paging through the audit log is complete.
  \<^item> Monitoring: the agent refines a log of the problems seen (\<open>agent_is_its_log\<close>): over any life each run
    is decided by the earlier entries of its problem alone, the operators' pages are the log's and the
    table shows it; so pages of one problem do not crowd, a lasting one is paged once, and a kill can
    lose a page. The documents want one alert for each firing transition, none on a recurrence, and the
    highest severity seen; the code pages a repeat again by window and severity and keeps the last
    severity (\<open>critical_repeat_pages\<close>, \<open>spaced_repeat_pages\<close>, \<open>severity_falls\<close>). With runs interleaving statement by statement no problem is forgotten, the table counts
    every run and every run ends; one run alone is \<open>triage\<close> (\<open>solo_run\<close>). A lost page is retried; the life
    of an incident row under any statements; what ends a sweep and what it reports, isolation of
    collectors, signed webhooks of bounded work.
  \<^item> Dashboard: over any history the schema's constraints hold and history only grows (an audit row is
    never lost, a revocation is final, a rollup figure never shrinks); every change by a request is an
    administrator's with a token; tenants neither write to each other (\<open>tenant_history_isolated\<close>) nor see each other
    (\<open>tenant_reads_isolated\<close>); token minting ends and gives no more than the minter has, and the whole
    state it leaves, in which the secret is only its hash; the board, its cache; the cost rollup, its repair and the chart; the export, JSON and CSV,
    reads back to the tenant's rows; recovery of the forgery defence and the one cookie that locks a browser out.
  \<^item> The two together: what the monitoring agent stores is what the incidents page shows (Wire), and what an
    agent's metrics and readiness compute is what its tile shows, each figure under its name and with the
    type the tile declares (BoardWire), through the service token, the guards and the JSON bodies.
  \<^item> Command line: the registry file is replaced atomically, reads back as the agents saved, and differs from
    the old one in one line, as far as the old one breaks at line feeds only.
  \<^item> Shutdown: the readiness flag flips after the resources are gone, not before (Lifecycle); a readiness
    probe leaves no connection open and is over in time (DbPools).

  \<^bold>\<open>Recursion bounds.\<close> The JSON decoder recurses on the remaining input with a bound of twice its length
  plus two, and JsonProps proves that the bound is never what ends it. The loops of the code that count
  attempts (\<open>json_attempts\<close>, \<open>try_publish\<close>, \<open>mint_attempts\<close>) recurse on the attempts left. The reader of
  the audit log pages at most once more than there are rows. Nothing else needs fuel.

  \<^bold>\<open>Not modelled.\<close> Log lines; reading settings from the environment and their validation (pydantic); Jinja
  templates (a page is its template's name and context) and static files; FastAPI's parsing of
  parameters and forms (routes get the parsed values); argparse (commands get the parsed line); the
  processors handed to structlog and the OpenTelemetry exporter; the TrustedHost and CORS layers beyond
  their being added; the scheduling of background loops and
  APScheduler jobs (each round is modelled); Python's recursion limit and memory. A statement of the
  incidents table that raises is a run cut off there (\<open>Killed\<close> in AgentHistory), not an exception of \<open>triage\<close>. NaN, infinite
  and ill-typed figures do not reach a SQL column or a sum of the model: they stand as the error
  \<open>Unrepresentable\<close>. An export whose database fails after the status was sent breaks off in the source and
  is an error here.
\<close>

end
